(* ===== verification/Prelude.thy ===== *)
theory Prelude
  imports Main "HOL-Library.AList" "HOL-Library.Char_ord" "HOL-Library.List_Lexorder"
    "HOL-Library.Multiset" "HOL-Library.Sublist"
begin

text \<open>
  Shared vocabulary of the development: the parts of Go and of its standard library that the
  control plane uses (byte strings with \<open>strings.TrimSpace\<close>, \<open>strings.ToLower\<close> and friends,
  decimal printing, maps, \<open>sort.Slice\<close>, instants and durations), the sentinel errors of
  \<open>internal/controlplane/errors.go\<close>, and the generic lemmas the component theories rely on.

  \<^item> A Go string is a byte sequence: \<open>string\<close>, with one \<open>char\<close> per byte.
  \<^item> A Go map is an association list with string keys. Its order stands for one iteration
    order of the map; Go may pick any, so every theorem is about an arbitrary list.
  \<^item> \<open>time.Time\<close> is the number of nanoseconds since Go's zero time as an \<open>int\<close>, so
    \<open>IsZero\<close> is \<open>t = 0\<close> and \<open>UTC()\<close> is the identity; \<open>*time.Time\<close> is an \<open>int option\<close>;
    \<open>time.Duration\<close> is an \<open>int\<close> of nanoseconds.
  \<^item> A Go error is the sentinel it wraps; the message text is not kept.
\<close>

section \<open>Fact collections\<close>

named_theorems go_simps \<open>evaluation rules for the Go library functions\<close>
named_theorems call_defs \<open>definitions of the store calls\<close>

section \<open>Sentinel errors\<close>

datatype err =
    ErrNotFound
  | ErrConflict
  | ErrDuplicateName
  | ErrIdempotencyConflict
  | ErrInvalidTransition
  | ErrLeaseHeld
  | ErrNotClaimable
  | ErrStaleFence
  | ErrImmutable
  | ErrPlanStale
  | ErrMaintenanceWindow
  | ErrPrerequisite
  | ErrValidation

type_synonym 'a res = "err + 'a"

section \<open>Strings\<close>

text \<open>
  \<open>unicode.IsSpace\<close> on UTF-8 bytes. The white-space code points are the six ASCII ones, U+0085,
  U+00A0, U+1680, U+2000 to U+200A, U+2028, U+2029, U+202F, U+205F and U+3000, with one, two or
  three bytes each. The first byte of an encoding is never a continuation byte, so a suffix of
  a string that spells one of them is what \<open>utf8.DecodeLastRuneInString\<close> decodes.
\<close>

definition space1 :: "char \<Rightarrow> bool" where
  "space1 a = (a \<in> {CHR 0x09, CHR 0x0A, CHR 0x0B, CHR 0x0C, CHR 0x0D, CHR 0x20})"

definition space2 :: "char \<Rightarrow> char \<Rightarrow> bool" where
  "space2 a b = (a = CHR 0xC2 \<and> b \<in> {CHR 0x85, CHR 0xA0})"

definition space3 :: "char \<Rightarrow> char \<Rightarrow> char \<Rightarrow> bool" where
  "space3 a b c =
     ((a = CHR 0xE1 \<and> b = CHR 0x9A \<and> c = CHR 0x80) \<or>
      (a = CHR 0xE2 \<and> b = CHR 0x80 \<and>
        ((of_char c :: nat) \<ge> 0x80 \<and> (of_char c :: nat) \<le> 0x8A \<or> c \<in> {CHR 0xA8, CHR 0xA9, CHR 0xAF})) \<or>
      (a = CHR 0xE2 \<and> b = CHR 0x81 \<and> c = CHR 0x9F) \<or>
      (a = CHR 0xE3 \<and> b = CHR 0x80 \<and> c = CHR 0x80))"

text \<open>The number of bytes of the white space a string starts with, or ends with when reversed.\<close>

fun lead_space :: "string \<Rightarrow> nat" where
  "lead_space [] = 0"
| "lead_space [a] = (if space1 a then 1 else 0)"
| "lead_space [a, b] = (if space1 a then 1 else if space2 a b then 2 else 0)"
| "lead_space (a # b # c # s) =
     (if space1 a then 1 else if space2 a b then 2 else if space3 a b c then 3 else 0)"

fun trail_space :: "string \<Rightarrow> nat" where
  "trail_space [] = 0"
| "trail_space [c] = (if space1 c then 1 else 0)"
| "trail_space [c, b] = (if space1 c then 1 else if space2 b c then 2 else 0)"
| "trail_space (c # b # a # s) =
     (if space1 c then 1 else if space2 b c then 2 else if space3 a b c then 3 else 0)"

function trim_while :: "(string \<Rightarrow> nat) \<Rightarrow> string \<Rightarrow> string" where
  "trim_while f s = (if s = [] \<or> f s = 0 then s else trim_while f (drop (f s) s))"
  by pat_completeness auto
termination
  by (relation "measure (\<lambda>(f, s). length s)") auto

declare trim_while.simps [simp del]

definition TrimSpace :: "string \<Rightarrow> string" where
  "TrimSpace s = rev (trim_while trail_space (rev (trim_while lead_space s)))"

text \<open>Trimming twice is trimming once.\<close>

lemma trim_while_suffix: "suffix (trim_while f s) s"
proof (induction f s rule: trim_while.induct)
  case (1 f s)
  then show ?case
    by (subst trim_while.simps) (auto intro: suffix_order.trans suffix_drop)
qed

lemma trim_while_stops: "trim_while f s = [] \<or> f (trim_while f s) = 0"
proof (induction f s rule: trim_while.induct)
  case (1 f s)
  then show ?case
    by (cases "s = [] \<or> f s = 0") (simp_all add: trim_while.simps [of f s])
qed

lemma trim_while_fix: "s = [] \<or> f s = 0 \<Longrightarrow> trim_while f s = s"
  by (subst trim_while.simps) simp

lemma lead_space_prefix: "lead_space (p @ q) = 0 \<Longrightarrow> lead_space p = 0"
  by (cases p rule: lead_space.cases; cases q rule: lead_space.cases) (auto split: if_splits)

lemma TrimSpace_idem [simp]: "TrimSpace (TrimSpace s) = TrimSpace s"
proof -
  define u where "u = trim_while lead_space s"
  define v where "v = trim_while trail_space (rev u)"
  have "suffix v (rev u)" unfolding v_def by (rule trim_while_suffix)
  then obtain w where "rev u = w @ v" by (auto simp: suffix_def)
  then have "u = rev v @ rev w" by (metis rev_append rev_rev_ident)
  moreover have "u = [] \<or> lead_space u = 0" unfolding u_def by (rule trim_while_stops)
  ultimately have "rev v = [] \<or> lead_space (rev v) = 0"
    using lead_space_prefix by auto
  then have 1: "trim_while lead_space (rev v) = rev v" by (rule trim_while_fix)
  have 2: "trim_while trail_space v = v"
    unfolding v_def by (rule trim_while_fix) (rule trim_while_stops)
  have "TrimSpace s = rev v" by (simp add: TrimSpace_def u_def v_def)
  moreover have "TrimSpace (rev v) = rev v" using 1 2 by (simp add: TrimSpace_def)
  ultimately show ?thesis by simp
qed

lemma TrimSpace_Nil [simp]: "TrimSpace [] = []"
  by (simp add: TrimSpace_def trim_while_fix)

lemmas TrimSpace_eval = TrimSpace_def trim_while.simps space1_def space2_def space3_def

text \<open>\<open>strings.ToLower\<close> and \<open>strings.ToUpper\<close> on the ASCII letters; bytes from 0x80 on stay.\<close>

definition lower_char :: "char \<Rightarrow> char" where
  "lower_char c = (let n = (of_char c :: nat) in if 65 \<le> n \<and> n \<le> 90 then char_of (n + 32) else c)"

definition upper_char :: "char \<Rightarrow> char" where
  "upper_char c = (let n = (of_char c :: nat) in if 97 \<le> n \<and> n \<le> 122 then char_of (n - 32) else c)"

definition ToLower :: "string \<Rightarrow> string" where
  "ToLower s = map lower_char s"

definition ToUpper :: "string \<Rightarrow> string" where
  "ToUpper s = map upper_char s"

definition HasPrefix :: "string \<Rightarrow> string \<Rightarrow> bool" where
  "HasPrefix s p = (take (length p) s = p)"

definition TrimPrefix :: "string \<Rightarrow> string \<Rightarrow> string" where
  "TrimPrefix s p = (if HasPrefix s p then drop (length p) s else s)"

text \<open>Decimal printing, \<open>%d\<close>.\<close>

fun nat_digits :: "nat \<Rightarrow> string" where
  "nat_digits n = (if n < 10 then [char_of (48 + n)] else nat_digits (n div 10) @ [char_of (48 + n mod 10)])"

declare nat_digits.simps [simp del]

definition itoa :: "int \<Rightarrow> string" where
  "itoa i = (if i < 0 then CHR ''-'' # nat_digits (nat (- i)) else nat_digits (nat i))"

text \<open>A hexadecimal digit as \<open>encoding/hex\<close> decodes it: both cases are accepted.\<close>

definition hex_digit :: "char \<Rightarrow> bool" where
  "hex_digit c = (let n = (of_char c :: nat) in
     (48 \<le> n \<and> n \<le> 57) \<or> (97 \<le> n \<and> n \<le> 102) \<or> (65 \<le> n \<and> n \<le> 70))"

text \<open>\<open>hex.DecodeString\<close> succeeds exactly on an even number of hexadecimal digits.\<close>

definition hex_decodes :: "string \<Rightarrow> bool" where
  "hex_decodes s = (even (length s) \<and> list_all hex_digit s)"

section \<open>Maps\<close>

text \<open>
  A Go \<open>map[string]V\<close>. \<open>put\<close> overwrites in place or adds at the end, \<open>del\<close> is the built-in
  \<open>delete\<close>, \<open>vals\<close> lists the values in iteration order.
\<close>

type_synonym 'v table = "(string \<times> 'v) list"

definition get :: "'v table \<Rightarrow> string \<Rightarrow> 'v option" where
  "get m k = map_of m k"

definition put :: "string \<Rightarrow> 'v \<Rightarrow> 'v table \<Rightarrow> 'v table" where
  "put k v m = AList.update k v m"

definition del :: "string \<Rightarrow> 'v table \<Rightarrow> 'v table" where
  "del k m = AList.delete k m"

definition vals :: "'v table \<Rightarrow> 'v list" where
  "vals m = map snd m"

definition well_keyed :: "'v table \<Rightarrow> bool" where
  "well_keyed m = distinct (map fst m)"

text \<open>The contract of a Go map, for the clients that only read and write by key.\<close>

locale go_map =
  fixes gmget :: "'m \<Rightarrow> string \<Rightarrow> 'v option"
    and gmput :: "string \<Rightarrow> 'v \<Rightarrow> 'm \<Rightarrow> 'm"
    and gmdel :: "string \<Rightarrow> 'm \<Rightarrow> 'm"
    and gmvals :: "'m \<Rightarrow> 'v list"
    and gminv :: "'m \<Rightarrow> bool"
  assumes get_put: "gmget (gmput k v m) k' = (if k' = k then Some v else gmget m k')"
    and get_del: "gmget (gmdel k m) k' = (if k' = k then None else gmget m k')"
    and get_vals: "gmget m k = Some v \<Longrightarrow> v \<in> set (gmvals m)"
    and vals_get: "gminv m \<Longrightarrow> v \<in> set (gmvals m) \<Longrightarrow> \<exists>k. gmget m k = Some v"
    and inv_put: "gminv m \<Longrightarrow> gminv (gmput k v m)"
    and inv_del: "gminv m \<Longrightarrow> gminv (gmdel k m)"
begin

lemma put_put_get: "gmget (gmput k w (gmput k v m)) k' = gmget (gmput k w m) k'"
  by (simp add: get_put)

lemma vals_put_cases:
  assumes "gminv m" and "x \<in> set (gmvals (gmput k v m))"
  shows "x = v \<or> (\<exists>k'. k' \<noteq> k \<and> gmget m k' = Some x)"
proof -
  from assms obtain k' where "gmget (gmput k v m) k' = Some x"
    using vals_get inv_put by blast
  then show ?thesis by (auto simp: get_put split: if_splits)
qed

lemma all_vals_put:
  assumes "gminv m" and "\<And>k x. gmget m k = Some x \<Longrightarrow> P x" and "P v"
  shows "\<forall>x \<in> set (gmvals (gmput k v m)). P x"
  using assms vals_put_cases by blast

end

lemma get_put [simp]: "get (put k v m) k' = (if k' = k then Some v else get m k')"
  by (simp add: get_def put_def update_conv')

lemma get_del [simp]: "get (del k m) k' = (if k' = k then None else get m k')"
  by (simp add: get_def del_def delete_conv')

lemma get_Nil [simp]: "get [] k = None"
  by (simp add: get_def)

lemma vals_Nil [simp]: "vals [] = []"
  by (simp add: vals_def)

lemma well_keyed_Nil [simp]: "well_keyed []"
  by (simp add: well_keyed_def)

lemma get_vals: "get m k = Some v \<Longrightarrow> v \<in> set (vals m)"
  by (force simp: get_def vals_def dest: map_of_SomeD)

lemma vals_get: "well_keyed m \<Longrightarrow> v \<in> set (vals m) \<Longrightarrow> \<exists>k. get m k = Some v"
  by (force simp: get_def vals_def well_keyed_def)

lemma well_keyed_put [simp]: "well_keyed m \<Longrightarrow> well_keyed (put k v m)"
  by (simp add: well_keyed_def put_def distinct_update)

lemma well_keyed_del [simp]: "well_keyed m \<Longrightarrow> well_keyed (del k m)"
  by (simp add: well_keyed_def del_def distinct_delete)

interpretation gm: go_map get put del vals well_keyed
  by unfold_locales (auto intro: get_vals vals_get)

lemma vals_put_new: "get m k = None \<Longrightarrow> vals (put k v m) = vals m @ [v]"
  by (induction m) (auto simp: get_def put_def vals_def split: if_splits)

lemma vals_put_subset: "set (vals (put k v m)) \<subseteq> insert v (set (vals m))"
  by (induction m) (auto simp: put_def vals_def)

section \<open>sort.Slice\<close>

text \<open>
  Insertion sort with the comparison \<open>lt\<close> that the source passes. Go's sort is not stable; where
  a comparison leaves ties the order among them is one of the possible ones.
\<close>

fun insert_by :: "('a \<Rightarrow> 'a \<Rightarrow> bool) \<Rightarrow> 'a \<Rightarrow> 'a list \<Rightarrow> 'a list" where
  "insert_by lt x [] = [x]"
| "insert_by lt x (y # ys) = (if lt y x then y # insert_by lt x ys else x # y # ys)"

fun sort_by :: "('a \<Rightarrow> 'a \<Rightarrow> bool) \<Rightarrow> 'a list \<Rightarrow> 'a list" where
  "sort_by lt [] = []"
| "sort_by lt (x # xs) = insert_by lt x (sort_by lt xs)"

lemma mset_insert_by [simp]: "mset (insert_by lt x xs) = add_mset x (mset xs)"
  by (induction xs) auto

lemma mset_sort_by [simp]: "mset (sort_by lt xs) = mset xs"
  by (induction xs) auto

lemma set_sort_by [simp]: "set (sort_by lt xs) = set xs"
  by (rule mset_eq_setD) simp

lemma length_sort_by [simp]: "length (sort_by lt xs) = length xs"
  by (rule mset_eq_length) simp

lemma distinct_map_sort_by [simp]: "distinct (map f (sort_by lt xs)) = distinct (map f xs)"
  by (rule mset_eq_imp_distinct_iff) simp

text \<open>A comparison Go accepts is a strict weak order; the result is then ordered.\<close>

locale weak_order =
  fixes lt :: "'a \<Rightarrow> 'a \<Rightarrow> bool"
  assumes asym: "lt x y \<Longrightarrow> \<not> lt y x"
    and negtrans: "lt x z \<Longrightarrow> lt x y \<or> lt y z"
begin

lemma sorted_insert_by:
  "sorted_wrt (\<lambda>a b. \<not> lt b a) xs \<Longrightarrow> sorted_wrt (\<lambda>a b. \<not> lt b a) (insert_by lt x xs)"
proof (induction xs)
  case Nil
  then show ?case by simp
next
  case (Cons y ys)
  have set_ins: "set (insert_by lt x ys) = insert x (set ys)"
    by (simp flip: set_mset_mset)
  show ?case
  proof (cases "lt y x")
    case True
    then show ?thesis using Cons set_ins asym by auto
  next
    case False
    then show ?thesis using Cons negtrans by auto
  qed
qed

lemma sorted_sort_by: "sorted_wrt (\<lambda>a b. \<not> lt b a) (sort_by lt xs)"
  by (induction xs) (auto intro: sorted_insert_by)

end

text \<open>Comparing by one key of a linear order.\<close>

definition less_on :: "('a \<Rightarrow> 'k::linorder) \<Rightarrow> 'a \<Rightarrow> 'a \<Rightarrow> bool" where
  "less_on f x y = (f x < f y)"

interpretation key_order: weak_order "less_on f" for f :: "'a \<Rightarrow> 'k::linorder"
  by unfold_locales (auto simp: less_on_def)

lemma sorted_key_order: "sorted (map f (sort_by (less_on f) xs))"
  using key_order.sorted_sort_by [of f xs]
  by (simp add: sorted_wrt_map less_on_def not_less)

text \<open>Comparing by one key and then by a second one.\<close>

definition less_on2 :: "('a \<Rightarrow> 'k::linorder) \<Rightarrow> ('a \<Rightarrow> 'l::linorder) \<Rightarrow> 'a \<Rightarrow> 'a \<Rightarrow> bool" where
  "less_on2 f g x y = (if f x = f y then g x < g y else f x < f y)"

interpretation key2_order: weak_order "less_on2 f g"
  for f :: "'a \<Rightarrow> 'k::linorder" and g :: "'a \<Rightarrow> 'l::linorder"
  by unfold_locales (auto simp: less_on2_def split: if_splits)

section \<open>Integers and time\<close>

text \<open>Two's complement wrap-around of Go's 64-bit \<open>int\<close> and \<open>int64\<close>.\<close>

definition wrap64 :: "int \<Rightarrow> int" where
  "wrap64 i = (i + 2 ^ 63) mod 2 ^ 64 - 2 ^ 63"

lemma wrap64_id: "- (2 ^ 63) \<le> i \<Longrightarrow> i < 2 ^ 63 \<Longrightarrow> wrap64 i = i"
  by (simp add: wrap64_def)

definition Second :: int where "Second = 1000000000"
definition Minute :: int where "Minute = 60 * Second"
definition Hour :: int where "Hour = 60 * Minute"

text \<open>\<open>t.After(u)\<close> for a pointer \<open>t\<close> that may be nil: \<open>t != nil && t.After(u)\<close>.\<close>

definition after :: "int option \<Rightarrow> int \<Rightarrow> bool" where
  "after t u = (case t of None \<Rightarrow> False | Some x \<Rightarrow> u < x)"

lemma after_simps [simp]: "after None u = False" "after (Some x) u = (u < x)"
  by (simp_all add: after_def)

lemma after_Some: "after t u \<longleftrightarrow> (\<exists>x. t = Some x \<and> u < x)"
  by (simp add: after_def split: option.splits)

end
