(* ===== verification/Model.thy ===== *)
theory Model
  imports Prelude
begin

text \<open>
  The data model of \<open>internal/controlplane/model.go\<close> that the authority stores work on. A struct is
  a record, and Go's embedding of \<open>ResourceMeta\<close> is record extension, so \<open>ID\<close>, \<open>Revision\<close>,
  \<open>CreatedAt\<close> and \<open>UpdatedAt\<close> select from every resource. The other fields keep their Go name with a
  prefix for the struct. A Go enumeration is a string type with constants: it is a datatype with
  the source's constants, with an extra constructor where a value outside the constants can come
  from a caller (\<open>Unset\<close> is the empty string).
\<close>

record ResourceMeta =
  ID :: string
  Revision :: int
  CreatedAt :: int
  UpdatedAt :: int

text \<open>\<open>r.ResourceMeta = ResourceMeta{ID: i, Revision: 1, CreatedAt: t, UpdatedAt: t}\<close>.\<close>

definition stamp :: "string \<Rightarrow> int \<Rightarrow> 'a ResourceMeta_scheme \<Rightarrow> 'a ResourceMeta_scheme" where
  "stamp i t r = r\<lparr>ID := i, Revision := 1, CreatedAt := t, UpdatedAt := t\<rparr>"

text \<open>\<open>r.Revision++; r.UpdatedAt = t\<close>.\<close>

definition touch :: "int \<Rightarrow> 'a ResourceMeta_scheme \<Rightarrow> 'a ResourceMeta_scheme" where
  "touch t r = r\<lparr>Revision := Revision r + 1, UpdatedAt := t\<rparr>"

lemma stamp_simps [simp]:
  "ID (stamp i t r) = i" "Revision (stamp i t r) = 1"
  "CreatedAt (stamp i t r) = t" "UpdatedAt (stamp i t r) = t"
  by (simp_all add: stamp_def)

lemma touch_simps [simp]:
  "ID (touch t r) = ID r" "Revision (touch t r) = Revision r + 1"
  "CreatedAt (touch t r) = CreatedAt r" "UpdatedAt (touch t r) = t"
  by (simp_all add: touch_def)

section \<open>Organizations, projects and memberships\<close>

record Organization = ResourceMeta +
  org_Name :: string
  org_DisplayName :: string

record Project = ResourceMeta +
  prj_OrganizationID :: string
  prj_Name :: string
  prj_DisplayName :: string

datatype OrganizationMembershipRole =
    OrganizationAdmin | OrganizationOperator | OrganizationViewer | OrganizationRoleOther string

fun OrganizationMembershipRole_str :: "OrganizationMembershipRole \<Rightarrow> string" where
  "OrganizationMembershipRole_str OrganizationAdmin = ''organization-admin''"
| "OrganizationMembershipRole_str OrganizationOperator = ''organization-operator''"
| "OrganizationMembershipRole_str OrganizationViewer = ''organization-viewer''"
| "OrganizationMembershipRole_str (OrganizationRoleOther x) = x"

datatype OrganizationMembershipState = OrganizationMembershipActive | OrganizationMembershipRevoked

record OrganizationMembership = ResourceMeta +
  mem_OrganizationID :: string
  mem_Subject :: string
  mem_Role :: OrganizationMembershipRole
  mem_State :: OrganizationMembershipState
  mem_GrantedBy :: string
  mem_RevokedBy :: string
  mem_RevokedAt :: "int option"

section \<open>Operations\<close>

datatype OperationState =
    OperationDraft | OperationPlanning | OperationPlanFailed | OperationAwaitingApproval
  | OperationApproved | OperationQueued | OperationRunning | OperationRetryWait
  | OperationCancelRequested | OperationVerifying | OperationSucceeded | OperationFailed
  | OperationRollingBack | OperationRolledBack | OperationRollbackFailed
  | OperationNeedsOperator | OperationCancelled
  | OperationOther string

fun OperationState_str :: "OperationState \<Rightarrow> string" where
  "OperationState_str OperationDraft = ''DRAFT''"
| "OperationState_str OperationPlanning = ''PLANNING''"
| "OperationState_str OperationPlanFailed = ''PLAN_FAILED''"
| "OperationState_str OperationAwaitingApproval = ''AWAITING_APPROVAL''"
| "OperationState_str OperationApproved = ''APPROVED''"
| "OperationState_str OperationQueued = ''QUEUED''"
| "OperationState_str OperationRunning = ''RUNNING''"
| "OperationState_str OperationRetryWait = ''RETRY_WAIT''"
| "OperationState_str OperationCancelRequested = ''CANCEL_REQUESTED''"
| "OperationState_str OperationVerifying = ''VERIFYING''"
| "OperationState_str OperationSucceeded = ''SUCCEEDED''"
| "OperationState_str OperationFailed = ''FAILED''"
| "OperationState_str OperationRollingBack = ''ROLLING_BACK''"
| "OperationState_str OperationRolledBack = ''ROLLED_BACK''"
| "OperationState_str OperationRollbackFailed = ''ROLLBACK_FAILED''"
| "OperationState_str OperationNeedsOperator = ''NEEDS_OPERATOR''"
| "OperationState_str OperationCancelled = ''CANCELLED''"
| "OperationState_str (OperationOther x) = x"

datatype OperationClass =
    OperationClassUnset | OperationClassReadOnly | OperationClassMutating
  | OperationClassDestructive | OperationClassOther string

fun OperationClass_str :: "OperationClass \<Rightarrow> string" where
  "OperationClass_str OperationClassUnset = ''''"
| "OperationClass_str OperationClassReadOnly = ''READ_ONLY''"
| "OperationClass_str OperationClassMutating = ''MUTATING''"
| "OperationClass_str OperationClassDestructive = ''DESTRUCTIVE''"
| "OperationClass_str (OperationClassOther x) = x"

datatype OperationFailureClass =
    OperationFailureUnset | OperationFailureTransientNetwork | OperationFailureRateLimited
  | OperationFailureDependencyUnavailable | OperationFailureConflict
  | OperationFailurePermanent | OperationFailureUnknown | OperationFailureOther string

fun OperationFailureClass_str :: "OperationFailureClass \<Rightarrow> string" where
  "OperationFailureClass_str OperationFailureUnset = ''''"
| "OperationFailureClass_str OperationFailureTransientNetwork = ''TRANSIENT_NETWORK''"
| "OperationFailureClass_str OperationFailureRateLimited = ''RATE_LIMITED''"
| "OperationFailureClass_str OperationFailureDependencyUnavailable = ''DEPENDENCY_UNAVAILABLE''"
| "OperationFailureClass_str OperationFailureConflict = ''CONFLICT''"
| "OperationFailureClass_str OperationFailurePermanent = ''PERMANENT''"
| "OperationFailureClass_str OperationFailureUnknown = ''UNKNOWN''"
| "OperationFailureClass_str (OperationFailureOther x) = x"

record OperationRetryPolicy =
  MaxAttempts :: int
  InitialBackoffSeconds :: int
  MaxBackoffSeconds :: int
  RetryableClasses :: "OperationFailureClass list"

record OperationFailureReport =
  rep_Class :: OperationFailureClass
  rep_Code :: string
  rep_Message :: string
  rep_RetryAfterSeconds :: int

record Operation = ResourceMeta +
  op_ProjectID :: string
  op_Kind :: string
  op_TargetRef :: string
  op_DesiredRevision :: string
  op_State :: OperationState
  op_Risk :: string
  op_Class :: OperationClass
  op_RetryPolicy :: OperationRetryPolicy
  op_Attempt :: int
  op_NextAttemptAt :: "int option"
  op_LastFailureClass :: OperationFailureClass
  op_RetryExhausted :: bool
  op_RecoveryCheckpointID :: string
  op_RecoveryEvidenceDigest :: string
  op_RecoveryInventoryDigest :: string
  op_CancelRequestedBy :: string
  op_CancelRequestedAt :: "int option"
  op_CancelReason :: string
  op_IdempotencyKey :: string
  op_RequestDigest :: string
  op_ActorID :: string
  op_LeaseOwner :: string
  op_LeaseExpiresAt :: "int option"
  op_FenceToken :: int
  op_LastError :: string
  op_CompensationPlanDigest :: string
  op_CompensationStepCount :: int
  op_CompensationCursor :: int
  op_CompensationStartedAt :: "int option"
  op_CompensationFinishedAt :: "int option"
  op_CompensationFailureStep :: string

record OperationStep = ResourceMeta +
  stp_OperationID :: string
  stp_StepKey :: string
  stp_State :: OperationState
  stp_Attempt :: int
  stp_FenceToken :: int
  stp_StartedAt :: "int option"
  stp_FinishedAt :: "int option"
  stp_LastError :: string

datatype OperationStepPhase =
    OperationStepPhaseUnset | OperationStepPhaseForward | OperationStepPhaseCompensation
  | OperationStepPhaseOther string

fun OperationStepPhase_str :: "OperationStepPhase \<Rightarrow> string" where
  "OperationStepPhase_str OperationStepPhaseUnset = ''''"
| "OperationStepPhase_str OperationStepPhaseForward = ''FORWARD''"
| "OperationStepPhase_str OperationStepPhaseCompensation = ''COMPENSATION''"
| "OperationStepPhase_str (OperationStepPhaseOther x) = x"

datatype OperationStepLogLevel =
    OperationStepLogDebug | OperationStepLogInfo | OperationStepLogWarn | OperationStepLogError
  | OperationStepLogOther string

fun OperationStepLogLevel_str :: "OperationStepLogLevel \<Rightarrow> string" where
  "OperationStepLogLevel_str OperationStepLogDebug = ''DEBUG''"
| "OperationStepLogLevel_str OperationStepLogInfo = ''INFO''"
| "OperationStepLogLevel_str OperationStepLogWarn = ''WARN''"
| "OperationStepLogLevel_str OperationStepLogError = ''ERROR''"
| "OperationStepLogLevel_str (OperationStepLogOther x) = x"

record OperationStepTrace = ResourceMeta +
  trc_OperationID :: string
  trc_Phase :: OperationStepPhase
  trc_StepKey :: string
  trc_Attempt :: int
  trc_Sequence :: int
  trc_TraceKey :: string
  trc_Level :: OperationStepLogLevel
  trc_EventType :: string
  trc_Message :: string
  trc_EvidenceID :: string
  trc_EvidenceDigest :: string

record OperationStepTraceInput =
  tin_OperationID :: string
  tin_Phase :: OperationStepPhase
  tin_StepKey :: string
  tin_TraceKey :: string
  tin_Level :: OperationStepLogLevel
  tin_EventType :: string
  tin_Message :: string
  tin_EvidenceKind :: string
  tin_MediaType :: string
  tin_Location :: string
  tin_Payload :: string

datatype CompensationStrategy =
    CompensationNone | CompensationAutomaticRollback | CompensationRestorePreviousRevision
  | CompensationPreserveDataRestoreController | CompensationProviderRecovery
  | CompensationManualRecovery | CompensationIrreversible | CompensationStrategyOther string

fun CompensationStrategy_str :: "CompensationStrategy \<Rightarrow> string" where
  "CompensationStrategy_str CompensationNone = ''NONE''"
| "CompensationStrategy_str CompensationAutomaticRollback = ''AUTOMATIC_ROLLBACK''"
| "CompensationStrategy_str CompensationRestorePreviousRevision = ''RESTORE_PREVIOUS_REVISION''"
| "CompensationStrategy_str CompensationPreserveDataRestoreController = ''PRESERVE_DATA_RESTORE_CONTROLLER''"
| "CompensationStrategy_str CompensationProviderRecovery = ''PROVIDER_RECOVERY''"
| "CompensationStrategy_str CompensationManualRecovery = ''MANUAL_RECOVERY''"
| "CompensationStrategy_str CompensationIrreversible = ''IRREVERSIBLE''"
| "CompensationStrategy_str (CompensationStrategyOther x) = x"

datatype CompensationStepState =
    CompensationStepPending | CompensationStepRunning | CompensationStepSucceeded
  | CompensationStepFailed | CompensationStepSkipped | CompensationStepManualRequired

fun CompensationStepState_str :: "CompensationStepState \<Rightarrow> string" where
  "CompensationStepState_str CompensationStepPending = ''PENDING''"
| "CompensationStepState_str CompensationStepRunning = ''RUNNING''"
| "CompensationStepState_str CompensationStepSucceeded = ''SUCCEEDED''"
| "CompensationStepState_str CompensationStepFailed = ''FAILED''"
| "CompensationStepState_str CompensationStepSkipped = ''SKIPPED''"
| "CompensationStepState_str CompensationStepManualRequired = ''MANUAL_REQUIRED''"

record CompensationPlanStep =
  pl_StepKey :: string
  pl_ForwardOrder :: int
  pl_Strategy :: CompensationStrategy
  pl_Action :: string
  pl_InputDigest :: string
  pl_MaxAttempts :: int

record OperationCompensationStep = ResourceMeta +
  cs_OperationID :: string
  cs_StepKey :: string
  cs_ForwardOrder :: int
  cs_Strategy :: CompensationStrategy
  cs_Action :: string
  cs_InputDigest :: string
  cs_MaxAttempts :: int
  cs_ForwardCompleted :: bool
  cs_ForwardCompletedAt :: "int option"
  cs_State :: CompensationStepState
  cs_Attempt :: int
  cs_FenceToken :: int
  cs_StartedAt :: "int option"
  cs_FinishedAt :: "int option"
  cs_EvidenceDigest :: string
  cs_LastError :: string

record CompensationStepFailure =
  csf_Message :: string
  csf_Retryable :: bool

record OutboxEvent = ResourceMeta +
  evt_AggregateType :: string
  evt_AggregateID :: string
  evt_EventType :: string
  evt_Payload :: string
  evt_AvailableAt :: int
  evt_ClaimedBy :: string
  evt_ClaimedUntil :: "int option"
  evt_Attempt :: int
  evt_PublishedAt :: "int option"

text \<open>
  A value of the audit metadata map: \<open>MStr\<close> is a Go \<open>string\<close>, \<open>MNamed\<close> a value of a named string
  type, which the type assertion \<open>v.(string)\<close> does not accept.
\<close>

datatype metaval =
    MStr string | MNamed string | MInt int | MBool bool | MTime "int option" | MStrs "string list"

record AuditEvent =
  aud_ID :: string
  aud_OccurredAt :: int
  aud_ActorID :: string
  aud_Action :: string
  aud_ResourceType :: string
  aud_ResourceID :: string
  aud_Revision :: int
  aud_RequestID :: string
  aud_Metadata :: "(string \<times> metaval) list"

record EvidenceMetadata = ResourceMeta +
  evd_OperationID :: string
  evd_Phase :: OperationStepPhase
  evd_StepKey :: string
  evd_Attempt :: int
  evd_TraceID :: string
  evd_Kind :: string
  evd_Digest :: string
  evd_MediaType :: string
  evd_Location :: string
  evd_Size :: int
  evd_HasPayload :: bool
  evd_Sealed :: bool

record OperationRequest =
  req_ProjectID :: string
  req_Kind :: string
  req_TargetRef :: string
  req_DesiredRevision :: string
  req_Risk :: string
  req_Class :: OperationClass
  req_RecoveryCheckpointID :: string

record ClaimResult =
  clm_OperationID :: string
  clm_LeaseOwner :: string
  clm_LeaseExpiresAt :: int
  clm_FenceToken :: int

section \<open>Clusters and recovery checkpoints\<close>

text \<open>The fields of \<open>ManagedCluster\<close> that the recovery authority reads.\<close>

record ManagedCluster = ResourceMeta +
  mc_ProjectID :: string
  mc_InventoryDigest :: string

datatype RecoveryCheckpointState = RecoveryCheckpointVerified | RecoveryCheckpointRevoked

record RecoveryCheckpoint = ResourceMeta +
  rcp_ProjectID :: string
  rcp_ClusterID :: string
  rcp_Provider :: string
  rcp_Reference :: string
  rcp_EvidenceDigest :: string
  rcp_InventoryDigest :: string
  rcp_CompletedAt :: int
  rcp_ExpiresAt :: int
  rcp_State :: RecoveryCheckpointState
  rcp_RequestedBy :: string
  rcp_RevokedBy :: string
  rcp_RevokedAt :: "int option"

record OperationRequestPayload =
  orp_OperationID :: string
  orp_PayloadDigest :: string
  orp_MediaType :: string
  orp_Payload :: string
  orp_CreatedAt :: int

section \<open>Service accounts and API tokens\<close>

datatype ServiceAccountState = ServiceAccountActive | ServiceAccountRevoked

record ServiceAccount = ResourceMeta +
  sa_OrganizationID :: string
  sa_ProjectID :: string
  sa_Name :: string
  sa_DisplayName :: string
  sa_ProductRole :: string
  sa_State :: ServiceAccountState
  sa_CreatedBy :: string
  sa_RevokedBy :: string
  sa_RevokedAt :: "int option"

datatype APITokenState = APITokenActive | APITokenRevoked

record APIToken = ResourceMeta +
  tok_ServiceAccountID :: string
  tok_OrganizationID :: string
  tok_ProjectID :: string
  tok_TokenPrefix :: string
  tok_TokenDigest :: string
  tok_IdempotencyKey :: string
  tok_Permissions :: "string list"
  tok_State :: APITokenState
  tok_ExpiresAt :: int
  tok_CreatedBy :: string
  tok_RotatedFromID :: string
  tok_RevokedBy :: string
  tok_RevokedAt :: "int option"

section \<open>Blueprints\<close>

datatype BlueprintOverlayScope =
    BlueprintOverlayProvider | BlueprintOverlayEnvironment | BlueprintOverlayScopeOther string

fun BlueprintOverlayScope_str :: "BlueprintOverlayScope \<Rightarrow> string" where
  "BlueprintOverlayScope_str BlueprintOverlayProvider = ''PROVIDER''"
| "BlueprintOverlayScope_str BlueprintOverlayEnvironment = ''ENVIRONMENT''"
| "BlueprintOverlayScope_str (BlueprintOverlayScopeOther x) = x"

record BlueprintOverlayChange =
  ovc_Path :: string
  ovc_Value :: string

record BlueprintOverlay = ResourceMeta +
  bov_ProjectID :: string
  bov_Name :: string
  bov_Version :: string
  bov_Scope :: BlueprintOverlayScope
  bov_ScopeKey :: string
  bov_Digest :: string
  bov_Changes :: "BlueprintOverlayChange list"
  bov_CreatedBy :: string

record BlueprintRevision = ResourceMeta +
  bpr_ProjectID :: string
  bpr_BlueprintName :: string
  bpr_BlueprintVersion :: string
  bpr_BlueprintDigest :: string
  bpr_CatalogDigest :: string
  bpr_BaseBlueprintDigest :: string
  bpr_OverlayDigest :: string
  bpr_OwnershipDigest :: string
  bpr_ProviderOverlayID :: string
  bpr_EnvironmentOverlayID :: string
  bpr_BasePayload :: string
  bpr_ResolutionPayload :: string
  bpr_Payload :: string

datatype BlueprintLifecycleState =
    BlueprintDraft | BlueprintReview | BlueprintPublished | BlueprintDeprecated | BlueprintRevoked
  | BlueprintLifecycleOther string

fun BlueprintLifecycleState_str :: "BlueprintLifecycleState \<Rightarrow> string" where
  "BlueprintLifecycleState_str BlueprintDraft = ''DRAFT''"
| "BlueprintLifecycleState_str BlueprintReview = ''REVIEW''"
| "BlueprintLifecycleState_str BlueprintPublished = ''PUBLISHED''"
| "BlueprintLifecycleState_str BlueprintDeprecated = ''DEPRECATED''"
| "BlueprintLifecycleState_str BlueprintRevoked = ''REVOKED''"
| "BlueprintLifecycleState_str (BlueprintLifecycleOther x) = x"

record BlueprintRelease = ResourceMeta +
  rel_ProjectID :: string
  rel_BlueprintName :: string
  rel_BlueprintVersion :: string
  rel_State :: BlueprintLifecycleState
  rel_CurrentRevisionID :: string
  rel_CurrentBlueprintDigest :: string
  rel_CatalogDigest :: string
  rel_CatalogReleaseID :: string
  rel_SourceReleaseID :: string
  rel_UpgradeFromIDs :: "string list"
  rel_ExecutionReady :: bool
  rel_PlanStatus :: string
  rel_RequestedBy :: string
  rel_ReviewRequestedAt :: "int option"
  rel_PublishedBy :: string
  rel_PublishedAt :: "int option"
  rel_DeprecatedBy :: string
  rel_DeprecatedAt :: "int option"
  rel_RevokedBy :: string
  rel_RevokedAt :: "int option"

record Assignment = ResourceMeta +
  asg_ProjectID :: string
  asg_TargetRef :: string
  asg_BlueprintRevisionID :: string
  asg_DesiredGeneration :: int
  asg_ObservedGeneration :: int

section \<open>Catalog governance\<close>

datatype CatalogVisibility = CatalogVisibilityPlatform | CatalogVisibilityPrivate | CatalogVisibilityOther string

datatype CatalogChannel =
    CatalogChannelCandidate | CatalogChannelRender | CatalogChannelRuntime | CatalogChannelProduction
  | CatalogChannelOther string

fun CatalogChannel_str :: "CatalogChannel \<Rightarrow> string" where
  "CatalogChannel_str CatalogChannelCandidate = ''CANDIDATE''"
| "CatalogChannel_str CatalogChannelRender = ''RENDER''"
| "CatalogChannel_str CatalogChannelRuntime = ''RUNTIME''"
| "CatalogChannel_str CatalogChannelProduction = ''PRODUCTION''"
| "CatalogChannel_str (CatalogChannelOther x) = x"

datatype CatalogLifecycleState =
    CatalogDraft | CatalogReview | CatalogPublished | CatalogDeprecated | CatalogRevoked
  | CatalogLifecycleOther string

fun CatalogLifecycleState_str :: "CatalogLifecycleState \<Rightarrow> string" where
  "CatalogLifecycleState_str CatalogDraft = ''DRAFT''"
| "CatalogLifecycleState_str CatalogReview = ''REVIEW''"
| "CatalogLifecycleState_str CatalogPublished = ''PUBLISHED''"
| "CatalogLifecycleState_str CatalogDeprecated = ''DEPRECATED''"
| "CatalogLifecycleState_str CatalogRevoked = ''REVOKED''"
| "CatalogLifecycleState_str (CatalogLifecycleOther x) = x"

datatype CatalogTrustKeyState = CatalogTrustKeyActive | CatalogTrustKeyRevoked

record CatalogTrustKey = ResourceMeta +
  ctk_OrganizationID :: string
  ctk_Name :: string
  ctk_Algorithm :: string
  ctk_PublicKey :: string
  ctk_Fingerprint :: string
  ctk_State :: CatalogTrustKeyState
  ctk_CreatedBy :: string
  ctk_RevokedBy :: string
  ctk_RevokedAt :: "int option"

record CatalogRevision = ResourceMeta +
  ctr_OrganizationID :: string
  ctr_CatalogName :: string
  ctr_CatalogVersion :: string
  ctr_ManifestDigest :: string
  ctr_Payload :: string

record CatalogRelease = ResourceMeta +
  ctl_OrganizationID :: string
  ctl_CatalogName :: string
  ctl_CatalogVersion :: string
  ctl_Visibility :: CatalogVisibility
  ctl_Channel :: CatalogChannel
  ctl_State :: CatalogLifecycleState
  ctl_CurrentRevisionID :: string
  ctl_ManifestDigest :: string
  ctl_SourceReleaseID :: string
  ctl_SigningKeyID :: string
  ctl_SigningKeyFingerprint :: string
  ctl_Signature :: string
  ctl_RequestedBy :: string
  ctl_ReviewRequestedAt :: "int option"
  ctl_PublishedBy :: string
  ctl_PublishedAt :: "int option"
  ctl_DeprecatedBy :: string
  ctl_DeprecatedAt :: "int option"
  ctl_RevokedBy :: string
  ctl_RevokedAt :: "int option"

text \<open>What a catalog signature covers.\<close>

record catalogSignatureEnvelope =
  cse_Schema :: string
  cse_OrganizationID :: string
  cse_CatalogName :: string
  cse_CatalogVersion :: string
  cse_Visibility :: CatalogVisibility
  cse_Channel :: CatalogChannel
  cse_ManifestDigest :: string
  cse_SourceReleaseID :: string
  cse_CurrentRevisionID :: string

section \<open>Identity authority\<close>

datatype OIDCGroupMappingState =
    OIDCGroupMappingActive | OIDCGroupMappingRevoked | OIDCGroupMappingStateOther string

record OIDCGroupMapping = ResourceMeta +
  ogm_Group :: string
  ogm_ProductRole :: string
  ogm_OrganizationID :: string
  ogm_OrganizationRole :: OrganizationMembershipRole
  ogm_ProjectID :: string
  ogm_ProjectRole :: string
  ogm_State :: OIDCGroupMappingState
  ogm_CreatedBy :: string
  ogm_RevokedBy :: string
  ogm_RevokedAt :: "int option"

record OIDCGroupResolution =
  ogr_Method :: string
  ogr_MappingDigest :: string
  ogr_ProductRoles :: "string list"
  ogr_OrganizationRoles :: "string table"
  ogr_ProjectRoles :: "string table"
  ogr_MappingIDs :: "string list"

record SecurityAuditInput =
  sai_Category :: string
  sai_Decision :: string
  sai_ActorID :: string
  sai_Authentication :: string
  sai_Method :: string
  sai_Path :: string
  sai_StatusCode :: int
  sai_ReasonCode :: string
  sai_RequestID :: string
  sai_ScopeType :: string
  sai_ScopeID :: string
  sai_EffectiveRole :: string
  sai_MappingDigest :: string
  sai_OAuthClientID :: string
  sai_MCPInteropBindingDigest :: string

record SecurityAuditEvent = SecurityAuditInput +
  sae_ID :: string
  sae_Sequence :: int
  sae_OccurredAt :: int
  sae_MethodVersion :: string
  sae_PreviousDigest :: string
  sae_Digest :: string

section \<open>MCP delegation\<close>

datatype MCPTrustedClientState = MCPTrustedClientActive | MCPTrustedClientRevoked

record MCPTrustedClient = ResourceMeta +
  mtc_ClientID :: string
  mtc_DisplayName :: string
  mtc_Provider :: string
  mtc_RedirectURIs :: "string list"
  mtc_State :: MCPTrustedClientState
  mtc_CreatedBy :: string
  mtc_RevokedBy :: string
  mtc_RevokedAt :: "int option"

datatype MCPDelegationAccessProfile =
    MCPDelegationView | MCPDelegationOperate | MCPDelegationAdministration
  | MCPDelegationProfileOther string

datatype MCPDelegationGrantState = MCPDelegationGrantActive | MCPDelegationGrantRevoked

record MCPDelegationGrant = ResourceMeta +
  mdg_Issuer :: string
  mdg_Subject :: string
  mdg_ClientID :: string
  mdg_OrganizationID :: string
  mdg_ProjectID :: string
  mdg_AccessProfile :: MCPDelegationAccessProfile
  mdg_ConsentDigest :: string
  mdg_ExpiresAt :: int
  mdg_State :: MCPDelegationGrantState
  mdg_CreatedBy :: string
  mdg_RevokedBy :: string
  mdg_RevokedAt :: "int option"

end
