(* ===== verification/StateMachine.thy ===== *)
theory StateMachine
  imports Model
begin

text \<open>
  The operation state machine of \<open>internal/controlplane/state_machine.go\<close>: the table of allowed
  transitions, the part of it that the generic transition call may use, and the terminal states.
\<close>

definition allowedTransitions :: "(OperationState \<times> OperationState list) list" where
  "allowedTransitions =
    [(OperationDraft, [OperationPlanning, OperationCancelled]),
     (OperationPlanning, [OperationPlanFailed, OperationAwaitingApproval, OperationQueued, OperationCancelled]),
     (OperationPlanFailed, [OperationPlanning, OperationCancelled]),
     (OperationAwaitingApproval, [OperationApproved, OperationCancelled]),
     (OperationApproved, [OperationQueued, OperationCancelled]),
     (OperationQueued, [OperationRunning, OperationCancelled]),
     (OperationRunning, [OperationVerifying, OperationRetryWait, OperationFailed, OperationRollingBack, OperationCancelRequested]),
     (OperationRetryWait, [OperationQueued, OperationCancelled]),
     (OperationCancelRequested, [OperationCancelled, OperationFailed, OperationRollingBack]),
     (OperationVerifying, [OperationSucceeded, OperationRetryWait, OperationFailed, OperationRollingBack, OperationCancelRequested]),
     (OperationFailed, [OperationQueued, OperationRollingBack, OperationCancelled]),
     (OperationRollingBack, [OperationRolledBack, OperationRollbackFailed, OperationNeedsOperator, OperationCancelRequested]),
     (OperationRollbackFailed, [OperationRollingBack, OperationNeedsOperator, OperationCancelled]),
     (OperationNeedsOperator, [OperationRollingBack, OperationCancelled])]"

text \<open>A missing row of the Go map is a nil map, whose look-ups are \<open>false\<close>.\<close>

definition CanTransition :: "OperationState \<Rightarrow> OperationState \<Rightarrow> bool" where
  "CanTransition st to =
     (case map_of allowedTransitions st of None \<Rightarrow> False | Some row \<Rightarrow> to \<in> set row)"

fun CanDirectOperationTransition :: "OperationState \<Rightarrow> OperationState \<Rightarrow> bool" where
  "CanDirectOperationTransition OperationDraft to = (to = OperationPlanning)"
| "CanDirectOperationTransition OperationPlanning to =
     (to = OperationPlanFailed \<or> to = OperationAwaitingApproval \<or> to = OperationQueued)"
| "CanDirectOperationTransition OperationPlanFailed to = (to = OperationPlanning)"
| "CanDirectOperationTransition OperationApproved to = (to = OperationQueued)"
| "CanDirectOperationTransition st to = False"

fun IsTerminal :: "OperationState \<Rightarrow> bool" where
  "IsTerminal OperationSucceeded = True"
| "IsTerminal OperationRolledBack = True"
| "IsTerminal OperationCancelled = True"
| "IsTerminal st = False"

text \<open>A state the source declares, as opposed to a string outside the enumeration.\<close>

fun declared_state :: "OperationState \<Rightarrow> bool" where
  "declared_state (OperationOther x) = False"
| "declared_state st = True"

lemma IsTerminal_iff:
  "IsTerminal st \<longleftrightarrow> st = OperationSucceeded \<or> st = OperationRolledBack \<or> st = OperationCancelled"
  by (cases st) auto

lemma CanTransition_iff [simp]:
  "CanTransition OperationDraft to \<longleftrightarrow> to \<in> {OperationPlanning, OperationCancelled}"
  "CanTransition OperationPlanning to \<longleftrightarrow>
     to \<in> {OperationPlanFailed, OperationAwaitingApproval, OperationQueued, OperationCancelled}"
  "CanTransition OperationPlanFailed to \<longleftrightarrow> to \<in> {OperationPlanning, OperationCancelled}"
  "CanTransition OperationAwaitingApproval to \<longleftrightarrow> to \<in> {OperationApproved, OperationCancelled}"
  "CanTransition OperationApproved to \<longleftrightarrow> to \<in> {OperationQueued, OperationCancelled}"
  "CanTransition OperationQueued to \<longleftrightarrow> to \<in> {OperationRunning, OperationCancelled}"
  "CanTransition OperationRunning to \<longleftrightarrow>
     to \<in> {OperationVerifying, OperationRetryWait, OperationFailed, OperationRollingBack, OperationCancelRequested}"
  "CanTransition OperationRetryWait to \<longleftrightarrow> to \<in> {OperationQueued, OperationCancelled}"
  "CanTransition OperationCancelRequested to \<longleftrightarrow>
     to \<in> {OperationCancelled, OperationFailed, OperationRollingBack}"
  "CanTransition OperationVerifying to \<longleftrightarrow>
     to \<in> {OperationSucceeded, OperationRetryWait, OperationFailed, OperationRollingBack, OperationCancelRequested}"
  "CanTransition OperationFailed to \<longleftrightarrow> to \<in> {OperationQueued, OperationRollingBack, OperationCancelled}"
  "CanTransition OperationRollingBack to \<longleftrightarrow>
     to \<in> {OperationRolledBack, OperationRollbackFailed, OperationNeedsOperator, OperationCancelRequested}"
  "CanTransition OperationRollbackFailed to \<longleftrightarrow>
     to \<in> {OperationRollingBack, OperationNeedsOperator, OperationCancelled}"
  "CanTransition OperationNeedsOperator to \<longleftrightarrow> to \<in> {OperationRollingBack, OperationCancelled}"
  "CanTransition OperationSucceeded to \<longleftrightarrow> False"
  "CanTransition OperationRolledBack to \<longleftrightarrow> False"
  "CanTransition OperationCancelled to \<longleftrightarrow> False"
  "CanTransition (OperationOther x) to \<longleftrightarrow> False"
  by (simp_all add: CanTransition_def allowedTransitions_def)

lemma direct_allowed: "CanDirectOperationTransition st to \<Longrightarrow> CanTransition st to"
  by (cases st) auto

lemma direct_not_terminal:
  "CanDirectOperationTransition st to \<Longrightarrow> \<not> IsTerminal to \<and> \<not> IsTerminal st"
  by (cases st) auto

lemma no_exit_iff: "declared_state st \<Longrightarrow> (\<forall>to. \<not> CanTransition st to) \<longleftrightarrow> IsTerminal st"
  by (cases st) auto

text \<open>Paths of the table, for the liveness of its shape.\<close>

lemma path1: "CanTransition a b \<Longrightarrow> CanTransition\<^sup>*\<^sup>* a b"
  by (rule r_into_rtranclp)

lemma path2: "CanTransition a b \<Longrightarrow> CanTransition\<^sup>*\<^sup>* b c \<Longrightarrow> CanTransition\<^sup>*\<^sup>* a c"
  by (rule converse_rtranclp_into_rtranclp)

lemma queued_reachable: "CanTransition\<^sup>*\<^sup>* OperationDraft OperationQueued"
  by (rule path2 [of _ OperationPlanning]) (simp_all add: path1)

lemma via_cancel_requested:
  "CanTransition a OperationCancelRequested \<Longrightarrow> CanTransition\<^sup>*\<^sup>* a OperationCancelled"
  by (erule path2) (simp add: path1)

lemma cancel_path: "declared_state st \<Longrightarrow> \<not> IsTerminal st \<Longrightarrow> CanTransition\<^sup>*\<^sup>* st OperationCancelled"
  by (cases st) (auto intro: path1 via_cancel_requested)

lemma queued_success: "CanTransition\<^sup>*\<^sup>* OperationQueued OperationSucceeded"
  by (rule path2 [of _ OperationRunning], simp, rule path2 [of _ OperationVerifying]) (simp_all add: path1)

text \<open>
  C12: The transition table has the shape of a workflow with three final states. A declared state
  has no way out exactly when \<open>IsTerminal\<close> says so; every non-terminal state still has a path
  to CANCELLED; a new operation (DRAFT) has a path to SUCCEEDED; success is entered only from
  VERIFYING; and every transition the generic call may take is one of the table that neither
  starts nor ends in a final state.
\<close>
theorem state_machine_shape:
  "(\<forall>st. declared_state st \<longrightarrow> ((\<forall>to. \<not> CanTransition st to) \<longleftrightarrow> IsTerminal st))
   \<and> (\<forall>st. declared_state st \<and> \<not> IsTerminal st \<longrightarrow> CanTransition\<^sup>*\<^sup>* st OperationCancelled)
   \<and> CanTransition\<^sup>*\<^sup>* OperationDraft OperationSucceeded
   \<and> (\<forall>st. CanTransition st OperationSucceeded \<longleftrightarrow> st = OperationVerifying)
   \<and> (\<forall>st to. CanDirectOperationTransition st to \<longrightarrow>
         CanTransition st to \<and> \<not> IsTerminal st \<and> \<not> IsTerminal to)"
proof (intro conjI allI impI)
  fix st
  show "CanTransition st OperationSucceeded \<longleftrightarrow> st = OperationVerifying"
    by (cases st) auto
  show "CanTransition\<^sup>*\<^sup>* OperationDraft OperationSucceeded"
    using queued_reachable queued_success by (rule rtranclp_trans)
qed (auto simp: no_exit_iff cancel_path direct_allowed dest: direct_not_terminal)

theorem state_machine_shape_witness:
  "CanTransition\<^sup>*\<^sup>* OperationFailed OperationCancelled
   \<and> (\<forall>to. \<not> CanTransition OperationRolledBack to)
   \<and> CanTransition OperationApproved OperationQueued"
proof -
  have "declared_state OperationFailed \<and> \<not> IsTerminal OperationFailed" by simp
  then have "CanTransition\<^sup>*\<^sup>* OperationFailed OperationCancelled"
    using state_machine_shape by blast
  moreover have "CanDirectOperationTransition OperationApproved OperationQueued" by simp
  then have "CanTransition OperationApproved OperationQueued"
    using state_machine_shape by blast
  ultimately show ?thesis by simp
qed

end
