(* ===== verification/Store.thy ===== *)
theory Store
  imports Model
begin

text \<open>
  The authority's state and the facilities every call uses: \<open>MemoryStore\<close> of
  \<open>internal/controlplane/memory_store.go\<close> with the maps of the modelled components, the clock and
  identifier source the store is created with, JSON encoding and digests, the append-only audit
  log and the transactional outbox. A call holds the store's mutex for its whole duration, so it
  is one function on the state; it returns its result or error together with the state.
\<close>

section \<open>What a call gets from outside\<close>

text \<open>The values the store hands to \<open>json.Marshal\<close>.\<close>

datatype gval =
    VOrganization Organization
  | VProject Project
  | VMembership OrganizationMembership
  | VServiceAccount ServiceAccount
  | VAPIToken APIToken
  | VTokenRotation "(string \<times> string) list"
  | VBlueprintRevision BlueprintRevision
  | VBlueprintRelease BlueprintRelease
  | VAssignment Assignment
  | VBlueprintOverlay BlueprintOverlay
  | VOverlayMaterial string string string BlueprintOverlayScope string "BlueprintOverlayChange list"
  | VCatalogTrustKey CatalogTrustKey
  | VCatalogRevision CatalogRevision
  | VCatalogRelease CatalogRelease
  | VCatalogSignature catalogSignatureEnvelope
  | VOperationRequest OperationRequest
  | VOperation Operation
  | VOperationStep OperationStep
  | VOperationStepTrace OperationStepTrace
  | VCompensationPlan string "CompensationPlanStep list"
  | VCompensationStep OperationCompensationStep
  | VEvidence EvidenceMetadata
  | VRecoveryCheckpoint RecoveryCheckpoint
  | VOIDCGroupMapping OIDCGroupMapping
  | VOIDCResolution string "string list" "string list" "string table" "string table"
  | VSecurityAuditEvent SecurityAuditEvent
  | VMCPTrustedClient MCPTrustedClient
  | VMCPDelegationGrant MCPDelegationGrant
  | VOwnerDesired string string int string string
  | VStrings "string list"

text \<open>
  The environment of one call. \<open>clock k\<close> is the k-th reading of the store's clock in the call,
  \<open>newid k p\<close> the identifier drawn at point k for the prefix p; \<open>sha256hex\<close> is SHA-256 in lower
  case hexadecimal, \<open>marshal\<close> is \<open>json.Marshal\<close> and \<open>ed25519_Verify\<close> takes the public key, the message
  and the signature.
\<close>

record env =
  clock :: "nat \<Rightarrow> int"
  newid :: "nat \<Rightarrow> string \<Rightarrow> string"
  sha256hex :: "string \<Rightarrow> string"
  marshal :: "gval \<Rightarrow> string"
  ed25519_Verify :: "string \<Rightarrow> string \<Rightarrow> string \<Rightarrow> bool"

text \<open>\<open>"sha256:" + hex.EncodeToString(sum[:])\<close>.\<close>

definition sha256_digest :: "env \<Rightarrow> string \<Rightarrow> string" where
  "sha256_digest e raw = ''sha256:'' @ sha256hex e raw"

text \<open>\<open>f().UTC().Truncate(time.Microsecond)\<close>.\<close>

definition nowUTC :: "env \<Rightarrow> nat \<Rightarrow> int" where
  "nowUTC e k = clock e k - clock e k mod 1000"

definition normalizeName :: "string \<Rightarrow> string" where
  "normalizeName s = ToLower (TrimSpace s)"

section \<open>The store\<close>

record MemoryStore =
  organizations :: "Organization table"
  organizationMemberships :: "OrganizationMembership table"
  oidcGroupMappings :: "OIDCGroupMapping table"
  securityAudit :: "SecurityAuditEvent list"
  serviceAccounts :: "ServiceAccount table"
  apiTokens :: "APIToken table"
  mcpTrustedClients :: "MCPTrustedClient table"
  mcpDelegationGrants :: "MCPDelegationGrant table"
  projects :: "Project table"
  blueprintOverlays :: "BlueprintOverlay table"
  revisions :: "BlueprintRevision table"
  blueprintReleases :: "BlueprintRelease table"
  catalogTrustKeys :: "CatalogTrustKey table"
  catalogRevisions :: "CatalogRevision table"
  catalogReleases :: "CatalogRelease table"
  assignments :: "Assignment table"
  operations :: "Operation table"
  steps :: "OperationStep table"
  stepTraces :: "OperationStepTrace table"
  compensationSteps :: "OperationCompensationStep table"
  outbox :: "OutboxEvent table"
  audit :: "AuditEvent list"
  evidence :: "EvidenceMetadata table"
  evidencePayloads :: "string table"
  idempotency :: "string table"
  managedClusters :: "ManagedCluster table"
  recoveryCheckpoints :: "RecoveryCheckpoint table"
  operationRequestPayloads :: "OperationRequestPayload table"

definition NewMemoryStoreWith :: MemoryStore where
  "NewMemoryStoreWith =
     \<lparr>organizations = [], organizationMemberships = [], oidcGroupMappings = [], securityAudit = [],
      serviceAccounts = [], apiTokens = [], mcpTrustedClients = [], mcpDelegationGrants = [],
      projects = [], blueprintOverlays = [], revisions = [], blueprintReleases = [], catalogTrustKeys = [],
      catalogRevisions = [], catalogReleases = [], assignments = [], operations = [],
      steps = [], stepTraces = [], compensationSteps = [], outbox = [], audit = [],
      evidence = [], evidencePayloads = [], idempotency = [], managedClusters = [],
      recoveryCheckpoints = [], operationRequestPayloads = []\<rparr>"

text \<open>The result of a call: its value or error, and the store it leaves.\<close>

type_synonym 'a call = "'a res \<times> MemoryStore"

section \<open>Audit log and outbox\<close>

definition appendAuditLocked ::
  "env \<Rightarrow> nat \<Rightarrow> string \<Rightarrow> string \<Rightarrow> string \<Rightarrow> string \<Rightarrow> int \<Rightarrow> (string \<times> metaval) list \<Rightarrow>
   MemoryStore \<Rightarrow> MemoryStore" where
  "appendAuditLocked e k actor action resourceType resourceID revision metadata s =
     s\<lparr>audit := audit s @
        [\<lparr>aud_ID = newid e k ''aud'', aud_OccurredAt = nowUTC e k, aud_ActorID = actor,
          aud_Action = action, aud_ResourceType = resourceType, aud_ResourceID = resourceID,
          aud_Revision = revision, aud_RequestID = '''', aud_Metadata = metadata\<rparr>]\<rparr>"

definition appendOutboxLocked ::
  "env \<Rightarrow> nat \<Rightarrow> string \<Rightarrow> string \<Rightarrow> string \<Rightarrow> gval \<Rightarrow> MemoryStore \<Rightarrow> MemoryStore" where
  "appendOutboxLocked e k aggregateType aggregateID eventType payload s =
     (let raw = marshal e payload;
          now = nowUTC e k;
          ev = \<lparr>ID = newid e k ''evt'', Revision = 1, CreatedAt = now, UpdatedAt = now,
                evt_AggregateType = aggregateType, evt_AggregateID = aggregateID,
                evt_EventType = eventType, evt_Payload = raw, evt_AvailableAt = now,
                evt_ClaimedBy = '''', evt_ClaimedUntil = None, evt_Attempt = 0,
                evt_PublishedAt = None\<rparr>
      in s\<lparr>outbox := put (ID ev) ev (outbox s)\<rparr>)"

text \<open>
  The two writers change nothing but their own log, and the outbox only gains an unpublished and
  unclaimed event.
\<close>

lemma appendAuditLocked_frame [simp]:
  "organizations (appendAuditLocked e k a b c d r m s) = organizations s"
  "organizationMemberships (appendAuditLocked e k a b c d r m s) = organizationMemberships s"
  "oidcGroupMappings (appendAuditLocked e k a b c d r m s) = oidcGroupMappings s"
  "securityAudit (appendAuditLocked e k a b c d r m s) = securityAudit s"
  "serviceAccounts (appendAuditLocked e k a b c d r m s) = serviceAccounts s"
  "apiTokens (appendAuditLocked e k a b c d r m s) = apiTokens s"
  "mcpTrustedClients (appendAuditLocked e k a b c d r m s) = mcpTrustedClients s"
  "mcpDelegationGrants (appendAuditLocked e k a b c d r m s) = mcpDelegationGrants s"
  "projects (appendAuditLocked e k a b c d r m s) = projects s"
  "revisions (appendAuditLocked e k a b c d r m s) = revisions s"
  "blueprintReleases (appendAuditLocked e k a b c d r m s) = blueprintReleases s"
  "blueprintOverlays (appendAuditLocked e k a b c d r m s) = blueprintOverlays s"
  "catalogTrustKeys (appendAuditLocked e k a b c d r m s) = catalogTrustKeys s"
  "catalogRevisions (appendAuditLocked e k a b c d r m s) = catalogRevisions s"
  "catalogReleases (appendAuditLocked e k a b c d r m s) = catalogReleases s"
  "assignments (appendAuditLocked e k a b c d r m s) = assignments s"
  "operations (appendAuditLocked e k a b c d r m s) = operations s"
  "steps (appendAuditLocked e k a b c d r m s) = steps s"
  "stepTraces (appendAuditLocked e k a b c d r m s) = stepTraces s"
  "compensationSteps (appendAuditLocked e k a b c d r m s) = compensationSteps s"
  "outbox (appendAuditLocked e k a b c d r m s) = outbox s"
  "evidence (appendAuditLocked e k a b c d r m s) = evidence s"
  "evidencePayloads (appendAuditLocked e k a b c d r m s) = evidencePayloads s"
  "idempotency (appendAuditLocked e k a b c d r m s) = idempotency s"
  "managedClusters (appendAuditLocked e k a b c d r m s) = managedClusters s"
  "recoveryCheckpoints (appendAuditLocked e k a b c d r m s) = recoveryCheckpoints s"
  "operationRequestPayloads (appendAuditLocked e k a b c d r m s) = operationRequestPayloads s"
  by (simp_all add: appendAuditLocked_def)

lemma appendOutboxLocked_frame [simp]:
  "organizations (appendOutboxLocked e k a b c p s) = organizations s"
  "organizationMemberships (appendOutboxLocked e k a b c p s) = organizationMemberships s"
  "oidcGroupMappings (appendOutboxLocked e k a b c p s) = oidcGroupMappings s"
  "securityAudit (appendOutboxLocked e k a b c p s) = securityAudit s"
  "serviceAccounts (appendOutboxLocked e k a b c p s) = serviceAccounts s"
  "apiTokens (appendOutboxLocked e k a b c p s) = apiTokens s"
  "mcpTrustedClients (appendOutboxLocked e k a b c p s) = mcpTrustedClients s"
  "mcpDelegationGrants (appendOutboxLocked e k a b c p s) = mcpDelegationGrants s"
  "projects (appendOutboxLocked e k a b c p s) = projects s"
  "revisions (appendOutboxLocked e k a b c p s) = revisions s"
  "blueprintReleases (appendOutboxLocked e k a b c p s) = blueprintReleases s"
  "blueprintOverlays (appendOutboxLocked e k a b c p s) = blueprintOverlays s"
  "catalogTrustKeys (appendOutboxLocked e k a b c p s) = catalogTrustKeys s"
  "catalogRevisions (appendOutboxLocked e k a b c p s) = catalogRevisions s"
  "catalogReleases (appendOutboxLocked e k a b c p s) = catalogReleases s"
  "assignments (appendOutboxLocked e k a b c p s) = assignments s"
  "operations (appendOutboxLocked e k a b c p s) = operations s"
  "steps (appendOutboxLocked e k a b c p s) = steps s"
  "stepTraces (appendOutboxLocked e k a b c p s) = stepTraces s"
  "compensationSteps (appendOutboxLocked e k a b c p s) = compensationSteps s"
  "audit (appendOutboxLocked e k a b c p s) = audit s"
  "evidence (appendOutboxLocked e k a b c p s) = evidence s"
  "evidencePayloads (appendOutboxLocked e k a b c p s) = evidencePayloads s"
  "idempotency (appendOutboxLocked e k a b c p s) = idempotency s"
  "managedClusters (appendOutboxLocked e k a b c p s) = managedClusters s"
  "recoveryCheckpoints (appendOutboxLocked e k a b c p s) = recoveryCheckpoints s"
  "operationRequestPayloads (appendOutboxLocked e k a b c p s) = operationRequestPayloads s"
  by (simp_all add: appendOutboxLocked_def Let_def)

text \<open>Appending to the audit log keeps what is there.\<close>

definition audit_extends :: "MemoryStore \<Rightarrow> MemoryStore \<Rightarrow> bool" where
  "audit_extends s s' = (\<exists>new. audit s' = audit s @ new)"

lemma audit_appendAuditLocked:
  "audit (appendAuditLocked e k a b c d r m s) = audit s @
     [\<lparr>aud_ID = newid e k ''aud'', aud_OccurredAt = nowUTC e k, aud_ActorID = a,
       aud_Action = b, aud_ResourceType = c, aud_ResourceID = d,
       aud_Revision = r, aud_RequestID = '''', aud_Metadata = m\<rparr>]"
  by (simp add: appendAuditLocked_def)

lemma audit_extends_refl [simp, intro]: "audit_extends s s"
  by (simp add: audit_extends_def)

lemma audit_extends_trans: "audit_extends s t \<Longrightarrow> audit_extends t u \<Longrightarrow> audit_extends s u"
  by (auto simp: audit_extends_def)

section \<open>Calls within a call\<close>

text \<open>
  Where a handler calls other handlers, each of them reads the clock and draws identifiers after
  the ones before: it gets the rest of the environment's readings.
\<close>

definition later :: "nat \<Rightarrow> env \<Rightarrow> env" where
  "later n e = e\<lparr>clock := (\<lambda>k. clock e (n + k)), newid := (\<lambda>k. newid e (n + k))\<rparr>"

lemma later_simps [simp]:
  "clock (later n e) k = clock e (n + k)" "newid (later n e) k = newid e (n + k)"
  "sha256hex (later n e) = sha256hex e" "marshal (later n e) = marshal e"
  "ed25519_Verify (later n e) = ed25519_Verify e"
  "nowUTC (later n e) k = nowUTC e (n + k)" "sha256_digest (later n e) raw = sha256_digest e raw"
  by (simp_all add: later_def nowUTC_def sha256_digest_def)

end
