(* ===== verification/RetryPolicy.thy ===== *)
theory RetryPolicy
  imports StateMachine Store
begin

text \<open>
  The pure part of \<open>internal/controlplane/operation_retry.go\<close>: operation classes and their retry
  policies, the worker fence, step replay, failure classes, the retry back-off and the recovery
  precondition of destructive operations.
\<close>

fun NormalizeOperationClass :: "OperationClass \<Rightarrow> OperationClass res" where
  "NormalizeOperationClass OperationClassUnset = Inr OperationClassMutating"
| "NormalizeOperationClass OperationClassReadOnly = Inr OperationClassReadOnly"
| "NormalizeOperationClass OperationClassMutating = Inr OperationClassMutating"
| "NormalizeOperationClass OperationClassDestructive = Inr OperationClassDestructive"
| "NormalizeOperationClass (OperationClassOther x) = Inl ErrValidation"

fun RetryPolicyForOperationClass :: "OperationClass \<Rightarrow> OperationRetryPolicy" where
  "RetryPolicyForOperationClass OperationClassReadOnly =
     \<lparr>MaxAttempts = 5, InitialBackoffSeconds = 2, MaxBackoffSeconds = 30,
      RetryableClasses = [OperationFailureTransientNetwork, OperationFailureRateLimited,
        OperationFailureDependencyUnavailable, OperationFailureConflict]\<rparr>"
| "RetryPolicyForOperationClass OperationClassDestructive =
     \<lparr>MaxAttempts = 2, InitialBackoffSeconds = 10, MaxBackoffSeconds = 120,
      RetryableClasses = [OperationFailureTransientNetwork, OperationFailureRateLimited,
        OperationFailureDependencyUnavailable]\<rparr>"
| "RetryPolicyForOperationClass v =
     \<lparr>MaxAttempts = 3, InitialBackoffSeconds = 5, MaxBackoffSeconds = 60,
      RetryableClasses = [OperationFailureTransientNetwork, OperationFailureRateLimited,
        OperationFailureDependencyUnavailable]\<rparr>"

definition OperationLeaseActive :: "Operation \<Rightarrow> string \<Rightarrow> int \<Rightarrow> int \<Rightarrow> bool" where
  "OperationLeaseActive op worker fence at =
     (let worker = TrimSpace worker in
      worker \<noteq> '''' \<and> 0 < fence \<and> TrimSpace (op_LeaseOwner op) = worker \<and>
      op_FenceToken op = fence \<and> after (op_LeaseExpiresAt op) at)"

definition OperationStepReplayCompatible :: "OperationStep \<Rightarrow> OperationStep \<Rightarrow> bool" where
  "OperationStepReplayCompatible existing requested =
     (stp_OperationID existing = stp_OperationID requested \<and>
      stp_Attempt existing = stp_Attempt requested \<and>
      stp_StepKey existing = stp_StepKey requested \<and>
      stp_State existing = stp_State requested \<and>
      TrimSpace (stp_LastError existing) = TrimSpace (stp_LastError requested))"

definition IsRetryableOperationFailure :: "OperationRetryPolicy \<Rightarrow> OperationFailureClass \<Rightarrow> bool" where
  "IsRetryableOperationFailure policy class = list_ex (\<lambda>candidate. candidate = class) (RetryableClasses policy)"

fun ValidOperationFailureClass :: "OperationFailureClass \<Rightarrow> bool" where
  "ValidOperationFailureClass OperationFailureTransientNetwork = True"
| "ValidOperationFailureClass OperationFailureRateLimited = True"
| "ValidOperationFailureClass OperationFailureDependencyUnavailable = True"
| "ValidOperationFailureClass OperationFailureConflict = True"
| "ValidOperationFailureClass OperationFailurePermanent = True"
| "ValidOperationFailureClass OperationFailureUnknown = True"
| "ValidOperationFailureClass v = False"

text \<open>
  The doubling loop of \<open>OperationBackoff\<close>: the number of rounds is \<open>attempt - 1\<close>, the break is
  the early result, and the multiplication is Go's on 64 bits.
\<close>

fun backoff_loop :: "nat \<Rightarrow> int \<Rightarrow> int \<Rightarrow> int" where
  "backoff_loop 0 mx seconds = seconds"
| "backoff_loop (Suc n) mx seconds =
     (if seconds \<ge> mx then mx else backoff_loop n mx (wrap64 (seconds * 2)))"

definition OperationBackoff :: "OperationRetryPolicy \<Rightarrow> int \<Rightarrow> int \<Rightarrow> int" where
  "OperationBackoff policy attempt retryAfter =
     (let mx = MaxBackoffSeconds policy;
          seconds = (if InitialBackoffSeconds policy < 1 then 1 else InitialBackoffSeconds policy);
          seconds = backoff_loop (nat (attempt - 1)) mx seconds;
          seconds = (if 0 < mx \<and> mx < seconds then mx else seconds);
          seconds = (if seconds < retryAfter
                     then (if 0 < mx \<and> mx < retryAfter then mx else retryAfter) else seconds)
      in wrap64 (seconds * Second))"

fun first_cluster_prefix :: "string \<Rightarrow> string list \<Rightarrow> string" where
  "first_cluster_prefix target [] = ''''"
| "first_cluster_prefix target (pre # ps) =
     (if HasPrefix target pre then TrimSpace (TrimPrefix target pre)
      else first_cluster_prefix target ps)"

definition OperationTargetClusterID :: "string \<Rightarrow> string" where
  "OperationTargetClusterID target = first_cluster_prefix (TrimSpace target) [''cluster:'', ''cluster/'']"

definition validateDestructiveRecoveryLocked :: "MemoryStore \<Rightarrow> Operation \<Rightarrow> int \<Rightarrow> unit res" where
  "validateDestructiveRecoveryLocked s op at =
     (if op_Class op \<noteq> OperationClassDestructive then Inr ()
      else let clusterID = OperationTargetClusterID (op_TargetRef op) in
        if clusterID = '''' then Inl ErrPrerequisite
        else (case get (recoveryCheckpoints s) (op_RecoveryCheckpointID op) of
            None \<Rightarrow> Inl ErrPrerequisite
          | Some checkpoint \<Rightarrow>
              if rcp_ProjectID checkpoint \<noteq> op_ProjectID op \<or> rcp_ClusterID checkpoint \<noteq> clusterID
              then Inl ErrPrerequisite
              else if rcp_State checkpoint \<noteq> RecoveryCheckpointVerified \<or> \<not> at < rcp_ExpiresAt checkpoint
              then Inl ErrPrerequisite
              else (case get (managedClusters s) clusterID of
                  None \<Rightarrow> Inl ErrPrerequisite
                | Some cluster \<Rightarrow>
                    if TrimSpace (mc_InventoryDigest cluster) = '''' \<or>
                       mc_InventoryDigest cluster \<noteq> rcp_InventoryDigest checkpoint
                    then Inl ErrPrerequisite else Inr ())))"

section \<open>The back-off has a closed form\<close>

lemma wrap64_small: "\<bar>i\<bar> < 2 ^ 63 \<Longrightarrow> wrap64 i = i"
  by (rule wrap64_id) auto

lemma backoff_loop_closed:
  assumes "0 < seconds" "seconds < 2 * mx" "2 * mx \<le> 2 ^ 62"
  shows "min mx (backoff_loop n mx seconds) = min mx (seconds * 2 ^ n)"
  using assms
proof (induction n arbitrary: seconds)
  case 0
  then show ?case by simp
next
  case (Suc n)
  show ?case
  proof (cases "mx \<le> seconds")
    case True
    have "seconds * 1 \<le> seconds * 2 ^ Suc n"
      using Suc.prems(1) by (intro mult_left_mono one_le_power) auto
    then show ?thesis using True by simp
  next
    case False
    then have "\<bar>seconds * 2\<bar> < 2 ^ 63" using Suc.prems by simp
    then have "wrap64 (seconds * 2) = seconds * 2" by (rule wrap64_small)
    then show ?thesis
      using False Suc.IH [of "seconds * 2"] Suc.prems by (simp add: mult.assoc)
  qed
qed

lemma clip_eq:
  fixes x y r mx :: int
  assumes "min mx x = min mx y" "0 < mx"
  shows "(if (if 0 < mx \<and> mx < x then mx else x) < r
          then (if 0 < mx \<and> mx < r then mx else r)
          else (if 0 < mx \<and> mx < x then mx else x)) = min mx (max y r)"
  using assms by (auto simp: min_def max_def split: if_splits)

lemma backoff_closed:
  assumes "1 \<le> InitialBackoffSeconds p" "InitialBackoffSeconds p \<le> MaxBackoffSeconds p"
    and "MaxBackoffSeconds p \<le> 2 ^ 32"
  shows "OperationBackoff p attempt retryAfter =
    Second * min (MaxBackoffSeconds p)
      (max (InitialBackoffSeconds p * 2 ^ nat (attempt - 1)) retryAfter)"
proof -
  define mx y where "mx = MaxBackoffSeconds p" and "y = InitialBackoffSeconds p * 2 ^ nat (attempt - 1)"
  have loop: "min mx (backoff_loop (nat (attempt - 1)) mx (InitialBackoffSeconds p)) = min mx y"
    unfolding mx_def y_def by (rule backoff_loop_closed) (use assms in auto)
  have mx: "0 < mx" "mx \<le> 2 ^ 32" using assms unfolding mx_def by auto
  have "0 < y" using assms unfolding y_def by simp
  then have "\<bar>min mx (max y retryAfter) * Second\<bar> < 2 ^ 63"
    using mx by (auto simp: Second_def min_def max_def)
  moreover have "\<not> InitialBackoffSeconds p < 1" using assms(1) by simp
  ultimately show ?thesis
    by (simp only: OperationBackoff_def Let_def mx_def [symmetric] y_def [symmetric] if_False
        clip_eq [OF loop mx(1)] wrap64_small mult.commute)
qed

lemma class_policy_bounds:
  "1 \<le> InitialBackoffSeconds (RetryPolicyForOperationClass c)"
  "InitialBackoffSeconds (RetryPolicyForOperationClass c) \<le> MaxBackoffSeconds (RetryPolicyForOperationClass c)"
  "MaxBackoffSeconds (RetryPolicyForOperationClass c) \<le> 120"
  "2 \<le> MaxAttempts (RetryPolicyForOperationClass c)"
  "MaxAttempts (RetryPolicyForOperationClass c) \<le> 5"
  by (cases c; simp)+

text \<open>
  C13: For the retry policy of every operation class the 64-bit doubling loop of
  \<open>OperationBackoff\<close> computes exponential back-off exactly, for any attempt number and any
  requested delay: initial * 2^(attempt-1) seconds, at least the requested delay, capped at the
  policy's maximum. No multiplication of the loop or of the conversion to nanoseconds wraps, so
  the delay stays between the policy's initial and maximum back-off.
\<close>
theorem OperationBackoff_exponential:
  fixes attempt retryAfter :: int and c :: OperationClass
  defines "p \<equiv> RetryPolicyForOperationClass c"
  shows "OperationBackoff p attempt retryAfter =
      Second * min (MaxBackoffSeconds p) (max (InitialBackoffSeconds p * 2 ^ nat (attempt - 1)) retryAfter)
    \<and> Second * InitialBackoffSeconds p \<le> OperationBackoff p attempt retryAfter
    \<and> OperationBackoff p attempt retryAfter \<le> Second * MaxBackoffSeconds p"
proof -
  have b: "1 \<le> InitialBackoffSeconds p" "InitialBackoffSeconds p \<le> MaxBackoffSeconds p"
    "MaxBackoffSeconds p \<le> 120"
    using class_policy_bounds unfolding p_def by auto
  then have eq: "OperationBackoff p attempt retryAfter =
      Second * min (MaxBackoffSeconds p) (max (InitialBackoffSeconds p * 2 ^ nat (attempt - 1)) retryAfter)"
    by (intro backoff_closed) auto
  have "InitialBackoffSeconds p * 1 \<le> InitialBackoffSeconds p * 2 ^ nat (attempt - 1)"
    using b by (intro mult_left_mono one_le_power) auto
  then have "InitialBackoffSeconds p \<le> min (MaxBackoffSeconds p)
      (max (InitialBackoffSeconds p * 2 ^ nat (attempt - 1)) retryAfter)"
    using b by (simp add: max.coboundedI1)
  then show ?thesis
    unfolding eq by (simp add: Second_def)
qed

section \<open>The fence\<close>

lemma OperationLeaseActive_iff:
  "OperationLeaseActive op worker fence at \<longleftrightarrow>
     TrimSpace worker \<noteq> '''' \<and> 0 < fence \<and> TrimSpace (op_LeaseOwner op) = TrimSpace worker \<and>
     op_FenceToken op = fence \<and> (\<exists>x. op_LeaseExpiresAt op = Some x \<and> at < x)"
  by (simp add: OperationLeaseActive_def Let_def after_Some)

lemma lease_active_fence: "OperationLeaseActive op worker fence at \<Longrightarrow> op_FenceToken op = fence"
  by (simp add: OperationLeaseActive_iff)

lemma retryable_mem: "IsRetryableOperationFailure p c \<longleftrightarrow> c \<in> set (RetryableClasses p)"
  by (auto simp: IsRetryableOperationFailure_def list_ex_iff)

text \<open>What the recovery precondition of a destructive operation promises.\<close>

lemma recovery_valid_iff:
  "validateDestructiveRecoveryLocked s op at = Inr u \<longleftrightarrow>
   (op_Class op = OperationClassDestructive \<longrightarrow>
     (\<exists>cp mc. OperationTargetClusterID (op_TargetRef op) \<noteq> '''' \<and>
        get (recoveryCheckpoints s) (op_RecoveryCheckpointID op) = Some cp \<and>
        get (managedClusters s) (OperationTargetClusterID (op_TargetRef op)) = Some mc \<and>
        rcp_ProjectID cp = op_ProjectID op \<and>
        rcp_ClusterID cp = OperationTargetClusterID (op_TargetRef op) \<and>
        rcp_State cp = RecoveryCheckpointVerified \<and> at < rcp_ExpiresAt cp \<and>
        TrimSpace (mc_InventoryDigest mc) \<noteq> '''' \<and>
        mc_InventoryDigest mc = rcp_InventoryDigest cp))"
  by (auto simp: validateDestructiveRecoveryLocked_def Let_def split: option.splits if_splits)

lemma recovery_invalid:
  "validateDestructiveRecoveryLocked s op at = Inl x \<Longrightarrow> x = ErrPrerequisite"
  by (auto simp: validateDestructiveRecoveryLocked_def Let_def split: option.splits if_splits)

lemma recovery_frame:
  "recoveryCheckpoints s' = recoveryCheckpoints s \<Longrightarrow> managedClusters s' = managedClusters s \<Longrightarrow>
   validateDestructiveRecoveryLocked s' op at = validateDestructiveRecoveryLocked s op at"
  by (simp add: validateDestructiveRecoveryLocked_def Let_def cong: if_cong option.case_cong)

end
