(* ===== verification/Operations.thy ===== *)
theory Operations
  imports RetryPolicy
begin

text \<open>
  Durable operations of \<open>internal/controlplane/memory_store.go\<close>: idempotent creation, the generic
  optimistic transition, the worker lease with its fence token, and the steps of an attempt.
\<close>

section \<open>Writing an operation\<close>

text \<open>
  The three statements that end every operation handler: \<open>s.operations[id] = op\<close>, the audit
  event and the outbox event.
\<close>

definition saveOperation ::
  "env \<Rightarrow> nat \<Rightarrow> string \<Rightarrow> Operation \<Rightarrow> string \<Rightarrow> string \<Rightarrow> (string \<times> metaval) list \<Rightarrow> string \<Rightarrow>
   MemoryStore \<Rightarrow> MemoryStore" where
  "saveOperation e k i op actor action metadata event s =
     (let s = s\<lparr>operations := put i op (operations s)\<rparr>;
          s = appendAuditLocked e k actor action ''operation'' i (Revision op) metadata s
      in appendOutboxLocked e (Suc k) ''operation'' i event (VOperation op) s)"

lemma saveOperation_frame [simp]:
  "organizations (saveOperation e k i op a b m v s) = organizations s"
  "organizationMemberships (saveOperation e k i op a b m v s) = organizationMemberships s"
  "oidcGroupMappings (saveOperation e k i op a b m v s) = oidcGroupMappings s"
  "securityAudit (saveOperation e k i op a b m v s) = securityAudit s"
  "serviceAccounts (saveOperation e k i op a b m v s) = serviceAccounts s"
  "apiTokens (saveOperation e k i op a b m v s) = apiTokens s"
  "mcpTrustedClients (saveOperation e k i op a b m v s) = mcpTrustedClients s"
  "mcpDelegationGrants (saveOperation e k i op a b m v s) = mcpDelegationGrants s"
  "projects (saveOperation e k i op a b m v s) = projects s"
  "revisions (saveOperation e k i op a b m v s) = revisions s"
  "blueprintReleases (saveOperation e k i op a b m v s) = blueprintReleases s"
  "assignments (saveOperation e k i op a b m v s) = assignments s"
  "operations (saveOperation e k i op a b m v s) = put i op (operations s)"
  "steps (saveOperation e k i op a b m v s) = steps s"
  "stepTraces (saveOperation e k i op a b m v s) = stepTraces s"
  "compensationSteps (saveOperation e k i op a b m v s) = compensationSteps s"
  "evidence (saveOperation e k i op a b m v s) = evidence s"
  "evidencePayloads (saveOperation e k i op a b m v s) = evidencePayloads s"
  "idempotency (saveOperation e k i op a b m v s) = idempotency s"
  "managedClusters (saveOperation e k i op a b m v s) = managedClusters s"
  "recoveryCheckpoints (saveOperation e k i op a b m v s) = recoveryCheckpoints s"
  "operationRequestPayloads (saveOperation e k i op a b m v s) = operationRequestPayloads s"
  by (simp_all add: saveOperation_def Let_def)

lemma saveOperation_audit:
  "audit (saveOperation e k i op a b m v s) = audit s @
     [\<lparr>aud_ID = newid e k ''aud'', aud_OccurredAt = nowUTC e k, aud_ActorID = a,
       aud_Action = b, aud_ResourceType = ''operation'', aud_ResourceID = i,
       aud_Revision = Revision op, aud_RequestID = '''', aud_Metadata = m\<rparr>]"
  by (simp add: saveOperation_def Let_def audit_appendAuditLocked)

lemma saveOperation_audit_extends [simp]: "audit_extends s (saveOperation e k i op a b m v s)"
  by (simp add: audit_extends_def saveOperation_audit)

section \<open>Creation\<close>

definition operationDigest :: "env \<Rightarrow> OperationRequest \<Rightarrow> string" where
  "operationDigest e r = sha256_digest e (marshal e (VOperationRequest r))"

text \<open>Go's zero value of the struct.\<close>

definition zeroOperation :: Operation where
  "zeroOperation =
     \<lparr>ID = '''', Revision = 0, CreatedAt = 0, UpdatedAt = 0,
      op_ProjectID = '''', op_Kind = '''', op_TargetRef = '''', op_DesiredRevision = '''',
      op_State = OperationOther '''', op_Risk = '''', op_Class = OperationClassUnset,
      op_RetryPolicy = \<lparr>MaxAttempts = 0, InitialBackoffSeconds = 0, MaxBackoffSeconds = 0, RetryableClasses = []\<rparr>,
      op_Attempt = 0, op_NextAttemptAt = None, op_LastFailureClass = OperationFailureUnset,
      op_RetryExhausted = False, op_RecoveryCheckpointID = '''', op_RecoveryEvidenceDigest = '''',
      op_RecoveryInventoryDigest = '''', op_CancelRequestedBy = '''', op_CancelRequestedAt = None,
      op_CancelReason = '''', op_IdempotencyKey = '''', op_RequestDigest = '''', op_ActorID = '''',
      op_LeaseOwner = '''', op_LeaseExpiresAt = None, op_FenceToken = 0, op_LastError = '''',
      op_CompensationPlanDigest = '''', op_CompensationStepCount = 0, op_CompensationCursor = 0,
      op_CompensationStartedAt = None, op_CompensationFinishedAt = None,
      op_CompensationFailureStep = ''''\<rparr>"

definition newOperation ::
  "string \<Rightarrow> int \<Rightarrow> OperationRequest \<Rightarrow> OperationClass \<Rightarrow> string \<Rightarrow> string \<Rightarrow> string \<Rightarrow> Operation" where
  "newOperation i now r class key digest actor =
     stamp i now (zeroOperation\<lparr>
       op_ProjectID := req_ProjectID r, op_Kind := req_Kind r, op_TargetRef := req_TargetRef r,
       op_DesiredRevision := req_DesiredRevision r, op_State := OperationDraft,
       op_Risk := req_Risk r, op_Class := class,
       op_RetryPolicy := RetryPolicyForOperationClass class,
       op_RecoveryCheckpointID := TrimSpace (req_RecoveryCheckpointID r),
       op_IdempotencyKey := key, op_RequestDigest := digest, op_ActorID := actor\<rparr>)"

text \<open>The recovery binding a destructive operation gets at creation.\<close>

definition bindRecoveryCheckpoint :: "MemoryStore \<Rightarrow> Operation \<Rightarrow> int \<Rightarrow> Operation res" where
  "bindRecoveryCheckpoint s op now =
     (if op_Class op \<noteq> OperationClassDestructive then Inr op
      else (case get (recoveryCheckpoints s) (op_RecoveryCheckpointID op) of
          None \<Rightarrow> Inl ErrPrerequisite
        | Some checkpoint \<Rightarrow>
            let op = op\<lparr>op_RecoveryEvidenceDigest := rcp_EvidenceDigest checkpoint,
                        op_RecoveryInventoryDigest := rcp_InventoryDigest checkpoint\<rparr> in
            (case validateDestructiveRecoveryLocked s op now of
                Inl x \<Rightarrow> Inl x
              | Inr u \<Rightarrow> Inr op)))"

text \<open>The guards of \<open>createOperationLocked\<close>; the result is the request with its class normalised.\<close>

definition admitOperationRequest ::
  "OperationRequest \<Rightarrow> string \<Rightarrow> string \<Rightarrow> MemoryStore \<Rightarrow> OperationRequest res" where
  "admitOperationRequest r key actor s =
     (if TrimSpace key = '''' \<or> length key > 200 then Inl ErrValidation
      else if TrimSpace actor = '''' then Inl ErrValidation
      else if req_Risk r \<notin> {''low'', ''medium'', ''high'', ''critical''} then Inl ErrValidation
      else (case NormalizeOperationClass (req_Class r) of
          Inl x \<Rightarrow> Inl x
        | Inr class \<Rightarrow>
            let r = r\<lparr>req_Class := class\<rparr> in
            if get (projects s) (req_ProjectID r) = None then Inl ErrNotFound
            else if req_Kind r = '''' \<or> req_TargetRef r = '''' \<or> req_DesiredRevision r = ''''
            then Inl ErrValidation
            else Inr r))"

definition createOperationLocked ::
  "env \<Rightarrow> OperationRequest \<Rightarrow> string \<Rightarrow> string \<Rightarrow> string \<Rightarrow> MemoryStore \<Rightarrow> (Operation \<times> bool) call" where
  "createOperationLocked e r key actor requestID s =
     (case admitOperationRequest r key actor s of
        Inl x \<Rightarrow> (Inl x, s)
      | Inr r \<Rightarrow>
          let digest = operationDigest e r; scope = req_ProjectID r @ '':'' @ key in
          (case get (idempotency s) scope of
              Some i \<Rightarrow>
                let op = (case get (operations s) i of None \<Rightarrow> zeroOperation | Some op \<Rightarrow> op) in
                if op_RequestDigest op \<noteq> digest then (Inl ErrIdempotencyConflict, s)
                else (Inr (op, True), s)
            | None \<Rightarrow>
                let now = nowUTC e 0;
                    op = newOperation (newid e 0 ''op'') now r (req_Class r) key digest actor in
                (case bindRecoveryCheckpoint s op now of
                    Inl x \<Rightarrow> (Inl x, s)
                  | Inr op \<Rightarrow>
                      let s' = s\<lparr>idempotency := put scope (ID op) (idempotency s)\<rparr> in
                      (Inr (op, False),
                       saveOperation e 1 (ID op) op actor ''operation.created''
                         [(''requestId'', MStr requestID), (''state'', MNamed (OperationState_str (op_State op)))]
                         ''operation.created'' s'))))"

definition CreateOperation ::
  "env \<Rightarrow> OperationRequest \<Rightarrow> string \<Rightarrow> string \<Rightarrow> string \<Rightarrow> MemoryStore \<Rightarrow> (Operation \<times> bool) call" where
  "CreateOperation e r key actor requestID s = createOperationLocked e r key actor requestID s"

definition GetOperation :: "string \<Rightarrow> MemoryStore \<Rightarrow> Operation res" where
  "GetOperation i s = (case get (operations s) i of None \<Rightarrow> Inl ErrNotFound | Some v \<Rightarrow> Inr v)"

definition ListOperations :: "string \<Rightarrow> MemoryStore \<Rightarrow> Operation list" where
  "ListOperations projectID s =
     sort_by (less_on2 CreatedAt ID)
       (filter (\<lambda>v. projectID = '''' \<or> op_ProjectID v = projectID) (vals (operations s)))"

section \<open>The generic transition\<close>

definition transitionOperationLocked ::
  "env \<Rightarrow> string \<Rightarrow> int \<Rightarrow> OperationState \<Rightarrow> string \<Rightarrow> string \<Rightarrow> MemoryStore \<Rightarrow> Operation call" where
  "transitionOperationLocked e i expected to lastError actor s =
     (case get (operations s) i of
        None \<Rightarrow> (Inl ErrNotFound, s)
      | Some op \<Rightarrow>
          if Revision op \<noteq> expected then (Inl ErrConflict, s)
          else if \<not> CanTransition (op_State op) to then (Inl ErrInvalidTransition, s)
          else if \<not> CanDirectOperationTransition (op_State op) to then (Inl ErrPrerequisite, s)
          else if to = OperationRollingBack then (Inl ErrPrerequisite, s)
          else if op_State op = OperationFailed \<and> to = OperationQueued \<and> 0 < op_Attempt op
          then (Inl ErrPrerequisite, s)
          else
            let op = touch (nowUTC e 0) (op\<lparr>op_State := to, op_LastError := lastError\<rparr>);
                op = (if IsTerminal to then op\<lparr>op_LeaseOwner := '''', op_LeaseExpiresAt := None\<rparr> else op)
            in (Inr op,
                saveOperation e 1 i op actor ''operation.transitioned''
                  [(''state'', MNamed (OperationState_str to))] ''operation.transitioned'' s))"

definition TransitionOperation ::
  "env \<Rightarrow> string \<Rightarrow> int \<Rightarrow> OperationState \<Rightarrow> string \<Rightarrow> string \<Rightarrow> MemoryStore \<Rightarrow> Operation call" where
  "TransitionOperation e i expected to lastError actor s =
     transitionOperationLocked e i expected to lastError actor s"

section \<open>Leases and fence tokens\<close>

text \<open>The first half of \<open>ClaimOperation\<close>: a due retry goes back to the queue, and is stored.\<close>

definition requeueDueRetry ::
  "env \<Rightarrow> string \<Rightarrow> Operation \<Rightarrow> string \<Rightarrow> int \<Rightarrow> MemoryStore \<Rightarrow> Operation call" where
  "requeueDueRetry e i op worker at s =
     (if op_State op \<noteq> OperationRetryWait then (Inr op, s)
      else if op_NextAttemptAt op = None \<or> after (op_NextAttemptAt op) at then (Inl ErrNotClaimable, s)
      else
        let op = touch (nowUTC e 0) (op\<lparr>op_State := OperationQueued, op_NextAttemptAt := None\<rparr>)
        in (Inr op,
            saveOperation e 1 i op worker ''operation.retry_due_queued''
              [(''attempt'', MInt (op_Attempt op + 1))] ''operation.retry_due_queued'' s))"

definition claimable_state :: "OperationState \<Rightarrow> bool" where
  "claimable_state st = (st \<in> {OperationQueued, OperationRunning, OperationVerifying,
     OperationRollingBack, OperationCancelRequested})"

definition ClaimOperation ::
  "env \<Rightarrow> string \<Rightarrow> string \<Rightarrow> int \<Rightarrow> int \<Rightarrow> MemoryStore \<Rightarrow> ClaimResult call" where
  "ClaimOperation e i worker ttl at s =
     (let worker = TrimSpace worker in
      if worker = '''' \<or> ttl \<le> 0 then (Inl ErrValidation, s)
      else (case get (operations s) i of
          None \<Rightarrow> (Inl ErrNotFound, s)
        | Some op \<Rightarrow>
            (case requeueDueRetry e i op worker at s of
                (Inl x, s) \<Rightarrow> (Inl x, s)
              | (Inr op, s) \<Rightarrow>
                  if \<not> claimable_state (op_State op) then (Inl ErrNotClaimable, s)
                  else if after (op_LeaseExpiresAt op) at \<and> TrimSpace (op_LeaseOwner op) \<noteq> worker
                  then (Inl ErrLeaseHeld, s)
                  else
                    let expires = at + ttl;
                        op = touch (nowUTC e 3) (op\<lparr>op_FenceToken := op_FenceToken op + 1,
                               op_LeaseOwner := worker, op_LeaseExpiresAt := Some expires\<rparr>);
                        s = s\<lparr>operations := put i op (operations s)\<rparr>
                    in (Inr \<lparr>clm_OperationID = i, clm_LeaseOwner = worker,
                             clm_LeaseExpiresAt = expires, clm_FenceToken = op_FenceToken op\<rparr>,
                        appendAuditLocked e 4 worker ''operation.claimed'' ''operation'' i (Revision op)
                          [(''fenceToken'', MInt (op_FenceToken op))] s))))"

definition RenewOperationLease ::
  "env \<Rightarrow> string \<Rightarrow> string \<Rightarrow> int \<Rightarrow> int \<Rightarrow> int \<Rightarrow> MemoryStore \<Rightarrow> ClaimResult call" where
  "RenewOperationLease e i worker fence ttl at s =
     (let worker = TrimSpace worker in
      if worker = '''' \<or> ttl \<le> 0 then (Inl ErrValidation, s)
      else (case get (operations s) i of
          None \<Rightarrow> (Inl ErrNotFound, s)
        | Some op \<Rightarrow>
            if op_FenceToken op \<noteq> fence \<or> TrimSpace (op_LeaseOwner op) \<noteq> worker then (Inl ErrStaleFence, s)
            else if \<not> after (op_LeaseExpiresAt op) at then (Inl ErrLeaseHeld, s)
            else
              let expires = at + ttl;
                  op = touch (nowUTC e 0) (op\<lparr>op_LeaseExpiresAt := Some expires\<rparr>)
              in (Inr \<lparr>clm_OperationID = i, clm_LeaseOwner = worker,
                       clm_LeaseExpiresAt = expires, clm_FenceToken = fence\<rparr>,
                  s\<lparr>operations := put i op (operations s)\<rparr>)))"

definition ReleaseOperationLease :: "env \<Rightarrow> string \<Rightarrow> string \<Rightarrow> int \<Rightarrow> MemoryStore \<Rightarrow> unit call" where
  "ReleaseOperationLease e i worker fence s =
     (let worker = TrimSpace worker in
      if worker = '''' then (Inl ErrValidation, s)
      else (case get (operations s) i of
          None \<Rightarrow> (Inl ErrNotFound, s)
        | Some op \<Rightarrow>
            if op_FenceToken op \<noteq> fence \<or> TrimSpace (op_LeaseOwner op) \<noteq> worker then (Inl ErrStaleFence, s)
            else
              let op = touch (nowUTC e 0) (op\<lparr>op_LeaseOwner := '''', op_LeaseExpiresAt := None\<rparr>)
              in (Inr (), s\<lparr>operations := put i op (operations s)\<rparr>)))"

section \<open>Steps of an attempt\<close>

definition step_key :: "string \<Rightarrow> int \<Rightarrow> string \<Rightarrow> string" where
  "step_key operationID attempt stepKey = operationID @ '':'' @ itoa attempt @ '':'' @ stepKey"

definition AppendOperationStep ::
  "env \<Rightarrow> OperationStep \<Rightarrow> string \<Rightarrow> MemoryStore \<Rightarrow> OperationStep call" where
  "AppendOperationStep e step actor s =
     (case get (operations s) (stp_OperationID step) of
        None \<Rightarrow> (Inl ErrNotFound, s)
      | Some op \<Rightarrow>
          if \<not> OperationLeaseActive op actor (stp_FenceToken step) (nowUTC e 0) then (Inl ErrStaleFence, s)
          else if stp_StepKey step = '''' then (Inl ErrValidation, s)
          else if op_Attempt op < 1 then (Inl ErrPrerequisite, s)
          else
            let step = step\<lparr>stp_Attempt := op_Attempt op\<rparr>;
                key = step_key (stp_OperationID step) (stp_Attempt step) (stp_StepKey step) in
            (case get (steps s) key of
                Some existing \<Rightarrow>
                  if \<not> OperationStepReplayCompatible existing step then (Inl ErrIdempotencyConflict, s)
                  else (Inr existing, s)
              | None \<Rightarrow>
                  let step = stamp (newid e 1 ''stp'') (nowUTC e 1) step;
                      s = s\<lparr>steps := put key step (steps s)\<rparr>;
                      s = appendAuditLocked e 2 actor ''operation_step.appended'' ''operationStep'' (ID step)
                            (Revision step) [(''operationId'', MStr (stp_OperationID step)),
                                             (''stepKey'', MStr (stp_StepKey step))] s
                  in (Inr step,
                      appendOutboxLocked e 3 ''operationStep'' (ID step) ''operation_step.appended''
                        (VOperationStep step) s)))"

definition ListOperationSteps :: "string \<Rightarrow> MemoryStore \<Rightarrow> OperationStep list" where
  "ListOperationSteps operationID s =
     sort_by (less_on stp_StepKey)
       (filter (\<lambda>v. stp_OperationID v = operationID) (vals (steps s)))"

end
