(* ===== verification/Attempts.thy ===== *)
theory Attempts
  imports Operations
begin

text \<open>
  The execution plane of an operation, \<open>internal/controlplane/operation_retry.go\<close>: starting an
  attempt, verifying, reporting a failure, completing, and cancelling at a safe boundary.
\<close>

section \<open>Handlers\<close>

definition StartOperationAttempt ::
  "env \<Rightarrow> string \<Rightarrow> int \<Rightarrow> string \<Rightarrow> int \<Rightarrow> string \<Rightarrow> MemoryStore \<Rightarrow> Operation call" where
  "StartOperationAttempt e i expected worker fence actor s =
     (case get (operations s) i of
        None \<Rightarrow> (Inl ErrNotFound, s)
      | Some op \<Rightarrow>
          if Revision op \<noteq> expected then (Inl ErrConflict, s)
          else if op_State op \<noteq> OperationQueued then (Inl ErrInvalidTransition, s)
          else if op_LeaseOwner op \<noteq> worker \<or> op_FenceToken op \<noteq> fence \<or>
                  \<not> after (op_LeaseExpiresAt op) (nowUTC e 0)
          then (Inl ErrStaleFence, s)
          else (case validateDestructiveRecoveryLocked s op (nowUTC e 1) of
              Inl x \<Rightarrow> (Inl x, s)
            | Inr u \<Rightarrow>
                if op_Attempt op \<ge> MaxAttempts (op_RetryPolicy op) then (Inl ErrPrerequisite, s)
                else
                  let op = touch (nowUTC e 2) (op\<lparr>op_Attempt := op_Attempt op + 1,
                        op_State := OperationRunning, op_NextAttemptAt := None,
                        op_LastFailureClass := OperationFailureUnset, op_RetryExhausted := False\<rparr>)
                  in (Inr op,
                      saveOperation e 3 i op actor ''operation.attempt_started''
                        [(''attempt'', MInt (op_Attempt op)),
                         (''maxAttempts'', MInt (MaxAttempts (op_RetryPolicy op))),
                         (''class'', MNamed (OperationClass_str (op_Class op))),
                         (''fenceToken'', MInt fence)]
                        ''operation.attempt_started'' s)))"

definition BeginOperationVerification ::
  "env \<Rightarrow> string \<Rightarrow> int \<Rightarrow> string \<Rightarrow> int \<Rightarrow> string \<Rightarrow> MemoryStore \<Rightarrow> Operation call" where
  "BeginOperationVerification e i expected worker fence actor s =
     (case get (operations s) i of
        None \<Rightarrow> (Inl ErrNotFound, s)
      | Some op \<Rightarrow>
          if Revision op \<noteq> expected then (Inl ErrConflict, s)
          else if op_State op \<noteq> OperationRunning then (Inl ErrInvalidTransition, s)
          else if \<not> OperationLeaseActive op worker fence (nowUTC e 0) then (Inl ErrStaleFence, s)
          else
            let op = touch (nowUTC e 1) (op\<lparr>op_State := OperationVerifying\<rparr>)
            in (Inr op,
                saveOperation e 2 i op actor ''operation.verification_started''
                  [(''attempt'', MInt (op_Attempt op))] ''operation.verification_started'' s))"

text \<open>The operation that a failure report leaves; \<open>now\<close> is the clock reading of the handler.\<close>

definition failedOperation :: "Operation \<Rightarrow> OperationFailureReport \<Rightarrow> int \<Rightarrow> Operation" where
  "failedOperation op report now =
     (let op = op\<lparr>op_LastError := TrimSpace (rep_Message report), op_LastFailureClass := rep_Class report,
                  op_LeaseOwner := '''', op_LeaseExpiresAt := None\<rparr>;
          retryable = IsRetryableOperationFailure (op_RetryPolicy op) (rep_Class report);
          op = (if retryable \<and> op_Attempt op < MaxAttempts (op_RetryPolicy op)
                then op\<lparr>op_State := OperationRetryWait,
                        op_NextAttemptAt := Some (now + OperationBackoff (op_RetryPolicy op) (op_Attempt op) (rep_RetryAfterSeconds report)),
                        op_RetryExhausted := False\<rparr>
                else op\<lparr>op_State := OperationFailed, op_NextAttemptAt := None,
                        op_RetryExhausted := (retryable \<and> op_Attempt op \<ge> MaxAttempts (op_RetryPolicy op))\<rparr>)
      in touch now op)"

definition ReportOperationFailure ::
  "env \<Rightarrow> string \<Rightarrow> int \<Rightarrow> string \<Rightarrow> int \<Rightarrow> OperationFailureReport \<Rightarrow> string \<Rightarrow> MemoryStore \<Rightarrow> Operation call" where
  "ReportOperationFailure e i expected worker fence report actor s =
     (case get (operations s) i of
        None \<Rightarrow> (Inl ErrNotFound, s)
      | Some op \<Rightarrow>
          if Revision op \<noteq> expected then (Inl ErrConflict, s)
          else if op_State op \<noteq> OperationRunning \<and> op_State op \<noteq> OperationVerifying \<and>
                  op_State op \<noteq> OperationRollingBack
          then (Inl ErrInvalidTransition, s)
          else if \<not> OperationLeaseActive op worker fence (nowUTC e 0) then (Inl ErrStaleFence, s)
          else if \<not> ValidOperationFailureClass (rep_Class report) \<or> TrimSpace (rep_Message report) = '''' \<or>
                  rep_RetryAfterSeconds report < 0
          then (Inl ErrValidation, s)
          else
            let op = failedOperation op report (nowUTC e 1)
            in (Inr op,
                saveOperation e 2 i op actor ''operation.failure_reported''
                  [(''attempt'', MInt (op_Attempt op)),
                   (''failureClass'', MNamed (OperationFailureClass_str (rep_Class report))),
                   (''code'', MStr (rep_Code report)),
                   (''retryable'', MBool (IsRetryableOperationFailure (op_RetryPolicy op) (rep_Class report))),
                   (''retryExhausted'', MBool (op_RetryExhausted op)),
                   (''nextAttemptAt'', MTime (op_NextAttemptAt op))]
                  ''operation.failure_reported'' s))"

definition CompleteOperation ::
  "env \<Rightarrow> string \<Rightarrow> int \<Rightarrow> string \<Rightarrow> int \<Rightarrow> string \<Rightarrow> MemoryStore \<Rightarrow> Operation call" where
  "CompleteOperation e i expected worker fence actor s =
     (case get (operations s) i of
        None \<Rightarrow> (Inl ErrNotFound, s)
      | Some op \<Rightarrow>
          if Revision op \<noteq> expected then (Inl ErrConflict, s)
          else if op_State op \<noteq> OperationVerifying then (Inl ErrPrerequisite, s)
          else if \<not> OperationLeaseActive op worker fence (nowUTC e 0) then (Inl ErrStaleFence, s)
          else
            let op = touch (nowUTC e 1) (op\<lparr>op_State := OperationSucceeded, op_LeaseOwner := '''',
                       op_LeaseExpiresAt := None, op_NextAttemptAt := None\<rparr>)
            in (Inr op,
                saveOperation e 2 i op actor ''operation.succeeded''
                  [(''attempt'', MInt (op_Attempt op))] ''operation.succeeded'' s))"

text \<open>The operation that a cancellation request leaves.\<close>

definition cancelRequestedOperation :: "Operation \<Rightarrow> string \<Rightarrow> string \<Rightarrow> int \<Rightarrow> Operation" where
  "cancelRequestedOperation op actor reason now =
     (let op = op\<lparr>op_CancelRequestedBy := actor, op_CancelRequestedAt := Some now, op_CancelReason := reason\<rparr>;
          op = (if op_State op \<in> {OperationRunning, OperationVerifying, OperationRollingBack}
                then op\<lparr>op_State := OperationCancelRequested\<rparr>
                else op\<lparr>op_State := OperationCancelled, op_LeaseOwner := '''',
                        op_LeaseExpiresAt := None, op_NextAttemptAt := None\<rparr>)
      in touch now op)"

definition RequestOperationCancellation ::
  "env \<Rightarrow> string \<Rightarrow> int \<Rightarrow> string \<Rightarrow> string \<Rightarrow> MemoryStore \<Rightarrow> Operation call" where
  "RequestOperationCancellation e i expected actor reason s =
     (case get (operations s) i of
        None \<Rightarrow> (Inl ErrNotFound, s)
      | Some op \<Rightarrow>
          if Revision op \<noteq> expected then (Inl ErrConflict, s)
          else if TrimSpace reason = '''' then (Inl ErrValidation, s)
          else if IsTerminal (op_State op) \<or> op_State op = OperationCancelRequested
          then (Inl ErrInvalidTransition, s)
          else
            let op = cancelRequestedOperation op actor (TrimSpace reason) (nowUTC e 0)
            in (Inr op,
                saveOperation e 1 i op actor ''operation.cancellation_requested''
                  [(''state'', MNamed (OperationState_str (op_State op))), (''reason'', MStr (TrimSpace reason))]
                  ''operation.cancellation_requested'' s))"

text \<open>\<open>hasCompensatableForwardLocked\<close> of \<open>compensation.go\<close>.\<close>

definition hasCompensatableForwardLocked :: "MemoryStore \<Rightarrow> string \<Rightarrow> bool" where
  "hasCompensatableForwardLocked s operationID =
     list_ex (\<lambda>step. cs_OperationID step = operationID \<and> cs_ForwardCompleted step \<and>
       cs_Strategy step \<noteq> CompensationNone) (vals (compensationSteps s))"

definition AcknowledgeOperationCancellation ::
  "env \<Rightarrow> string \<Rightarrow> int \<Rightarrow> string \<Rightarrow> int \<Rightarrow> string \<Rightarrow> MemoryStore \<Rightarrow> Operation call" where
  "AcknowledgeOperationCancellation e i expected worker fence actor s =
     (case get (operations s) i of
        None \<Rightarrow> (Inl ErrNotFound, s)
      | Some op \<Rightarrow>
          if Revision op \<noteq> expected then (Inl ErrConflict, s)
          else if op_State op \<noteq> OperationCancelRequested then (Inl ErrInvalidTransition, s)
          else if hasCompensatableForwardLocked s i then (Inl ErrPrerequisite, s)
          else if \<not> OperationLeaseActive op worker fence (nowUTC e 0) then (Inl ErrStaleFence, s)
          else
            let op = touch (nowUTC e 1) (op\<lparr>op_State := OperationCancelled, op_LeaseOwner := '''',
                       op_LeaseExpiresAt := None, op_NextAttemptAt := None\<rparr>)
            in (Inr op,
                saveOperation e 2 i op actor ''operation.cancelled_at_safe_boundary''
                  [(''attempt'', MInt (op_Attempt op)), (''reason'', MStr (op_CancelReason op))]
                  ''operation.cancelled'' s))"

end
