(* ===== verification/Trace.thy ===== *)
theory Trace
  imports Attempts
begin

text \<open>
  Traces and evidence: \<open>internal/controlplane/operation_trace.go\<close> and \<open>AppendEvidence\<close> of
  \<open>memory_store.go\<close>. A trace entry seals its payload under the operation's lease and fence, with
  the payload's digest and a sequence number within its step attempt.
\<close>

section \<open>Validation\<close>

definition OperationStepTraceMethod :: string where
  "OperationStepTraceMethod = ''OPERATION_STEP_TRACE_EVIDENCE_V1''"

definition maxOperationStepTracePayloadBytes :: int where
  "maxOperationStepTracePayloadBytes = 1024 * 1024"

definition validOperationStepPhase :: "OperationStepPhase \<Rightarrow> bool" where
  "validOperationStepPhase v = (v = OperationStepPhaseForward \<or> v = OperationStepPhaseCompensation)"

fun validOperationStepLogLevel :: "OperationStepLogLevel \<Rightarrow> bool" where
  "validOperationStepLogLevel OperationStepLogDebug = True"
| "validOperationStepLogLevel OperationStepLogInfo = True"
| "validOperationStepLogLevel OperationStepLogWarn = True"
| "validOperationStepLogLevel OperationStepLogError = True"
| "validOperationStepLogLevel v = False"

definition operationStepPayloadDigest :: "env \<Rightarrow> string \<Rightarrow> string" where
  "operationStepPayloadDigest e payload = sha256_digest e payload"

definition OperationEvidencePayloadDigest :: "env \<Rightarrow> string \<Rightarrow> string" where
  "OperationEvidencePayloadDigest e payload = operationStepPayloadDigest e payload"

definition operationStepTraceMapKey ::
  "string \<Rightarrow> OperationStepPhase \<Rightarrow> string \<Rightarrow> int \<Rightarrow> string \<Rightarrow> string" where
  "operationStepTraceMapKey operationID phase stepKey attempt traceKey =
     operationID @ '':'' @ OperationStepPhase_str phase @ '':'' @ stepKey @ '':'' @ itoa attempt @ '':'' @ traceKey"

definition validateOperationStepTraceLocked ::
  "env \<Rightarrow> nat \<Rightarrow> OperationStepTraceInput \<Rightarrow> string \<Rightarrow> int \<Rightarrow> MemoryStore \<Rightarrow> (Operation \<times> int) res" where
  "validateOperationStepTraceLocked e k tin worker fence s =
     (case get (operations s) (tin_OperationID tin) of
        None \<Rightarrow> Inl ErrNotFound
      | Some op \<Rightarrow>
          if TrimSpace worker = '''' \<or> fence \<le> 0 \<or> op_LeaseOwner op \<noteq> worker \<or> op_FenceToken op \<noteq> fence \<or>
             \<not> after (op_LeaseExpiresAt op) (nowUTC e k)
          then Inl ErrStaleFence
          else (case tin_Phase tin of
              OperationStepPhaseForward \<Rightarrow>
                if op_State op \<noteq> OperationRunning \<and> op_State op \<noteq> OperationVerifying \<and>
                   op_State op \<noteq> OperationCancelRequested
                then Inl ErrInvalidTransition
                else if op_Attempt op < 1 then Inl ErrPrerequisite
                else if get (steps s) (step_key (ID op) (op_Attempt op) (tin_StepKey tin)) = None
                then Inl ErrPrerequisite
                else Inr (op, op_Attempt op)
            | OperationStepPhaseCompensation \<Rightarrow>
                if op_State op \<noteq> OperationRollingBack then Inl ErrInvalidTransition
                else (case get (compensationSteps s) (ID op @ '':'' @ tin_StepKey tin) of
                    None \<Rightarrow> Inl ErrNotFound
                  | Some step \<Rightarrow>
                      if cs_State step \<noteq> CompensationStepRunning \<or> cs_FenceToken step \<noteq> fence \<or> cs_Attempt step < 1
                      then Inl ErrPrerequisite
                      else Inr (op, cs_Attempt step))
            | _ \<Rightarrow> Inl ErrValidation))"

definition normalizeOperationStepTraceInput ::
  "OperationStepTraceInput \<Rightarrow> OperationStepTraceInput res" where
  "normalizeOperationStepTraceInput tin =
     (let tin = tin\<lparr>tin_OperationID := TrimSpace (tin_OperationID tin),
            tin_StepKey := TrimSpace (tin_StepKey tin), tin_TraceKey := TrimSpace (tin_TraceKey tin),
            tin_EventType := TrimSpace (tin_EventType tin), tin_Message := TrimSpace (tin_Message tin),
            tin_EvidenceKind := TrimSpace (tin_EvidenceKind tin),
            tin_MediaType := TrimSpace (tin_MediaType tin), tin_Location := TrimSpace (tin_Location tin)\<rparr> in
      if tin_OperationID tin = '''' \<or> tin_StepKey tin = '''' \<or> tin_TraceKey tin = '''' \<or>
         tin_EventType tin = '''' \<or> tin_Message tin = '''' then Inl ErrValidation
      else if \<not> validOperationStepPhase (tin_Phase tin) then Inl ErrValidation
      else if \<not> validOperationStepLogLevel (tin_Level tin) then Inl ErrValidation
      else if tin_EvidenceKind tin = '''' \<or> tin_MediaType tin = '''' \<or> tin_Payload tin = ''''
      then Inl ErrValidation
      else if int (length (tin_Payload tin)) > maxOperationStepTracePayloadBytes then Inl ErrValidation
      else Inr tin)"

section \<open>Step traces\<close>

definition zeroEvidence :: EvidenceMetadata where
  "zeroEvidence =
     \<lparr>ID = '''', Revision = 0, CreatedAt = 0, UpdatedAt = 0, evd_OperationID = '''',
      evd_Phase = OperationStepPhaseUnset, evd_StepKey = '''', evd_Attempt = 0, evd_TraceID = '''',
      evd_Kind = '''', evd_Digest = '''', evd_MediaType = '''', evd_Location = '''', evd_Size = 0,
      evd_HasPayload = False, evd_Sealed = False\<rparr>"

text \<open>The loop that finds the next sequence number of a step attempt.\<close>

definition nextTraceSequence ::
  "OperationStepTrace list \<Rightarrow> string \<Rightarrow> OperationStepPhase \<Rightarrow> string \<Rightarrow> int \<Rightarrow> int" where
  "nextTraceSequence traces operationID phase stepKey attempt =
     fold (\<lambda>existing sequence.
        if trc_OperationID existing = operationID \<and> trc_Phase existing = phase \<and>
           trc_StepKey existing = stepKey \<and> trc_Attempt existing = attempt \<and>
           trc_Sequence existing \<ge> sequence
        then trc_Sequence existing + 1 else sequence) traces 1"

definition AppendOperationStepTrace ::
  "env \<Rightarrow> OperationStepTraceInput \<Rightarrow> string \<Rightarrow> int \<Rightarrow> string \<Rightarrow> MemoryStore \<Rightarrow>
   (OperationStepTrace \<times> EvidenceMetadata) call" where
  "AppendOperationStepTrace e tin worker fence actor s =
     (case normalizeOperationStepTraceInput tin of
        Inl x \<Rightarrow> (Inl x, s)
      | Inr nin \<Rightarrow>
          (case validateOperationStepTraceLocked e 0 nin (TrimSpace worker) fence s of
             Inl x \<Rightarrow> (Inl x, s)
           | Inr (op, attempt) \<Rightarrow>
               let digest = operationStepPayloadDigest e (tin_Payload nin);
                   traceMapKey = operationStepTraceMapKey (tin_OperationID nin) (tin_Phase nin)
                     (tin_StepKey nin) attempt (tin_TraceKey nin) in
               (case get (stepTraces s) traceMapKey of
                  Some existing \<Rightarrow>
                    let ev = (case get (evidence s) (trc_EvidenceID existing) of
                                None \<Rightarrow> zeroEvidence | Some ev \<Rightarrow> ev) in
                    if trc_Level existing \<noteq> tin_Level nin \<or> trc_EventType existing \<noteq> tin_EventType nin \<or>
                       trc_Message existing \<noteq> tin_Message nin \<or> trc_EvidenceDigest existing \<noteq> digest \<or>
                       evd_Kind ev \<noteq> tin_EvidenceKind nin \<or> evd_MediaType ev \<noteq> tin_MediaType nin
                    then (Inl ErrIdempotencyConflict, s)
                    else (Inr (existing, ev), s)
                | None \<Rightarrow>
                    let sequence = nextTraceSequence (vals (stepTraces s)) (tin_OperationID nin)
                          (tin_Phase nin) (tin_StepKey nin) attempt;
                        now = nowUTC e 1;
                        evidenceID = newid e 1 ''evd'';
                        location = (if tin_Location nin = ''''
                          then ''authority://operations/'' @ tin_OperationID nin @ ''/steps/'' @
                               ToLower (OperationStepPhase_str (tin_Phase nin)) @ ''/'' @ tin_StepKey nin @
                               ''/attempts/'' @ itoa attempt @ ''/evidence/'' @ evidenceID
                          else tin_Location nin);
                        trace = \<lparr>ID = newid e 2 ''trc'', Revision = 1, CreatedAt = now, UpdatedAt = now,
                          trc_OperationID = tin_OperationID nin, trc_Phase = tin_Phase nin,
                          trc_StepKey = tin_StepKey nin, trc_Attempt = attempt, trc_Sequence = sequence,
                          trc_TraceKey = tin_TraceKey nin, trc_Level = tin_Level nin,
                          trc_EventType = tin_EventType nin, trc_Message = tin_Message nin,
                          trc_EvidenceID = evidenceID, trc_EvidenceDigest = digest\<rparr>;
                        ev = \<lparr>ID = evidenceID, Revision = 1, CreatedAt = now, UpdatedAt = now,
                          evd_OperationID = tin_OperationID nin, evd_Phase = tin_Phase nin,
                          evd_StepKey = tin_StepKey nin, evd_Attempt = attempt, evd_TraceID = ID trace,
                          evd_Kind = tin_EvidenceKind nin, evd_Digest = digest,
                          evd_MediaType = tin_MediaType nin, evd_Location = location,
                          evd_Size = int (length (tin_Payload nin)), evd_HasPayload = True,
                          evd_Sealed = True\<rparr>;
                        s = s\<lparr>stepTraces := put traceMapKey trace (stepTraces s),
                              evidence := put (ID ev) ev (evidence s),
                              evidencePayloads := put (ID ev) (tin_Payload nin) (evidencePayloads s)\<rparr>;
                        s = appendAuditLocked e 3 actor ''operation_step.trace_sealed'' ''operationStepTrace''
                              (ID trace) (Revision trace)
                              [(''method'', MStr OperationStepTraceMethod),
                               (''operationId'', MStr (tin_OperationID nin)),
                               (''phase'', MNamed (OperationStepPhase_str (tin_Phase nin))),
                               (''stepKey'', MStr (tin_StepKey nin)), (''attempt'', MInt attempt),
                               (''sequence'', MInt sequence), (''traceId'', MStr (ID trace)),
                               (''traceKey'', MStr (trc_TraceKey trace)),
                               (''eventType'', MStr (trc_EventType trace)),
                               (''level'', MNamed (OperationStepLogLevel_str (trc_Level trace))),
                               (''evidenceId'', MStr (ID ev)), (''evidenceDigest'', MStr (evd_Digest ev))] s
                    in (Inr (trace, ev),
                        appendOutboxLocked e 4 ''operationStepTrace'' (ID trace)
                          ''operation_step.trace_sealed'' (VOperationStepTrace trace) s))))"

definition trace_before :: "OperationStepTrace \<Rightarrow> OperationStepTrace \<Rightarrow> bool" where
  "trace_before x y =
     (if trc_Attempt x \<noteq> trc_Attempt y then trc_Attempt x < trc_Attempt y
      else if trc_Phase x \<noteq> trc_Phase y
      then OperationStepPhase_str (trc_Phase x) < OperationStepPhase_str (trc_Phase y)
      else if trc_StepKey x \<noteq> trc_StepKey y then trc_StepKey x < trc_StepKey y
      else if trc_Sequence x \<noteq> trc_Sequence y then trc_Sequence x < trc_Sequence y
      else ID x < ID y)"

definition ListOperationStepTraces :: "string \<Rightarrow> MemoryStore \<Rightarrow> OperationStepTrace list" where
  "ListOperationStepTraces operationID s =
     sort_by trace_before
       (filter (\<lambda>t. operationID = '''' \<or> trc_OperationID t = operationID) (vals (stepTraces s)))"

section \<open>Evidence payloads\<close>

text \<open>\<open>16<<20\<close> bytes.\<close>

definition evidencePayloadLimit :: int where
  "evidencePayloadLimit = 16 * 2 ^ 20"

definition evidence_location :: "string \<Rightarrow> string \<Rightarrow> string \<Rightarrow> string" where
  "evidence_location location operationID i =
     (if location = '''' then ''authority://operations/'' @ operationID @ ''/evidence/'' @ i else location)"

text \<open>The evidence record that seals a payload outside any step.\<close>

definition sealedEvidence ::
  "string \<Rightarrow> int \<Rightarrow> string \<Rightarrow> EvidenceMetadata \<Rightarrow> string \<Rightarrow> string \<Rightarrow> EvidenceMetadata" where
  "sealedEvidence i now operationID ein digest payload =
     zeroEvidence\<lparr>ID := i, Revision := 1, CreatedAt := now, UpdatedAt := now,
       evd_OperationID := operationID, evd_Kind := evd_Kind ein, evd_Digest := digest,
       evd_MediaType := evd_MediaType ein,
       evd_Location := evidence_location (evd_Location ein) operationID i,
       evd_Size := int (length payload), evd_HasPayload := True, evd_Sealed := True\<rparr>"

definition trimEvidence :: "EvidenceMetadata \<Rightarrow> EvidenceMetadata" where
  "trimEvidence ein = ein\<lparr>evd_OperationID := TrimSpace (evd_OperationID ein),
     evd_Kind := TrimSpace (evd_Kind ein), evd_MediaType := TrimSpace (evd_MediaType ein),
     evd_Location := TrimSpace (evd_Location ein)\<rparr>"

text \<open>The first evidence record of the operation that has the digest and belongs to no step.\<close>

definition findDirectEvidence :: "MemoryStore \<Rightarrow> string \<Rightarrow> string \<Rightarrow> EvidenceMetadata option" where
  "findDirectEvidence s operationID digest =
     find (\<lambda>x. evd_OperationID x = operationID \<and> evd_Digest x = digest \<and> evd_StepKey x = '''' \<and>
       evd_Phase x = OperationStepPhaseUnset) (vals (evidence s))"

text \<open>The stored payload of an evidence record is there and is what the record says.\<close>

definition payload_intact :: "env \<Rightarrow> MemoryStore \<Rightarrow> EvidenceMetadata \<Rightarrow> string \<Rightarrow> bool" where
  "payload_intact e s x digest =
     (case get (evidencePayloads s) (ID x) of
        None \<Rightarrow> False
      | Some stored \<Rightarrow> operationStepPayloadDigest e stored = digest \<and> int (length stored) = evd_Size x)"

definition AppendOperationEvidencePayload ::
  "env \<Rightarrow> EvidenceMetadata \<Rightarrow> string \<Rightarrow> string \<Rightarrow> int \<Rightarrow> string \<Rightarrow> MemoryStore \<Rightarrow> EvidenceMetadata call" where
  "AppendOperationEvidencePayload e ein payload worker fence actor s =
     (let worker = TrimSpace worker; actor = TrimSpace actor; ein = trimEvidence ein in
      if worker = '''' \<or> actor = '''' \<or> fence \<le> 0 \<or> evd_OperationID ein = '''' \<or> evd_Kind ein = '''' \<or>
         evd_MediaType ein = '''' then (Inl ErrValidation, s)
      else if payload = '''' \<or> int (length payload) > evidencePayloadLimit then (Inl ErrValidation, s)
      else (case get (operations s) (evd_OperationID ein) of
          None \<Rightarrow> (Inl ErrNotFound, s)
        | Some op \<Rightarrow>
            let now = nowUTC e 0 in
            if TrimSpace (op_LeaseOwner op) \<noteq> worker \<or> op_FenceToken op \<noteq> fence \<or>
               \<not> after (op_LeaseExpiresAt op) now then (Inl ErrStaleFence, s)
            else let digest = operationStepPayloadDigest e payload in
              if evd_Digest ein \<noteq> '''' \<and> TrimSpace (evd_Digest ein) \<noteq> digest then (Inl ErrValidation, s)
              else if evd_Size ein \<noteq> 0 \<and> evd_Size ein \<noteq> int (length payload) then (Inl ErrValidation, s)
              else (case findDirectEvidence s (evd_OperationID ein) digest of
                  Some existing \<Rightarrow>
                    if \<not> payload_intact e s existing digest then (Inl ErrConflict, s)
                    else (Inr existing, s)
                | None \<Rightarrow>
                    let i = newid e 1 ''evd'';
                        out = sealedEvidence i now (evd_OperationID ein) ein digest payload;
                        s = s\<lparr>evidence := put i out (evidence s),
                              evidencePayloads := put i payload (evidencePayloads s)\<rparr>;
                        s = appendAuditLocked e 2 actor ''evidence.payload_sealed'' ''evidence'' i 1
                              [(''operationId'', MStr (evd_OperationID ein)), (''digest'', MStr digest),
                               (''kind'', MStr (evd_Kind ein)), (''fenceToken'', MInt fence)] s
                    in (Inr out,
                        appendOutboxLocked e 3 ''evidence'' i ''evidence.payload_sealed'' (VEvidence out) s))))"

text \<open>The evidence an evidence-backed completion can reuse, or the conflict it runs into.\<close>

definition findCompletionEvidence ::
  "env \<Rightarrow> MemoryStore \<Rightarrow> string \<Rightarrow> string \<Rightarrow> EvidenceMetadata \<Rightarrow> EvidenceMetadata option res" where
  "findCompletionEvidence e s i digest ein =
     (case findDirectEvidence s i digest of
        None \<Rightarrow> Inr None
      | Some existing \<Rightarrow>
          if \<not> evd_HasPayload existing \<or> \<not> evd_Sealed existing \<or> \<not> payload_intact e s existing digest
          then Inl ErrConflict
          else if evd_Kind existing \<noteq> evd_Kind ein \<or> evd_MediaType existing \<noteq> evd_MediaType ein
          then Inl ErrConflict
          else Inr (Some existing))"

text \<open>The commit of an evidence-backed completion: seal, verify, succeed.\<close>

definition commitCompletion ::
  "env \<Rightarrow> string \<Rightarrow> Operation \<Rightarrow> EvidenceMetadata \<Rightarrow> EvidenceMetadata option \<Rightarrow> string \<Rightarrow> string \<Rightarrow> int \<Rightarrow>
   int \<Rightarrow> string \<Rightarrow> MemoryStore \<Rightarrow> (Operation \<times> EvidenceMetadata) call" where
  "commitCompletion e i op ein found digest payload fence now actor s =
     (let (sealed, s) = (case found of
            Some sealed \<Rightarrow> (sealed, s)
          | None \<Rightarrow>
              let evidenceID = newid e 1 ''evd'';
                  sealed = sealedEvidence evidenceID now i ein digest payload;
                  s = s\<lparr>evidence := put evidenceID sealed (evidence s),
                        evidencePayloads := put evidenceID payload (evidencePayloads s)\<rparr>;
                  s = appendAuditLocked e 1 actor ''evidence.payload_sealed'' ''evidence'' evidenceID 1
                        [(''operationId'', MStr i), (''digest'', MStr digest), (''kind'', MStr (evd_Kind ein)),
                         (''fenceToken'', MInt fence), (''terminalCommit'', MBool True)] s
              in (sealed, appendOutboxLocked e 2 ''evidence'' evidenceID ''evidence.payload_sealed''
                            (VEvidence sealed) s));
          (op, s) = (if op_State op = OperationRunning
            then let op = touch now (op\<lparr>op_State := OperationVerifying\<rparr>);
                     s = appendAuditLocked e 3 actor ''operation.verification_started'' ''operation'' i (Revision op)
                           [(''attempt'', MInt (op_Attempt op)), (''evidenceDigest'', MStr digest),
                            (''atomicTerminalCommit'', MBool True)] s
                 in (op, appendOutboxLocked e 4 ''operation'' i ''operation.verification_started'' (VOperation op) s)
            else (op, s));
          op = touch now (op\<lparr>op_State := OperationSucceeded, op_LeaseOwner := '''',
                 op_LeaseExpiresAt := None, op_NextAttemptAt := None\<rparr>)
      in (Inr (op, sealed),
          saveOperation e 5 i op actor ''operation.succeeded''
            [(''attempt'', MInt (op_Attempt op)), (''evidenceDigest'', MStr digest),
             (''atomicTerminalCommit'', MBool True)] ''operation.succeeded'' s))"

definition CompleteOperationWithEvidencePayload ::
  "env \<Rightarrow> string \<Rightarrow> int \<Rightarrow> EvidenceMetadata \<Rightarrow> string \<Rightarrow> string \<Rightarrow> int \<Rightarrow> string \<Rightarrow> MemoryStore \<Rightarrow>
   (Operation \<times> EvidenceMetadata) call" where
  "CompleteOperationWithEvidencePayload e i expected ein payload worker fence actor s =
     (let i = TrimSpace i; worker = TrimSpace worker; actor = TrimSpace actor; ein = trimEvidence ein in
      if i = '''' \<or> evd_OperationID ein \<noteq> i \<or> worker = '''' \<or> actor = '''' \<or> fence \<le> 0 \<or>
         evd_Kind ein = '''' \<or> evd_MediaType ein = '''' then (Inl ErrValidation, s)
      else if payload = '''' \<or> int (length payload) > evidencePayloadLimit then (Inl ErrValidation, s)
      else let digest = operationStepPayloadDigest e payload in
        if evd_Digest ein \<noteq> '''' \<and> TrimSpace (evd_Digest ein) \<noteq> digest then (Inl ErrValidation, s)
        else if evd_Size ein \<noteq> 0 \<and> evd_Size ein \<noteq> int (length payload) then (Inl ErrValidation, s)
        else (case get (operations s) i of
            None \<Rightarrow> (Inl ErrNotFound, s)
          | Some op \<Rightarrow>
              (case findCompletionEvidence e s i digest ein of
                  Inl x \<Rightarrow> (Inl x, s)
                | Inr found \<Rightarrow>
                    let sealed = (case found of None \<Rightarrow> zeroEvidence | Some x \<Rightarrow> x) in
                    if op_State op = OperationSucceeded \<and> ID sealed \<noteq> '''' then (Inr (op, sealed), s)
                    else if op_State op = OperationRunning \<and> Revision op \<noteq> expected then (Inl ErrConflict, s)
                    else if op_State op = OperationVerifying \<and> Revision op \<noteq> expected \<and> Revision op \<noteq> expected + 1
                    then (Inl ErrConflict, s)
                    else if op_State op = OperationVerifying \<and> ID sealed = '''' then (Inl ErrPrerequisite, s)
                    else if op_State op \<noteq> OperationRunning \<and> op_State op \<noteq> OperationVerifying
                    then (Inl ErrPrerequisite, s)
                    else let now = nowUTC e 0 in
                      if \<not> OperationLeaseActive op worker fence now then (Inl ErrStaleFence, s)
                      else commitCompletion e i op ein (if ID sealed = '''' then None else Some sealed)
                             digest payload fence now actor s)))"

definition GetEvidencePayload :: "env \<Rightarrow> string \<Rightarrow> MemoryStore \<Rightarrow> (EvidenceMetadata \<times> string) res" where
  "GetEvidencePayload e evidenceID s =
     (case get (evidence s) (TrimSpace evidenceID) of
        None \<Rightarrow> Inl ErrNotFound
      | Some x \<Rightarrow>
          (case get (evidencePayloads s) (ID x) of
             None \<Rightarrow> Inl ErrNotFound
           | Some payload \<Rightarrow>
               if \<not> evd_HasPayload x then Inl ErrNotFound
               else if operationStepPayloadDigest e payload \<noteq> evd_Digest x \<or> int (length payload) \<noteq> evd_Size x
               then Inl ErrConflict
               else Inr (x, payload)))"

definition hasSealedStepEvidenceLocked ::
  "env \<Rightarrow> MemoryStore \<Rightarrow> string \<Rightarrow> OperationStepPhase \<Rightarrow> string \<Rightarrow> int \<Rightarrow> string \<Rightarrow> bool" where
  "hasSealedStepEvidenceLocked e s operationID phase stepKey attempt digest =
     list_ex (\<lambda>x. evd_OperationID x = operationID \<and> evd_Phase x = phase \<and> evd_StepKey x = stepKey \<and>
        evd_Attempt x = attempt \<and> evd_Digest x = digest \<and> evd_Sealed x \<and> evd_HasPayload x \<and>
        payload_intact e s x digest) (vals (evidence s))"

definition AppendEvidence :: "env \<Rightarrow> EvidenceMetadata \<Rightarrow> string \<Rightarrow> MemoryStore \<Rightarrow> EvidenceMetadata call" where
  "AppendEvidence e v actor s =
     (if get (operations s) (evd_OperationID v) = None then (Inl ErrNotFound, s)
      else if \<not> HasPrefix (evd_Digest v) ''sha256:'' \<or> evd_Location v = '''' \<or> evd_MediaType v = '''' \<or> evd_Size v < 0
      then (Inl ErrValidation, s)
      else (case find (\<lambda>x. evd_OperationID x = evd_OperationID v \<and> evd_Digest x = evd_Digest v) (vals (evidence s)) of
          Some x \<Rightarrow> (Inr x, s)
        | None \<Rightarrow>
            let v = (stamp (newid e 0 ''evd'') (nowUTC e 0) v)\<lparr>evd_Sealed := True\<rparr>;
                s = s\<lparr>evidence := put (ID v) v (evidence s)\<rparr>;
                s = appendAuditLocked e 1 actor ''evidence.sealed'' ''evidence'' (ID v) (Revision v)
                      [(''operationId'', MStr (evd_OperationID v)), (''digest'', MStr (evd_Digest v))] s
            in (Inr v, appendOutboxLocked e 2 ''evidence'' (ID v) ''evidence.sealed'' (VEvidence v) s)))"

definition ListEvidence :: "string \<Rightarrow> MemoryStore \<Rightarrow> EvidenceMetadata list" where
  "ListEvidence operationID s =
     sort_by (less_on CreatedAt)
       (filter (\<lambda>v. operationID = '''' \<or> evd_OperationID v = operationID) (vals (evidence s)))"

end
