(* ===== verification/Compensation.thy ===== *)
theory Compensation
  imports Trace
begin

text \<open>
  Compensation of a failed or cancelled operation, \<open>internal/controlplane/compensation.go\<close>: the
  immutable plan bound while planning, the forward progress recorded against it, and the
  roll-back that works it off in reverse order. Where the source returns values next to an error
  (\<open>ClaimNextOperationCompensationStep\<close>), the model keeps the error and the store.
\<close>

section \<open>The plan\<close>

definition CompensationPlanMethod :: string where
  "CompensationPlanMethod = ''GENERIC_COMPENSATION_ORCHESTRATION_V1''"

fun validCompensationStrategy :: "CompensationStrategy \<Rightarrow> bool" where
  "validCompensationStrategy (CompensationStrategyOther x) = False"
| "validCompensationStrategy v = True"

definition trimPlanStep :: "CompensationPlanStep \<Rightarrow> CompensationPlanStep" where
  "trimPlanStep st = st\<lparr>pl_StepKey := TrimSpace (pl_StepKey st), pl_Action := TrimSpace (pl_Action st),
     pl_InputDigest := TrimSpace (pl_InputDigest st)\<rparr>"

text \<open>
  The loop of \<open>normalizedCompensationPlan\<close> over the sorted steps; \<open>n\<close> is the index and \<open>seen\<close> the
  step keys so far.
\<close>

fun normalizePlanSteps :: "int \<Rightarrow> string list \<Rightarrow> CompensationPlanStep list \<Rightarrow> CompensationPlanStep list res" where
  "normalizePlanSteps n seen [] = Inr []"
| "normalizePlanSteps n seen (st # rest) =
     (let st = trimPlanStep st in
      if pl_StepKey st = '''' \<or> pl_StepKey st \<in> set seen then Inl ErrValidation
      else if pl_ForwardOrder st \<noteq> n + 1 then Inl ErrValidation
      else if \<not> validCompensationStrategy (pl_Strategy st) then Inl ErrValidation
      else if pl_Strategy st \<noteq> CompensationNone \<and> pl_Action st = '''' then Inl ErrValidation
      else if \<not> HasPrefix (pl_InputDigest st) ''sha256:'' \<or> length (pl_InputDigest st) \<noteq> 71
      then Inl ErrValidation
      else if \<not> hex_decodes (TrimPrefix (pl_InputDigest st) ''sha256:'') then Inl ErrValidation
      else
        let st = (if pl_MaxAttempts st = 0 then st\<lparr>pl_MaxAttempts := 3\<rparr> else st) in
        if pl_MaxAttempts st < 1 \<or> pl_MaxAttempts st > 10 then Inl ErrValidation
        else (case normalizePlanSteps (n + 1) (pl_StepKey st # seen) rest of
            Inl x \<Rightarrow> Inl x
          | Inr out \<Rightarrow> Inr (st # out)))"

definition normalizedCompensationPlan :: "CompensationPlanStep list \<Rightarrow> CompensationPlanStep list res" where
  "normalizedCompensationPlan plan =
     (if plan = [] then Inl ErrValidation
      else normalizePlanSteps 0 [] (sort_by (less_on pl_ForwardOrder) plan))"

definition compensationPlanDigest :: "env \<Rightarrow> CompensationPlanStep list \<Rightarrow> string" where
  "compensationPlanDigest e plan = sha256_digest e (marshal e (VCompensationPlan CompensationPlanMethod plan))"

definition planRow :: "env \<Rightarrow> nat \<Rightarrow> string \<Rightarrow> int \<Rightarrow> CompensationPlanStep \<Rightarrow> OperationCompensationStep" where
  "planRow e k i now st =
     \<lparr>ID = newid e k ''cmp'', Revision = 1, CreatedAt = now, UpdatedAt = now, cs_OperationID = i,
      cs_StepKey = pl_StepKey st, cs_ForwardOrder = pl_ForwardOrder st, cs_Strategy = pl_Strategy st,
      cs_Action = pl_Action st, cs_InputDigest = pl_InputDigest st, cs_MaxAttempts = pl_MaxAttempts st,
      cs_ForwardCompleted = False, cs_ForwardCompletedAt = None, cs_State = CompensationStepPending,
      cs_Attempt = 0, cs_FenceToken = 0, cs_StartedAt = None, cs_FinishedAt = None,
      cs_EvidenceDigest = '''', cs_LastError = ''''\<rparr>"

fun planRows :: "env \<Rightarrow> nat \<Rightarrow> string \<Rightarrow> int \<Rightarrow> CompensationPlanStep list \<Rightarrow> OperationCompensationStep list" where
  "planRows e k i now [] = []"
| "planRows e k i now (st # rest) = planRow e k i now st # planRows e (Suc k) i now rest"

definition comp_key :: "string \<Rightarrow> string \<Rightarrow> string" where
  "comp_key i stepKey = i @ '':'' @ stepKey"

definition putRows ::
  "string \<Rightarrow> OperationCompensationStep list \<Rightarrow> OperationCompensationStep table \<Rightarrow> OperationCompensationStep table" where
  "putRows i rows m = fold (\<lambda>step m. put (comp_key i (cs_StepKey step)) step m) rows m"

definition SetOperationCompensationPlan ::
  "env \<Rightarrow> string \<Rightarrow> int \<Rightarrow> CompensationPlanStep list \<Rightarrow> string \<Rightarrow> MemoryStore \<Rightarrow>
   (Operation \<times> OperationCompensationStep list) call" where
  "SetOperationCompensationPlan e i expected plan actor s =
     (case get (operations s) i of
        None \<Rightarrow> (Inl ErrNotFound, s)
      | Some op \<Rightarrow>
          if Revision op \<noteq> expected then (Inl ErrConflict, s)
          else if op_State op \<noteq> OperationPlanning then (Inl ErrPrerequisite, s)
          else if op_Class op = OperationClassReadOnly then (Inl ErrValidation, s)
          else (case normalizedCompensationPlan plan of
              Inl x \<Rightarrow> (Inl x, s)
            | Inr normalized \<Rightarrow>
                let kept = filter (\<lambda>(k, step). cs_OperationID step \<noteq> i) (compensationSteps s);
                    now = nowUTC e 0;
                    rows = planRows e 3 i now normalized;
                    s = s\<lparr>compensationSteps := putRows i rows kept\<rparr>;
                    op = touch now (op\<lparr>op_CompensationPlanDigest := compensationPlanDigest e normalized,
                           op_CompensationStepCount := int (length rows), op_CompensationCursor := 0,
                           op_CompensationStartedAt := None, op_CompensationFinishedAt := None,
                           op_CompensationFailureStep := ''''\<rparr>)
                in (Inr (op, rows),
                    saveOperation e 1 i op actor ''operation.compensation_plan_bound''
                      [(''method'', MStr CompensationPlanMethod),
                       (''digest'', MStr (op_CompensationPlanDigest op)),
                       (''steps'', MInt (int (length rows)))]
                      ''operation.compensation_plan_bound'' s)))"

definition ListOperationCompensationSteps :: "string \<Rightarrow> MemoryStore \<Rightarrow> OperationCompensationStep list" where
  "ListOperationCompensationSteps operationID s =
     sort_by (less_on cs_ForwardOrder)
       (filter (\<lambda>step. cs_OperationID step = operationID) (vals (compensationSteps s)))"

section \<open>Forward progress\<close>

text \<open>
  The tail shared by the step handlers: store the step and the operation, then audit and publish
  the step.
\<close>

definition saveCompensationStep ::
  "env \<Rightarrow> nat \<Rightarrow> string \<Rightarrow> string \<Rightarrow> OperationCompensationStep \<Rightarrow> Operation \<Rightarrow> string \<Rightarrow> string \<Rightarrow>
   (string \<times> metaval) list \<Rightarrow> MemoryStore \<Rightarrow> MemoryStore" where
  "saveCompensationStep e k key i step op actor action metadata s =
     (let s = s\<lparr>compensationSteps := put key step (compensationSteps s),
                operations := put i op (operations s)\<rparr>;
          s = appendAuditLocked e k actor action ''operationCompensationStep'' (ID step) (Revision step) metadata s
      in appendOutboxLocked e (Suc k) ''operationCompensationStep'' (ID step) action (VCompensationStep step) s)"

definition RecordOperationForwardStepCompleted ::
  "env \<Rightarrow> string \<Rightarrow> string \<Rightarrow> int \<Rightarrow> string \<Rightarrow> int \<Rightarrow> string \<Rightarrow> MemoryStore \<Rightarrow>
   (OperationCompensationStep \<times> Operation) call" where
  "RecordOperationForwardStepCompleted e i stepKey expected worker fence actor s =
     (case get (operations s) i of
        None \<Rightarrow> (Inl ErrNotFound, s)
      | Some op \<Rightarrow>
          if Revision op \<noteq> expected then (Inl ErrConflict, s)
          else if op_State op \<noteq> OperationRunning \<and> op_State op \<noteq> OperationVerifying
          then (Inl ErrInvalidTransition, s)
          else if \<not> OperationLeaseActive op worker fence (nowUTC e 0) then (Inl ErrStaleFence, s)
          else if op_CompensationPlanDigest op = '''' then (Inl ErrPrerequisite, s)
          else let key = comp_key i (TrimSpace stepKey) in
            (case get (compensationSteps s) key of
               None \<Rightarrow> (Inl ErrNotFound, s)
             | Some step \<Rightarrow>
                 if cs_ForwardCompleted step then (Inr (step, op), s)
                 else if list_ex (\<lambda>candidate. cs_OperationID candidate = i \<and>
                           cs_ForwardOrder candidate < cs_ForwardOrder step \<and> \<not> cs_ForwardCompleted candidate)
                         (vals (compensationSteps s))
                 then (Inl ErrPrerequisite, s)
                 else
                   let now = nowUTC e 1;
                       step = touch now (step\<lparr>cs_ForwardCompleted := True, cs_ForwardCompletedAt := Some now\<rparr>);
                       op = touch now (op\<lparr>op_CompensationCursor := cs_ForwardOrder step\<rparr>)
                   in (Inr (step, op),
                       saveCompensationStep e 2 key i step op actor ''operation.forward_step_completed''
                         [(''operationId'', MStr i), (''stepKey'', MStr (cs_StepKey step)),
                          (''forwardOrder'', MInt (cs_ForwardOrder step))] s)))"

section \<open>Roll-back\<close>

definition BeginOperationCompensation ::
  "env \<Rightarrow> string \<Rightarrow> int \<Rightarrow> string \<Rightarrow> MemoryStore \<Rightarrow> Operation call" where
  "BeginOperationCompensation e i expected actor s =
     (case get (operations s) i of
        None \<Rightarrow> (Inl ErrNotFound, s)
      | Some op \<Rightarrow>
          if Revision op \<noteq> expected then (Inl ErrConflict, s)
          else if op_State op \<noteq> OperationFailed \<and> op_State op \<noteq> OperationCancelRequested
          then (Inl ErrInvalidTransition, s)
          else if op_CompensationPlanDigest op = '''' \<or> op_CompensationStepCount op = 0
          then (Inl ErrPrerequisite, s)
          else
            let now = nowUTC e 0;
                op = (if \<not> hasCompensatableForwardLocked s i
                  then op\<lparr>op_State := OperationRolledBack, op_CompensationStartedAt := Some now,
                          op_CompensationFinishedAt := Some now, op_LeaseOwner := '''',
                          op_LeaseExpiresAt := None\<rparr>
                  else op\<lparr>op_State := OperationRollingBack, op_CompensationStartedAt := Some now,
                          op_CompensationFinishedAt := None, op_LeaseOwner := '''',
                          op_LeaseExpiresAt := None\<rparr>);
                op = touch now op
            in (Inr op,
                saveOperation e 1 i op actor ''operation.compensation_started''
                  [(''state'', MNamed (OperationState_str (op_State op))),
                   (''planDigest'', MStr (op_CompensationPlanDigest op))]
                  ''operation.compensation_started'' s))"

text \<open>The two conditions the roll-back handlers scan the steps for.\<close>

definition compensation_pending :: "string \<Rightarrow> OperationCompensationStep \<Rightarrow> bool" where
  "compensation_pending i step =
     (cs_OperationID step = i \<and> cs_ForwardCompleted step \<and> cs_Strategy step \<noteq> CompensationNone \<and>
      cs_State step = CompensationStepPending)"

definition compensation_open :: "string \<Rightarrow> OperationCompensationStep \<Rightarrow> bool" where
  "compensation_open i step =
     (cs_OperationID step = i \<and> cs_ForwardCompleted step \<and> cs_Strategy step \<noteq> CompensationNone \<and>
      cs_State step \<noteq> CompensationStepSucceeded \<and> cs_State step \<noteq> CompensationStepSkipped)"

definition rolledBackOperation :: "int \<Rightarrow> Operation \<Rightarrow> Operation" where
  "rolledBackOperation now op =
     op\<lparr>op_State := OperationRolledBack, op_CompensationFinishedAt := Some now,
        op_LeaseOwner := '''', op_LeaseExpiresAt := None\<rparr>"

definition ClaimNextOperationCompensationStep ::
  "env \<Rightarrow> string \<Rightarrow> string \<Rightarrow> int \<Rightarrow> string \<Rightarrow> MemoryStore \<Rightarrow> (OperationCompensationStep \<times> Operation) call" where
  "ClaimNextOperationCompensationStep e i worker fence actor s =
     (case get (operations s) i of
        None \<Rightarrow> (Inl ErrNotFound, s)
      | Some op \<Rightarrow>
          if op_State op \<noteq> OperationRollingBack then (Inl ErrInvalidTransition, s)
          else if op_LeaseOwner op \<noteq> worker \<or> op_FenceToken op \<noteq> fence \<or>
                  \<not> after (op_LeaseExpiresAt op) (nowUTC e 0)
          then (Inl ErrStaleFence, s)
          else
            (case sort_by (\<lambda>x y. cs_ForwardOrder y < cs_ForwardOrder x)
                    (filter (compensation_pending i) (vals (compensationSteps s))) of
               [] \<Rightarrow>
                 if \<not> list_ex (compensation_open i) (vals (compensationSteps s))
                 then let now = nowUTC e 1; op = touch now (rolledBackOperation now op)
                      in (Inl ErrNotFound,
                          saveOperation e 2 i op actor ''operation.compensation_completed''
                            [(''planDigest'', MStr (op_CompensationPlanDigest op))]
                            ''operation.compensation_completed'' s)
                 else (Inl ErrNotClaimable, s)
             | step # candidates \<Rightarrow>
                 let key = comp_key i (cs_StepKey step); now = nowUTC e 1 in
                 if cs_Strategy step = CompensationManualRecovery \<or> cs_Strategy step = CompensationIrreversible
                 then
                   let step = touch now (step\<lparr>cs_State := CompensationStepManualRequired,
                          cs_LastError := ''automatic compensation is not available for strategy '' @
                            CompensationStrategy_str (cs_Strategy step),
                          cs_FinishedAt := Some now\<rparr>);
                       s = s\<lparr>compensationSteps := put key step (compensationSteps s)\<rparr>;
                       op = touch now (op\<lparr>op_State := OperationNeedsOperator,
                          op_CompensationFailureStep := cs_StepKey step, op_LeaseOwner := '''',
                          op_LeaseExpiresAt := None\<rparr>)
                   in (Inl ErrPrerequisite,
                       saveOperation e 2 i op actor ''operation.compensation_needs_operator''
                         [(''stepKey'', MStr (cs_StepKey step)),
                          (''strategy'', MNamed (CompensationStrategy_str (cs_Strategy step)))]
                         ''operation.compensation_needs_operator'' s)
                 else if cs_Attempt step \<ge> cs_MaxAttempts step then (Inl ErrPrerequisite, s)
                 else
                   let step = touch now (step\<lparr>cs_State := CompensationStepRunning,
                          cs_Attempt := cs_Attempt step + 1, cs_FenceToken := fence,
                          cs_StartedAt := Some now, cs_FinishedAt := None, cs_LastError := ''''\<rparr>);
                       op = touch now (op\<lparr>op_CompensationCursor := cs_ForwardOrder step\<rparr>)
                   in (Inr (step, op),
                       saveCompensationStep e 2 key i step op actor ''operation.compensation_step_started''
                         [(''operationId'', MStr i), (''stepKey'', MStr (cs_StepKey step)),
                          (''attempt'', MInt (cs_Attempt step)),
                          (''forwardOrder'', MInt (cs_ForwardOrder step))] s)))"

definition CompleteOperationCompensationStep ::
  "env \<Rightarrow> string \<Rightarrow> string \<Rightarrow> string \<Rightarrow> int \<Rightarrow> string \<Rightarrow> string \<Rightarrow> MemoryStore \<Rightarrow>
   (OperationCompensationStep \<times> Operation) call" where
  "CompleteOperationCompensationStep e i stepKey worker fence evidenceDigest actor s =
     (case get (operations s) i of
        None \<Rightarrow> (Inl ErrNotFound, s)
      | Some op \<Rightarrow>
          if op_State op \<noteq> OperationRollingBack \<or> \<not> OperationLeaseActive op worker fence (nowUTC e 0)
          then (Inl ErrStaleFence, s)
          else let key = comp_key i (TrimSpace stepKey) in
            (case get (compensationSteps s) key of
               None \<Rightarrow> (Inl ErrNotFound, s)
             | Some step \<Rightarrow>
                 if cs_State step \<noteq> CompensationStepRunning \<or> cs_FenceToken step \<noteq> fence
                 then (Inl ErrInvalidTransition, s)
                 else let evidenceDigest = TrimSpace evidenceDigest in
                   if \<not> HasPrefix evidenceDigest ''sha256:'' \<or> length evidenceDigest \<noteq> 71 then (Inl ErrValidation, s)
                   else if \<not> hasSealedStepEvidenceLocked e s i OperationStepPhaseCompensation
                             (cs_StepKey step) (cs_Attempt step) evidenceDigest
                   then (Inl ErrPrerequisite, s)
                   else
                     let now = nowUTC e 1;
                         step = touch now (step\<lparr>cs_State := CompensationStepSucceeded,
                            cs_EvidenceDigest := evidenceDigest, cs_FinishedAt := Some now, cs_LastError := ''''\<rparr>);
                         remaining = list_ex (compensation_open i) (vals (put key step (compensationSteps s)));
                         op = (if \<not> remaining then rolledBackOperation now op else op);
                         op = touch now (op\<lparr>op_CompensationFailureStep := ''''\<rparr>);
                         s = saveCompensationStep e 2 key i step op actor ''operation.compensation_step_succeeded''
                               [(''operationId'', MStr i), (''stepKey'', MStr (cs_StepKey step)),
                                (''evidenceDigest'', MStr evidenceDigest)] s
                     in (Inr (step, op),
                         if op_State op = OperationRolledBack
                         then appendOutboxLocked e 5 ''operation'' i ''operation.compensation_completed'' (VOperation op)
                                (appendAuditLocked e 4 actor ''operation.compensation_completed'' ''operation'' i
                                   (Revision op) [(''planDigest'', MStr (op_CompensationPlanDigest op))] s)
                         else s)))"

definition ReportOperationCompensationStepFailure ::
  "env \<Rightarrow> string \<Rightarrow> string \<Rightarrow> string \<Rightarrow> int \<Rightarrow> CompensationStepFailure \<Rightarrow> string \<Rightarrow> MemoryStore \<Rightarrow>
   (OperationCompensationStep \<times> Operation) call" where
  "ReportOperationCompensationStepFailure e i stepKey worker fence failure actor s =
     (case get (operations s) i of
        None \<Rightarrow> (Inl ErrNotFound, s)
      | Some op \<Rightarrow>
          if op_State op \<noteq> OperationRollingBack \<or> \<not> OperationLeaseActive op worker fence (nowUTC e 0)
          then (Inl ErrStaleFence, s)
          else let key = comp_key i (TrimSpace stepKey) in
            (case get (compensationSteps s) key of
               None \<Rightarrow> (Inl ErrNotFound, s)
             | Some step \<Rightarrow>
                 if cs_State step \<noteq> CompensationStepRunning \<or> cs_FenceToken step \<noteq> fence
                 then (Inl ErrInvalidTransition, s)
                 else let msg = TrimSpace (csf_Message failure) in
                   if msg = '''' then (Inl ErrValidation, s)
                   else
                     let now = nowUTC e 1;
                         retry = (csf_Retryable failure \<and> cs_Attempt step < cs_MaxAttempts step);
                         step = step\<lparr>cs_LastError := msg, cs_FinishedAt := Some now\<rparr>;
                         step = touch now (if retry
                           then step\<lparr>cs_State := CompensationStepPending, cs_FenceToken := 0\<rparr>
                           else step\<lparr>cs_State := CompensationStepFailed\<rparr>);
                         op = (if retry then op
                           else op\<lparr>op_State := OperationRollbackFailed,
                                   op_CompensationFailureStep := cs_StepKey step,
                                   op_LeaseOwner := '''', op_LeaseExpiresAt := None\<rparr>);
                         op = touch now (op\<lparr>op_LastError := msg\<rparr>)
                     in (Inr (step, op),
                         saveCompensationStep e 2 key i step op actor ''operation.compensation_step_failed''
                           [(''operationId'', MStr i), (''stepKey'', MStr (cs_StepKey step)),
                            (''attempt'', MInt (cs_Attempt step)), (''retryable'', MBool (csf_Retryable failure)),
                            (''state'', MNamed (CompensationStepState_str (cs_State step)))] s)))"

definition NormalizeCompensationPlan :: "CompensationPlanStep list \<Rightarrow> CompensationPlanStep list res" where
  "NormalizeCompensationPlan plan = normalizedCompensationPlan plan"

definition CompensationPlanDigest :: "env \<Rightarrow> CompensationPlanStep list \<Rightarrow> string" where
  "CompensationPlanDigest e plan = compensationPlanDigest e plan"

end
