(* ===== verification/Recovery.thy ===== *)
theory Recovery
  imports Compensation
begin

text \<open>
  Recovery: checkpoints (\<open>recovery_checkpoint_store.go\<close>), the resolution of operations whose
  outcome is unknown (\<open>operation_unknown_recovery.go\<close>) and the destructive operations that product
  workflows own (\<open>owner_destructive_operation.go\<close>).
\<close>

section \<open>Recovery checkpoints\<close>

definition ValidateRecoveryCheckpointCreate ::
  "RecoveryCheckpoint \<Rightarrow> ManagedCluster \<Rightarrow> int \<Rightarrow> RecoveryCheckpoint res" where
  "ValidateRecoveryCheckpointCreate v cluster now =
     (let v = v\<lparr>rcp_ProjectID := TrimSpace (rcp_ProjectID v), rcp_ClusterID := TrimSpace (rcp_ClusterID v),
            rcp_Provider := TrimSpace (rcp_Provider v), rcp_Reference := TrimSpace (rcp_Reference v),
            rcp_EvidenceDigest := TrimSpace (rcp_EvidenceDigest v)\<rparr> in
      if rcp_ProjectID v = '''' \<or> rcp_ClusterID v = '''' \<or> rcp_Provider v = '''' \<or> rcp_Reference v = '''' \<or>
         \<not> HasPrefix (rcp_EvidenceDigest v) ''sha256:'' then Inl ErrValidation
      else if mc_ProjectID cluster \<noteq> rcp_ProjectID v \<or> ID cluster \<noteq> rcp_ClusterID v then Inl ErrNotFound
      else if TrimSpace (mc_InventoryDigest cluster) = '''' \<or> \<not> HasPrefix (mc_InventoryDigest cluster) ''sha256:''
      then Inl ErrPrerequisite
      else if rcp_CompletedAt v = 0 \<or> now + Minute < rcp_CompletedAt v then Inl ErrValidation
      else if rcp_ExpiresAt v = 0 \<or> \<not> now < rcp_ExpiresAt v \<or> \<not> rcp_CompletedAt v < rcp_ExpiresAt v
      then Inl ErrValidation
      else Inr v)"

definition CreateRecoveryCheckpoint ::
  "env \<Rightarrow> RecoveryCheckpoint \<Rightarrow> string \<Rightarrow> MemoryStore \<Rightarrow> RecoveryCheckpoint call" where
  "CreateRecoveryCheckpoint e v actor s =
     (case get (managedClusters s) (rcp_ClusterID v) of
        None \<Rightarrow> (Inl ErrNotFound, s)
      | Some cluster \<Rightarrow>
          let now = nowUTC e 0 in
          (case ValidateRecoveryCheckpointCreate v cluster now of
             Inl x \<Rightarrow> (Inl x, s)
           | Inr v \<Rightarrow>
               if list_ex (\<lambda>existing. rcp_ProjectID existing = rcp_ProjectID v \<and>
                    rcp_ClusterID existing = rcp_ClusterID v \<and>
                    rcp_EvidenceDigest existing = rcp_EvidenceDigest v \<and>
                    rcp_State existing \<noteq> RecoveryCheckpointRevoked) (vals (recoveryCheckpoints s))
               then (Inl ErrDuplicateName, s)
               else
                 let v = (stamp (newid e 0 ''rcp'') now v)\<lparr>rcp_InventoryDigest := mc_InventoryDigest cluster,
                           rcp_State := RecoveryCheckpointVerified, rcp_RequestedBy := actor\<rparr>;
                     s = s\<lparr>recoveryCheckpoints := put (ID v) v (recoveryCheckpoints s)\<rparr>;
                     s = appendAuditLocked e 1 actor ''recovery_checkpoint.registered'' ''recoveryCheckpoint''
                           (ID v) (Revision v)
                           [(''clusterId'', MStr (rcp_ClusterID v)), (''provider'', MStr (rcp_Provider v)),
                            (''evidenceDigest'', MStr (rcp_EvidenceDigest v))] s
                 in (Inr v, appendOutboxLocked e 2 ''recoveryCheckpoint'' (ID v) ''recovery_checkpoint.verified''
                              (VRecoveryCheckpoint v) s)))"

definition GetRecoveryCheckpoint :: "string \<Rightarrow> MemoryStore \<Rightarrow> RecoveryCheckpoint res" where
  "GetRecoveryCheckpoint i s = (case get (recoveryCheckpoints s) i of None \<Rightarrow> Inl ErrNotFound | Some v \<Rightarrow> Inr v)"

definition ListRecoveryCheckpoints :: "string \<Rightarrow> string \<Rightarrow> MemoryStore \<Rightarrow> RecoveryCheckpoint list" where
  "ListRecoveryCheckpoints projectID clusterID s =
     sort_by (less_on CreatedAt)
       (filter (\<lambda>v. (projectID = '''' \<or> rcp_ProjectID v = projectID) \<and>
                    (clusterID = '''' \<or> rcp_ClusterID v = clusterID)) (vals (recoveryCheckpoints s)))"

definition RevokeRecoveryCheckpoint ::
  "env \<Rightarrow> string \<Rightarrow> int \<Rightarrow> string \<Rightarrow> MemoryStore \<Rightarrow> RecoveryCheckpoint call" where
  "RevokeRecoveryCheckpoint e i expected actor s =
     (case get (recoveryCheckpoints s) i of
        None \<Rightarrow> (Inl ErrNotFound, s)
      | Some v \<Rightarrow>
          if Revision v \<noteq> expected then (Inl ErrConflict, s)
          else if rcp_State v \<noteq> RecoveryCheckpointVerified then (Inl ErrInvalidTransition, s)
          else
            let now = nowUTC e 0;
                v = touch now (v\<lparr>rcp_State := RecoveryCheckpointRevoked, rcp_RevokedBy := actor,
                      rcp_RevokedAt := Some now\<rparr>);
                s = s\<lparr>recoveryCheckpoints := put i v (recoveryCheckpoints s)\<rparr>;
                s = appendAuditLocked e 1 actor ''recovery_checkpoint.revoked'' ''recoveryCheckpoint'' i (Revision v) [] s
            in (Inr v, appendOutboxLocked e 2 ''recoveryCheckpoint'' i ''recovery_checkpoint.revoked''
                         (VRecoveryCheckpoint v) s))"

section \<open>Unknown outcomes\<close>

definition OperationUnknownOutcomeRecoveryAuthority :: string where
  "OperationUnknownOutcomeRecoveryAuthority = ''OPERATION_UNKNOWN_OUTCOME_RECOVERY_V1''"

definition OperationUnknownOutcomeConfirmedSuccess :: string where
  "OperationUnknownOutcomeConfirmedSuccess = ''CONFIRMED_SUCCESS''"

definition OperationUnknownOutcomeConfirmedNoEffect :: string where
  "OperationUnknownOutcomeConfirmedNoEffect = ''CONFIRMED_NO_EFFECT''"

definition NormalizeUnknownOutcomeResolution :: "string \<Rightarrow> string res" where
  "NormalizeUnknownOutcomeResolution v =
     (let v = ToUpper (TrimSpace v) in
      if v = OperationUnknownOutcomeConfirmedSuccess then Inr OperationUnknownOutcomeConfirmedSuccess
      else if v = OperationUnknownOutcomeConfirmedNoEffect then Inr OperationUnknownOutcomeConfirmedNoEffect
      else Inl ErrValidation)"

definition validRecoveryEvidenceDigest :: "string \<Rightarrow> bool" where
  "validRecoveryEvidenceDigest v =
     (let v = TrimSpace (ToLower v) in
      length v = 71 \<and> HasPrefix v ''sha256:'' \<and>
      list_all (\<lambda>ch. ch \<in> set ''0123456789abcdef'') (drop 7 v))"

definition ApplyUnknownOutcomeResolution ::
  "Operation \<Rightarrow> int \<Rightarrow> string \<Rightarrow> string \<Rightarrow> string \<Rightarrow> Operation res" where
  "ApplyUnknownOutcomeResolution op expected resolution evidenceDigest actor =
     (if Revision op \<noteq> expected then Inl ErrConflict
      else if op_State op \<noteq> OperationFailed \<or> op_LastFailureClass op \<noteq> OperationFailureUnknown
      then Inl ErrPrerequisite
      else (case NormalizeUnknownOutcomeResolution resolution of
          Inl x \<Rightarrow> Inl x
        | Inr resolution \<Rightarrow>
            let evidenceDigest = ToLower (TrimSpace evidenceDigest); actor = TrimSpace actor in
            if \<not> validRecoveryEvidenceDigest evidenceDigest \<or> actor = '''' then Inl ErrValidation
            else
              let op = op\<lparr>op_RecoveryEvidenceDigest := evidenceDigest, op_LeaseOwner := '''',
                          op_LeaseExpiresAt := None, op_NextAttemptAt := None,
                          Revision := Revision op + 1\<rparr> in
              Inr (if resolution = OperationUnknownOutcomeConfirmedSuccess
                   then op\<lparr>op_State := OperationSucceeded, op_LastFailureClass := OperationFailureUnset,
                           op_LastError := '''', op_RetryExhausted := False\<rparr>
                   else op\<lparr>op_State := OperationFailed, op_LastFailureClass := OperationFailurePermanent,
                           op_LastError := ''authoritative recovery readback confirmed no external effect'',
                           op_RetryExhausted := True\<rparr>)))"

definition ResolveUnknownOperationOutcome ::
  "env \<Rightarrow> string \<Rightarrow> int \<Rightarrow> string \<Rightarrow> string \<Rightarrow> string \<Rightarrow> MemoryStore \<Rightarrow> Operation call" where
  "ResolveUnknownOperationOutcome e i expected resolution evidenceDigest actor s =
     (case get (operations s) i of
        None \<Rightarrow> (Inl ErrNotFound, s)
      | Some op \<Rightarrow>
          (case ApplyUnknownOutcomeResolution op expected resolution evidenceDigest actor of
             Inl x \<Rightarrow> (Inl x, s)
           | Inr op' \<Rightarrow>
               let op' = op'\<lparr>UpdatedAt := nowUTC e 0\<rparr>
               in (Inr op',
                   saveOperation e 1 i op' actor ''operation.unknown_outcome_resolved''
                     [(''authority'', MStr OperationUnknownOutcomeRecoveryAuthority),
                      (''resolution'', MNamed resolution),
                      (''recoveryEvidenceDigest'', MStr (op_RecoveryEvidenceDigest op'))]
                     ''operation.unknown_outcome_resolved'' s)))"

text \<open>
  The source names the normalisation \<open>normalizeUnknownOutcomeResolution\<close> here, which is not
  declared anywhere; the exported function of the same file is the only candidate.
\<close>

definition ResolveUnknownOperationOutcomeWithEvidence ::
  "env \<Rightarrow> string \<Rightarrow> int \<Rightarrow> string \<Rightarrow> EvidenceMetadata \<Rightarrow> string \<Rightarrow> string \<Rightarrow> MemoryStore \<Rightarrow>
   (Operation \<times> EvidenceMetadata) call" where
  "ResolveUnknownOperationOutcomeWithEvidence e i expected resolution ein payload actor s =
     (let i = TrimSpace i; actor = TrimSpace actor; ein = trimEvidence ein in
      if i = '''' \<or> evd_OperationID ein \<noteq> i \<or> evd_Kind ein = '''' \<or> evd_MediaType ein = '''' \<or> actor = '''' \<or>
         payload = '''' \<or> int (length payload) > evidencePayloadLimit then (Inl ErrValidation, s)
      else let digest = OperationEvidencePayloadDigest e payload in
        if evd_Digest ein \<noteq> '''' \<and> TrimSpace (ToLower (evd_Digest ein)) \<noteq> digest then (Inl ErrValidation, s)
        else if evd_Size ein \<noteq> 0 \<and> evd_Size ein \<noteq> int (length payload) then (Inl ErrValidation, s)
        else (case get (operations s) i of
            None \<Rightarrow> (Inl ErrNotFound, s)
          | Some op \<Rightarrow>
              (case NormalizeUnknownOutcomeResolution resolution of
                 Inl x \<Rightarrow> (Inl x, s)
               | Inr resolution \<Rightarrow>
                   (case findDirectEvidence s i digest of
                      Some existing \<Rightarrow>
                        if \<not> evd_HasPayload existing \<or> \<not> evd_Sealed existing \<or> \<not> payload_intact e s existing digest
                        then (Inl ErrConflict, s)
                        else if op_RecoveryEvidenceDigest op = digest \<and>
                          (resolution = OperationUnknownOutcomeConfirmedSuccess \<and> op_State op = OperationSucceeded \<or>
                           resolution = OperationUnknownOutcomeConfirmedNoEffect \<and> op_State op = OperationFailed \<and>
                           op_LastFailureClass op = OperationFailurePermanent)
                        then (Inr (op, existing), s)
                        else (Inl ErrConflict, s)
                    | None \<Rightarrow>
                        (case ApplyUnknownOutcomeResolution op expected resolution digest actor of
                           Inl x \<Rightarrow> (Inl x, s)
                         | Inr op' \<Rightarrow>
                             let now = nowUTC e 0;
                                 evidenceID = newid e 0 ''evd'';
                                 ev = (sealedEvidence evidenceID now i ein digest payload)\<lparr>evd_Location :=
                                   (if evd_Location ein = ''''
                                    then ''authority://operations/'' @ i @ ''/recovery/'' @ evidenceID
                                    else evd_Location ein)\<rparr>;
                                 op' = op'\<lparr>UpdatedAt := now\<rparr>;
                                 s = s\<lparr>evidence := put evidenceID ev (evidence s),
                                       evidencePayloads := put evidenceID payload (evidencePayloads s)\<rparr>;
                                 s = appendAuditLocked e 1 actor ''evidence.payload_sealed'' ''evidence'' evidenceID 1
                                       [(''operationId'', MStr i), (''digest'', MStr digest),
                                        (''kind'', MStr (evd_Kind ein)), (''recovery'', MBool True)] s;
                                 s = appendOutboxLocked e 2 ''evidence'' evidenceID ''evidence.payload_sealed'' (VEvidence ev) s
                             in (Inr (op', ev),
                                 saveOperation e 3 i op' actor ''operation.unknown_outcome_resolved''
                                   [(''authority'', MStr OperationUnknownOutcomeRecoveryAuthority),
                                    (''resolution'', MNamed resolution),
                                    (''recoveryEvidenceDigest'', MStr digest), (''evidenceId'', MStr evidenceID)]
                                   ''operation.unknown_outcome_resolved'' s))))))"

end
