(* ===== verification/OwnerDestructive.thy ===== *)
theory OwnerDestructive
  imports Recovery
begin

text \<open>
  Destructive operations that a product workflow owns,
  \<open>internal/controlplane/owner_destructive_operation.go\<close>. They use the generic operation records
  and recovery checkpoints, and move through the state machine without a worker lease.
\<close>

definition OwnerOperationBaselineRollback :: string where
  "OwnerOperationBaselineRollback = ''baseline.rollback''"

definition OwnerOperationTenantDelete :: string where
  "OwnerOperationTenantDelete = ''tenant.delete''"

definition OwnerOperationProviderClusterDelete :: string where
  "OwnerOperationProviderClusterDelete = ''provider-cluster.delete''"

definition OwnerDestructiveDesiredRevision ::
  "env \<Rightarrow> string \<Rightarrow> string \<Rightarrow> int \<Rightarrow> string \<Rightarrow> string \<Rightarrow> string" where
  "OwnerDestructiveDesiredRevision e kind ownerID ownerRevision desiredDigest recoveryCheckpointID =
     sha256_digest e (marshal e (VOwnerDesired kind ownerID ownerRevision (TrimSpace desiredDigest)
       (TrimSpace recoveryCheckpointID)))"

definition transitionOwnerOperationLocked ::
  "env \<Rightarrow> nat \<Rightarrow> Operation \<Rightarrow> OperationState \<Rightarrow> string \<Rightarrow> string \<Rightarrow> (string \<times> metaval) list \<Rightarrow>
   MemoryStore \<Rightarrow> Operation call" where
  "transitionOwnerOperationLocked e k op to actor event payload s =
     (if \<not> CanTransition (op_State op) to then (Inl ErrInvalidTransition, s)
      else
        let op = touch (nowUTC e k) (op\<lparr>op_State := to\<rparr>);
            event = (if event = '''' then ''operation.transitioned'' else event)
        in (Inr op,
            saveOperation e (Suc k) (ID op) op actor event
              (AList.update ''state'' (MNamed (OperationState_str to)) payload) event s))"

definition cancelOwnerDestructiveOperationLocked ::
  "env \<Rightarrow> string \<Rightarrow> string \<Rightarrow> string \<Rightarrow> MemoryStore \<Rightarrow> unit call" where
  "cancelOwnerDestructiveOperationLocked e operationID actor reason s =
     (let operationID = TrimSpace operationID in
      if operationID = '''' then (Inr (), s)
      else (case get (operations s) operationID of
          None \<Rightarrow> (Inl ErrPrerequisite, s)
        | Some op \<Rightarrow>
            if op_Class op \<noteq> OperationClassDestructive then (Inl ErrPrerequisite, s)
            else if op_State op = OperationCancelled then (Inr (), s)
            else if \<not> CanTransition (op_State op) OperationCancelled then (Inl ErrPrerequisite, s)
            else (case transitionOwnerOperationLocked e 0 op OperationCancelled actor
                         ''operation.owner_superseded'' [(''reason'', MStr (TrimSpace reason))] s of
                (Inl x, s) \<Rightarrow> (Inl x, s)
              | (Inr op, s) \<Rightarrow> (Inr (), s))))"

text \<open>The transitions a new owner operation takes at once, as long as each succeeds.\<close>

fun ownerTransitions ::
  "env \<Rightarrow> nat \<Rightarrow> Operation \<Rightarrow> (OperationState \<times> string \<times> (string \<times> metaval) list) list \<Rightarrow> string \<Rightarrow>
   MemoryStore \<Rightarrow> Operation call" where
  "ownerTransitions e k op [] actor s = (Inr op, s)"
| "ownerTransitions e k op ((to, event, payload) # rest) actor s =
     (case transitionOwnerOperationLocked e k op to actor event payload s of
        (Inl x, s) \<Rightarrow> (Inl x, s)
      | (Inr op, s) \<Rightarrow> ownerTransitions e (k + 3) op rest actor s)"

definition createOwnerDestructiveOperationLocked ::
  "env \<Rightarrow> string \<Rightarrow> string \<Rightarrow> string \<Rightarrow> string \<Rightarrow> int \<Rightarrow> string \<Rightarrow> string \<Rightarrow> string \<Rightarrow> string \<Rightarrow> bool \<Rightarrow>
   MemoryStore \<Rightarrow> Operation call" where
  "createOwnerDestructiveOperationLocked e projectID clusterID kind ownerID ownerRevision desiredDigest
       recoveryCheckpointID actor requestDigest awaitApproval s =
     (let projectID = TrimSpace projectID; clusterID = TrimSpace clusterID; kind = TrimSpace kind;
          ownerID = TrimSpace ownerID; recoveryCheckpointID = TrimSpace recoveryCheckpointID in
      if projectID = '''' \<or> clusterID = '''' \<or> kind = '''' \<or> ownerID = '''' \<or> recoveryCheckpointID = '''' \<or>
         TrimSpace actor = '''' then (Inl ErrPrerequisite, s)
      else
        let desiredRevision = OwnerDestructiveDesiredRevision e kind ownerID ownerRevision desiredDigest recoveryCheckpointID;
            key = ''owner:'' @ kind @ '':'' @ ownerID @ '':'' @ itoa ownerRevision;
            request = \<lparr>req_ProjectID = projectID, req_Kind = kind, req_TargetRef = ''cluster:'' @ clusterID,
              req_DesiredRevision = desiredRevision, req_Risk = ''critical'',
              req_Class = OperationClassDestructive, req_RecoveryCheckpointID = recoveryCheckpointID\<rparr>;
            digest = operationDigest e request;
            scope = projectID @ '':'' @ key in
        (case get (idempotency s) scope of
           Some existingID \<Rightarrow>
             let existing = (case get (operations s) existingID of None \<Rightarrow> zeroOperation | Some op \<Rightarrow> op) in
             if op_RequestDigest existing \<noteq> digest then (Inl ErrIdempotencyConflict, s)
             else (Inr existing, s)
         | None \<Rightarrow>
             let now = nowUTC e 0;
                 op = newOperation (newid e 0 ''op'') now request OperationClassDestructive key digest actor in
             (case get (recoveryCheckpoints s) recoveryCheckpointID of
                None \<Rightarrow> (Inl ErrPrerequisite, s)
              | Some checkpoint \<Rightarrow>
                  let op = op\<lparr>op_RecoveryCheckpointID := recoveryCheckpointID,
                        op_RecoveryEvidenceDigest := rcp_EvidenceDigest checkpoint,
                        op_RecoveryInventoryDigest := rcp_InventoryDigest checkpoint\<rparr> in
                  (case validateDestructiveRecoveryLocked s op now of
                     Inl x \<Rightarrow> (Inl x, s)
                   | Inr u \<Rightarrow>
                       let owner = [(''ownerKind'', MStr kind), (''ownerId'', MStr ownerID)];
                           s = saveOperation e 1 (ID op) op actor ''operation.created''
                                 [(''ownerKind'', MStr kind), (''ownerId'', MStr ownerID),
                                  (''requestDigest'', MStr requestDigest),
                                  (''state'', MNamed (OperationState_str (op_State op)))]
                                 ''operation.created''
                                 (s\<lparr>idempotency := put scope (ID op) (idempotency s)\<rparr>)
                       in ownerTransitions e 3 op
                            ([(OperationPlanning, ''operation.owner_planning'', owner),
                              (OperationAwaitingApproval, ''operation.owner_approval_required'', owner)] @
                             (if awaitApproval then []
                              else [(OperationApproved, ''operation.owner_approved'',
                                     owner @ [(''approval'', MStr ''explicit-destructive-request'')]),
                                    (OperationQueued, ''operation.owner_queued'', owner)]))
                            actor s))))"

text \<open>The binding check that approval and start share.\<close>

definition ownerBinding ::
  "string \<Rightarrow> string \<Rightarrow> string \<Rightarrow> MemoryStore \<Rightarrow> Operation option" where
  "ownerBinding operationID projectID clusterID s =
     (case get (operations s) (TrimSpace operationID) of
        None \<Rightarrow> None
      | Some op \<Rightarrow>
          if op_ProjectID op \<noteq> projectID \<or> OperationTargetClusterID (op_TargetRef op) \<noteq> clusterID \<or>
             op_Class op \<noteq> OperationClassDestructive
          then None else Some op)"

definition approveOwnerDestructiveOperationLocked ::
  "env \<Rightarrow> string \<Rightarrow> string \<Rightarrow> string \<Rightarrow> string \<Rightarrow> MemoryStore \<Rightarrow> Operation call" where
  "approveOwnerDestructiveOperationLocked e operationID projectID clusterID actor s =
     (case ownerBinding operationID projectID clusterID s of
        None \<Rightarrow> (Inl ErrPrerequisite, s)
      | Some op \<Rightarrow>
          if op_State op \<noteq> OperationAwaitingApproval then (Inl ErrInvalidTransition, s)
          else (case validateDestructiveRecoveryLocked s op (nowUTC e 0) of
              Inl x \<Rightarrow> (Inl x, s)
            | Inr u \<Rightarrow>
                ownerTransitions e 1 op
                  [(OperationApproved, ''operation.owner_approved'', []),
                   (OperationQueued, ''operation.owner_queued'', [])] actor s))"

definition startOwnerDestructiveOperationLocked ::
  "env \<Rightarrow> string \<Rightarrow> string \<Rightarrow> string \<Rightarrow> string \<Rightarrow> MemoryStore \<Rightarrow> Operation call" where
  "startOwnerDestructiveOperationLocked e operationID projectID clusterID actor s =
     (case ownerBinding operationID projectID clusterID s of
        None \<Rightarrow> (Inl ErrPrerequisite, s)
      | Some op \<Rightarrow>
          if op_State op \<noteq> OperationQueued then (Inl ErrPrerequisite, s)
          else let now = nowUTC e 0 in
            (case validateDestructiveRecoveryLocked s op now of
               Inl x \<Rightarrow> (Inl x, s)
             | Inr u \<Rightarrow>
                 if op_Attempt op \<ge> MaxAttempts (op_RetryPolicy op) then (Inl ErrPrerequisite, s)
                 else
                   let op = touch now (op\<lparr>op_Attempt := op_Attempt op + 1, op_State := OperationRunning,
                         op_LastFailureClass := OperationFailureUnset, op_RetryExhausted := False,
                         op_NextAttemptAt := None\<rparr>)
                   in (Inr op,
                       saveOperation e 1 (ID op) op actor ''operation.owner_attempt_started''
                         [(''attempt'', MInt (op_Attempt op)), (''owner'', MStr (op_Kind op))]
                         ''operation.owner_attempt_started'' s)))"

definition finishOwnerDestructiveOperationLocked ::
  "env \<Rightarrow> string \<Rightarrow> bool \<Rightarrow> string \<Rightarrow> string \<Rightarrow> MemoryStore \<Rightarrow> Operation call" where
  "finishOwnerDestructiveOperationLocked e operationID success lastError actor s =
     (case get (operations s) (TrimSpace operationID) of
        None \<Rightarrow> (Inl ErrPrerequisite, s)
      | Some op \<Rightarrow>
          if op_Class op \<noteq> OperationClassDestructive then (Inl ErrPrerequisite, s)
          else if op_State op \<noteq> OperationRunning then (Inl ErrInvalidTransition, s)
          else let now = nowUTC e 0 in
            if \<not> success
            then
              let msg = TrimSpace lastError;
                  op = touch now (op\<lparr>op_State := OperationFailed,
                         op_LastError := (if msg = '''' then ''owner destructive workflow failed'' else msg),
                         op_LastFailureClass := OperationFailureUnknown, op_RetryExhausted := True\<rparr>)
              in (Inr op,
                  saveOperation e 1 (ID op) op actor ''operation.owner_failed''
                    [(''attempt'', MInt (op_Attempt op)), (''error'', MStr (op_LastError op))]
                    ''operation.owner_failed'' s)
            else
              let op = touch now (op\<lparr>op_State := OperationVerifying\<rparr>);
                  s = saveOperation e 1 (ID op) op actor ''operation.owner_verification_started''
                        [(''attempt'', MInt (op_Attempt op))] ''operation.owner_verification_started'' s;
                  op = touch (nowUTC e 3) (op\<lparr>op_State := OperationSucceeded\<rparr>)
              in (Inr op,
                  saveOperation e 4 (ID op) op actor ''operation.owner_succeeded''
                    [(''attempt'', MInt (op_Attempt op))] ''operation.owner_succeeded'' s))"

definition ownerDestructiveRetryRequiresFreshRequest :: "string \<Rightarrow> err" where
  "ownerDestructiveRetryRequiresFreshRequest operationID = ErrPrerequisite"

end
