(* ===== verification/RequestPayload.thy ===== *)
theory RequestPayload
  imports OwnerDestructive
begin

text \<open>
  Operations with a sealed request payload and their approval,
  \<open>internal/controlplane/operation_request_payload.go\<close>.
\<close>

definition OperationRequestPayloadAuthority :: string where
  "OperationRequestPayloadAuthority = ''DURABLE_OPERATION_REQUEST_PAYLOAD_AUTHORITY_V1''"

definition OperationRequestPayloadDigest :: "env \<Rightarrow> string \<Rightarrow> string" where
  "OperationRequestPayloadDigest e payload = sha256_digest e payload"

definition requestPayloadLimit :: int where
  "requestPayloadLimit = 1024 * 1024"

definition validateOperationRequestPayload :: "string \<Rightarrow> string \<Rightarrow> unit res" where
  "validateOperationRequestPayload mediaType payload =
     (let mediaType = TrimSpace mediaType in
      if mediaType = '''' \<or> length mediaType > 160 then Inl ErrValidation
      else if payload = '''' \<or> int (length payload) > requestPayloadLimit then Inl ErrValidation
      else Inr ())"

text \<open>
  The part the three creating calls share after \<open>createOperationLocked\<close>: check the payload of a
  replay, or walk the new operation through the given states and seal its payload. When a
  transition fails the source deletes the identifier of the zero operation it just received and
  the trimmed idempotency scope.
\<close>

fun transitionAll ::
  "env \<Rightarrow> nat \<Rightarrow> Operation \<Rightarrow> OperationState list \<Rightarrow> string \<Rightarrow> MemoryStore \<Rightarrow> Operation call" where
  "transitionAll e k op [] actor s = (Inr op, s)"
| "transitionAll e k op (to # rest) actor s =
     (case transitionOperationLocked (later k e) (ID op) (Revision op) to '''' actor s of
        (Inl x, s) \<Rightarrow> (Inl x, s)
      | (Inr op, s) \<Rightarrow> transitionAll e (k + 3) op rest actor s)"

definition createWithPayload ::
  "env \<Rightarrow> OperationRequest \<Rightarrow> string \<Rightarrow> string \<Rightarrow> string \<Rightarrow> string \<Rightarrow> string \<Rightarrow> OperationState list \<Rightarrow>
   (string \<times> metaval) list \<Rightarrow> MemoryStore \<Rightarrow> (Operation \<times> bool) call" where
  "createWithPayload e r key actor requestID mediaType payload path extra s =
     (case createOperationLocked e r key actor requestID s of
        (Inl x, s) \<Rightarrow> (Inl x, s)
      | (Inr (op, replay), s) \<Rightarrow>
          let digest = OperationRequestPayloadDigest e payload in
          if replay
          then (case get (operationRequestPayloads s) (ID op) of
              None \<Rightarrow> (Inl ErrIdempotencyConflict, s)
            | Some stored \<Rightarrow>
                if orp_PayloadDigest stored \<noteq> digest \<or> orp_MediaType stored \<noteq> TrimSpace mediaType
                then (Inl ErrIdempotencyConflict, s)
                else (Inr (op, True), s))
          else (case transitionAll e 3 op path actor s of
              (Inl x, s) \<Rightarrow>
                (Inl x, s\<lparr>operations := del '''' (operations s),
                          idempotency := del (req_ProjectID r @ '':'' @ TrimSpace key) (idempotency s)\<rparr>)
            | (Inr op, s) \<Rightarrow>
                let s = s\<lparr>operationRequestPayloads := put (ID op)
                      \<lparr>orp_OperationID = ID op, orp_PayloadDigest = digest, orp_MediaType = TrimSpace mediaType,
                       orp_Payload = payload, orp_CreatedAt = nowUTC e 9\<rparr> (operationRequestPayloads s)\<rparr>
                in (Inr (op, False),
                    appendAuditLocked e 10 actor ''operation.request_payload.sealed'' ''operation'' (ID op) (Revision op)
                      ([(''authority'', MStr OperationRequestPayloadAuthority), (''payloadDigest'', MStr digest),
                        (''mediaType'', MStr (TrimSpace mediaType))] @ extra) s)))"

definition CreateOperationAwaitingApprovalWithPayload ::
  "env \<Rightarrow> OperationRequest \<Rightarrow> string \<Rightarrow> string \<Rightarrow> string \<Rightarrow> string \<Rightarrow> string \<Rightarrow> MemoryStore \<Rightarrow>
   (Operation \<times> bool) call" where
  "CreateOperationAwaitingApprovalWithPayload e r key actor requestID mediaType payload s =
     (case validateOperationRequestPayload mediaType payload of
        Inl x \<Rightarrow> (Inl x, s)
      | Inr u \<Rightarrow> createWithPayload e r key actor requestID mediaType payload
                   [OperationPlanning, OperationAwaitingApproval] [] s)"

definition OperationBlocksExclusiveTargetMutation :: "Operation \<Rightarrow> bool" where
  "OperationBlocksExclusiveTargetMutation op =
     (if op_State op = OperationFailed then op_LastFailureClass op = OperationFailureUnknown
      else \<not> IsTerminal (op_State op))"

text \<open>The result is either the operation with its replay flag, or the operation that blocks it.\<close>

datatype exclusive_result = Created Operation bool | Blocked Operation

definition CreateExclusiveOperationAwaitingApprovalWithPayload ::
  "env \<Rightarrow> OperationRequest \<Rightarrow> string \<Rightarrow> string \<Rightarrow> string \<Rightarrow> string \<Rightarrow> string \<Rightarrow> MemoryStore \<Rightarrow>
   exclusive_result call" where
  "CreateExclusiveOperationAwaitingApprovalWithPayload e r key actor requestID mediaType payload s =
     (case validateOperationRequestPayload mediaType payload of
        Inl x \<Rightarrow> (Inl x, s)
      | Inr u \<Rightarrow>
          let blocker = (if get (idempotency s) (req_ProjectID r @ '':'' @ key) \<noteq> None then None
            else find (\<lambda>candidate. op_ProjectID candidate = req_ProjectID r \<and> op_Kind candidate = req_Kind r \<and>
                   op_TargetRef candidate = req_TargetRef r \<and> OperationBlocksExclusiveTargetMutation candidate)
                 (vals (operations s))) in
          (case blocker of
             Some b \<Rightarrow> (Inr (Blocked b), s)
           | None \<Rightarrow>
               (case createWithPayload e r key actor requestID mediaType payload
                       [OperationPlanning, OperationAwaitingApproval] [(''exclusiveTarget'', MBool True)] s of
                  (Inl x, s) \<Rightarrow> (Inl x, s)
                | (Inr (op, replay), s) \<Rightarrow> (Inr (Created op replay), s))))"

definition CreateOperationQueuedWithPayload ::
  "env \<Rightarrow> OperationRequest \<Rightarrow> string \<Rightarrow> string \<Rightarrow> string \<Rightarrow> string \<Rightarrow> string \<Rightarrow> MemoryStore \<Rightarrow>
   (Operation \<times> bool) call" where
  "CreateOperationQueuedWithPayload e r key actor requestID mediaType payload s =
     (case validateOperationRequestPayload mediaType payload of
        Inl x \<Rightarrow> (Inl x, s)
      | Inr u \<Rightarrow>
          (case NormalizeOperationClass (req_Class r) of
             Inl x \<Rightarrow> (Inl x, s)
           | Inr class \<Rightarrow>
               if class \<noteq> OperationClassReadOnly then (Inl ErrValidation, s)
               else createWithPayload e (r\<lparr>req_Class := class\<rparr>) key actor requestID mediaType payload
                      [OperationPlanning, OperationQueued] [(''readOnlyQueued'', MBool True)] s))"

definition GetOperationRequestPayload :: "string \<Rightarrow> MemoryStore \<Rightarrow> OperationRequestPayload res" where
  "GetOperationRequestPayload operationID s =
     (case get (operationRequestPayloads s) (TrimSpace operationID) of None \<Rightarrow> Inl ErrNotFound | Some v \<Rightarrow> Inr v)"

definition ApproveOperationAndQueue ::
  "env \<Rightarrow> string \<Rightarrow> int \<Rightarrow> string \<Rightarrow> MemoryStore \<Rightarrow> Operation call" where
  "ApproveOperationAndQueue e i expected actor s =
     (case get (operations s) (TrimSpace i) of
        None \<Rightarrow> (Inl ErrNotFound, s)
      | Some op \<Rightarrow>
          let actor = TrimSpace actor in
          if Revision op \<noteq> expected then (Inl ErrConflict, s)
          else if op_State op \<noteq> OperationAwaitingApproval \<or> actor = '''' \<or> actor = op_ActorID op
          then (Inl ErrPrerequisite, s)
          else
            let op = touch (nowUTC e 0) (op\<lparr>op_State := OperationApproved\<rparr>);
                s = appendAuditLocked e 1 actor ''operation.approved'' ''operation'' (ID op) (Revision op)
                      [(''requester'', MStr (op_ActorID op)), (''separationOfDuties'', MBool True)] s;
                op = touch (nowUTC e 2) (op\<lparr>op_State := OperationQueued\<rparr>)
            in (Inr op,
                saveOperation e 3 (ID op) op actor ''operation.queued_after_approval''
                  [(''separationOfDuties'', MBool True)] ''operation.queued'' s))"

end
