(* ===== verification/History.thy ===== *)
theory History
  imports RequestPayload
begin

text \<open>
  What every call does to the operation table. One call replaces the record of an operation by a
  successor, or adds a new one, or leaves the table alone; \<open>op_evolves\<close> says what a successor keeps
  and \<open>op_wf\<close> what every record satisfies. The interface \<open>operation_call\<close> states this for a call,
  its lemmas draw the consequences once, and each call of the operation authority is an
  interpretation.
\<close>

section \<open>Well-formed operations and their successors\<close>

definition unqueued_states :: "OperationState set" where
  "unqueued_states = {OperationDraft, OperationPlanning, OperationPlanFailed,
     OperationAwaitingApproval, OperationApproved}"

definition started_states :: "OperationState set" where
  "started_states = {OperationRunning, OperationRetryWait, OperationCancelRequested,
     OperationVerifying, OperationSucceeded, OperationFailed, OperationRollingBack,
     OperationRolledBack, OperationRollbackFailed, OperationNeedsOperator}"

definition class_policy :: "OperationClass \<Rightarrow> OperationRetryPolicy \<Rightarrow> bool" where
  "class_policy c p = (c \<in> {OperationClassReadOnly, OperationClassMutating, OperationClassDestructive} \<and>
     p = RetryPolicyForOperationClass c)"

definition op_wf :: "Operation \<Rightarrow> bool" where
  "op_wf op =
     (declared_state (op_State op) \<and> class_policy (op_Class op) (op_RetryPolicy op) \<and>
      1 \<le> Revision op \<and> 0 \<le> op_FenceToken op \<and>
      0 \<le> op_Attempt op \<and> op_Attempt op \<le> MaxAttempts (op_RetryPolicy op) \<and>
      (op_State op \<in> unqueued_states \<longrightarrow>
         op_Attempt op = 0 \<and> op_FenceToken op = 0 \<and> op_LeaseOwner op = '''') \<and>
      (op_State op \<in> started_states \<longrightarrow> 1 \<le> op_Attempt op) \<and>
      (op_State op = OperationRetryWait \<longrightarrow>
         op_NextAttemptAt op \<noteq> None \<and> op_Attempt op < MaxAttempts (op_RetryPolicy op) \<and>
         op_LeaseOwner op = '''') \<and>
      (op_LeaseOwner op = '''' \<longleftrightarrow> op_LeaseExpiresAt op = None) \<and>
      (op_LeaseOwner op \<noteq> '''' \<longrightarrow> TrimSpace (op_LeaseOwner op) \<noteq> '''' \<and> 1 \<le> op_FenceToken op) \<and>
      (op_Class op \<noteq> OperationClassDestructive \<and>
         (IsTerminal (op_State op) \<or> op_State op = OperationFailed) \<longrightarrow> op_LeaseOwner op = ''''))"

text \<open>The identity and the request of an operation never change.\<close>

definition op_identity :: "Operation \<Rightarrow> Operation \<Rightarrow> bool" where
  "op_identity op op' =
     (ID op' = ID op \<and> CreatedAt op' = CreatedAt op \<and> op_ProjectID op' = op_ProjectID op \<and>
      op_Kind op' = op_Kind op \<and> op_TargetRef op' = op_TargetRef op \<and>
      op_DesiredRevision op' = op_DesiredRevision op \<and> op_Risk op' = op_Risk op \<and>
      op_Class op' = op_Class op \<and> op_RetryPolicy op' = op_RetryPolicy op \<and>
      op_RecoveryCheckpointID op' = op_RecoveryCheckpointID op \<and>
      op_IdempotencyKey op' = op_IdempotencyKey op \<and> op_RequestDigest op' = op_RequestDigest op \<and>
      op_ActorID op' = op_ActorID op)"

definition op_evolves :: "Operation \<Rightarrow> Operation \<Rightarrow> bool" where
  "op_evolves op op' =
     (op_identity op op' \<and> Revision op < Revision op' \<and>
      op_FenceToken op \<le> op_FenceToken op' \<and> op_Attempt op \<le> op_Attempt op' \<and>
      (IsTerminal (op_State op) \<longrightarrow> op_State op' = op_State op))"

lemma op_identity_refl [simp]: "op_identity op op"
  by (simp add: op_identity_def)

lemma op_identity_trans: "op_identity a b \<Longrightarrow> op_identity b c \<Longrightarrow> op_identity a c"
  by (simp add: op_identity_def)

lemma op_evolves_trans: "op_evolves a b \<Longrightarrow> op_evolves b c \<Longrightarrow> op_evolves a c"
  by (auto simp: op_evolves_def intro: op_identity_trans)

text \<open>A step of one record.\<close>

definition op_step :: "Operation \<Rightarrow> Operation \<Rightarrow> bool" where
  "op_step op op' = (op_evolves op op' \<and> (op_wf op \<longrightarrow> op_wf op'))"

lemmas op_step_defs = op_step_def op_evolves_def op_identity_def op_wf_def unqueued_states_def
  started_states_def IsTerminal_iff

inductive ops_steps :: "Operation table \<Rightarrow> Operation table \<Rightarrow> bool" where
  ops_refl: "ops_steps m m"
| ops_update: "ops_steps m (put i op' m)" if "get m i = Some op" "op_step op op'"
| ops_create: "ops_steps m (put i op m)" if "get m i = None" "ID op = i" "op_wf op"
| ops_trans: "ops_steps m m''" if "ops_steps m m'" "ops_steps m' m''"

definition ops_ok :: "Operation table \<Rightarrow> bool" where
  "ops_ok m = (\<forall>i op. get m i = Some op \<longrightarrow> ID op = i \<and> op_wf op)"

lemma ops_okD: "ops_ok m \<Longrightarrow> get m i = Some op \<Longrightarrow> ID op = i \<and> op_wf op"
  by (simp add: ops_ok_def)

lemma op_step_ID: "op_step op op' \<Longrightarrow> ID op' = ID op"
  by (simp add: op_step_def op_evolves_def op_identity_def)

lemma op_step_wf: "op_step op op' \<Longrightarrow> op_wf op \<Longrightarrow> op_wf op'"
  by (simp add: op_step_def)

lemma ops_ok_put:
  "ops_ok m \<Longrightarrow> ID op = i \<Longrightarrow> op_wf op \<Longrightarrow> ops_ok (put i op m)"
  unfolding ops_ok_def by simp

lemma ops_steps_ok: "ops_steps m m' \<Longrightarrow> ops_ok m \<Longrightarrow> ops_ok m'"
proof (induction rule: ops_steps.induct)
  case (ops_update m i op op')
  then have "ID op' = i" "op_wf op'"
    using ops_okD op_step_ID op_step_wf by metis+
  then show ?case using ops_update.prems by (simp add: ops_ok_put)
qed (simp_all add: ops_ok_put)

lemma ops_steps_evolve:
  "ops_steps m m' \<Longrightarrow> get m i = Some op \<Longrightarrow>
     \<exists>op'. get m' i = Some op' \<and> (op' = op \<or> op_evolves op op')"
proof (induction arbitrary: op rule: ops_steps.induct)
  case (ops_update m j op1 op2)
  then show ?case by (cases "i = j") (simp_all add: op_step_def)
next
  case (ops_create m j op1)
  then show ?case by (cases "i = j") simp_all
next
  case (ops_trans m m' m'')
  then obtain op' where "get m' i = Some op'" "op' = op \<or> op_evolves op op'" by blast
  with ops_trans.IH(2) show ?case using op_evolves_trans by blast
qed simp

section \<open>Steps of a record\<close>

lemma op_step_trans: "op_step a b \<Longrightarrow> op_step b c \<Longrightarrow> op_step a c"
  unfolding op_step_def using op_evolves_trans by blast

lemma step_direct:
  "CanDirectOperationTransition (op_State op) to \<Longrightarrow>
   op_step op (touch t (op\<lparr>op_State := to, op_LastError := le\<rparr>))"
  by (cases "op_State op") (auto simp: op_step_defs touch_def)

lemma step_requeue:
  "op_State op = OperationRetryWait \<Longrightarrow>
   op_step op (touch t (op\<lparr>op_State := OperationQueued, op_NextAttemptAt := None\<rparr>))"
  by (auto simp: op_step_defs touch_def)

lemma step_claim:
  "claimable_state (op_State op) \<Longrightarrow> TrimSpace w \<noteq> '''' \<Longrightarrow>
   op_step op (touch t (op\<lparr>op_FenceToken := op_FenceToken op + 1, op_LeaseOwner := TrimSpace w,
     op_LeaseExpiresAt := Some x\<rparr>))"
  by (cases "op_State op") (simp_all add: claimable_state_def op_step_defs touch_def)

lemma step_renew:
  "after (op_LeaseExpiresAt op) at \<Longrightarrow> op_step op (touch t (op\<lparr>op_LeaseExpiresAt := Some x\<rparr>))"
  by (clarsimp simp: after_Some op_step_defs touch_def)

lemma step_release:
  "op_step op (touch t (op\<lparr>op_LeaseOwner := '''', op_LeaseExpiresAt := None\<rparr>))"
  by (auto simp: op_step_defs touch_def)

lemma step_start:
  "op_State op = OperationQueued \<Longrightarrow> op_Attempt op < MaxAttempts (op_RetryPolicy op) \<Longrightarrow>
   op_step op (touch t (op\<lparr>op_Attempt := op_Attempt op + 1, op_State := OperationRunning,
     op_NextAttemptAt := None, op_LastFailureClass := OperationFailureUnset, op_RetryExhausted := False\<rparr>))"
  by (auto simp: op_step_defs touch_def)

lemma step_verify:
  "op_State op = OperationRunning \<Longrightarrow> op_step op (touch t (op\<lparr>op_State := OperationVerifying\<rparr>))"
  by (auto simp: op_step_defs touch_def)

lemma step_failed:
  "op_State op \<in> {OperationRunning, OperationVerifying, OperationRollingBack} \<Longrightarrow>
   op_step op (failedOperation op report now)"
  by (auto simp: failedOperation_def Let_def op_step_defs touch_def)

lemma step_complete:
  "op_State op \<in> {OperationRunning, OperationVerifying} \<Longrightarrow>
   op_step op (touch t (op\<lparr>op_State := OperationSucceeded, op_LeaseOwner := '''',
     op_LeaseExpiresAt := None, op_NextAttemptAt := None\<rparr>))"
  by (auto simp: op_step_defs touch_def)

lemma step_cancel_request:
  "\<not> IsTerminal (op_State op) \<Longrightarrow> op_State op \<noteq> OperationCancelRequested \<Longrightarrow>
   op_step op (cancelRequestedOperation op actor reason now)"
  by (cases "op_State op") (auto simp: cancelRequestedOperation_def Let_def op_step_defs touch_def)

lemma step_acknowledge:
  "op_State op = OperationCancelRequested \<Longrightarrow>
   op_step op (touch t (op\<lparr>op_State := OperationCancelled, op_LeaseOwner := '''',
     op_LeaseExpiresAt := None, op_NextAttemptAt := None\<rparr>))"
  by (auto simp: op_step_defs touch_def)

lemma step_plan:
  "op_step op (touch t (op\<lparr>op_CompensationPlanDigest := d, op_CompensationStepCount := n,
     op_CompensationCursor := c, op_CompensationStartedAt := sa, op_CompensationFinishedAt := fa,
     op_CompensationFailureStep := fs\<rparr>))"
  by (clarsimp simp: op_step_def op_evolves_def op_identity_def op_wf_def touch_def)

lemma step_cursor: "op_step op (touch t (op\<lparr>op_CompensationCursor := c\<rparr>))"
  by (clarsimp simp: op_step_def op_evolves_def op_identity_def op_wf_def touch_def)

lemma step_begin_rollback:
  "op_State op \<in> {OperationFailed, OperationCancelRequested} \<Longrightarrow>
   to \<in> {OperationRolledBack, OperationRollingBack} \<Longrightarrow>
   op_step op (touch t (op\<lparr>op_State := to, op_CompensationStartedAt := sa,
     op_CompensationFinishedAt := fa, op_LeaseOwner := '''', op_LeaseExpiresAt := None\<rparr>))"
  by (cases "op_State op") (auto simp: op_step_defs touch_def)

lemma step_rolled_back:
  "op_State op = OperationRollingBack \<Longrightarrow> op_step op (touch t (rolledBackOperation now op))"
  by (auto simp: rolledBackOperation_def op_step_defs touch_def)

lemma step_rolled_back_last:
  "op_State op = OperationRollingBack \<Longrightarrow>
   op_step op (touch t ((rolledBackOperation now op)\<lparr>op_CompensationFailureStep := fs\<rparr>))"
  by (auto simp: rolledBackOperation_def op_step_defs touch_def)

lemma step_failure_step: "op_step op (touch t (op\<lparr>op_CompensationFailureStep := fs\<rparr>))"
  by (clarsimp simp: op_step_def op_evolves_def op_identity_def op_wf_def touch_def)

lemma step_needs_operator:
  "op_State op = OperationRollingBack \<Longrightarrow>
   op_step op (touch t (op\<lparr>op_State := OperationNeedsOperator, op_CompensationFailureStep := fs,
     op_LeaseOwner := '''', op_LeaseExpiresAt := None\<rparr>))"
  by (auto simp: op_step_defs touch_def)

lemma step_rollback_failed:
  "op_State op = OperationRollingBack \<Longrightarrow>
   op_step op (touch t (op\<lparr>op_State := OperationRollbackFailed, op_CompensationFailureStep := fs,
     op_LeaseOwner := '''', op_LeaseExpiresAt := None, op_LastError := le\<rparr>))"
  by (auto simp: op_step_defs touch_def)

lemma step_last_error: "op_step op (touch t (op\<lparr>op_LastError := le\<rparr>))"
  by (clarsimp simp: op_step_def op_evolves_def op_identity_def op_wf_def touch_def)

lemma resolve_failed:
  "op_State op = OperationFailed \<Longrightarrow> to \<in> {OperationSucceeded, OperationFailed} \<Longrightarrow>
   op_step op (op\<lparr>op_RecoveryEvidenceDigest := d, op_LeaseOwner := '''', op_LeaseExpiresAt := None,
     op_NextAttemptAt := None, Revision := Revision op + 1, op_State := to,
     op_LastFailureClass := fc, op_LastError := le, op_RetryExhausted := x, UpdatedAt := t\<rparr>)"
  by (auto simp: op_step_defs)

lemma step_resolve:
  "ApplyUnknownOutcomeResolution op expected r d a = Inr op' \<Longrightarrow> op_step op (op'\<lparr>UpdatedAt := t\<rparr>)"
  unfolding ApplyUnknownOutcomeResolution_def Let_def
  by (auto intro!: resolve_failed split: if_splits sum.splits)

lemma step_owner:
  "CanTransition (op_State op) to \<Longrightarrow>
   to \<in> {OperationPlanning, OperationAwaitingApproval, OperationApproved, OperationQueued} \<or>
   to = OperationCancelled \<and> op_Class op = OperationClassDestructive \<Longrightarrow>
   op_step op (touch t (op\<lparr>op_State := to\<rparr>))"
  by (cases "op_State op") (auto simp: op_step_defs touch_def)

lemma step_owner_start:
  "op_State op = OperationQueued \<Longrightarrow> op_Attempt op < MaxAttempts (op_RetryPolicy op) \<Longrightarrow>
   op_step op (touch t (op\<lparr>op_Attempt := op_Attempt op + 1, op_State := OperationRunning,
     op_LastFailureClass := OperationFailureUnset, op_RetryExhausted := False, op_NextAttemptAt := None\<rparr>))"
  by (auto simp: op_step_defs touch_def)

lemma step_owner_failed:
  "op_State op = OperationRunning \<Longrightarrow> op_Class op = OperationClassDestructive \<Longrightarrow>
   op_step op (touch t (op\<lparr>op_State := OperationFailed, op_LastError := le,
     op_LastFailureClass := fc, op_RetryExhausted := True\<rparr>))"
  by (auto simp: op_step_defs touch_def)

lemma step_owner_succeeded:
  "op_State op = OperationVerifying \<Longrightarrow> op_Class op = OperationClassDestructive \<Longrightarrow>
   op_step op (touch t (op\<lparr>op_State := OperationSucceeded\<rparr>))"
  by (auto simp: op_step_defs touch_def)

lemmas op_step_rules = step_direct step_requeue step_claim step_renew step_release step_start
  step_verify step_failed step_complete step_cancel_request step_acknowledge step_plan step_cursor
  step_begin_rollback step_rolled_back step_rolled_back_last step_failure_step step_needs_operator
  step_rollback_failed step_last_error step_resolve step_owner step_owner_start step_owner_failed
  step_owner_succeeded

lemma newOperation_simps [simp]:
  "ID (newOperation i now r c key d a) = i" "Revision (newOperation i now r c key d a) = 1"
  "op_State (newOperation i now r c key d a) = OperationDraft"
  "op_Class (newOperation i now r c key d a) = c"
  "op_ProjectID (newOperation i now r c key d a) = req_ProjectID r"
  "op_IdempotencyKey (newOperation i now r c key d a) = key"
  "op_RequestDigest (newOperation i now r c key d a) = d"
  "op_ActorID (newOperation i now r c key d a) = a"
  by (simp_all add: newOperation_def stamp_def)

lemma newOperation_wf:
  assumes "c \<in> {OperationClassReadOnly, OperationClassMutating, OperationClassDestructive}"
  shows "op_wf (newOperation i now r c key d a)"
    and "op_wf ((newOperation i now r c key d a)\<lparr>op_RecoveryEvidenceDigest := y, op_RecoveryInventoryDigest := z\<rparr>)"
    and "op_wf ((newOperation i now r c key d a)\<lparr>op_RecoveryCheckpointID := x, op_RecoveryEvidenceDigest := y,
      op_RecoveryInventoryDigest := z\<rparr>)"
  using assms
  by (auto simp: newOperation_def stamp_def zeroOperation_def op_wf_def class_policy_def
      unqueued_states_def started_states_def)

section \<open>The interface\<close>

text \<open>
  A call of the operation authority, as its clients see it: it works in an environment whose
  operation identifiers are new for the operation table and contain no colon, as those of
  \<open>randomID\<close> (\<open>op_\<close> and twelve random bytes in hexadecimal). The call changes the operation
  table by steps, extends the audit log and keeps every idempotency scope.
\<close>

definition fresh_op_ids :: "env \<Rightarrow> MemoryStore \<Rightarrow> bool" where
  "fresh_op_ids e s = (\<forall>k. newid e k ''op'' \<noteq> '''' \<and> CHR '':'' \<notin> set (newid e k ''op'') \<and>
     get (operations s) (newid e k ''op'') = None)"

locale operation_call =
  fixes run :: "env \<Rightarrow> 'i \<Rightarrow> MemoryStore \<Rightarrow> 'r call"
  assumes changes_ops: "ops_ok (operations s) \<Longrightarrow> fresh_op_ids e s \<Longrightarrow>
      ops_steps (operations s) (operations (snd (run e x s)))"
    and extends_audit: "audit_extends s (snd (run e x s))"
    and keeps_idempotency: "ops_ok (operations s) \<Longrightarrow> fresh_op_ids e s \<Longrightarrow>
      get (idempotency s) scope = Some i \<Longrightarrow> get (idempotency (snd (run e x s))) scope = Some i"
begin

lemma keeps_ops_ok:
  "ops_ok (operations s) \<Longrightarrow> fresh_op_ids e s \<Longrightarrow> ops_ok (operations (snd (run e x s)))"
  using changes_ops ops_steps_ok by blast

lemma evolves:
  "ops_ok (operations s) \<Longrightarrow> fresh_op_ids e s \<Longrightarrow> get (operations s) i = Some op \<Longrightarrow>
     \<exists>op'. get (operations (snd (run e x s))) i = Some op' \<and> (op' = op \<or> op_evolves op op')"
  using changes_ops ops_steps_evolve by blast

end

end
