(* ===== verification/OperationCalls.thy ===== *)
theory OperationCalls
  imports History
begin

text \<open>
  Each call of the operation authority implements the interface \<open>operation_call\<close>: one lemma per
  call for the operation table, one for the audit log, then the interpretation.
\<close>

section \<open>Audit log\<close>

lemma audit_extends_upd [simp]:
  "audit_extends s (t\<lparr>operations := a\<rparr>) = audit_extends s t"
  "audit_extends s (t\<lparr>steps := b\<rparr>) = audit_extends s t"
  "audit_extends s (t\<lparr>idempotency := c\<rparr>) = audit_extends s t"
  "audit_extends s (t\<lparr>compensationSteps := d\<rparr>) = audit_extends s t"
  "audit_extends s (t\<lparr>evidence := f\<rparr>) = audit_extends s t"
  "audit_extends s (t\<lparr>evidencePayloads := g\<rparr>) = audit_extends s t"
  "audit_extends s (t\<lparr>stepTraces := h\<rparr>) = audit_extends s t"
  "audit_extends s (t\<lparr>operationRequestPayloads := p\<rparr>) = audit_extends s t"
  "audit_extends s (t\<lparr>recoveryCheckpoints := q\<rparr>) = audit_extends s t"
  by (simp_all add: audit_extends_def)

lemma audit_extends_append [simp]:
  "audit_extends s t \<Longrightarrow> audit_extends s (appendAuditLocked e k a b c d r m t)"
  "audit_extends s t \<Longrightarrow> audit_extends s (saveOperation e k i op a b m v t)"
  by (auto simp: audit_extends_def audit_appendAuditLocked saveOperation_audit)

lemma audit_extends_outbox [simp]:
  "audit_extends s (appendOutboxLocked e k a b c p t) = audit_extends s t"
  by (simp add: audit_extends_def)

lemma saveCompensationStep_frame [simp]:
  "operations (saveCompensationStep e k key i step op a b m s) = put i op (operations s)"
  "compensationSteps (saveCompensationStep e k key i step op a b m s) = put key step (compensationSteps s)"
  "idempotency (saveCompensationStep e k key i step op a b m s) = idempotency s"
  "audit_extends t s \<Longrightarrow> audit_extends t (saveCompensationStep e k key i step op a b m s)"
  by (simp_all add: saveCompensationStep_def Let_def)

section \<open>Creation, transition, lease\<close>

lemma normalized_class:
  "NormalizeOperationClass c = Inr c' \<Longrightarrow>
   c' \<in> {OperationClassReadOnly, OperationClassMutating, OperationClassDestructive}"
  by (cases c) auto

lemma bind_cases:
  assumes "bindRecoveryCheckpoint s (newOperation i now r c key d a) now = Inr op"
  obtains "op = newOperation i now r c key d a"
  | y z where "op = (newOperation i now r c key d a)\<lparr>op_RecoveryEvidenceDigest := y, op_RecoveryInventoryDigest := z\<rparr>"
  using assms unfolding bindRecoveryCheckpoint_def Let_def
  by (auto split: if_splits option.splits sum.splits)

lemma bind_wf:
  assumes "bindRecoveryCheckpoint s (newOperation i now r c key d a) now = Inr op"
    and "c \<in> {OperationClassReadOnly, OperationClassMutating, OperationClassDestructive}"
  shows "op_wf op \<and> ID op = i \<and> op_State op = OperationDraft \<and> Revision op = 1 \<and>
    op_ProjectID op = req_ProjectID r \<and> op_IdempotencyKey op = key \<and> op_RequestDigest op = d \<and>
    op_Class op = c \<and> op_ActorID op = a"
  using assms(1) by (rule bind_cases) (use newOperation_wf [OF assms(2)] in simp_all)

text \<open>What \<open>createOperationLocked\<close> can do: fail or replay without a change, or create.\<close>

lemma admit_class:
  "admitOperationRequest r key actor s = Inr r' \<Longrightarrow>
   req_Class r' \<in> {OperationClassReadOnly, OperationClassMutating, OperationClassDestructive} \<and>
   req_ProjectID r' = req_ProjectID r \<and> (\<exists>cls. r' = r\<lparr>req_Class := cls\<rparr>) \<and>
   NormalizeOperationClass (req_Class r) = Inr (req_Class r')"
  unfolding admitOperationRequest_def Let_def
  by (simp split: if_split_asm sum.split_asm) (drule normalized_class, auto)

definition created_op :: "env \<Rightarrow> OperationRequest \<Rightarrow> string \<Rightarrow> string \<Rightarrow> Operation \<Rightarrow> bool" where
  "created_op e r key actor op =
     (op_wf op \<and> ID op = newid e 0 ''op'' \<and> op_State op = OperationDraft \<and> Revision op = 1 \<and>
      op_ProjectID op = req_ProjectID r \<and> op_IdempotencyKey op = key \<and>
      op_RequestDigest op = operationDigest e r \<and> op_Class op = req_Class r \<and> op_ActorID op = actor)"

lemma create_branches:
  assumes "createOperationLocked e r key actor requestID s = (res, s')"
  obtains (error) x where "res = Inl x" "s' = s"
  | (replay) r' op i where "res = Inr (op, True)" "s' = s" "admitOperationRequest r key actor s = Inr r'"
      "get (idempotency s) (req_ProjectID r @ '':'' @ key) = Some i"
      "op = (case get (operations s) i of None \<Rightarrow> zeroOperation | Some op \<Rightarrow> op)"
      "op_RequestDigest op = operationDigest e r'"
  | (new) r' op where "res = Inr (op, False)" "admitOperationRequest r key actor s = Inr r'"
      "created_op e r' key actor op"
      "get (idempotency s) (req_ProjectID r @ '':'' @ key) = None"
      "s' = saveOperation e 1 (ID op) op actor ''operation.created''
         [(''requestId'', MStr requestID), (''state'', MNamed (OperationState_str (op_State op)))]
         ''operation.created'' (s\<lparr>idempotency := put (req_ProjectID r @ '':'' @ key) (ID op) (idempotency s)\<rparr>)"
proof (cases "admitOperationRequest r key actor s")
  case (Inl x)
  then show thesis using assms error by (auto simp: createOperationLocked_def)
next
  case (Inr r')
  note cls = admit_class [OF Inr]
  show thesis
  proof (cases "get (idempotency s) (req_ProjectID r @ '':'' @ key)")
    case None
    note guards = None Inr conjunct1 [OF conjunct2 [OF cls]]
    let ?n = "newOperation (newid e 0 ''op'') (nowUTC e 0) r' (req_Class r') key (operationDigest e r') actor"
    show thesis
    proof (cases "bindRecoveryCheckpoint s ?n (nowUTC e 0)")
      case (Inl x)
      then show thesis using assms guards error by (auto simp: createOperationLocked_def Let_def)
    next
      case (Inr op)
      have "created_op e r' key actor op"
        using bind_wf [OF Inr] cls by (simp add: created_op_def)
      with assms guards Inr show thesis
        by (intro new [of op r']) (simp_all add: createOperationLocked_def Let_def)
    qed
  next
    case (Some i)
    note guards = Some Inr conjunct1 [OF conjunct2 [OF cls]]
    let ?op = "case get (operations s) i of None \<Rightarrow> zeroOperation | Some op \<Rightarrow> op"
    show thesis
    proof (cases "op_RequestDigest ?op = operationDigest e r'")
      case True
      then show thesis
        using assms guards by (intro replay [of ?op r' i]) (auto simp: createOperationLocked_def Let_def)
    next
      case False
      then show thesis
        using assms guards by (intro error [of ErrIdempotencyConflict]) (auto simp: createOperationLocked_def Let_def)
    qed
  qed
qed

lemma createOperationLocked_audit [simp]:
  "audit_extends s (snd (createOperationLocked e r key actor requestID s))"
proof -
  obtain res s' where c: "createOperationLocked e r key actor requestID s = (res, s')"
    by (cases "createOperationLocked e r key actor requestID s")
  then have "audit_extends s s'" by (cases rule: create_branches) auto
  then show ?thesis using c by simp
qed

lemma createOperationLocked_ops:
  assumes "fresh_op_ids e s"
  shows "ops_steps (operations s) (operations (snd (createOperationLocked e r key actor requestID s)))"
proof -
  obtain res s' where c: "createOperationLocked e r key actor requestID s = (res, s')"
    by (cases "createOperationLocked e r key actor requestID s")
  then have "ops_steps (operations s) (operations s')"
    using assms
    by (cases rule: create_branches) (auto intro: ops_refl ops_create simp: created_op_def fresh_op_ids_def)
  then show ?thesis using c by simp
qed

lemma createOperationLocked_idem:
  assumes "get (idempotency s) scope = Some i"
  shows "get (idempotency (snd (createOperationLocked e r key actor requestID s))) scope = Some i"
proof -
  obtain res s' where c: "createOperationLocked e r key actor requestID s = (res, s')"
    by (cases "createOperationLocked e r key actor requestID s")
  then have "get (idempotency s') scope = Some i"
    using assms by (cases rule: create_branches) auto
  then show ?thesis using c by simp
qed

interpretation create: operation_call "\<lambda>e (r, key, actor, requestID). CreateOperation e r key actor requestID"
  by unfold_locales (auto simp: CreateOperation_def createOperationLocked_ops createOperationLocked_idem split: prod.splits)

lemma transitionOperationLocked_ops:
  "ops_steps (operations s) (operations (snd (transitionOperationLocked e i expected to le actor s)))"
  by (auto simp: transitionOperationLocked_def Let_def direct_not_terminal
      intro: ops_refl ops_update step_direct split: option.splits)

lemma transitionOperationLocked_audit [simp]:
  "audit_extends s (snd (transitionOperationLocked e i expected to le actor s))"
  by (auto simp: transitionOperationLocked_def Let_def split: option.splits)

lemma transitionOperationLocked_idem [simp]:
  "idempotency (snd (transitionOperationLocked e i expected to le actor s)) = idempotency s"
  by (auto simp: transitionOperationLocked_def Let_def split: option.splits)

interpretation transition: operation_call
  "\<lambda>e (i, expected, to, lastError, actor). TransitionOperation e i expected to lastError actor"
  by unfold_locales (auto simp: TransitionOperation_def transitionOperationLocked_ops split: prod.splits)

lemma requeueDueRetry_ops:
  assumes "get (operations s) i = Some op" "requeueDueRetry e i op worker at s = (res, s')"
  shows "ops_steps (operations s) (operations s') \<and> audit_extends s s' \<and>
    (\<forall>op'. res = Inr op' \<longrightarrow> get (operations s') i = Some op')"
  using assms unfolding requeueDueRetry_def Let_def
  by (auto intro!: ops_refl ops_update step_requeue split: if_split_asm)

lemma ClaimOperation_ops:
  "ops_steps (operations s) (operations (snd (ClaimOperation e i worker ttl at s))) \<and>
   audit_extends s (snd (ClaimOperation e i worker ttl at s))"
proof (cases "get (operations s) i")
  case None
  then show ?thesis by (auto simp: ClaimOperation_def Let_def intro: ops_refl)
next
  case (Some op)
  obtain r1 s1 where q: "requeueDueRetry e i op (TrimSpace worker) at s = (r1, s1)"
    by (cases "requeueDueRetry e i op (TrimSpace worker) at s")
  note r = requeueDueRetry_ops [OF Some q]
  show ?thesis
  proof (cases r1)
    case (Inl x)
    then show ?thesis using Some q r by (auto simp: ClaimOperation_def Let_def intro: ops_refl)
  next
    case (Inr op1)
    have "ops_steps (operations s) (put i op2 (operations s1))" if "op_step op1 op2" for op2
      using r Inr that by (blast intro: ops_trans ops_update)
    then show ?thesis using Some q r Inr
      by (auto simp: ClaimOperation_def Let_def intro: ops_refl step_claim)
  qed
qed

lemma ClaimOperation_idem: "idempotency (snd (ClaimOperation e i worker ttl at s)) = idempotency s"
  by (simp add: ClaimOperation_def requeueDueRetry_def Let_def split: option.split)

interpretation claim: operation_call "\<lambda>e (i, worker, ttl, at). ClaimOperation e i worker ttl at"
  by unfold_locales (auto simp: ClaimOperation_ops ClaimOperation_idem split: prod.splits)

interpretation renew: operation_call
  "\<lambda>e (i, worker, fence, ttl, at). RenewOperationLease e i worker fence ttl at"
  by unfold_locales
    (auto simp: RenewOperationLease_def Let_def intro: ops_refl ops_update step_renew split: option.splits prod.splits)

interpretation release: operation_call "\<lambda>e (i, worker, fence). ReleaseOperationLease e i worker fence"
  by unfold_locales
    (auto simp: ReleaseOperationLease_def Let_def intro: ops_refl ops_update step_release split: option.splits prod.splits)

interpretation append_step: operation_call "\<lambda>e (step, actor). AppendOperationStep e step actor"
  by unfold_locales
    (auto simp: AppendOperationStep_def Let_def intro: ops_refl split: option.splits prod.splits)

section \<open>Attempts\<close>

interpretation start: operation_call
  "\<lambda>e (i, expected, worker, fence, actor). StartOperationAttempt e i expected worker fence actor"
  by unfold_locales
    (auto simp: StartOperationAttempt_def Let_def intro!: ops_refl ops_update step_start
      split: option.splits sum.splits prod.splits)

interpretation verification: operation_call
  "\<lambda>e (i, expected, worker, fence, actor). BeginOperationVerification e i expected worker fence actor"
  by unfold_locales
    (auto simp: BeginOperationVerification_def Let_def intro!: ops_refl ops_update step_verify
      split: option.splits prod.splits)

interpretation failure: operation_call
  "\<lambda>e (i, expected, worker, fence, report, actor). ReportOperationFailure e i expected worker fence report actor"
  by unfold_locales
    (auto simp: ReportOperationFailure_def Let_def intro!: ops_refl ops_update step_failed
      split: option.splits prod.splits)

interpretation complete: operation_call
  "\<lambda>e (i, expected, worker, fence, actor). CompleteOperation e i expected worker fence actor"
  by unfold_locales
    (auto simp: CompleteOperation_def Let_def intro!: ops_refl ops_update step_complete
      split: option.splits prod.splits)

interpretation cancellation: operation_call
  "\<lambda>e (i, expected, actor, reason). RequestOperationCancellation e i expected actor reason"
  by unfold_locales
    (auto simp: RequestOperationCancellation_def Let_def intro!: ops_refl ops_update step_cancel_request
      split: option.splits prod.splits)

interpretation acknowledge: operation_call
  "\<lambda>e (i, expected, worker, fence, actor). AcknowledgeOperationCancellation e i expected worker fence actor"
  by unfold_locales
    (auto simp: AcknowledgeOperationCancellation_def Let_def intro!: ops_refl ops_update step_acknowledge
      split: option.splits prod.splits)

section \<open>Traces and evidence\<close>

interpretation step_trace: operation_call
  "\<lambda>e (tin, worker, fence, actor). AppendOperationStepTrace e tin worker fence actor"
  by unfold_locales
    (auto simp: AppendOperationStepTrace_def Let_def intro: ops_refl
      split: option.splits sum.splits prod.splits)

lemma AppendOperationEvidencePayload_frame:
  "operations (snd (AppendOperationEvidencePayload e ein payload worker fence actor s)) = operations s"
  "audit_extends s (snd (AppendOperationEvidencePayload e ein payload worker fence actor s))"
  "idempotency (snd (AppendOperationEvidencePayload e ein payload worker fence actor s)) = idempotency s"
  by (simp_all add: AppendOperationEvidencePayload_def Let_def split: option.split)

interpretation evidence_payload: operation_call
  "\<lambda>e (ein, payload, worker, fence, actor). AppendOperationEvidencePayload e ein payload worker fence actor"
  by unfold_locales (auto simp: AppendOperationEvidencePayload_frame intro: ops_refl)

interpretation append_evidence: operation_call "\<lambda>e (v, actor). AppendEvidence e v actor"
  by unfold_locales
    (auto simp: AppendEvidence_def Let_def intro: ops_refl split: option.splits prod.splits)

lemma commitCompletion_ops:
  assumes "get (operations s) i = Some op" "op_State op \<in> {OperationRunning, OperationVerifying}"
  shows "ops_steps (operations s)
      (operations (snd (commitCompletion e i op ein found digest payload fence now actor s)))"
proof -
  let ?done = "\<lambda>op. touch now (op\<lparr>op_State := OperationSucceeded, op_LeaseOwner := '''',
    op_LeaseExpiresAt := None, op_NextAttemptAt := None\<rparr>)"
  have "operations (snd (commitCompletion e i op ein found digest payload fence now actor s)) =
      put i (if op_State op = OperationRunning
        then ?done (touch now (op\<lparr>op_State := OperationVerifying\<rparr>)) else ?done op) (operations s)"
    by (auto simp: commitCompletion_def Let_def split: option.splits)
  moreover have "op_step op (?done (touch now (op\<lparr>op_State := OperationVerifying\<rparr>)))"
    if "op_State op = OperationRunning"
    using that by (intro op_step_trans [OF step_verify step_complete]) (simp_all add: touch_def)
  ultimately show ?thesis
    using assms by (auto intro!: ops_update step_complete)
qed

lemma commitCompletion_audit:
  "audit_extends s (snd (commitCompletion e i op ein found digest payload fence now actor s))"
  by (auto simp: commitCompletion_def Let_def split: option.splits)

lemma CompleteOperationWithEvidencePayload_ops:
  "ops_steps (operations s)
     (operations (snd (CompleteOperationWithEvidencePayload e i expected ein payload worker fence actor s)))"
  "audit_extends s (snd (CompleteOperationWithEvidencePayload e i expected ein payload worker fence actor s))"
  unfolding CompleteOperationWithEvidencePayload_def Let_def
  by (simp_all add: ops_refl commitCompletion_ops commitCompletion_audit split: option.split sum.split)

lemma CompleteOperationWithEvidencePayload_idem:
  "idempotency (snd (CompleteOperationWithEvidencePayload e i expected ein payload worker fence actor s)) = idempotency s"
proof -
  have "idempotency (snd (commitCompletion e j op ein' found digest payload fence now a s)) = idempotency s"
    for j op ein' found digest now a
    by (auto simp: commitCompletion_def Let_def split: option.split)
  then show ?thesis
    unfolding CompleteOperationWithEvidencePayload_def Let_def
    by (simp split: option.split sum.split)
qed

interpretation complete_evidence: operation_call
  "\<lambda>e (i, expected, ein, payload, worker, fence, actor).
     CompleteOperationWithEvidencePayload e i expected ein payload worker fence actor"
  by unfold_locales (auto simp: CompleteOperationWithEvidencePayload_ops CompleteOperationWithEvidencePayload_idem)

section \<open>Compensation\<close>

interpretation set_plan: operation_call
  "\<lambda>e (i, expected, plan, actor). SetOperationCompensationPlan e i expected plan actor"
  by unfold_locales
    (auto simp: SetOperationCompensationPlan_def Let_def intro!: ops_refl ops_update step_plan
      split: option.splits sum.splits prod.splits)

interpretation forward_step: operation_call
  "\<lambda>e (i, stepKey, expected, worker, fence, actor).
     RecordOperationForwardStepCompleted e i stepKey expected worker fence actor"
  by unfold_locales
    (auto simp: RecordOperationForwardStepCompleted_def Let_def intro!: ops_refl ops_update step_cursor
      split: option.splits prod.splits)

interpretation begin_compensation: operation_call
  "\<lambda>e (i, expected, actor). BeginOperationCompensation e i expected actor"
  by unfold_locales
    (auto simp: BeginOperationCompensation_def Let_def intro!: ops_refl ops_update step_begin_rollback
      split: option.splits prod.splits)

lemma ClaimNext_ops:
  "ops_steps (operations s) (operations (snd (ClaimNextOperationCompensationStep e i worker fence actor s)))"
  "audit_extends s (snd (ClaimNextOperationCompensationStep e i worker fence actor s))"
  "idempotency (snd (ClaimNextOperationCompensationStep e i worker fence actor s)) = idempotency s"
  by (simp_all add: ClaimNextOperationCompensationStep_def Let_def ops_refl
      ops_update [OF _ step_rolled_back] ops_update [OF _ step_needs_operator] ops_update [OF _ step_cursor]
      split: option.split list.split)

interpretation claim_compensation: operation_call
  "\<lambda>e (i, worker, fence, actor). ClaimNextOperationCompensationStep e i worker fence actor"
  by unfold_locales (auto simp: ClaimNext_ops)

lemma CompleteOperationCompensationStep_ops:
  "ops_steps (operations s)
     (operations (snd (CompleteOperationCompensationStep e i stepKey worker fence d actor s)))"
  "audit_extends s (snd (CompleteOperationCompensationStep e i stepKey worker fence d actor s))"
  "idempotency (snd (CompleteOperationCompensationStep e i stepKey worker fence d actor s)) = idempotency s"
  by (simp_all add: CompleteOperationCompensationStep_def Let_def ops_refl
      ops_update [OF _ step_rolled_back_last] ops_update [OF _ step_failure_step] split: option.split)

interpretation complete_compensation: operation_call
  "\<lambda>e (i, stepKey, worker, fence, d, actor). CompleteOperationCompensationStep e i stepKey worker fence d actor"
  by unfold_locales (auto simp: CompleteOperationCompensationStep_ops)

lemma ReportOperationCompensationStepFailure_ops:
  "ops_steps (operations s)
     (operations (snd (ReportOperationCompensationStepFailure e i stepKey worker fence failure actor s)))"
  "audit_extends s (snd (ReportOperationCompensationStepFailure e i stepKey worker fence failure actor s))"
  "idempotency (snd (ReportOperationCompensationStepFailure e i stepKey worker fence failure actor s)) = idempotency s"
  by (simp_all add: ReportOperationCompensationStepFailure_def Let_def ops_refl
      ops_update [OF _ step_rollback_failed] ops_update [OF _ step_last_error] split: option.split)

interpretation fail_compensation: operation_call
  "\<lambda>e (i, stepKey, worker, fence, failure, actor).
     ReportOperationCompensationStepFailure e i stepKey worker fence failure actor"
  by unfold_locales (auto simp: ReportOperationCompensationStepFailure_ops)

section \<open>Recovery\<close>

interpretation create_checkpoint: operation_call "\<lambda>e (v, actor). CreateRecoveryCheckpoint e v actor"
  by unfold_locales
    (auto simp: CreateRecoveryCheckpoint_def Let_def intro!: ops_refl split: option.splits sum.splits prod.splits)

interpretation revoke_checkpoint: operation_call
  "\<lambda>e (i, expected, actor). RevokeRecoveryCheckpoint e i expected actor"
  by unfold_locales
    (auto simp: RevokeRecoveryCheckpoint_def Let_def intro!: ops_refl split: option.splits prod.splits)

interpretation resolve: operation_call
  "\<lambda>e (i, expected, resolution, d, actor). ResolveUnknownOperationOutcome e i expected resolution d actor"
  by unfold_locales
    (auto simp: ResolveUnknownOperationOutcome_def Let_def intro!: ops_refl
      intro: ops_update step_resolve split: option.splits sum.splits prod.splits)

lemma ResolveWithEvidence_ops:
  "ops_steps (operations s)
     (operations (snd (ResolveUnknownOperationOutcomeWithEvidence e i expected resolution ein payload actor s)))"
  "audit_extends s (snd (ResolveUnknownOperationOutcomeWithEvidence e i expected resolution ein payload actor s))"
  "idempotency (snd (ResolveUnknownOperationOutcomeWithEvidence e i expected resolution ein payload actor s)) = idempotency s"
  unfolding ResolveUnknownOperationOutcomeWithEvidence_def Let_def
  by (simp_all add: ops_refl ops_update [OF _ step_resolve] split: option.split sum.split)

interpretation resolve_evidence: operation_call
  "\<lambda>e (i, expected, resolution, ein, payload, actor).
     ResolveUnknownOperationOutcomeWithEvidence e i expected resolution ein payload actor"
  by unfold_locales (auto simp: ResolveWithEvidence_ops)

section \<open>Owner workflows\<close>

definition owner_targets :: "OperationState set" where
  "owner_targets = {OperationPlanning, OperationAwaitingApproval, OperationApproved, OperationQueued}"

lemma transitionOwnerOperationLocked_ops:
  assumes "get (operations s) (ID op) = Some op"
    and "to \<in> owner_targets \<or> to = OperationCancelled \<and> op_Class op = OperationClassDestructive"
    and "transitionOwnerOperationLocked e k op to actor event payload s = (res, s')"
  shows "ops_steps (operations s) (operations s')" "audit_extends s s'"
    "\<And>op'. res = Inr op' \<Longrightarrow> get (operations s') (ID op') = Some op'"
  using assms unfolding transitionOwnerOperationLocked_def Let_def owner_targets_def
  by (auto intro!: ops_refl ops_update step_owner split: if_split_asm)

lemma ownerTransitions_ops:
  assumes "get (operations s) (ID op) = Some op" "\<forall>(to, event, payload) \<in> set path. to \<in> owner_targets"
  shows "ops_steps (operations s) (operations (snd (ownerTransitions e k op path actor s))) \<and>
    audit_extends s (snd (ownerTransitions e k op path actor s))"
  using assms
proof (induction e k op path actor s rule: ownerTransitions.induct)
  case (1 e k op actor s)
  then show ?case by (simp add: ops_refl)
next
  case (2 e k op to event payload rest actor s)
  obtain res s' where t: "transitionOwnerOperationLocked e k op to actor event payload s = (res, s')"
    by (cases "transitionOwnerOperationLocked e k op to actor event payload s")
  have "to \<in> owner_targets" using 2 by simp
  then have *: "ops_steps (operations s) (operations s')" "audit_extends s s'"
    "\<And>op'. res = Inr op' \<Longrightarrow> get (operations s') (ID op') = Some op'"
    using transitionOwnerOperationLocked_ops [OF "2.prems"(1) _ t] by auto
  show ?case
  proof (cases res)
    case (Inl x)
    then show ?thesis using t * by simp
  next
    case (Inr op')
    have "ops_steps (operations s') (operations (snd (ownerTransitions e (k + 3) op' rest actor s'))) \<and>
        audit_extends s' (snd (ownerTransitions e (k + 3) op' rest actor s'))"
      using "2.IH" [of res s' op'] "2.prems" t Inr *(3) by simp
    then show ?thesis
      using t * Inr ops_trans audit_extends_trans by auto
  qed
qed

interpretation owner_cancel: operation_call
  "\<lambda>e (operationID, actor, reason). cancelOwnerDestructiveOperationLocked e operationID actor reason"
proof
  fix s :: MemoryStore and e and x :: "string \<times> string \<times> string"
  obtain i actor reason where x: "x = (i, actor, reason)" by (cases x)
  have *: "get (operations s) (TrimSpace i) = Some op \<Longrightarrow> ops_ok (operations s) \<Longrightarrow> ID op = TrimSpace i" for op
    by (simp add: ops_ok_def)
  show "ops_steps (operations s)
      (operations (snd ((case x of (operationID, actor, reason) \<Rightarrow>
        cancelOwnerDestructiveOperationLocked e operationID actor reason) s)))"
    if "ops_ok (operations s)" "fresh_op_ids e s"
    using that(1) *
    by (auto simp: x cancelOwnerDestructiveOperationLocked_def transitionOwnerOperationLocked_def Let_def
        intro!: ops_refl ops_update step_owner split: option.split)
  show "audit_extends s (snd ((case x of (operationID, actor, reason) \<Rightarrow>
        cancelOwnerDestructiveOperationLocked e operationID actor reason) s))"
    by (simp add: x cancelOwnerDestructiveOperationLocked_def transitionOwnerOperationLocked_def Let_def
        split: option.split)
  show "get (idempotency (snd ((case x of (operationID, actor, reason) \<Rightarrow>
        cancelOwnerDestructiveOperationLocked e operationID actor reason) s))) scope = Some k"
    if "get (idempotency s) scope = Some k" for scope k
    using that
    by (simp add: x cancelOwnerDestructiveOperationLocked_def transitionOwnerOperationLocked_def Let_def
        split: option.split)
qed

lemma createOwner_ops:
  assumes "fresh_op_ids e s"
  shows "ops_steps (operations s) (operations (snd (createOwnerDestructiveOperationLocked e p c k ow r d rc a rd w s)))"
proof -
  have new: "ops_steps (operations s) (operations (snd (ownerTransitions e 3 op path a s')))"
    if "operations s' = put (ID op) op (operations s)" "ID op = newid e 0 ''op''" "op_wf op"
      "\<forall>(to, event, payload) \<in> set path. to \<in> owner_targets" for op path s'
  proof -
    have "ops_steps (operations s) (operations s')"
      using that assms by (auto intro!: ops_create simp: fresh_op_ids_def)
    moreover have "ops_steps (operations s') (operations (snd (ownerTransitions e 3 op path a s')))"
      using ownerTransitions_ops [of s' op path e 3 a] that by simp
    ultimately show ?thesis by (rule ops_trans)
  qed
  show ?thesis
    unfolding createOwnerDestructiveOperationLocked_def Let_def
    by (simp add: ops_refl new newOperation_wf owner_targets_def del: ownerTransitions.simps
        split: option.split sum.split)
qed

lemma transitionOwnerOperationLocked_audit:
  "transitionOwnerOperationLocked e k op to actor event payload s = (res, s') \<Longrightarrow> audit_extends s s'"
  by (auto simp: transitionOwnerOperationLocked_def Let_def split: if_split_asm)

lemma ownerTransitions_audit: "audit_extends s (snd (ownerTransitions e k op path actor s))"
proof (induction e k op path actor s rule: ownerTransitions.induct)
  case (2 e k op to event payload rest actor s)
  obtain res s' where t: "transitionOwnerOperationLocked e k op to actor event payload s = (res, s')"
    by (cases "transitionOwnerOperationLocked e k op to actor event payload s")
  note a = transitionOwnerOperationLocked_audit [OF t]
  show ?case
  proof (cases res)
    case (Inr op')
    then show ?thesis
      using "2.IH" [of res s' op'] t a audit_extends_trans by auto
  qed (use t a in simp)
qed simp

lemma createOwner_audit:
  "audit_extends s (snd (createOwnerDestructiveOperationLocked e p c k ow r d rc a rd w s))"
proof -
  have new: "audit_extends s (snd (ownerTransitions e 3 op path a s'))" if "audit_extends s s'" for op path s'
    using ownerTransitions_audit that audit_extends_trans by blast
  show ?thesis
    unfolding createOwnerDestructiveOperationLocked_def Let_def
    by (simp add: new del: ownerTransitions.simps split: option.split sum.split)
qed

lemma ownerTransitions_idem [simp]:
  "idempotency (snd (ownerTransitions e k op path actor s)) = idempotency s"
proof (induction e k op path actor s rule: ownerTransitions.induct)
  case (2 e k op to event payload rest actor s)
  then show ?case
    by (simp add: transitionOwnerOperationLocked_def Let_def)
qed simp

lemma createOwner_idem:
  "get (idempotency s) scope = Some i \<Longrightarrow>
   get (idempotency (snd (createOwnerDestructiveOperationLocked e p c k ow r d rc a rd w s))) scope = Some i"
  unfolding createOwnerDestructiveOperationLocked_def Let_def
  by (auto simp del: ownerTransitions.simps split: option.split sum.split)

interpretation owner_create: operation_call
  "\<lambda>e (p, c, k, ow, r, d, rc, a, rd, w). createOwnerDestructiveOperationLocked e p c k ow r d rc a rd w"
  by unfold_locales (auto simp: createOwner_ops createOwner_audit createOwner_idem)

lemma ownerBinding_Some:
  "ownerBinding operationID projectID clusterID s = Some op \<Longrightarrow>
   get (operations s) (TrimSpace operationID) = Some op \<and> op_Class op = OperationClassDestructive"
  by (auto simp: ownerBinding_def split: option.split_asm if_split_asm)

lemma owner_stored:
  "ops_ok (operations s) \<Longrightarrow> get (operations s) (TrimSpace i) = Some op \<Longrightarrow> get (operations s) (ID op) = Some op"
  by (simp add: ops_ok_def)

lemma approveOwner_ops:
  assumes "ops_ok (operations s)"
  shows "ops_steps (operations s) (operations (snd (approveOwnerDestructiveOperationLocked e i p c a s)))"
proof (cases "ownerBinding i p c s")
  case None
  then show ?thesis by (simp add: approveOwnerDestructiveOperationLocked_def ops_refl)
next
  case (Some op)
  then have "get (operations s) (ID op) = Some op"
    using owner_stored [OF assms] ownerBinding_Some by blast
  then show ?thesis
    using Some ownerTransitions_ops [of s op]
    by (simp add: approveOwnerDestructiveOperationLocked_def ops_refl owner_targets_def
        del: ownerTransitions.simps split: sum.split)
qed

lemma approveOwner_audit: "audit_extends s (snd (approveOwnerDestructiveOperationLocked e i p c a s))"
  by (simp add: approveOwnerDestructiveOperationLocked_def ownerTransitions_audit
      del: ownerTransitions.simps split: option.split sum.split)

lemma approveOwner_idem: "idempotency (snd (approveOwnerDestructiveOperationLocked e i p c a s)) = idempotency s"
  by (simp add: approveOwnerDestructiveOperationLocked_def
      del: ownerTransitions.simps split: option.split sum.split)

interpretation owner_approve: operation_call
  "\<lambda>e (i, p, c, a). approveOwnerDestructiveOperationLocked e i p c a"
  by unfold_locales (auto simp: approveOwner_ops approveOwner_audit approveOwner_idem)

lemma startOwner_ops:
  assumes "ops_ok (operations s)"
  shows "ops_steps (operations s) (operations (snd (startOwnerDestructiveOperationLocked e i p c a s)))"
proof (cases "ownerBinding i p c s")
  case None
  then show ?thesis by (simp add: startOwnerDestructiveOperationLocked_def ops_refl)
next
  case (Some op)
  then have "get (operations s) (ID op) = Some op"
    using owner_stored [OF assms] ownerBinding_Some by blast
  then show ?thesis
    using Some
    by (simp add: startOwnerDestructiveOperationLocked_def Let_def ops_refl
        ops_update [OF _ step_owner_start] split: sum.split)
qed

interpretation owner_start: operation_call
  "\<lambda>e (i, p, c, a). startOwnerDestructiveOperationLocked e i p c a"
  by unfold_locales
    (auto simp: startOwner_ops, simp_all add: startOwnerDestructiveOperationLocked_def Let_def split: option.split sum.split)

lemma finishOwner_ops:
  assumes "ops_ok (operations s)"
  shows "ops_steps (operations s) (operations (snd (finishOwnerDestructiveOperationLocked e i success le a s)))"
proof (cases "get (operations s) (TrimSpace i)")
  case None
  then show ?thesis by (simp add: finishOwnerDestructiveOperationLocked_def ops_refl)
next
  case (Some op)
  have stored: "get (operations s) (ID op) = Some op" using owner_stored [OF assms Some] .
  define v where "v = touch (nowUTC e 0) (op\<lparr>op_State := OperationVerifying\<rparr>)"
  define w where "w = touch (nowUTC e 3) (v\<lparr>op_State := OperationSucceeded\<rparr>)"
  have "ops_steps (operations s) (put (ID op) w (put (ID op) v (operations s)))"
    if "op_State op = OperationRunning" "op_Class op = OperationClassDestructive"
  proof (rule ops_trans)
    show "ops_steps (operations s) (put (ID op) v (operations s))"
      unfolding v_def by (rule ops_update [OF stored step_verify]) fact
    show "ops_steps (put (ID op) v (operations s)) (put (ID op) w (put (ID op) v (operations s)))"
      unfolding w_def by (rule ops_update [OF _ step_owner_succeeded]) (simp_all add: that v_def touch_def)
  qed
  then show ?thesis
    using Some stored
    by (simp add: finishOwnerDestructiveOperationLocked_def Let_def ops_refl
        ops_update [OF _ step_owner_failed] v_def w_def)
qed

interpretation owner_finish: operation_call
  "\<lambda>e (i, success, le, a). finishOwnerDestructiveOperationLocked e i success le a"
  by unfold_locales
    (auto simp: finishOwner_ops, simp_all add: finishOwnerDestructiveOperationLocked_def Let_def split: option.split)

section \<open>Request payloads and approval\<close>

lemma transition_ok:
  fixes e :: env and le :: string
  assumes "get (operations s) i = Some op" "Revision op = expected" "CanDirectOperationTransition (op_State op) to"
  defines "op' \<equiv> touch (nowUTC e 0) (op\<lparr>op_State := to, op_LastError := le\<rparr>)"
  shows "transitionOperationLocked e i expected to le actor s =
    (Inr op', saveOperation e 1 i op' actor ''operation.transitioned''
       [(''state'', MNamed (OperationState_str to))] ''operation.transitioned'' s)"
proof -
  have "to \<noteq> OperationRollingBack" "\<not> (op_State op = OperationFailed \<and> to = OperationQueued)"
    using assms(3) by (cases "op_State op"; auto)+
  then show ?thesis
    using assms direct_allowed [OF assms(3)] direct_not_terminal [OF assms(3)]
    by (auto simp: transitionOperationLocked_def Let_def)
qed

text \<open>A new operation passes through planning to the state the creating call wants.\<close>

fun direct_path :: "OperationState \<Rightarrow> OperationState list \<Rightarrow> bool" where
  "direct_path st [] = True"
| "direct_path st (to # rest) = (CanDirectOperationTransition st to \<and> direct_path to rest)"

lemma transitionAll_ok:
  assumes "get (operations s) (ID op) = Some op" "direct_path (op_State op) path"
  shows "\<exists>op' s'. transitionAll e k op path actor s = (Inr op', s') \<and>
    get (operations s') (ID op') = Some op' \<and> ID op' = ID op \<and>
    op_State op' = last (op_State op # path) \<and> op_identity op op' \<and>
    (\<forall>j. j \<noteq> ID op \<longrightarrow> get (operations s') j = get (operations s) j) \<and>
    ops_steps (operations s) (operations s') \<and> audit_extends s s' \<and>
    idempotency s' = idempotency s \<and> operationRequestPayloads s' = operationRequestPayloads s"
  using assms
proof (induction path arbitrary: k op s)
  case Nil
  then show ?case by (simp add: ops_refl)
next
  case (Cons to rest)
  then have d: "CanDirectOperationTransition (op_State op) to" by simp
  define op1 where "op1 = touch (nowUTC (later k e) 0) (op\<lparr>op_State := to, op_LastError := ''''\<rparr>)"
  define s1 where "s1 = saveOperation (later k e) 1 (ID op) op1 actor ''operation.transitioned''
       [(''state'', MNamed (OperationState_str to))] ''operation.transitioned'' s"
  have t: "transitionOperationLocked (later k e) (ID op) (Revision op) to '''' actor s = (Inr op1, s1)"
    unfolding op1_def s1_def by (rule transition_ok [OF Cons.prems(1) refl d])
  have op1: "ID op1 = ID op" "op_State op1 = to" "op_identity op op1"
    by (simp_all add: op1_def touch_def op_identity_def)
  have "op_step op op1" unfolding op1_def by (rule step_direct [OF d])
  have s1: "get (operations s1) (ID op1) = Some op1" "ops_steps (operations s) (operations s1)"
    "audit_extends s s1" "idempotency s1 = idempotency s"
    "operationRequestPayloads s1 = operationRequestPayloads s"
    using op1 Cons.prems(1) ops_update [OF _ \<open>op_step op op1\<close>] by (simp_all add: s1_def)
  obtain op' s' where "transitionAll e (k + 3) op1 rest actor s1 = (Inr op', s')"
    and r: "get (operations s') (ID op') = Some op'" "ID op' = ID op1"
      "op_State op' = last (op_State op1 # rest)" "op_identity op1 op'"
      "\<forall>j. j \<noteq> ID op1 \<longrightarrow> get (operations s') j = get (operations s1) j"
      "ops_steps (operations s1) (operations s')" "audit_extends s1 s'"
      "idempotency s' = idempotency s1" "operationRequestPayloads s' = operationRequestPayloads s1"
    using Cons.IH [of s1 op1 "k + 3"] Cons.prems(2) s1(1) op1(2) by auto
  then have "transitionAll e k op (to # rest) actor s = (Inr op', s')" by (simp add: t)
  moreover have "\<forall>j. j \<noteq> ID op \<longrightarrow> get (operations s') j = get (operations s) j"
    using r(5) op1(1) by (auto simp: s1_def)
  moreover have "op_State op' = last (op_State op # to # rest)" "ID op' = ID op" using r(2,3) op1 by simp_all
  moreover have "op_identity op op'" "ops_steps (operations s) (operations s')" "audit_extends s s'"
    "idempotency s' = idempotency s" "operationRequestPayloads s' = operationRequestPayloads s"
    using op_identity_trans [OF op1(3) r(4)] ops_trans [OF s1(2) r(6)] audit_extends_trans [OF s1(3) r(7)] r(8,9) s1(4,5) by simp_all
  ultimately show ?case using r(1) by blast
qed

lemma createWithPayload_branches:
  assumes c: "createWithPayload e r key actor requestID mediaType payload path extra s = (res, s')"
    and fresh: "fresh_op_ids e s" and path: "direct_path OperationDraft path"
  obtains (error) x where "res = Inl x" "s' = s"
  | (replay) op where "res = Inr (op, True)" "s' = s"
  | (new) op where "res = Inr (op, False)" "get (operations s') (newid e 0 ''op'') = Some op"
      "op_State op = last (OperationDraft # path)" "op_ActorID op = actor"
      "ops_steps (operations s) (operations s')" "audit_extends s s'"
      "\<forall>j. j \<noteq> newid e 0 ''op'' \<longrightarrow> get (operations s') j = get (operations s) j"
      "idempotency s' = put (req_ProjectID r @ '':'' @ key) (newid e 0 ''op'') (idempotency s)"
      "get (idempotency s) (req_ProjectID r @ '':'' @ key) = None"
proof -
  obtain r1 s1 where c1: "createOperationLocked e r key actor requestID s = (r1, s1)"
    by (cases "createOperationLocked e r key actor requestID s")
  then show thesis
  proof (cases rule: create_branches)
    case (error x)
    then show thesis using that(1) c c1 by (auto simp: createWithPayload_def)
  next
    case (replay r' op i)
    then show thesis
      using that(1,2) c c1 by (auto simp: createWithPayload_def Let_def split: option.split_asm if_split_asm)
  next
    case (new r' op)
    have op: "get (operations s1) (ID op) = Some op" "ID op = newid e 0 ''op''"
        "op_State op = OperationDraft" "op_ActorID op = actor"
        "ops_steps (operations s) (operations s1)" "audit_extends s s1"
      using new fresh by (auto simp: created_op_def fresh_op_ids_def intro!: ops_create)
    obtain op' s2 where t: "transitionAll e 3 op path actor s1 = (Inr op', s2)"
      and p: "get (operations s2) (ID op') = Some op'" "ID op' = ID op"
        "op_State op' = last (op_State op # path)" "op_identity op op'"
        "\<forall>j. j \<noteq> ID op \<longrightarrow> get (operations s2) j = get (operations s1) j"
        "ops_steps (operations s1) (operations s2)" "audit_extends s1 s2" "idempotency s2 = idempotency s1"
      using transitionAll_ok [OF op(1)] path op(3) by metis
    have s': "operations s' = operations s2" "audit_extends s2 s'" "res = Inr (op', False)"
        "idempotency s' = idempotency s2"
      using c c1 new(1) t by (auto simp: createWithPayload_def Let_def)
    have aud: "audit_extends s s'"
      using op(6) p(7) s'(2) audit_extends_trans by blast
    have st: "ops_steps (operations s) (operations s')"
      using op(5) p(6) s'(1) ops_trans by metis
    have idem: "idempotency s' = put (req_ProjectID r @ '':'' @ key) (newid e 0 ''op'') (idempotency s)"
      using new(5) s'(4) p(8) op(2) by simp
    show thesis
    proof (rule that(3) [of op'])
      show "\<forall>j. j \<noteq> newid e 0 ''op'' \<longrightarrow> get (operations s') j = get (operations s) j"
        using p(5) op(2) new(5) s'(1) by auto
    qed (use p(1-4) op(2-4) s'(1,3) new(4) aud st idem in \<open>simp_all add: op_identity_def\<close>)
  qed
qed

lemma createWithPayload_ops:
  assumes "fresh_op_ids e s" "direct_path OperationDraft path"
  shows "ops_steps (operations s)
      (operations (snd (createWithPayload e r key actor requestID mediaType payload path extra s)))"
proof -
  obtain res s' where c: "createWithPayload e r key actor requestID mediaType payload path extra s = (res, s')"
    by (cases "createWithPayload e r key actor requestID mediaType payload path extra s")
  from c assms have "ops_steps (operations s) (operations s')"
    by (cases rule: createWithPayload_branches) (auto intro: ops_refl)
  then show ?thesis using c by simp
qed

lemma transitionAll_audit: "audit_extends s (snd (transitionAll e k op path actor s))"
proof (induction e k op path actor s rule: transitionAll.induct)
  case (2 e k op to rest actor s)
  obtain res s' where t: "transitionOperationLocked (later k e) (ID op) (Revision op) to '''' actor s = (res, s')"
    by (cases "transitionOperationLocked (later k e) (ID op) (Revision op) to '''' actor s")
  have a: "audit_extends s s'" using transitionOperationLocked_audit t by (metis snd_conv)
  show ?case
  proof (cases res)
    case (Inr op')
    then show ?thesis
      using "2.IH" [of res s' op'] t a audit_extends_trans by auto
  qed (use t a in simp)
qed simp

lemma createWithPayload_audit:
  "audit_extends s (snd (createWithPayload e r key actor requestID mediaType payload path extra s))"
proof -
  obtain r1 s1 where c: "createOperationLocked e r key actor requestID s = (r1, s1)"
    by (cases "createOperationLocked e r key actor requestID s")
  then have a: "audit_extends s s1" using createOperationLocked_audit by (metis snd_conv)
  have "audit_extends s s2" if "transitionAll e 3 op path actor s1 = (r2, s2)" for op r2 s2
    using transitionAll_audit that a audit_extends_trans by (metis snd_conv)
  then show ?thesis
    using a c by (auto simp: createWithPayload_def Let_def split: sum.split prod.split option.split)
qed

lemma createWithPayload_idem:
  assumes "fresh_op_ids e s" "direct_path OperationDraft path" "get (idempotency s) scope = Some i"
  shows "get (idempotency (snd (createWithPayload e r key actor requestID mediaType payload path extra s))) scope = Some i"
proof -
  obtain res s' where c: "createWithPayload e r key actor requestID mediaType payload path extra s = (res, s')"
    by (cases "createWithPayload e r key actor requestID mediaType payload path extra s")
  from c assms have "get (idempotency s') scope = Some i"
    by (cases rule: createWithPayload_branches) auto
  then show ?thesis using c by simp
qed

interpretation create_awaiting: operation_call
  "\<lambda>e (r, key, actor, requestID, mediaType, payload).
     CreateOperationAwaitingApprovalWithPayload e r key actor requestID mediaType payload"
  by unfold_locales
    (auto simp: CreateOperationAwaitingApprovalWithPayload_def createWithPayload_audit
      intro!: ops_refl createWithPayload_ops createWithPayload_idem split: sum.split)

interpretation create_queued: operation_call
  "\<lambda>e (r, key, actor, requestID, mediaType, payload).
     CreateOperationQueuedWithPayload e r key actor requestID mediaType payload"
  by unfold_locales
    (auto simp: CreateOperationQueuedWithPayload_def createWithPayload_audit
      intro!: ops_refl createWithPayload_ops createWithPayload_idem split: sum.split)

lemma exclusive_snd:
  "snd (CreateExclusiveOperationAwaitingApprovalWithPayload e r key actor requestID mediaType payload s) \<in>
   {s, snd (createWithPayload e r key actor requestID mediaType payload
          [OperationPlanning, OperationAwaitingApproval] [(''exclusiveTarget'', MBool True)] s)}"
  by (auto simp: CreateExclusiveOperationAwaitingApprovalWithPayload_def Let_def
      split: sum.split option.split prod.split)

interpretation create_exclusive: operation_call
  "\<lambda>e (r, key, actor, requestID, mediaType, payload).
     CreateExclusiveOperationAwaitingApprovalWithPayload e r key actor requestID mediaType payload"
proof
  fix s :: MemoryStore and e and x :: "OperationRequest \<times> string \<times> string \<times> string \<times> string \<times> string"
  obtain r key actor requestID mediaType payload where x: "x = (r, key, actor, requestID, mediaType, payload)"
    by (cases x)
  note c = exclusive_snd [of e r key actor requestID mediaType payload s]
  show "ops_steps (operations s) (operations (snd ((case x of (r, key, actor, requestID, mediaType, payload) \<Rightarrow>
      CreateExclusiveOperationAwaitingApprovalWithPayload e r key actor requestID mediaType payload) s)))"
    if "ops_ok (operations s)" "fresh_op_ids e s"
    using c createWithPayload_ops [OF that(2)] by (auto simp: x intro: ops_refl)
  show "audit_extends s (snd ((case x of (r, key, actor, requestID, mediaType, payload) \<Rightarrow>
      CreateExclusiveOperationAwaitingApprovalWithPayload e r key actor requestID mediaType payload) s))"
    using c createWithPayload_audit by (auto simp: x)
  show "get (idempotency (snd ((case x of (r, key, actor, requestID, mediaType, payload) \<Rightarrow>
      CreateExclusiveOperationAwaitingApprovalWithPayload e r key actor requestID mediaType payload) s))) scope = Some i"
    if "fresh_op_ids e s" "get (idempotency s) scope = Some i" for scope i
    using c createWithPayload_idem [OF that(1) _ that(2)] that(2) by (auto simp: x)
qed

lemma step_approve:
  assumes "op_State op = OperationAwaitingApproval"
  shows "op_step op (touch t2 ((touch t1 (op\<lparr>op_State := OperationApproved\<rparr>))\<lparr>op_State := OperationQueued\<rparr>))"
proof (rule op_step_trans)
  show "op_step op (touch t1 (op\<lparr>op_State := OperationApproved\<rparr>))"
    using assms by (intro step_owner) simp_all
  show "op_step (touch t1 (op\<lparr>op_State := OperationApproved\<rparr>))
      (touch t2 ((touch t1 (op\<lparr>op_State := OperationApproved\<rparr>))\<lparr>op_State := OperationQueued\<rparr>))"
    by (intro step_owner) (simp_all add: touch_def)
qed

lemma ApproveOperationAndQueue_ops:
  assumes "ops_ok (operations s)"
  shows "ops_steps (operations s) (operations (snd (ApproveOperationAndQueue e i expected actor s)))"
proof (cases "get (operations s) (TrimSpace i)")
  case None
  then show ?thesis by (simp add: ApproveOperationAndQueue_def ops_refl)
next
  case (Some op)
  then have "get (operations s) (ID op) = Some op" using owner_stored [OF assms] by blast
  then show ?thesis
    using Some by (simp add: ApproveOperationAndQueue_def Let_def ops_refl ops_update [OF _ step_approve])
qed

interpretation approve: operation_call "\<lambda>e (i, expected, actor). ApproveOperationAndQueue e i expected actor"
  by unfold_locales
    (auto simp: ApproveOperationAndQueue_ops, simp_all add: ApproveOperationAndQueue_def Let_def split: option.split)

end
