(* ===== verification/System.thy ===== *)
theory System
  imports OperationCalls
begin

text \<open>
  The operation authority as a transition system. A request is one call with its arguments,
  \<open>exec\<close> runs it, and a step runs any request in an environment with fresh identifiers, or lets
  the rest of the control plane change the tables the operation calls only read (projects,
  clusters and the other resources). Reachable states are what the steps make of the empty store.
\<close>

section \<open>Requests\<close>

datatype request =
    RCreate "OperationRequest \<times> string \<times> string \<times> string"
  | RTransition "string \<times> int \<times> OperationState \<times> string \<times> string"
  | RClaim "string \<times> string \<times> int \<times> int"
  | RRenew "string \<times> string \<times> int \<times> int \<times> int"
  | RRelease "string \<times> string \<times> int"
  | RAppendStep "OperationStep \<times> string"
  | RStart "string \<times> int \<times> string \<times> int \<times> string"
  | RVerify "string \<times> int \<times> string \<times> int \<times> string"
  | RFail "string \<times> int \<times> string \<times> int \<times> OperationFailureReport \<times> string"
  | RComplete "string \<times> int \<times> string \<times> int \<times> string"
  | RRequestCancel "string \<times> int \<times> string \<times> string"
  | RAckCancel "string \<times> int \<times> string \<times> int \<times> string"
  | RAppendTrace "OperationStepTraceInput \<times> string \<times> int \<times> string"
  | RAppendPayload "EvidenceMetadata \<times> string \<times> string \<times> int \<times> string"
  | RAppendEvid "EvidenceMetadata \<times> string"
  | RCompleteEvid "string \<times> int \<times> EvidenceMetadata \<times> string \<times> string \<times> int \<times> string"
  | RSetPlan "string \<times> int \<times> (CompensationPlanStep list) \<times> string"
  | RForwardStep "string \<times> string \<times> int \<times> string \<times> int \<times> string"
  | RBeginComp "string \<times> int \<times> string"
  | RClaimComp "string \<times> string \<times> int \<times> string"
  | RCompleteComp "string \<times> string \<times> string \<times> int \<times> string \<times> string"
  | RFailComp "string \<times> string \<times> string \<times> int \<times> CompensationStepFailure \<times> string"
  | RCreateCheckpoint "RecoveryCheckpoint \<times> string"
  | RRevokeCheckpoint "string \<times> int \<times> string"
  | RResolve "string \<times> int \<times> string \<times> string \<times> string"
  | RResolveEvid "string \<times> int \<times> string \<times> EvidenceMetadata \<times> string \<times> string"
  | ROwnerCancel "string \<times> string \<times> string"
  | ROwnerCreate "string \<times> string \<times> string \<times> string \<times> int \<times> string \<times> string \<times> string \<times> string \<times> bool"
  | ROwnerApprove "string \<times> string \<times> string \<times> string"
  | ROwnerStart "string \<times> string \<times> string \<times> string"
  | ROwnerFinish "string \<times> bool \<times> string \<times> string"
  | RCreateAwaiting "OperationRequest \<times> string \<times> string \<times> string \<times> string \<times> string"
  | RCreateQueued "OperationRequest \<times> string \<times> string \<times> string \<times> string \<times> string"
  | RCreateExclusive "OperationRequest \<times> string \<times> string \<times> string \<times> string \<times> string"
  | RApprove "string \<times> int \<times> string"

definition outcome :: "'a call \<Rightarrow> err option \<times> MemoryStore" where
  "outcome c = (case fst c of Inl x \<Rightarrow> Some x | Inr v \<Rightarrow> None, snd c)"

lemma outcome_simps [simp]:
  "snd (outcome c) = snd c" "outcome (Inl x, s) = (Some x, s)" "outcome (Inr v, s) = (None, s)"
  by (simp_all add: outcome_def)

fun exec :: "env \<Rightarrow> request \<Rightarrow> MemoryStore \<Rightarrow> err option \<times> MemoryStore" where
  "exec e (RCreate x) s = outcome ((\<lambda>(r, key, actor, requestID). CreateOperation e r key actor requestID) x s)"
| "exec e (RTransition x) s = outcome ((\<lambda>(i, expected, to, lastError, actor). TransitionOperation e i expected to lastError actor) x s)"
| "exec e (RClaim x) s = outcome ((\<lambda>(i, worker, ttl, at). ClaimOperation e i worker ttl at) x s)"
| "exec e (RRenew x) s = outcome ((\<lambda>(i, worker, fence, ttl, at). RenewOperationLease e i worker fence ttl at) x s)"
| "exec e (RRelease x) s = outcome ((\<lambda>(i, worker, fence). ReleaseOperationLease e i worker fence) x s)"
| "exec e (RAppendStep x) s = outcome ((\<lambda>(step, actor). AppendOperationStep e step actor) x s)"
| "exec e (RStart x) s = outcome ((\<lambda>(i, expected, worker, fence, actor). StartOperationAttempt e i expected worker fence actor) x s)"
| "exec e (RVerify x) s = outcome ((\<lambda>(i, expected, worker, fence, actor). BeginOperationVerification e i expected worker fence actor) x s)"
| "exec e (RFail x) s = outcome ((\<lambda>(i, expected, worker, fence, report, actor). ReportOperationFailure e i expected worker fence report actor) x s)"
| "exec e (RComplete x) s = outcome ((\<lambda>(i, expected, worker, fence, actor). CompleteOperation e i expected worker fence actor) x s)"
| "exec e (RRequestCancel x) s = outcome ((\<lambda>(i, expected, actor, reason). RequestOperationCancellation e i expected actor reason) x s)"
| "exec e (RAckCancel x) s = outcome ((\<lambda>(i, expected, worker, fence, actor). AcknowledgeOperationCancellation e i expected worker fence actor) x s)"
| "exec e (RAppendTrace x) s = outcome ((\<lambda>(tin, worker, fence, actor). AppendOperationStepTrace e tin worker fence actor) x s)"
| "exec e (RAppendPayload x) s = outcome ((\<lambda>(ein, payload, worker, fence, actor). AppendOperationEvidencePayload e ein payload worker fence actor) x s)"
| "exec e (RAppendEvid x) s = outcome ((\<lambda>(v, actor). AppendEvidence e v actor) x s)"
| "exec e (RCompleteEvid x) s = outcome ((\<lambda>(i, expected, ein, payload, worker, fence, actor). CompleteOperationWithEvidencePayload e i expected ein payload worker fence actor) x s)"
| "exec e (RSetPlan x) s = outcome ((\<lambda>(i, expected, plan, actor). SetOperationCompensationPlan e i expected plan actor) x s)"
| "exec e (RForwardStep x) s = outcome ((\<lambda>(i, stepKey, expected, worker, fence, actor). RecordOperationForwardStepCompleted e i stepKey expected worker fence actor) x s)"
| "exec e (RBeginComp x) s = outcome ((\<lambda>(i, expected, actor). BeginOperationCompensation e i expected actor) x s)"
| "exec e (RClaimComp x) s = outcome ((\<lambda>(i, worker, fence, actor). ClaimNextOperationCompensationStep e i worker fence actor) x s)"
| "exec e (RCompleteComp x) s = outcome ((\<lambda>(i, stepKey, worker, fence, d, actor). CompleteOperationCompensationStep e i stepKey worker fence d actor) x s)"
| "exec e (RFailComp x) s = outcome ((\<lambda>(i, stepKey, worker, fence, failure, actor). ReportOperationCompensationStepFailure e i stepKey worker fence failure actor) x s)"
| "exec e (RCreateCheckpoint x) s = outcome ((\<lambda>(v, actor). CreateRecoveryCheckpoint e v actor) x s)"
| "exec e (RRevokeCheckpoint x) s = outcome ((\<lambda>(i, expected, actor). RevokeRecoveryCheckpoint e i expected actor) x s)"
| "exec e (RResolve x) s = outcome ((\<lambda>(i, expected, resolution, d, actor). ResolveUnknownOperationOutcome e i expected resolution d actor) x s)"
| "exec e (RResolveEvid x) s = outcome ((\<lambda>(i, expected, resolution, ein, payload, actor). ResolveUnknownOperationOutcomeWithEvidence e i expected resolution ein payload actor) x s)"
| "exec e (ROwnerCancel x) s = outcome ((\<lambda>(operationID, actor, reason). cancelOwnerDestructiveOperationLocked e operationID actor reason) x s)"
| "exec e (ROwnerCreate x) s = outcome ((\<lambda>(p, c, k, ow, r, d, rc, a, rd, w). createOwnerDestructiveOperationLocked e p c k ow r d rc a rd w) x s)"
| "exec e (ROwnerApprove x) s = outcome ((\<lambda>(i, p, c, a). approveOwnerDestructiveOperationLocked e i p c a) x s)"
| "exec e (ROwnerStart x) s = outcome ((\<lambda>(i, p, c, a). startOwnerDestructiveOperationLocked e i p c a) x s)"
| "exec e (ROwnerFinish x) s = outcome ((\<lambda>(i, success, le, a). finishOwnerDestructiveOperationLocked e i success le a) x s)"
| "exec e (RCreateAwaiting x) s = outcome ((\<lambda>(r, key, actor, requestID, mediaType, payload). CreateOperationAwaitingApprovalWithPayload e r key actor requestID mediaType payload) x s)"
| "exec e (RCreateQueued x) s = outcome ((\<lambda>(r, key, actor, requestID, mediaType, payload). CreateOperationQueuedWithPayload e r key actor requestID mediaType payload) x s)"
| "exec e (RCreateExclusive x) s = outcome ((\<lambda>(r, key, actor, requestID, mediaType, payload). CreateExclusiveOperationAwaitingApprovalWithPayload e r key actor requestID mediaType payload) x s)"
| "exec e (RApprove x) s = outcome ((\<lambda>(i, expected, actor). ApproveOperationAndQueue e i expected actor) x s)"

lemmas call_changes_ops =
  create.changes_ops
  transition.changes_ops
  claim.changes_ops
  renew.changes_ops
  release.changes_ops
  append_step.changes_ops
  start.changes_ops
  verification.changes_ops
  failure.changes_ops
  complete.changes_ops
  cancellation.changes_ops
  acknowledge.changes_ops
  step_trace.changes_ops
  evidence_payload.changes_ops
  append_evidence.changes_ops
  complete_evidence.changes_ops
  set_plan.changes_ops
  forward_step.changes_ops
  begin_compensation.changes_ops
  claim_compensation.changes_ops
  complete_compensation.changes_ops
  fail_compensation.changes_ops
  create_checkpoint.changes_ops
  revoke_checkpoint.changes_ops
  resolve.changes_ops
  resolve_evidence.changes_ops
  owner_cancel.changes_ops
  owner_create.changes_ops
  owner_approve.changes_ops
  owner_start.changes_ops
  owner_finish.changes_ops
  create_awaiting.changes_ops
  create_queued.changes_ops
  create_exclusive.changes_ops
  approve.changes_ops

lemmas call_extends_audit =
  create.extends_audit
  transition.extends_audit
  claim.extends_audit
  renew.extends_audit
  release.extends_audit
  append_step.extends_audit
  start.extends_audit
  verification.extends_audit
  failure.extends_audit
  complete.extends_audit
  cancellation.extends_audit
  acknowledge.extends_audit
  step_trace.extends_audit
  evidence_payload.extends_audit
  append_evidence.extends_audit
  complete_evidence.extends_audit
  set_plan.extends_audit
  forward_step.extends_audit
  begin_compensation.extends_audit
  claim_compensation.extends_audit
  complete_compensation.extends_audit
  fail_compensation.extends_audit
  create_checkpoint.extends_audit
  revoke_checkpoint.extends_audit
  resolve.extends_audit
  resolve_evidence.extends_audit
  owner_cancel.extends_audit
  owner_create.extends_audit
  owner_approve.extends_audit
  owner_start.extends_audit
  owner_finish.extends_audit
  create_awaiting.extends_audit
  create_queued.extends_audit
  create_exclusive.extends_audit
  approve.extends_audit

lemmas call_keeps_idempotency =
  create.keeps_idempotency
  transition.keeps_idempotency
  claim.keeps_idempotency
  renew.keeps_idempotency
  release.keeps_idempotency
  append_step.keeps_idempotency
  start.keeps_idempotency
  verification.keeps_idempotency
  failure.keeps_idempotency
  complete.keeps_idempotency
  cancellation.keeps_idempotency
  acknowledge.keeps_idempotency
  step_trace.keeps_idempotency
  evidence_payload.keeps_idempotency
  append_evidence.keeps_idempotency
  complete_evidence.keeps_idempotency
  set_plan.keeps_idempotency
  forward_step.keeps_idempotency
  begin_compensation.keeps_idempotency
  claim_compensation.keeps_idempotency
  complete_compensation.keeps_idempotency
  fail_compensation.keeps_idempotency
  create_checkpoint.keeps_idempotency
  revoke_checkpoint.keeps_idempotency
  resolve.keeps_idempotency
  resolve_evidence.keeps_idempotency
  owner_cancel.keeps_idempotency
  owner_create.keeps_idempotency
  owner_approve.keeps_idempotency
  owner_start.keeps_idempotency
  owner_finish.keeps_idempotency
  create_awaiting.keeps_idempotency
  create_queued.keeps_idempotency
  create_exclusive.keeps_idempotency
  approve.keeps_idempotency

text \<open>Every request implements the interface.\<close>

interpretation exec: operation_call "\<lambda>e c s. (Inr (fst (exec e c s)), snd (exec e c s))"
proof
  fix s :: MemoryStore and e :: env and c :: request
  show "ops_steps (operations s) (operations (snd (Inr (fst (exec e c s)), snd (exec e c s))))"
    if "ops_ok (operations s)" "fresh_op_ids e s"
    using that by (cases c) (simp_all only: exec.simps outcome_simps snd_conv call_changes_ops)
  show "audit_extends s (snd (Inr (fst (exec e c s)), snd (exec e c s)))"
    by (cases c) (simp_all only: exec.simps outcome_simps snd_conv call_extends_audit)
  show "get (idempotency (snd (Inr (fst (exec e c s)), snd (exec e c s)))) scope = Some i"
    if "ops_ok (operations s)" "fresh_op_ids e s" "get (idempotency s) scope = Some i" for scope i
    using that by (cases c) (simp_all only: exec.simps outcome_simps snd_conv call_keeps_idempotency)
qed

section \<open>Runs\<close>

text \<open>
  What the rest of the control plane may do between two calls: anything that leaves the tables of
  the operation authority alone and only appends to the audit log.
\<close>

definition same_authority :: "MemoryStore \<Rightarrow> MemoryStore \<Rightarrow> bool" where
  "same_authority s s' =
     (operations s' = operations s \<and> idempotency s' = idempotency s \<and> steps s' = steps s \<and>
      stepTraces s' = stepTraces s \<and> compensationSteps s' = compensationSteps s \<and>
      evidence s' = evidence s \<and> evidencePayloads s' = evidencePayloads s \<and>
      operationRequestPayloads s' = operationRequestPayloads s \<and> audit_extends s s')"

definition fresh_ids :: "env \<Rightarrow> MemoryStore \<Rightarrow> bool" where
  "fresh_ids e s = (fresh_op_ids e s \<and>
     (\<forall>k. newid e k ''evd'' \<noteq> '''' \<and> get (evidence s) (newid e k ''evd'') = None))"

text \<open>\<open>h\<close> is the SHA-256 function, the same in all calls of a run.\<close>

inductive authority_step :: "(string \<Rightarrow> string) \<Rightarrow> MemoryStore \<Rightarrow> MemoryStore \<Rightarrow> bool" for h where
  call: "authority_step h s (snd (exec e c s))" if "sha256hex e = h" "fresh_ids e s"
| other: "authority_step h s s'" if "same_authority s s'"

inductive_cases authority_stepE: "authority_step h s s'"

abbreviation runs :: "(string \<Rightarrow> string) \<Rightarrow> MemoryStore \<Rightarrow> MemoryStore \<Rightarrow> bool" where
  "runs h \<equiv> (authority_step h)\<^sup>*\<^sup>*"

definition reachable :: "(string \<Rightarrow> string) \<Rightarrow> MemoryStore \<Rightarrow> bool" where
  "reachable h s = runs h NewMemoryStoreWith s"

lemma reachable_runs: "reachable h s \<Longrightarrow> runs h s s' \<Longrightarrow> reachable h s'"
  unfolding reachable_def by (rule rtranclp_trans)

lemma reachable_exec:
  "reachable h s \<Longrightarrow> sha256hex e = h \<Longrightarrow> fresh_ids e s \<Longrightarrow> reachable h (snd (exec e c s))"
  by (rule reachable_runs) (auto intro: authority_step.call)

lemma ops_ok_init: "ops_ok (operations NewMemoryStoreWith)"
  by (simp add: ops_ok_def NewMemoryStoreWith_def)

lemma step_changes_ops:
  "authority_step h s s' \<Longrightarrow> ops_ok (operations s) \<Longrightarrow> ops_steps (operations s) (operations s')"
proof (induction rule: authority_step.induct)
  case (call e s c)
  then show ?case using exec.changes_ops [of s e c] by (simp add: fresh_ids_def)
next
  case (other s s')
  then show ?case by (simp add: same_authority_def ops_refl)
qed

lemma runs_change_ops:
  "runs h s s' \<Longrightarrow> ops_ok (operations s) \<Longrightarrow> ops_steps (operations s) (operations s')"
proof (induction rule: rtranclp_induct)
  case base
  then show ?case by (simp add: ops_refl)
next
  case (step s1 s2)
  then have "ops_ok (operations s1)" using ops_steps_ok by blast
  then show ?case using step step_changes_ops ops_trans by blast
qed

lemma reachable_ops_ok: "reachable h s \<Longrightarrow> ops_ok (operations s)"
  unfolding reachable_def using runs_change_ops ops_ok_init ops_steps_ok by blast

lemma runs_evolve:
  assumes "ops_ok (operations s)" "runs h s s'" "get (operations s) i = Some op"
  obtains op' where "get (operations s') i = Some op'" "op' = op \<or> op_evolves op op'"
  using ops_steps_evolve [OF runs_change_ops [OF assms(2,1)] assms(3)] by blast

lemma runs_audit: "runs h s s' \<Longrightarrow> audit_extends s s'"
proof (induction rule: rtranclp_induct)
  case (step s1 s2)
  have "audit_extends s1 s2"
    using step(2) exec.extends_audit by (cases rule: authority_step.cases) (auto simp: same_authority_def)
  then show ?case using step audit_extends_trans by blast
qed simp

lemma runs_idempotency:
  assumes "runs h s s'" "ops_ok (operations s)" "get (idempotency s) scope = Some i"
  shows "get (idempotency s') scope = Some i"
  using assms
proof (induction rule: rtranclp_induct)
  case (step s1 s2)
  have ok: "ops_ok (operations s1)" using step ops_steps_ok runs_change_ops by blast
  from step(2) show ?case
  proof (cases rule: authority_step.cases)
    case (call e c)
    then show ?thesis
      using exec.keeps_idempotency [of s1 e scope i c] ok step by (simp add: fresh_ids_def)
  qed (use step in \<open>simp add: same_authority_def\<close>)
qed

section \<open>Requests that present a fence or a revision\<close>

text \<open>The operation and the fence token a worker call presents.\<close>

fun fence_of :: "request \<Rightarrow> (string \<times> int) option" where
  "fence_of (RRenew (i, worker, fence, ttl, at)) = Some (i, fence)"
| "fence_of (RRelease (i, worker, fence)) = Some (i, fence)"
| "fence_of (RAppendStep (step, actor)) = Some (stp_OperationID step, stp_FenceToken step)"
| "fence_of (RStart (i, expected, worker, fence, actor)) = Some (i, fence)"
| "fence_of (RVerify (i, expected, worker, fence, actor)) = Some (i, fence)"
| "fence_of (RFail (i, expected, worker, fence, report, actor)) = Some (i, fence)"
| "fence_of (RComplete (i, expected, worker, fence, actor)) = Some (i, fence)"
| "fence_of (RAckCancel (i, expected, worker, fence, actor)) = Some (i, fence)"
| "fence_of (RAppendTrace (tin, worker, fence, actor)) = Some (TrimSpace (tin_OperationID tin), fence)"
| "fence_of (RAppendPayload (ein, payload, worker, fence, actor)) = Some (TrimSpace (evd_OperationID ein), fence)"
| "fence_of (RCompleteEvid (i, expected, ein, payload, worker, fence, actor)) = Some (TrimSpace i, fence)"
| "fence_of (RForwardStep (i, stepKey, expected, worker, fence, actor)) = Some (i, fence)"
| "fence_of (RClaimComp (i, worker, fence, actor)) = Some (i, fence)"
| "fence_of (RCompleteComp (i, stepKey, worker, fence, d, actor)) = Some (i, fence)"
| "fence_of (RFailComp (i, stepKey, worker, fence, failure, actor)) = Some (i, fence)"
| "fence_of c = None"

text \<open>The operation and the revision an optimistic call expects.\<close>

fun expects :: "request \<Rightarrow> (string \<times> int) option" where
  "expects (RTransition (i, expected, to, lastError, actor)) = Some (i, expected)"
| "expects (RStart (i, expected, worker, fence, actor)) = Some (i, expected)"
| "expects (RVerify (i, expected, worker, fence, actor)) = Some (i, expected)"
| "expects (RFail (i, expected, worker, fence, report, actor)) = Some (i, expected)"
| "expects (RComplete (i, expected, worker, fence, actor)) = Some (i, expected)"
| "expects (RRequestCancel (i, expected, actor, reason)) = Some (i, expected)"
| "expects (RAckCancel (i, expected, worker, fence, actor)) = Some (i, expected)"
| "expects (RSetPlan (i, expected, plan, actor)) = Some (i, expected)"
| "expects (RForwardStep (i, stepKey, expected, worker, fence, actor)) = Some (i, expected)"
| "expects (RBeginComp (i, expected, actor)) = Some (i, expected)"
| "expects (RResolve (i, expected, resolution, d, actor)) = Some (i, expected)"
| "expects (RApprove (i, expected, actor)) = Some (TrimSpace i, expected)"
| "expects c = None"

lemma conflict_unchanged:
  assumes "expects c = Some (i, n)" "get (operations s) i = Some op" "Revision op \<noteq> n"
  shows "exec e c s = (Some ErrConflict, s)"
  using assms
  by (cases c rule: expects.cases)
    (auto simp: TransitionOperation_def transitionOperationLocked_def StartOperationAttempt_def
      BeginOperationVerification_def ReportOperationFailure_def CompleteOperation_def
      RequestOperationCancellation_def AcknowledgeOperationCancellation_def
      SetOperationCompensationPlan_def RecordOperationForwardStepCompleted_def
      BeginOperationCompensation_def ResolveUnknownOperationOutcome_def
      ApplyUnknownOutcomeResolution_def ApproveOperationAndQueue_def Let_def)

text \<open>A worker call whose token is not the operation's current one changes nothing.\<close>

lemma stale_trace:
  "get (operations s) (TrimSpace (tin_OperationID tin)) = Some op \<Longrightarrow> op_FenceToken op \<noteq> fence \<Longrightarrow>
   \<exists>x. AppendOperationStepTrace e tin worker fence actor s = (Inl x, s)"
  unfolding AppendOperationStepTrace_def normalizeOperationStepTraceInput_def
    validateOperationStepTraceLocked_def Let_def
  by simp

lemma stale_payload:
  "get (operations s) (TrimSpace (evd_OperationID ein)) = Some op \<Longrightarrow> op_FenceToken op \<noteq> fence \<Longrightarrow>
   \<exists>x. AppendOperationEvidencePayload e ein payload worker fence actor s = (Inl x, s)"
  unfolding AppendOperationEvidencePayload_def trimEvidence_def Let_def by simp

lemma stale_complete_evidence:
  "get (operations s) (TrimSpace i) = Some op \<Longrightarrow> op_FenceToken op \<noteq> fence \<Longrightarrow>
   snd (CompleteOperationWithEvidencePayload e i expected ein payload worker fence actor s) = s"
  unfolding CompleteOperationWithEvidencePayload_def OperationLeaseActive_def Let_def
  by (simp split: sum.split option.split)

lemma stale_compensation:
  assumes "get (operations s) i = Some op" "op_FenceToken op \<noteq> fence"
  shows "\<exists>x. ClaimNextOperationCompensationStep e i worker fence actor s = (Inl x, s)"
    "\<exists>x. CompleteOperationCompensationStep e i stepKey worker fence d actor s = (Inl x, s)"
    "\<exists>x. ReportOperationCompensationStepFailure e i stepKey worker fence failure actor s = (Inl x, s)"
    "\<exists>x. RecordOperationForwardStepCompleted e i stepKey expected worker fence actor s = (Inl x, s)"
  using assms
  by (simp_all add: ClaimNextOperationCompensationStep_def CompleteOperationCompensationStep_def
      ReportOperationCompensationStepFailure_def RecordOperationForwardStepCompleted_def
      OperationLeaseActive_def Let_def)

lemma stale_attempt:
  assumes "get (operations s) i = Some op" "op_FenceToken op \<noteq> fence"
  shows "\<exists>x. RenewOperationLease e i worker fence ttl at s = (Inl x, s)"
    "\<exists>x. ReleaseOperationLease e i worker fence s = (Inl x, s)"
    "\<exists>x. StartOperationAttempt e i expected worker fence actor s = (Inl x, s)"
    "\<exists>x. BeginOperationVerification e i expected worker fence actor s = (Inl x, s)"
    "\<exists>x. ReportOperationFailure e i expected worker fence report actor s = (Inl x, s)"
    "\<exists>x. CompleteOperation e i expected worker fence actor s = (Inl x, s)"
    "\<exists>x. AcknowledgeOperationCancellation e i expected worker fence actor s = (Inl x, s)"
  using assms
  by (simp_all add: RenewOperationLease_def ReleaseOperationLease_def StartOperationAttempt_def
      BeginOperationVerification_def ReportOperationFailure_def CompleteOperation_def
      AcknowledgeOperationCancellation_def OperationLeaseActive_def Let_def)

lemma stale_append_step:
  "get (operations s) (stp_OperationID step) = Some op \<Longrightarrow> op_FenceToken op \<noteq> stp_FenceToken step \<Longrightarrow>
   \<exists>x. AppendOperationStep e step actor s = (Inl x, s)"
  by (simp add: AppendOperationStep_def OperationLeaseActive_def Let_def)

lemma outcome_refused: "\<exists>x. c = (Inl x, s) \<Longrightarrow> \<exists>x. outcome c = (Some x, s)"
  by auto

lemma stale_fence_refused:
  assumes "fence_of c = Some (i, f)" "get (operations s) i = Some op" "op_FenceToken op \<noteq> f"
  shows "(\<exists>x. exec e c s = (Some x, s)) \<or> (\<exists>x. c = RCompleteEvid x)"
  using assms
  by (cases c rule: fence_of.cases)
    (simp_all add: outcome_refused stale_trace stale_payload stale_compensation stale_attempt
      stale_append_step)

lemma stale_fence_unchanged:
  assumes "fence_of c = Some (i, f)" "get (operations s) i = Some op" "op_FenceToken op \<noteq> f"
  shows "snd (exec e c s) = s \<and> (fst (exec e c s) \<noteq> None \<or> (\<exists>x. c = RCompleteEvid x))"
  using stale_fence_refused [OF assms, of e]
proof
  assume "\<exists>x. c = RCompleteEvid x"
  then show ?thesis using assms by (auto simp: stale_complete_evidence)
qed auto

lemma ClaimOperation_fence:
  assumes "ClaimOperation e i worker ttl at s = (Inr cr, s')"
  shows "\<exists>op op'. get (operations s) i = Some op \<and> get (operations s') i = Some op' \<and>
    op_FenceToken op' = op_FenceToken op + 1 \<and> clm_FenceToken cr = op_FenceToken op' \<and>
    op_LeaseOwner op' = TrimSpace worker \<and> op_LeaseExpiresAt op' = Some (at + ttl) \<and>
    claimable_state (op_State op') \<and> op_Attempt op' = op_Attempt op \<and>
    (after (op_LeaseExpiresAt op) at \<longrightarrow> TrimSpace (op_LeaseOwner op) = TrimSpace worker)"
  using assms
  by (auto simp: ClaimOperation_def requeueDueRetry_def Let_def touch_def
      split: if_split_asm option.split_asm sum.split_asm prod.split_asm)

end
