(* ===== verification/Demo.thy ===== *)
theory Demo
  imports System
begin

text \<open>
  A concrete environment and concrete runs, on which the general theorems are instantiated. The
  clock of call n reads n seconds, identifiers are the prefix and a number in unary notation, and
  the digest and encoding functions are simple stand-ins for SHA-256 and JSON.
\<close>

definition demo_hash :: "string \<Rightarrow> string" where
  "demo_hash raw = raw"

fun demo_marshal :: "gval \<Rightarrow> string" where
  "demo_marshal (VOperationRequest r) = req_ProjectID r @ ''/'' @ req_Kind r @ ''/'' @ req_TargetRef r"
| "demo_marshal v = ''{}''"

definition demo_env :: "nat \<Rightarrow> env" where
  "demo_env n = \<lparr>clock = (\<lambda>k. int (Suc n) * Second), newid = (\<lambda>k p. p @ replicate (Suc (20 * n + k)) (CHR ''x'')),
     sha256hex = demo_hash, marshal = demo_marshal, ed25519_Verify = (\<lambda>k m sig. sig = k @ m)\<rparr>"

text \<open>Every key in use is shorter than the identifiers that call n can draw.\<close>

definition demo_fresh :: "nat \<Rightarrow> MemoryStore \<Rightarrow> bool" where
  "demo_fresh n s = (list_all (\<lambda>(k, v). length k < 20 * n + 3) (operations s) \<and>
     list_all (\<lambda>(k, v). length k < 20 * n + 4) (evidence s))"

fun demo_run :: "nat \<Rightarrow> request list \<Rightarrow> MemoryStore \<Rightarrow> MemoryStore option" where
  "demo_run n [] s = Some s"
| "demo_run n (c # cs) s =
     (if demo_fresh n s then demo_run (Suc n) cs (snd (exec (demo_env n) c s)) else None)"

lemma get_longer: "list_all (\<lambda>(k, v). length k < length x) m \<Longrightarrow> get m x = None"
  by (induction m) (auto simp: get_def)

lemma demo_fresh_ids: "demo_fresh n s \<Longrightarrow> fresh_ids (demo_env n) s"
  unfolding fresh_ids_def fresh_op_ids_def demo_fresh_def
  by (auto simp: demo_env_def intro!: get_longer elim!: list.pred_mono_strong)

lemma demo_run_runs: "demo_run n cs s = Some s' \<Longrightarrow> runs demo_hash s s'"
proof (induction n cs s rule: demo_run.induct)
  case (2 n c cs s)
  then have "demo_fresh n s" by (simp split: if_split_asm)
  then have "authority_step demo_hash s (snd (exec (demo_env n) c s))"
    by (intro authority_step.call demo_fresh_ids) (simp_all add: demo_env_def)
  then show ?case using 2 by (auto split: if_split_asm intro: converse_rtranclp_into_rtranclp)
qed simp

text \<open>The store with one project, which the rest of the control plane has created.\<close>

definition demo_project :: Project where
  "demo_project = \<lparr>ID = ''prj'', Revision = 1, CreatedAt = 0, UpdatedAt = 0,
     prj_OrganizationID = ''org'', prj_Name = ''demo'', prj_DisplayName = ''Demo''\<rparr>"

definition demo0 :: MemoryStore where
  "demo0 = NewMemoryStoreWith\<lparr>projects := [(''prj'', demo_project)]\<rparr>"

lemma demo0_reachable: "reachable demo_hash demo0"
  unfolding reachable_def
  by (intro r_into_rtranclp authority_step.other)
    (simp add: same_authority_def demo0_def NewMemoryStoreWith_def audit_extends_def)

lemma demo_run_reachable: "demo_run n cs demo0 = Some s \<Longrightarrow> reachable demo_hash s"
  using reachable_runs [OF demo0_reachable] demo_run_runs by blast

definition demo_request :: OperationRequest where
  "demo_request = \<lparr>req_ProjectID = ''prj'', req_Kind = ''cluster.apply'', req_TargetRef = ''cluster:c1'',
     req_DesiredRevision = ''r1'', req_Risk = ''low'', req_Class = OperationClassMutating,
     req_RecoveryCheckpointID = ''''\<rparr>"

text \<open>Create an operation, plan and queue it, and let worker \<open>w1\<close> claim it for ten seconds.\<close>

definition demo_queued :: "request list" where
  "demo_queued =
     [RCreate (demo_request, ''key'', ''alice'', ''req''),
      RTransition (''opx'', 1, OperationPlanning, '''', ''alice''),
      RTransition (''opx'', 2, OperationQueued, '''', ''alice'')]"

definition demo_claimed :: "request list" where
  "demo_claimed = demo_queued @ [RClaim (''opx'', ''w1'', 10 * Second, 4 * Second)]"

definition demo_state :: "request list \<Rightarrow> MemoryStore" where
  "demo_state cs = the (demo_run 0 cs demo0)"

lemma demo_state_reachable: "demo_run 0 cs demo0 \<noteq> None \<Longrightarrow> reachable demo_hash (demo_state cs)"
  using demo_run_reachable by (auto simp: demo_state_def)

lemma demo_run_append:
  "demo_run n (cs @ ds) s = (case demo_run n cs s of None \<Rightarrow> None | Some s' \<Rightarrow> demo_run (n + length cs) ds s')"
  by (induction n cs s rule: demo_run.induct) (auto split: option.split)

lemma demo_state_runs:
  "demo_run 0 (cs @ ds) demo0 \<noteq> None \<Longrightarrow> runs demo_hash (demo_state cs) (demo_state (cs @ ds))"
  using demo_run_runs by (auto simp: demo_run_append demo_state_def split: option.split_asm)

lemma demo_state_snoc:
  assumes "demo_run 0 (cs @ [c]) demo0 \<noteq> None"
  shows "demo_state (cs @ [c]) = snd (exec (demo_env (length cs)) c (demo_state cs))"
    and "fresh_ids (demo_env (length cs)) (demo_state cs)"
  using assms demo_fresh_ids
  by (auto simp: demo_run_append demo_state_def split: option.split_asm if_split_asm)

lemma demo_env_hash [simp]: "sha256hex (demo_env n) = demo_hash"
  by (simp add: demo_env_def)

definition demo_op :: "request list \<Rightarrow> string \<Rightarrow> Operation" where
  "demo_op cs i = the (get (operations (demo_state cs)) i)"

lemma demo_op_stored:
  "get (operations (demo_state cs)) i \<noteq> None \<Longrightarrow> get (operations (demo_state cs)) i = Some (demo_op cs i)"
  by (auto simp: demo_op_def)

text \<open>The lease of \<open>w1\<close> runs out and \<open>w2\<close> claims the operation.\<close>

definition demo_reclaimed :: "request list" where
  "demo_reclaimed = demo_claimed @ [RClaim (''opx'', ''w2'', 10 * Second, 20 * Second)]"

lemma demo_queued_ok: "demo_run 0 demo_queued demo0 \<noteq> None"
  by code_simp

lemma demo_claimed_ok: "demo_run 0 demo_claimed demo0 \<noteq> None"
  by code_simp

lemma demo_reclaimed_ok: "demo_run 0 demo_reclaimed demo0 \<noteq> None"
  by code_simp

text \<open>The description of a payload the worker seals.\<close>

definition demo_evidence :: EvidenceMetadata where
  "demo_evidence = zeroEvidence\<lparr>evd_OperationID := ''opx'', evd_Kind := ''log'', evd_MediaType := ''text/plain''\<rparr>"

end
