(* ===== verification/Authority.thy ===== *)
theory Authority
  imports Demo
begin

text \<open>
  The guarantees of the operation authority over whole runs: the invariant of the operation
  table, what the history of an operation keeps, fencing of workers that lost their lease,
  optimistic concurrency, idempotent creation and the append-only audit log.
\<close>





text \<open>
  C2: Fencing. Worker A claims an operation and gets a fence token; later, after any calls,
  worker B (or A itself) claims it again. From then on, in every state any further run leads to,
  every worker call that still presents A's old token - renew or release the lease, append a
  step, a trace or evidence, start, verify, fail, complete or acknowledge an attempt, record
  progress, or work on the compensation - leaves the store untouched, and it reports an error
  unless it is the evidence-backed completion, which may only answer a replay of a completion that
  was already committed.
\<close>
theorem stale_worker_is_fenced:
  assumes "reachable h s0"
    and "ClaimOperation e1 i a ttl1 at1 s0 = (Inr claimA, s1)" and "sha256hex e1 = h" and "fresh_ids e1 s0"
    and "runs h s1 s2"
    and "ClaimOperation e2 i b ttl2 at2 s2 = (Inr claimB, s3)" and "sha256hex e2 = h" and "fresh_ids e2 s2"
    and "runs h s3 s4"
    and "fence_of c = Some (i, clm_FenceToken claimA)"
  shows "clm_FenceToken claimA < clm_FenceToken claimB \<and>
    snd (exec e c s4) = s4 \<and> (fst (exec e c s4) \<noteq> None \<or> (\<exists>x. c = RCompleteEvid x))"
proof -
  have s1: "reachable h s1"
    using reachable_exec [of h s0 e1 "RClaim (i, a, ttl1, at1)"] assms(1-4) by simp
  have s2: "reachable h s2" using reachable_runs [OF s1 assms(5)] .
  have s3: "reachable h s3"
    using reachable_exec [of h s2 e2 "RClaim (i, b, ttl2, at2)"] s2 assms(6-8) by simp
  obtain op1 where op1: "get (operations s1) i = Some op1" "clm_FenceToken claimA = op_FenceToken op1"
    using ClaimOperation_fence [OF assms(2)] by auto
  obtain op2 op3 where op2: "get (operations s2) i = Some op2" and op3: "get (operations s3) i = Some op3"
    "op_FenceToken op3 = op_FenceToken op2 + 1" "clm_FenceToken claimB = op_FenceToken op3"
    using ClaimOperation_fence [OF assms(6)] by auto
  have "op_FenceToken op1 \<le> op_FenceToken op2"
    using runs_evolve [OF reachable_ops_ok [OF s1] assms(5) op1(1)] op2
    by (metis op_evolves_def option.inject order_refl)
  moreover obtain op4 where op4: "get (operations s4) i = Some op4" "op_FenceToken op3 \<le> op_FenceToken op4"
    using runs_evolve [OF reachable_ops_ok [OF s3] assms(9) op3(1)]
    by (metis op_evolves_def order_refl)
  ultimately have "op_FenceToken op4 \<noteq> clm_FenceToken claimA" "clm_FenceToken claimA < clm_FenceToken claimB"
    using op1(2) op3(2,3) by auto
  then show ?thesis
    using stale_fence_unchanged [OF assms(10) op4(1)] by blast
qed

theorem stale_worker_is_fenced_witness:
  "snd (exec (demo_env 5) (RRenew (''opx'', ''w1'', 1, 10 * Second, 21 * Second)) (demo_state demo_reclaimed)) =
     demo_state demo_reclaimed \<and>
   fst (exec (demo_env 5) (RRenew (''opx'', ''w1'', 1, 10 * Second, 21 * Second)) (demo_state demo_reclaimed)) \<noteq> None"
proof -
  let ?claimA = "ClaimOperation (demo_env 3) ''opx'' ''w1'' (10 * Second) (4 * Second) (demo_state demo_queued)"
  let ?claimB = "ClaimOperation (demo_env 4) ''opx'' ''w2'' (10 * Second) (20 * Second) (demo_state demo_claimed)"
  have A: "fst ?claimA = Inr (projr (fst ?claimA))" "clm_FenceToken (projr (fst ?claimA)) = 1"
    "length demo_queued = 3" by code_simp+
  have B: "fst ?claimB = Inr (projr (fst ?claimB))" "length demo_claimed = 4" by code_simp+
  have a: "?claimA = (Inr (projr (fst ?claimA)), demo_state demo_claimed)"
    "fresh_ids (demo_env 3) (demo_state demo_queued)"
    using A demo_state_snoc [OF demo_claimed_ok [unfolded demo_claimed_def]]
    by (simp_all add: demo_claimed_def prod_eq_iff)
  have b: "?claimB = (Inr (projr (fst ?claimB)), demo_state demo_reclaimed)"
    "fresh_ids (demo_env 4) (demo_state demo_claimed)"
    using B demo_state_snoc [OF demo_reclaimed_ok [unfolded demo_reclaimed_def]]
    by (simp_all add: demo_reclaimed_def prod_eq_iff)
  show ?thesis
    using stale_worker_is_fenced [OF demo_state_reachable [OF demo_queued_ok] a(1) _ a(2) rtranclp.rtrancl_refl
        b(1) _ b(2) rtranclp.rtrancl_refl, of "RRenew (''opx'', ''w1'', 1, 10 * Second, 21 * Second)"] A(2)
    by simp
qed



lemma admit_project: "admitOperationRequest r key actor s = Inr n \<Longrightarrow> req_ProjectID n = req_ProjectID r"
  by (auto simp: admitOperationRequest_def Let_def split: if_split_asm sum.split_asm)

lemma bind_keeps:
  "bindRecoveryCheckpoint s op now = Inr op' \<Longrightarrow> ID op' = ID op \<and> op_RequestDigest op' = op_RequestDigest op"
  by (auto simp: bindRecoveryCheckpoint_def Let_def split: if_split_asm option.split_asm sum.split_asm)

lemma CreateOperation_new:
  assumes "CreateOperation e r key actor requestID s = (Inr (op, False), s1)"
  obtains n where "admitOperationRequest r key actor s = Inr n"
    and "get (idempotency s1) (req_ProjectID r @ '':'' @ key) = Some (ID op)"
    and "get (operations s1) (ID op) = Some op" and "op_RequestDigest op = operationDigest e n"
  using assms
  by (auto simp: CreateOperation_def createOperationLocked_def Let_def saveOperation_def newOperation_def
      stamp_def dest!: bind_keeps dest: admit_project split: sum.split_asm option.split_asm if_split_asm)

text \<open>
  C4: Idempotent creation. When a create call makes a new operation under a project and an
  idempotency key, then in every state a run from there leads to, a create call of the same
  project and key that passes validation changes nothing: it returns the current record of that
  same operation, marked as a replay, when its normalised request has the digest of the first
  one, and ErrIdempotencyConflict otherwise. So a key never yields two operations.
\<close>
theorem create_is_idempotent:
  assumes "reachable h s" and "sha256hex e = h" and "fresh_ids e s"
    and "CreateOperation e r key actor requestID s = (Inr (op, False), s1)"
    and "runs h s1 s2"
    and "admitOperationRequest r' key actor' s2 = Inr n'" and "req_ProjectID r' = req_ProjectID r"
  shows "\<exists>op'. get (operations s2) (ID op) = Some op' \<and> ID op' = ID op \<and>
    op_RequestDigest op' = op_RequestDigest op \<and>
    (\<exists>n. admitOperationRequest r key actor s = Inr n \<and> op_RequestDigest op = operationDigest e n) \<and>
    CreateOperation e' r' key actor' requestID' s2 =
      (if operationDigest e' n' = op_RequestDigest op then (Inr (op', True), s2)
       else (Inl ErrIdempotencyConflict, s2))"
proof -
  obtain n where n: "admitOperationRequest r key actor s = Inr n"
    and c: "get (idempotency s1) (req_ProjectID r @ '':'' @ key) = Some (ID op)"
      "get (operations s1) (ID op) = Some op" "op_RequestDigest op = operationDigest e n"
    using CreateOperation_new [OF assms(4)] by auto
  have s1: "reachable h s1"
    using reachable_exec [OF assms(1-3), of "RCreate (r, key, actor, requestID)"] assms(4) by simp
  have i: "get (idempotency s2) (req_ProjectID r @ '':'' @ key) = Some (ID op)"
    using runs_idempotency [OF assms(5) reachable_ops_ok [OF s1] c(1)] .
  obtain op' where op': "get (operations s2) (ID op) = Some op'" "op' = op \<or> op_evolves op op'"
    using runs_evolve [OF reachable_ops_ok [OF s1] assms(5) c(2)] .
  have "req_ProjectID n' = req_ProjectID r" using admit_project [OF assms(6)] assms(7) by simp
  moreover have "ID op' = ID op" "op_RequestDigest op' = op_RequestDigest op"
    using op'(2) by (auto simp: op_evolves_def op_identity_def)
  ultimately show ?thesis
    using n c(3) i op'(1) assms(6) by (auto simp: CreateOperation_def createOperationLocked_def Let_def)
qed

theorem create_is_idempotent_witness:
  "CreateOperation (demo_env 7) demo_request ''key'' ''bob'' ''again'' (demo_state demo_claimed) =
     (Inr (demo_op demo_claimed ''opx'', True), demo_state demo_claimed)"
proof -
  let ?c = "RCreate (demo_request, ''key'', ''alice'', ''req'')"
  let ?r = "CreateOperation (demo_env 0) demo_request ''key'' ''alice'' ''req'' demo0"
  have r: "fst ?r = Inr (fst (projr (fst ?r)), False)" "ID (fst (projr (fst ?r))) = ''opx''"
    "op_RequestDigest (fst (projr (fst ?r))) = operationDigest (demo_env 7) demo_request"
    "admitOperationRequest demo_request ''key'' ''bob'' (demo_state demo_claimed) = Inr demo_request"
    "fresh_ids (demo_env 0) demo0 = True"
    by (code_simp, code_simp, code_simp, code_simp, rule eqTrueI, rule demo_fresh_ids, code_simp)
  have d: "demo_claimed = [?c] @ tl demo_claimed" "demo_state [?c] = snd ?r"
    by (simp add: demo_claimed_def demo_queued_def, code_simp)
  have "runs demo_hash (snd ?r) (demo_state demo_claimed)"
    using demo_state_runs [of "[?c]" "tl demo_claimed"] demo_claimed_ok d by metis
  with r(1) have p: "?r = (Inr (fst (projr (fst ?r)), False), snd ?r)"
    "runs demo_hash (snd ?r) (demo_state demo_claimed)" by (simp_all add: prod_eq_iff)
  show ?thesis
    using create_is_idempotent [OF demo0_reachable demo_env_hash r(5) [THEN eqTrueE] p r(4) refl, of "demo_env 7" "''again''"]
      r(2,3) by (auto simp: demo_op_def)
qed

text \<open>
  C6: The audit log is append-only and the idempotency index is permanent: whatever runs, every
  event ever logged stays in the log, unchanged and at its position, and every idempotency key
  keeps pointing to the operation it created.
\<close>
theorem audit_is_append_only:
  assumes "reachable h s" and "runs h s s'"
  shows "(\<exists>new. audit s' = audit s @ new) \<and>
    (\<forall>scope i. get (idempotency s) scope = Some i \<longrightarrow> get (idempotency s') scope = Some i)"
  using runs_audit [OF assms(2)] runs_idempotency [OF assms(2) reachable_ops_ok [OF assms(1)]]
  by (auto simp: audit_extends_def)

theorem audit_is_append_only_witness:
  "length (audit (demo_state demo_claimed)) = 4 \<and>
   (\<exists>new. audit (demo_state demo_reclaimed) = audit (demo_state demo_claimed) @ new)"
proof -
  have "runs demo_hash (demo_state demo_claimed) (demo_state demo_reclaimed)"
    unfolding demo_reclaimed_def
    by (rule demo_state_runs) (use demo_reclaimed_ok in \<open>simp add: demo_reclaimed_def\<close>)
  moreover have "length (audit (demo_state demo_claimed)) = 4" by code_simp
  ultimately show ?thesis
    using audit_is_append_only [OF demo_state_reachable [OF demo_claimed_ok]] by blast
qed

end
