(* ===== verification/Frames.thy ===== *)
theory Frames
  imports System
begin

text \<open>
  Which requests write the evidence tables and which write the compensation steps: everything
  but the calls named in \<open>writes_evidence\<close> and \<open>writes_compensation\<close> leaves them as they are.
\<close>

definition same_evidence :: "MemoryStore \<Rightarrow> MemoryStore \<Rightarrow> bool" where
  "same_evidence s s' = (evidence s' = evidence s \<and> evidencePayloads s' = evidencePayloads s)"

definition same_logs :: "MemoryStore \<Rightarrow> MemoryStore \<Rightarrow> bool" where
  "same_logs s s' = (same_evidence s s' \<and> compensationSteps s' = compensationSteps s)"

named_theorems log_frames \<open>calls that leave the evidence or the compensation steps alone\<close>

lemma same_logs_refl [log_frames]: "same_logs s s" "same_evidence s s"
  by (simp_all add: same_logs_def same_evidence_def)

lemma same_logs_trans: "same_logs s t \<Longrightarrow> same_logs t u \<Longrightarrow> same_logs s u"
  by (simp add: same_logs_def same_evidence_def)

lemma same_evidence_upd [log_frames]:
  "same_evidence s (t\<lparr>operations := a\<rparr>) = same_evidence s t"
  "same_evidence s (t\<lparr>steps := b\<rparr>) = same_evidence s t"
  "same_evidence s (t\<lparr>idempotency := c\<rparr>) = same_evidence s t"
  "same_evidence s (t\<lparr>compensationSteps := d\<rparr>) = same_evidence s t"
  "same_evidence s (t\<lparr>operationRequestPayloads := p\<rparr>) = same_evidence s t"
  "same_evidence s (t\<lparr>recoveryCheckpoints := q\<rparr>) = same_evidence s t"
  "same_evidence s (appendAuditLocked e k x y z w r m t) = same_evidence s t"
  "same_evidence s (appendOutboxLocked e k x y z v t) = same_evidence s t"
  "same_evidence s (saveOperation e k i op x y m z t) = same_evidence s t"
  "same_evidence s (saveCompensationStep e k key i step op x y m t) = same_evidence s t"
  by (simp_all add: same_evidence_def saveCompensationStep_def Let_def)

lemma same_logs_upd [log_frames]:
  "same_logs s (t\<lparr>operations := a\<rparr>) = same_logs s t"
  "same_logs s (t\<lparr>steps := b\<rparr>) = same_logs s t"
  "same_logs s (t\<lparr>idempotency := c\<rparr>) = same_logs s t"
  "same_logs s (t\<lparr>operationRequestPayloads := p\<rparr>) = same_logs s t"
  "same_logs s (t\<lparr>recoveryCheckpoints := q\<rparr>) = same_logs s t"
  "same_logs s (appendAuditLocked e k x y z w r m t) = same_logs s t"
  "same_logs s (appendOutboxLocked e k x y z v t) = same_logs s t"
  "same_logs s (saveOperation e k i op x y m z t) = same_logs s t"
  by (simp_all add: same_logs_def log_frames)

section \<open>The shared parts of the calls\<close>

lemma createOperationLocked_logs:
  "same_logs s (snd (createOperationLocked e r key actor requestID s))"
  by (simp add: createOperationLocked_def Let_def log_frames split: sum.split option.split)

lemma transitionOperationLocked_logs:
  "same_logs s (snd (transitionOperationLocked e i expected to lastError actor s))"
  by (simp add: transitionOperationLocked_def Let_def log_frames split: option.split)

lemma requeueDueRetry_logs: "same_logs s (snd (requeueDueRetry e i op worker at s))"
  by (simp add: requeueDueRetry_def Let_def log_frames)

lemma transitionOwnerOperationLocked_logs:
  "same_logs s (snd (transitionOwnerOperationLocked e k op to actor event payload s))"
  by (simp add: transitionOwnerOperationLocked_def Let_def log_frames)

text \<open>A call followed by a continuation on its result.\<close>

lemma same_logs_bind:
  assumes "same_logs s (snd c)" and "\<And>x s'. same_logs s' (snd (f x s'))" and "\<And>x s'. same_logs s' (snd (g x s'))"
  shows "same_logs s (snd (case c of (Inl x, s') \<Rightarrow> f x s' | (Inr y, s') \<Rightarrow> g y s'))"
  using assms same_logs_trans by (cases c) (auto split: sum.split)

lemma transitionAll_logs: "same_logs s (snd (transitionAll e k op path actor s))"
proof (induction path arbitrary: k op s)
  case (Cons to path)
  then show ?case
    by (simp only: transitionAll.simps) (intro same_logs_bind transitionOperationLocked_logs; simp add: log_frames)
qed (simp add: log_frames)

lemma ownerTransitions_logs: "same_logs s (snd (ownerTransitions e k op path actor s))"
proof (induction path arbitrary: k op s)
  case (Cons x path)
  then show ?case
    by (cases x) (simp only: ownerTransitions.simps,
      intro same_logs_bind transitionOwnerOperationLocked_logs; simp add: log_frames)
qed (simp add: log_frames)

lemma createWithPayload_logs:
  "same_logs s (snd (createWithPayload e r key actor requestID mediaType payload path extra s))"
proof -
  obtain res s1 where c: "createOperationLocked e r key actor requestID s = (res, s1)" by force
  then have s1: "same_logs s s1" by (metis createOperationLocked_logs snd_conv)
  show ?thesis
  proof (cases res)
    case (Inr x)
    obtain op replay where x: "x = (op, replay)" by force
    obtain t s2 where t: "transitionAll e 3 op path actor s1 = (t, s2)" by force
    then have "same_logs s s2" using s1 same_logs_trans by (metis transitionAll_logs snd_conv)
    then show ?thesis
      using c Inr x t s1 by (cases t) (simp_all add: createWithPayload_def Let_def log_frames split: option.split)
  qed (use c s1 in \<open>simp add: createWithPayload_def\<close>)
qed

section \<open>One lemma per call\<close>

lemma CreateOperation_logs: "same_logs s (snd (CreateOperation e r key actor requestID s))"
  by (simp add: CreateOperation_def createOperationLocked_logs)

lemma TransitionOperation_logs: "same_logs s (snd (TransitionOperation e i expected to lastError actor s))"
  by (simp add: TransitionOperation_def transitionOperationLocked_logs)

lemma ClaimOperation_logs: "same_logs s (snd (ClaimOperation e i worker ttl at s))"
  unfolding ClaimOperation_def Let_def
  by (simp add: log_frames split: option.split) (auto intro!: same_logs_bind requeueDueRetry_logs simp: log_frames)

lemma RenewOperationLease_logs: "same_logs s (snd (RenewOperationLease e i worker fence ttl at s))"
  by (simp add: RenewOperationLease_def Let_def log_frames split: option.split sum.split prod.split)

lemma ReleaseOperationLease_logs: "same_logs s (snd (ReleaseOperationLease e i worker fence s))"
  by (simp add: ReleaseOperationLease_def Let_def log_frames split: option.split sum.split prod.split)

lemma AppendOperationStep_logs: "same_logs s (snd (AppendOperationStep e step actor s))"
  by (simp add: AppendOperationStep_def Let_def log_frames split: option.split sum.split prod.split)

lemma StartOperationAttempt_logs: "same_logs s (snd (StartOperationAttempt e i expected worker fence actor s))"
  by (simp add: StartOperationAttempt_def Let_def log_frames split: option.split sum.split prod.split)

lemma BeginOperationVerification_logs: "same_logs s (snd (BeginOperationVerification e i expected worker fence actor s))"
  by (simp add: BeginOperationVerification_def Let_def log_frames split: option.split sum.split prod.split)

lemma ReportOperationFailure_logs: "same_logs s (snd (ReportOperationFailure e i expected worker fence report actor s))"
  by (simp add: ReportOperationFailure_def Let_def log_frames split: option.split sum.split prod.split)

lemma CompleteOperation_logs: "same_logs s (snd (CompleteOperation e i expected worker fence actor s))"
  by (simp add: CompleteOperation_def Let_def log_frames split: option.split sum.split prod.split)

lemma RequestOperationCancellation_logs: "same_logs s (snd (RequestOperationCancellation e i expected actor reason s))"
  by (simp add: RequestOperationCancellation_def Let_def log_frames split: option.split sum.split prod.split)

lemma AcknowledgeOperationCancellation_logs: "same_logs s (snd (AcknowledgeOperationCancellation e i expected worker fence actor s))"
  by (simp add: AcknowledgeOperationCancellation_def Let_def log_frames split: option.split sum.split prod.split)

lemma CreateRecoveryCheckpoint_logs: "same_logs s (snd (CreateRecoveryCheckpoint e v actor s))"
  by (simp add: CreateRecoveryCheckpoint_def Let_def log_frames split: option.split sum.split prod.split)

lemma RevokeRecoveryCheckpoint_logs: "same_logs s (snd (RevokeRecoveryCheckpoint e i expected actor s))"
  by (simp add: RevokeRecoveryCheckpoint_def Let_def log_frames split: option.split sum.split prod.split)

lemma ResolveUnknownOperationOutcome_logs: "same_logs s (snd (ResolveUnknownOperationOutcome e i expected resolution d actor s))"
  by (simp add: ResolveUnknownOperationOutcome_def Let_def log_frames split: option.split sum.split prod.split)

lemma cancelOwnerDestructiveOperationLocked_logs: "same_logs s (snd (cancelOwnerDestructiveOperationLocked e operationID actor reason s))"
  unfolding cancelOwnerDestructiveOperationLocked_def Let_def
  by (auto simp: log_frames split: option.split sum.split intro!: same_logs_bind transitionOwnerOperationLocked_logs)

lemma createOwnerDestructiveOperationLocked_logs: "same_logs s (snd (createOwnerDestructiveOperationLocked e p c k ow r d rc a rd w s))"
  unfolding createOwnerDestructiveOperationLocked_def Let_def
  by (auto simp: log_frames simp del: ownerTransitions.simps split: option.split sum.split
      intro!: same_logs_trans [OF _ ownerTransitions_logs])

lemma approveOwnerDestructiveOperationLocked_logs: "same_logs s (snd (approveOwnerDestructiveOperationLocked e i p c a s))"
  by (simp add: approveOwnerDestructiveOperationLocked_def Let_def log_frames ownerTransitions_logs
      del: ownerTransitions.simps split: option.split sum.split)

lemma startOwnerDestructiveOperationLocked_logs: "same_logs s (snd (startOwnerDestructiveOperationLocked e i p c a s))"
  by (simp add: startOwnerDestructiveOperationLocked_def Let_def log_frames split: option.split sum.split prod.split)

lemma finishOwnerDestructiveOperationLocked_logs: "same_logs s (snd (finishOwnerDestructiveOperationLocked e i success le a s))"
  by (simp add: finishOwnerDestructiveOperationLocked_def Let_def log_frames split: option.split sum.split prod.split)

lemma CreateOperationAwaitingApprovalWithPayload_logs: "same_logs s (snd (CreateOperationAwaitingApprovalWithPayload e r key actor requestID mediaType payload s))"
  by (simp add: CreateOperationAwaitingApprovalWithPayload_def createWithPayload_logs log_frames split: sum.split)

lemma CreateOperationQueuedWithPayload_logs: "same_logs s (snd (CreateOperationQueuedWithPayload e r key actor requestID mediaType payload s))"
  by (simp add: CreateOperationQueuedWithPayload_def createWithPayload_logs log_frames split: sum.split)

lemma CreateExclusiveOperationAwaitingApprovalWithPayload_logs: "same_logs s (snd (CreateExclusiveOperationAwaitingApprovalWithPayload e r key actor requestID mediaType payload s))"
  unfolding CreateExclusiveOperationAwaitingApprovalWithPayload_def Let_def
  by (auto simp: log_frames split: option.split sum.split intro!: same_logs_bind createWithPayload_logs)

lemma ApproveOperationAndQueue_logs: "same_logs s (snd (ApproveOperationAndQueue e i expected actor s))"
  by (simp add: ApproveOperationAndQueue_def Let_def log_frames split: option.split sum.split prod.split)

lemma SetOperationCompensationPlan_evidence: "same_evidence s (snd (SetOperationCompensationPlan e i expected plan actor s))"
  by (simp add: SetOperationCompensationPlan_def Let_def log_frames split: option.split sum.split prod.split list.split)

lemma RecordOperationForwardStepCompleted_evidence: "same_evidence s (snd (RecordOperationForwardStepCompleted e i stepKey expected worker fence actor s))"
  by (simp add: RecordOperationForwardStepCompleted_def Let_def log_frames split: option.split sum.split prod.split list.split)

lemma BeginOperationCompensation_evidence: "same_evidence s (snd (BeginOperationCompensation e i expected actor s))"
  by (simp add: BeginOperationCompensation_def Let_def log_frames split: option.split sum.split prod.split list.split)

lemma ClaimNextOperationCompensationStep_evidence: "same_evidence s (snd (ClaimNextOperationCompensationStep e i worker fence actor s))"
  by (simp add: ClaimNextOperationCompensationStep_def Let_def log_frames split: option.split sum.split prod.split list.split)

lemma CompleteOperationCompensationStep_evidence: "same_evidence s (snd (CompleteOperationCompensationStep e i stepKey worker fence d actor s))"
  by (simp add: CompleteOperationCompensationStep_def Let_def log_frames split: option.split sum.split prod.split list.split)

lemma ReportOperationCompensationStepFailure_evidence: "same_evidence s (snd (ReportOperationCompensationStepFailure e i stepKey worker fence failure actor s))"
  by (simp add: ReportOperationCompensationStepFailure_def Let_def log_frames split: option.split sum.split prod.split list.split)

lemma AppendOperationStepTrace_compensation: "compensationSteps (snd (AppendOperationStepTrace e tin worker fence actor s)) = compensationSteps s"
  by (simp add: AppendOperationStepTrace_def Let_def log_frames split: option.split sum.split prod.split)

lemma AppendOperationEvidencePayload_compensation: "compensationSteps (snd (AppendOperationEvidencePayload e ein payload worker fence actor s)) = compensationSteps s"
  by (simp add: AppendOperationEvidencePayload_def Let_def log_frames split: option.split sum.split prod.split)

lemma AppendEvidence_compensation: "compensationSteps (snd (AppendEvidence e v actor s)) = compensationSteps s"
  by (simp add: AppendEvidence_def Let_def log_frames split: option.split sum.split prod.split)

lemma commitCompletion_compensation:
  "compensationSteps (snd (commitCompletion e i op ein found digest payload fence now actor s)) = compensationSteps s"
  by (simp add: commitCompletion_def Let_def split: option.split)

lemma CompleteOperationWithEvidencePayload_compensation: "compensationSteps (snd (CompleteOperationWithEvidencePayload e i expected ein payload worker fence actor s)) = compensationSteps s"
  by (simp add: CompleteOperationWithEvidencePayload_def Let_def commitCompletion_compensation split: option.split sum.split prod.split)

lemma ResolveUnknownOperationOutcomeWithEvidence_compensation: "compensationSteps (snd (ResolveUnknownOperationOutcomeWithEvidence e i expected resolution ein payload actor s)) = compensationSteps s"
  by (simp add: ResolveUnknownOperationOutcomeWithEvidence_def Let_def log_frames split: option.split sum.split prod.split)

lemma BeginOperationCompensation_compensation: "compensationSteps (snd (BeginOperationCompensation e i expected actor s)) = compensationSteps s"
  by (simp add: BeginOperationCompensation_def Let_def log_frames split: option.split sum.split prod.split)

section \<open>Requests\<close>

fun writes_evidence :: "request \<Rightarrow> bool" where
  "writes_evidence (RAppendTrace x) = True"
| "writes_evidence (RAppendPayload x) = True"
| "writes_evidence (RAppendEvid x) = True"
| "writes_evidence (RCompleteEvid x) = True"
| "writes_evidence (RResolveEvid x) = True"
| "writes_evidence c = False"

fun writes_compensation :: "request \<Rightarrow> bool" where
  "writes_compensation (RSetPlan x) = True"
| "writes_compensation (RForwardStep x) = True"
| "writes_compensation (RClaimComp x) = True"
| "writes_compensation (RCompleteComp x) = True"
| "writes_compensation (RFailComp x) = True"
| "writes_compensation c = False"

lemmas call_logs =
  CreateOperation_logs
  TransitionOperation_logs
  ClaimOperation_logs
  RenewOperationLease_logs
  ReleaseOperationLease_logs
  AppendOperationStep_logs
  StartOperationAttempt_logs
  BeginOperationVerification_logs
  ReportOperationFailure_logs
  CompleteOperation_logs
  RequestOperationCancellation_logs
  AcknowledgeOperationCancellation_logs
  CreateRecoveryCheckpoint_logs
  RevokeRecoveryCheckpoint_logs
  ResolveUnknownOperationOutcome_logs
  cancelOwnerDestructiveOperationLocked_logs
  createOwnerDestructiveOperationLocked_logs
  approveOwnerDestructiveOperationLocked_logs
  startOwnerDestructiveOperationLocked_logs
  finishOwnerDestructiveOperationLocked_logs
  CreateOperationAwaitingApprovalWithPayload_logs
  CreateOperationQueuedWithPayload_logs
  CreateExclusiveOperationAwaitingApprovalWithPayload_logs
  ApproveOperationAndQueue_logs

lemmas call_evidence =
  call_logs [unfolded same_logs_def, THEN conjunct1]
  SetOperationCompensationPlan_evidence
  RecordOperationForwardStepCompleted_evidence
  BeginOperationCompensation_evidence
  ClaimNextOperationCompensationStep_evidence
  CompleteOperationCompensationStep_evidence
  ReportOperationCompensationStepFailure_evidence

lemmas call_compensation =
  call_logs [unfolded same_logs_def, THEN conjunct2]
  AppendOperationStepTrace_compensation
  AppendOperationEvidencePayload_compensation
  AppendEvidence_compensation
  CompleteOperationWithEvidencePayload_compensation
  ResolveUnknownOperationOutcomeWithEvidence_compensation
  BeginOperationCompensation_compensation

lemma exec_evidence: "\<not> writes_evidence c \<Longrightarrow> same_evidence s (snd (exec e c s))"
  by (cases c) (simp_all only: exec.simps outcome_simps writes_evidence.simps not_True_eq_False split_beta call_evidence)

lemma exec_compensation: "\<not> writes_compensation c \<Longrightarrow> compensationSteps (snd (exec e c s)) = compensationSteps s"
  by (cases c) (simp_all only: exec.simps outcome_simps writes_compensation.simps not_True_eq_False split_beta call_compensation)

end
