(* ===== verification/Moves.thy ===== *)
theory Moves
  imports Frames
begin

text \<open>
  Which state changes each request can make. \<open>moves c a b\<close> says that request \<open>c\<close> may take an
  operation from state \<open>a\<close> to state \<open>b\<close>, \<open>born c b\<close> that it may create one in state \<open>b\<close>; the calls
  do nothing else to the states, and apart from three named deviations every change is a path
  of the transition table.
\<close>

section \<open>The moves of each request\<close>

fun moves :: "request \<Rightarrow> OperationState \<Rightarrow> OperationState \<Rightarrow> bool" where
  "moves (RTransition x) a b = CanDirectOperationTransition a b"
| "moves (RClaim x) a b = (a = OperationRetryWait \<and> b = OperationQueued)"
| "moves (RStart x) a b = (a = OperationQueued \<and> b = OperationRunning)"
| "moves (RVerify x) a b = (a = OperationRunning \<and> b = OperationVerifying)"
| "moves (RFail x) a b =
     (a \<in> {OperationRunning, OperationVerifying, OperationRollingBack} \<and> b \<in> {OperationRetryWait, OperationFailed})"
| "moves (RComplete x) a b = (a = OperationVerifying \<and> b = OperationSucceeded)"
| "moves (RRequestCancel x) a b =
     (if a \<in> {OperationRunning, OperationVerifying, OperationRollingBack} then b = OperationCancelRequested
      else \<not> IsTerminal a \<and> a \<noteq> OperationCancelRequested \<and> b = OperationCancelled)"
| "moves (RAckCancel x) a b = (a = OperationCancelRequested \<and> b = OperationCancelled)"
| "moves (RCompleteEvid x) a b = (a \<in> {OperationRunning, OperationVerifying} \<and> b = OperationSucceeded)"
| "moves (RBeginComp x) a b =
     (a \<in> {OperationFailed, OperationCancelRequested} \<and> b \<in> {OperationRollingBack, OperationRolledBack})"
| "moves (RClaimComp x) a b = (a = OperationRollingBack \<and> b \<in> {OperationRolledBack, OperationNeedsOperator})"
| "moves (RCompleteComp x) a b = (a = OperationRollingBack \<and> b = OperationRolledBack)"
| "moves (RFailComp x) a b = (a = OperationRollingBack \<and> b = OperationRollbackFailed)"
| "moves (RResolve x) a b = (a = OperationFailed \<and> b = OperationSucceeded)"
| "moves (RResolveEvid x) a b = (a = OperationFailed \<and> b = OperationSucceeded)"
| "moves (ROwnerCancel x) a b = (CanTransition a b \<and> b = OperationCancelled)"
| "moves (ROwnerApprove x) a b = (a = OperationAwaitingApproval \<and> b = OperationQueued)"
| "moves (ROwnerStart x) a b = (a = OperationQueued \<and> b = OperationRunning)"
| "moves (ROwnerFinish x) a b = (a = OperationRunning \<and> b \<in> {OperationFailed, OperationSucceeded})"
| "moves (RApprove x) a b = (a = OperationAwaitingApproval \<and> b = OperationQueued)"
| "moves c a b = False"

fun born :: "request \<Rightarrow> OperationState \<Rightarrow> bool" where
  "born (RCreate x) b = (b = OperationDraft)"
| "born (ROwnerCreate x) b = (b \<in> {OperationAwaitingApproval, OperationQueued})"
| "born (RCreateAwaiting x) b = (b = OperationAwaitingApproval)"
| "born (RCreateExclusive x) b = (b = OperationAwaitingApproval)"
| "born (RCreateQueued x) b = (b = OperationQueued)"
| "born c b = False"

definition op_moves ::
  "(OperationState \<Rightarrow> OperationState \<Rightarrow> bool) \<Rightarrow> (OperationState \<Rightarrow> bool) \<Rightarrow> Operation table \<Rightarrow> Operation table \<Rightarrow> bool" where
  "op_moves R B m m' = (\<forall>i op'. get m' i = Some op' \<longrightarrow>
     (case get m i of None \<Rightarrow> B (op_State op')
      | Some op \<Rightarrow> op_State op' = op_State op \<or> R (op_State op) (op_State op')))"

lemma om_refl: "op_moves R B m m"
  by (simp add: op_moves_def)

lemma om_put:
  "get m i = Some op \<Longrightarrow> op_State op' = op_State op \<or> R (op_State op) (op_State op') \<Longrightarrow> op_moves R B m (put i op' m)"
  "get m i = Some op \<Longrightarrow> op_State op' = op_State op \<or> R (op_State op) (op_State op') \<Longrightarrow>
   op_moves R B m (put i op' (put i op2 m))"
  by (auto simp: op_moves_def split: option.split)

lemma om_new: "get m i = None \<Longrightarrow> B (op_State op) \<Longrightarrow> op_moves R B m (put i op m)"
  by (auto simp: op_moves_def split: option.split)

lemma om_except:
  assumes "\<And>j. j \<noteq> i \<Longrightarrow> get m' j = get m j" and "get m' i = Some op'"
    and "case get m i of None \<Rightarrow> B (op_State op') | Some op \<Rightarrow> op_State op' = op_State op \<or> R (op_State op) (op_State op')"
  shows "op_moves R B m m'"
  unfolding op_moves_def
proof (intro allI impI)
  fix j op1 assume "get m' j = Some op1"
  then show "case get m j of None \<Rightarrow> B (op_State op1) | Some op \<Rightarrow> op_State op1 = op_State op \<or> R (op_State op) (op_State op1)"
    using assms by (cases "j = i") (auto split: option.split)
qed

lemma op_movesD:
  assumes "op_moves R B m m'" and "get m i = Some op" and "get m' i = Some op'"
  shows "op_State op' = op_State op \<or> R (op_State op) (op_State op')"
  using assms(1) [unfolded op_moves_def, rule_format, OF assms(3)] assms(2) by simp

lemma op_moves_born:
  assumes "op_moves R B m m'" and "get m i = None" and "get m' i = Some op'"
  shows "B (op_State op')"
  using assms(1) [unfolded op_moves_def, rule_format, OF assms(3)] assms(2) by simp

lemmas om_rules = om_refl om_put touch_def

section \<open>One lemma per call\<close>

lemma CreateOperation_moves:
  assumes "fresh_op_ids e s"
  shows "op_moves R (\<lambda>b. b = OperationDraft) (operations s) (operations (snd (CreateOperation e r key actor requestID s)))"
proof -
  obtain res s' where c: "createOperationLocked e r key actor requestID s = (res, s')" by force
  then have "op_moves R (\<lambda>b. b = OperationDraft) (operations s) (operations s')"
    using assms by (cases rule: create_branches) (auto simp: om_refl created_op_def fresh_op_ids_def intro: om_new)
  then show ?thesis using c by (simp add: CreateOperation_def)
qed

lemma TransitionOperation_moves:
  "op_moves CanDirectOperationTransition B (operations s) (operations (snd (TransitionOperation e i expected to le actor s)))"
  by (simp add: TransitionOperation_def transitionOperationLocked_def Let_def om_rules split: option.split)

lemma ClaimOperation_moves:
  "op_moves (\<lambda>a b. a = OperationRetryWait \<and> b = OperationQueued) B (operations s) (operations (snd (ClaimOperation e i worker ttl at s)))"
  by (simp add: ClaimOperation_def requeueDueRetry_def Let_def om_rules split: option.split)

lemma lease_moves:
  "op_moves R B (operations s) (operations (snd (RenewOperationLease e i worker fence ttl at s)))"
  "op_moves R B (operations s) (operations (snd (ReleaseOperationLease e i worker fence s)))"
  "op_moves R B (operations s) (operations (snd (AppendOperationStep e step actor s)))"
  by (simp_all add: RenewOperationLease_def ReleaseOperationLease_def AppendOperationStep_def Let_def om_rules split: option.split)

lemma attempt_moves:
  "op_moves (\<lambda>a b. a = OperationQueued \<and> b = OperationRunning) B
     (operations s) (operations (snd (StartOperationAttempt e i expected worker fence actor s)))"
  "op_moves (\<lambda>a b. a = OperationRunning \<and> b = OperationVerifying) B
     (operations s) (operations (snd (BeginOperationVerification e i expected worker fence actor s)))"
  "op_moves (\<lambda>a b. a \<in> {OperationRunning, OperationVerifying, OperationRollingBack} \<and> b \<in> {OperationRetryWait, OperationFailed}) B
     (operations s) (operations (snd (ReportOperationFailure e i expected worker fence report actor s)))"
  "op_moves (\<lambda>a b. a = OperationVerifying \<and> b = OperationSucceeded) B
     (operations s) (operations (snd (CompleteOperation e i expected worker fence actor s)))"
  "op_moves (\<lambda>a b. a = OperationCancelRequested \<and> b = OperationCancelled) B
     (operations s) (operations (snd (AcknowledgeOperationCancellation e i expected worker fence actor s)))"
  by (auto simp: StartOperationAttempt_def BeginOperationVerification_def ReportOperationFailure_def failedOperation_def
      CompleteOperation_def AcknowledgeOperationCancellation_def Let_def om_refl touch_def intro!: om_put
      split: option.split sum.split)

lemma RequestOperationCancellation_moves:
  "op_moves (\<lambda>a b. if a \<in> {OperationRunning, OperationVerifying, OperationRollingBack} then b = OperationCancelRequested
      else \<not> IsTerminal a \<and> a \<noteq> OperationCancelRequested \<and> b = OperationCancelled) B
     (operations s) (operations (snd (RequestOperationCancellation e i expected actor reason s)))"
  by (auto simp: RequestOperationCancellation_def cancelRequestedOperation_def Let_def om_refl touch_def intro!: om_put
      split: option.split)

lemma evidence_moves:
  "op_moves R B (operations s) (operations (snd (AppendOperationStepTrace e tin worker fence actor s)))"
  "op_moves R B (operations s) (operations (snd (AppendOperationEvidencePayload e ein payload worker fence actor s)))"
  "op_moves R B (operations s) (operations (snd (AppendEvidence e v actor s)))"
  by (simp_all add: AppendOperationStepTrace_def AppendOperationEvidencePayload_def AppendEvidence_def Let_def om_refl
      split: option.split sum.split prod.split)

lemma commitCompletion_moves:
  assumes "get (operations s) i = Some op" "R (op_State op) OperationSucceeded"
  shows "op_moves R B (operations s) (operations (snd (commitCompletion e i op ein found digest payload fence now actor s)))"
  using assms by (auto simp: commitCompletion_def Let_def touch_def intro!: om_put split: option.split)

lemma CompleteOperationWithEvidencePayload_moves:
  "op_moves (\<lambda>a b. a \<in> {OperationRunning, OperationVerifying} \<and> b = OperationSucceeded) B
     (operations s) (operations (snd (CompleteOperationWithEvidencePayload e i expected ein payload worker fence actor s)))"
  by (simp add: CompleteOperationWithEvidencePayload_def Let_def om_refl commitCompletion_moves split: option.split sum.split)

lemma compensation_moves:
  "op_moves R B (operations s) (operations (snd (SetOperationCompensationPlan e i expected plan actor s)))"
  "op_moves R B (operations s) (operations (snd (RecordOperationForwardStepCompleted e i stepKey expected worker fence actor s)))"
  "op_moves (\<lambda>a b. a \<in> {OperationFailed, OperationCancelRequested} \<and> b \<in> {OperationRollingBack, OperationRolledBack}) B
     (operations s) (operations (snd (BeginOperationCompensation e i expected actor s)))"
  "op_moves (\<lambda>a b. a = OperationRollingBack \<and> b \<in> {OperationRolledBack, OperationNeedsOperator}) B
     (operations s) (operations (snd (ClaimNextOperationCompensationStep e i worker fence actor s)))"
  by (simp_all add: SetOperationCompensationPlan_def RecordOperationForwardStepCompleted_def BeginOperationCompensation_def
      ClaimNextOperationCompensationStep_def rolledBackOperation_def Let_def om_rules split: option.split sum.split list.split)

lemma compensation_step_moves:
  "op_moves (\<lambda>a b. a = OperationRollingBack \<and> b = OperationRolledBack) B
     (operations s) (operations (snd (CompleteOperationCompensationStep e i stepKey worker fence d actor s)))"
  "op_moves (\<lambda>a b. a = OperationRollingBack \<and> b = OperationRollbackFailed) B
     (operations s) (operations (snd (ReportOperationCompensationStepFailure e i stepKey worker fence failure actor s)))"
  by (simp_all add: CompleteOperationCompensationStep_def ReportOperationCompensationStepFailure_def
      rolledBackOperation_def Let_def om_rules split: option.split)

lemma recovery_moves:
  "op_moves R B (operations s) (operations (snd (CreateRecoveryCheckpoint e v actor s)))"
  "op_moves R B (operations s) (operations (snd (RevokeRecoveryCheckpoint e i expected actor s)))"
  by (simp_all add: CreateRecoveryCheckpoint_def RevokeRecoveryCheckpoint_def Let_def om_refl split: option.split sum.split)

lemma ApplyUnknownOutcomeResolution_state:
  "ApplyUnknownOutcomeResolution op expected resolution d actor = Inr op' \<Longrightarrow>
   op_State op' = op_State op \<or> op_State op = OperationFailed \<and> op_State op' = OperationSucceeded"
  by (auto simp: ApplyUnknownOutcomeResolution_def Let_def split: if_split_asm sum.split_asm)

lemma resolution_moves:
  "op_moves (\<lambda>a b. a = OperationFailed \<and> b = OperationSucceeded) B
     (operations s) (operations (snd (ResolveUnknownOperationOutcome e i expected resolution d actor s)))"
  "op_moves (\<lambda>a b. a = OperationFailed \<and> b = OperationSucceeded) B
     (operations s) (operations (snd (ResolveUnknownOperationOutcomeWithEvidence e i expected resolution ein payload actor s)))"
  unfolding ResolveUnknownOperationOutcome_def ResolveUnknownOperationOutcomeWithEvidence_def Let_def
  by (auto simp: om_refl intro!: om_put dest: ApplyUnknownOutcomeResolution_state split: option.split sum.split)

lemma approval_moves:
  assumes "ops_ok (operations s)"
  shows "op_moves (\<lambda>a b. a = OperationAwaitingApproval \<and> b = OperationQueued) B
     (operations s) (operations (snd (ApproveOperationAndQueue e i expected actor s)))"
  using owner_stored [OF assms]
  by (auto simp: ApproveOperationAndQueue_def Let_def om_refl touch_def intro!: om_put split: option.split)

lemma owner_cancel_moves:
  assumes "ops_ok (operations s)"
  shows "op_moves (\<lambda>a b. CanTransition a b \<and> b = OperationCancelled) B
     (operations s) (operations (snd (cancelOwnerDestructiveOperationLocked e i actor reason s)))"
  using owner_stored [OF assms]
  by (auto simp: cancelOwnerDestructiveOperationLocked_def transitionOwnerOperationLocked_def Let_def om_refl touch_def
      intro!: om_put split: option.split)

lemma owner_run_moves:
  assumes "ops_ok (operations s)"
  shows "op_moves (\<lambda>a b. a = OperationQueued \<and> b = OperationRunning) B
     (operations s) (operations (snd (startOwnerDestructiveOperationLocked e i p c a s)))"
    and "op_moves (\<lambda>a b. a = OperationRunning \<and> b \<in> {OperationFailed, OperationSucceeded}) B
     (operations s) (operations (snd (finishOwnerDestructiveOperationLocked e i success le a s)))"
  using owner_stored [OF assms]
  by (auto simp: startOwnerDestructiveOperationLocked_def finishOwnerDestructiveOperationLocked_def Let_def om_refl touch_def
      intro!: om_put dest!: ownerBinding_Some split: option.split sum.split)

text \<open>The paths of the owner workflows, and where they end.\<close>

fun table_path :: "OperationState \<Rightarrow> (OperationState \<times> string \<times> (string \<times> metaval) list) list \<Rightarrow> bool" where
  "table_path st [] = True"
| "table_path st ((to, event, payload) # rest) = (CanTransition st to \<and> table_path to rest)"

lemma ownerTransitions_path:
  assumes "get (operations s) (ID op) = Some op" and "table_path (op_State op) path"
  shows "\<exists>op'. get (operations (snd (ownerTransitions e k op path actor s))) (ID op) = Some op' \<and>
    op_State op' = last (op_State op # map fst path) \<and>
    (\<forall>j. j \<noteq> ID op \<longrightarrow> get (operations (snd (ownerTransitions e k op path actor s))) j = get (operations s) j)"
  using assms
proof (induction path arbitrary: k op s)
  case (Cons x path)
  obtain to event payload where x: "x = (to, event, payload)" by (cases x)
  define op1 where "op1 = touch (nowUTC e k) (op\<lparr>op_State := to\<rparr>)"
  obtain s1 where t: "transitionOwnerOperationLocked e k op to actor event payload s = (Inr op1, s1)"
    and s1: "operations s1 = put (ID op) op1 (operations s)"
    using Cons.prems(2) x by (simp add: transitionOwnerOperationLocked_def Let_def op1_def touch_def)
  have op1: "ID op1 = ID op" "op_State op1 = to" by (simp_all add: op1_def touch_def)
  show ?case
    using Cons.IH [of s1 op1 "k + 3"] Cons.prems(2) x t s1 op1 by auto
qed simp

lemma approveOwner_moves:
  assumes "ops_ok (operations s)"
  shows "op_moves (\<lambda>a b. a = OperationAwaitingApproval \<and> b = OperationQueued) B
     (operations s) (operations (snd (approveOwnerDestructiveOperationLocked e i p c a s)))"
proof (cases "ownerBinding i p c s")
  case (Some op)
  let ?path = "[(OperationApproved, ''operation.owner_approved'', []), (OperationQueued, ''operation.owner_queued'', [])]"
  have op: "get (operations s) (ID op) = Some op" using owner_stored [OF assms] ownerBinding_Some [OF Some] by blast
  have "op_moves (\<lambda>a b. a = OperationAwaitingApproval \<and> b = OperationQueued) B
      (operations s) (operations (snd (ownerTransitions e 1 op ?path a s)))" if "op_State op = OperationAwaitingApproval"
    using ownerTransitions_path [OF op, of ?path e 1 a] that op
    by (auto simp del: ownerTransitions.simps intro: om_except [of "ID op"])
  then show ?thesis
    using Some by (simp add: approveOwnerDestructiveOperationLocked_def om_refl del: ownerTransitions.simps split: sum.split)
qed (simp add: approveOwnerDestructiveOperationLocked_def om_refl)

lemma createOwner_moves:
  assumes "fresh_op_ids e s"
  shows "op_moves R (\<lambda>b. b \<in> {OperationAwaitingApproval, OperationQueued})
     (operations s) (operations (snd (createOwnerDestructiveOperationLocked e p c k ow r d rc a rd w s)))"
proof -
  have "op_moves R (\<lambda>b. b \<in> {OperationAwaitingApproval, OperationQueued})
      (operations s) (operations (snd (ownerTransitions e 3 op path a s')))"
    if "operations s' = put (ID op) op (operations s)" "ID op = newid e 0 ''op''" "table_path (op_State op) path"
      "last (op_State op # map fst path) \<in> {OperationAwaitingApproval, OperationQueued}" for op path s'
    using ownerTransitions_path [of s' op path e 3 a] that assms
    by (auto simp: fresh_op_ids_def intro!: om_except [of "ID op"])
  then show ?thesis
    unfolding createOwnerDestructiveOperationLocked_def Let_def
    by (simp add: om_refl newOperation_def zeroOperation_def stamp_def del: ownerTransitions.simps split: option.split sum.split)
qed

lemma createWithPayload_moves:
  assumes "fresh_op_ids e s" "direct_path OperationDraft path" "B (last (OperationDraft # path))"
  shows "op_moves R B (operations s)
      (operations (snd (createWithPayload e r key actor requestID mediaType payload path extra s)))"
proof -
  obtain res s' where c: "createWithPayload e r key actor requestID mediaType payload path extra s = (res, s')" by force
  then have "op_moves R B (operations s) (operations s')"
    using assms(1,2)
  proof (cases rule: createWithPayload_branches)
    case (new op)
    then show ?thesis using assms by (intro om_except [of "newid e 0 ''op''"]) (auto simp: fresh_op_ids_def)
  qed (simp_all add: om_refl)
  then show ?thesis using c by simp
qed

lemma payload_moves:
  assumes "fresh_op_ids e s"
  shows "op_moves R (\<lambda>b. b = OperationAwaitingApproval) (operations s)
      (operations (snd (CreateOperationAwaitingApprovalWithPayload e r key actor requestID mediaType payload s)))"
    and "op_moves R (\<lambda>b. b = OperationQueued) (operations s)
      (operations (snd (CreateOperationQueuedWithPayload e r key actor requestID mediaType payload s)))"
    and "op_moves R (\<lambda>b. b = OperationAwaitingApproval) (operations s)
      (operations (snd (CreateExclusiveOperationAwaitingApprovalWithPayload e r key actor requestID mediaType payload s)))"
  using createWithPayload_moves [OF assms] exclusive_snd [of e r key actor requestID mediaType payload s]
  by (auto simp: CreateOperationAwaitingApprovalWithPayload_def CreateOperationQueuedWithPayload_def om_refl split: sum.split)

section \<open>All requests\<close>

lemma exec_moves:
  assumes "ops_ok (operations s)" and "fresh_op_ids e s"
  shows "op_moves (moves c) (born c) (operations s) (operations (snd (exec e c s)))"
  by (cases c)
    (simp_all add: moves.simps [abs_def] born.simps [abs_def] split_beta TransitionOperation_moves ClaimOperation_moves lease_moves
      attempt_moves RequestOperationCancellation_moves evidence_moves CompleteOperationWithEvidencePayload_moves
      compensation_moves compensation_step_moves recovery_moves resolution_moves
      CreateOperation_moves [OF assms(2)] approval_moves [OF assms(1)] owner_cancel_moves [OF assms(1)]
      owner_run_moves [OF assms(1)] approveOwner_moves [OF assms(1)] createOwner_moves [OF assms(2)] payload_moves [OF assms(2)]
      del: insert_iff)

end
