(* ===== verification/Lookup.thy ===== *)
theory Lookup
  imports Store
begin

text \<open>
  Lemmas the resource stores share: linear searches through a map, uniqueness of a secondary key,
  and normalised names.
\<close>

section \<open>Searching a map\<close>

lemma well_keyed_get: "well_keyed m \<Longrightarrow> (k, v) \<in> set m \<longleftrightarrow> get m k = Some v"
  by (auto simp: well_keyed_def get_def dest: map_of_SomeD)

lemma get_mem: "get m k = Some v \<Longrightarrow> (k, v) \<in> set m"
  by (simp add: get_def map_of_SomeD)

lemma vals_iff: "well_keyed m \<Longrightarrow> v \<in> set (vals m) \<longleftrightarrow> (\<exists>k. get m k = Some v)"
  using vals_get get_vals by metis

lemma find_entry_Some:
  assumes "List.find (\<lambda>(k, v). P k v) m = Some (i, x)" and "well_keyed m"
  shows "get m i = Some x \<and> P i x"
  using assms by (auto simp: find_Some_iff simp flip: well_keyed_get) (metis nth_mem)

lemma find_entry_None:
  "List.find (\<lambda>(k, v). P k v) m = None \<Longrightarrow> get m i = Some x \<Longrightarrow> \<not> P i x"
  by (force simp: find_None_iff dest: get_mem)

section \<open>Unique secondary keys\<close>

definition unique_by :: "('v \<Rightarrow> 'k) \<Rightarrow> 'v table \<Rightarrow> bool" where
  "unique_by ix m = (\<forall>k k' v v'. get m k = Some v \<longrightarrow> get m k' = Some v' \<longrightarrow> ix v = ix v' \<longrightarrow> k = k')"

lemma unique_by_Nil [simp]: "unique_by ix []"
  by (simp add: unique_by_def)

lemma unique_by_D: "unique_by ix m \<Longrightarrow> get m k = Some v \<Longrightarrow> get m k' = Some v' \<Longrightarrow> ix v = ix v' \<Longrightarrow> k = k'"
  by (simp add: unique_by_def)

lemma unique_by_put:
  assumes "unique_by ix m" and "\<And>k' v'. get m k' = Some v' \<Longrightarrow> k' \<noteq> k \<Longrightarrow> ix v' \<noteq> ix v"
  shows "unique_by ix (put k v m)"
  using assms by (fastforce simp: unique_by_def split: if_splits)

lemma unique_by_same:
  assumes "unique_by ix m" and "get m k = Some old" and "ix v = ix old"
  shows "unique_by ix (put k v m)"
  using assms by (intro unique_by_put) (auto dest: unique_by_D)

section \<open>Histories of resources\<close>

text \<open>
  What a component promises about the resources of one of its tables: its steps keep an invariant,
  never remove a resource, and change one only along a reflexive and transitive relation.
\<close>

locale resource_history =
  fixes step :: "'s \<Rightarrow> 's \<Rightarrow> bool" and inv :: "'s \<Rightarrow> bool" and tab :: "'s \<Rightarrow> 'v table" and R :: "'v \<Rightarrow> 'v \<Rightarrow> bool"
  assumes inv_step: "step s s' \<Longrightarrow> inv s \<Longrightarrow> inv s'"
    and evolves: "step s s' \<Longrightarrow> inv s \<Longrightarrow> get (tab s) i = Some v \<Longrightarrow> \<exists>v'. get (tab s') i = Some v' \<and> R v v'"
    and refl: "R v v"
    and trans: "R u v \<Longrightarrow> R v w \<Longrightarrow> R u w"
begin

lemma inv_runs: "step\<^sup>*\<^sup>* s s' \<Longrightarrow> inv s \<Longrightarrow> inv s'"
  by (induction rule: rtranclp_induct) (auto intro: inv_step)

lemma history:
  assumes "step\<^sup>*\<^sup>* s s'" and "inv s" and "get (tab s) i = Some v"
  shows "\<exists>v'. get (tab s') i = Some v' \<and> R v v'"
  using assms
proof (induction rule: rtranclp_induct)
  case base
  then show ?case using refl by blast
next
  case (step s1 s2)
  then obtain v1 where "get (tab s1) i = Some v1" "R v v1" by blast
  moreover have "inv s1" using inv_runs step by blast
  ultimately show ?case using evolves step(2) trans by blast
qed

end

text \<open>The usual way to get there: a call writes at most one entry, a new one or a successor of the old.\<close>

definition one_write :: "('v \<Rightarrow> 'v \<Rightarrow> bool) \<Rightarrow> 'v table \<Rightarrow> 'v table \<Rightarrow> bool" where
  "one_write R t t' = (t' = t \<or> (\<exists>i v. t' = put i v t \<and> (case get t i of None \<Rightarrow> True | Some old \<Rightarrow> R old v)))"

lemma one_write_refl [simp]: "one_write R t t"
  by (simp add: one_write_def)

lemma one_write_new: "get t i = None \<Longrightarrow> one_write R t (put i v t)"
  by (force simp: one_write_def)

lemma one_write_old: "get t i = Some old \<Longrightarrow> R old v \<Longrightarrow> one_write R t (put i v t)"
  by (force simp: one_write_def)

lemma one_writeD:
  assumes "one_write R t t'" and "get t i = Some v" and "\<And>v. R v v"
  shows "\<exists>v'. get t' i = Some v' \<and> R v v'"
  using assms by (auto simp: one_write_def)

section \<open>Orderings by three keys\<close>

definition less_on3 ::
  "('a \<Rightarrow> 'k::linorder) \<Rightarrow> ('a \<Rightarrow> 'l::linorder) \<Rightarrow> ('a \<Rightarrow> 'm::linorder) \<Rightarrow> 'a \<Rightarrow> 'a \<Rightarrow> bool" where
  "less_on3 f g h x y = (if f x = f y then less_on2 g h x y else f x < f y)"

interpretation key3_order: weak_order "less_on3 f g h"
  for f :: "'a \<Rightarrow> 'k::linorder" and g :: "'a \<Rightarrow> 'l::linorder" and h :: "'a \<Rightarrow> 'm::linorder"
  by unfold_locales (auto simp: less_on3_def less_on2_def split: if_splits)

section \<open>Sorting by a key without duplicates\<close>

lemma sorted_map_unique:
  assumes "sorted (map f xs)" and "sorted (map f ys)" and "distinct (map f xs)" and "distinct (map f ys)" and "set xs = set ys"
  shows "xs = ys"
proof (rule map_inj_on)
  show "map f xs = map f ys" using assms by (intro sorted_distinct_set_unique) auto
  show "inj_on f (set xs \<union> set ys)" using assms(3,5) by (simp add: distinct_map)
qed

lemma sort_by_canonical:
  assumes "distinct (map f xs)" and "mset xs = mset ys"
  shows "sort_by (less_on f) xs = sort_by (less_on f) ys"
proof (rule sorted_map_unique [of f])
  have "distinct (map f ys)" using assms by (metis mset_eq_imp_distinct_iff mset_map)
  then show "distinct (map f (sort_by (less_on f) xs))" "distinct (map f (sort_by (less_on f) ys))" using assms(1) by simp_all
  show "set (sort_by (less_on f) xs) = set (sort_by (less_on f) ys)" using assms(2) by (metis set_mset_mset set_sort_by)
qed (simp_all add: sorted_key_order)

lemma sort_by_sorted:
  assumes "distinct (map f xs)" and "sorted (map f xs)"
  shows "sort_by (less_on f) xs = xs"
  using assms by (intro sorted_map_unique [of f]) (simp_all add: sorted_key_order)

section \<open>Normalised names\<close>

text \<open>Lower-casing a byte never makes or removes white space, so trimming and lower-casing commute.\<close>

lemma char_code_eq: "c = d \<longleftrightarrow> (of_char (c :: char) :: nat) = of_char d"
  by (simp add: of_char_eq_iff)

lemma lower_char_code:
  "(of_char (lower_char c) :: nat) = (let n = of_char c in if 65 \<le> n \<and> n \<le> 90 then n + 32 else n)"
  by (simp add: lower_char_def Let_def of_char_of)

lemma lower_char_idem: "lower_char (lower_char c) = lower_char c"
  by (simp add: char_code_eq lower_char_code Let_def)

lemma space1_lower: "space1 (lower_char c) = space1 c"
  by (auto simp: space1_def char_code_eq lower_char_code Let_def)

lemma space2_lower: "space2 (lower_char a) (lower_char b) = space2 a b"
  by (auto simp: space2_def char_code_eq lower_char_code Let_def)

lemma space3_lower: "space3 (lower_char a) (lower_char b) (lower_char c) = space3 a b c"
  by (auto simp: space3_def char_code_eq lower_char_code Let_def)

lemmas space_lower = space1_lower space2_lower space3_lower

lemma lead_space_lower: "lead_space (map lower_char s) = lead_space s"
  by (cases s rule: lead_space.cases) (simp_all add: space_lower)

lemma trail_space_lower: "trail_space (map lower_char s) = trail_space s"
  by (cases s rule: trail_space.cases) (simp_all add: space_lower)

lemma trim_while_lower:
  assumes "\<And>s. f (map lower_char s) = f s"
  shows "trim_while f (map lower_char s) = map lower_char (trim_while f s)"
proof (induction s rule: length_induct)
  case (1 s)
  show ?case
  proof (cases "s = [] \<or> f s = 0")
    case True
    then show ?thesis using assms [of s] by (auto simp: trim_while_fix)
  next
    case False
    then have "trim_while f (drop (f s) (map lower_char s)) = map lower_char (trim_while f (drop (f s) s))"
      using 1 by (simp add: drop_map)
    then show ?thesis
      using False assms [of s] by (simp add: trim_while.simps [of f s] trim_while.simps [of f "map lower_char s"])
  qed
qed

lemma TrimSpace_lower: "TrimSpace (ToLower s) = ToLower (TrimSpace s)"
  by (simp add: TrimSpace_def ToLower_def rev_map trim_while_lower lead_space_lower trail_space_lower)

lemma ToLower_idem [simp]: "ToLower (ToLower s) = ToLower s"
  by (simp add: ToLower_def lower_char_idem)

lemma normalizeName_idem [simp]: "normalizeName (normalizeName s) = normalizeName s"
  by (simp add: normalizeName_def TrimSpace_lower)

section \<open>Results of calls\<close>

lemma call_eq: "\<not> isl (fst c) \<Longrightarrow> c = (Inr (projr (fst c)), snd c)"
  by (cases c) simp

text \<open>A guarded computation succeeds when every guard lets it pass.\<close>

lemma guard_Inr:
  "(if c then Inl x else y) = Inr r \<longleftrightarrow> \<not> c \<and> y = Inr r"
  "(case q of None \<Rightarrow> Inl x | Some v \<Rightarrow> f v) = Inr r \<longleftrightarrow> (\<exists>v. q = Some v \<and> f v = Inr r)"
  "(case p of Inl z \<Rightarrow> Inl (g z) | Inr w \<Rightarrow> h w) = Inr r \<longleftrightarrow> (\<exists>w. p = Inr w \<and> h w = Inr r)"
  by (auto split: option.split sum.split)

text \<open>A call with guards fails when a guard stops it.\<close>

lemma guard_isl:
  "isl (fst (if c then (Inl x, s) else y)) \<longleftrightarrow> c \<or> isl (fst y)"
  "isl (fst (case q of None \<Rightarrow> (Inl x, s) | Some v \<Rightarrow> f v)) \<longleftrightarrow> (\<forall>v. q = Some v \<longrightarrow> isl (fst (f v)))"
  "isl (fst (case p of Inl z \<Rightarrow> (Inl (g z), s) | Inr w \<Rightarrow> h w)) \<longleftrightarrow> (\<forall>w. p = Inr w \<longrightarrow> isl (fst (h w)))"
  by (auto split: option.split sum.split)

text \<open>A call that fails leaves the store alone.\<close>

definition error_keeps :: "MemoryStore \<Rightarrow> 'a call \<Rightarrow> bool" where
  "error_keeps s c = (isl (fst c) \<longrightarrow> snd c = s)"

lemma guard_keeps:
  "error_keeps s (Inl x, s)" "error_keeps s (Inr v, s')"
  "error_keeps s (if c then (Inl x, s) else y) \<longleftrightarrow> c \<or> error_keeps s y"
  "error_keeps s (case q of None \<Rightarrow> (Inl x, s) | Some v \<Rightarrow> f v) \<longleftrightarrow> (\<forall>v. q = Some v \<longrightarrow> error_keeps s (f v))"
  "error_keeps s (case p of Inl z \<Rightarrow> (Inl (g z), s) | Inr w \<Rightarrow> h w) \<longleftrightarrow> (\<forall>w. p = Inr w \<longrightarrow> error_keeps s (h w))"
  by (auto simp: error_keeps_def split: option.split sum.split)

lemma TrimSpace_fix: "lead_space s = 0 \<Longrightarrow> trail_space (rev s) = 0 \<Longrightarrow> TrimSpace s = s"
  by (simp add: TrimSpace_def trim_while_fix)

end
