(* ===== verification/Evidence.thy ===== *)
theory Evidence
  imports Frames Lookup Demo
begin

text \<open>
  Sealed evidence: along every run, evidence records and their payloads are only added, never
  changed or removed, and a stored payload always has the digest and the size its record states.
\<close>

section \<open>The invariant\<close>

definition intact_payload :: "(string \<Rightarrow> string) \<Rightarrow> EvidenceMetadata \<Rightarrow> string \<Rightarrow> bool" where
  "intact_payload h v p = (evd_HasPayload v \<and> evd_Digest v = ''sha256:'' @ h p \<and> evd_Size v = int (length p))"

definition evidence_ok :: "(string \<Rightarrow> string) \<Rightarrow> MemoryStore \<Rightarrow> bool" where
  "evidence_ok h s =
     (well_keyed (evidence s) \<and>
      (\<forall>i v. get (evidence s) i = Some v \<longrightarrow> ID v = i \<and> evd_Sealed v) \<and>
      (\<forall>i p. get (evidencePayloads s) i = Some p \<longrightarrow>
        (\<exists>v. get (evidence s) i = Some v \<and> intact_payload h v p)))"

definition evidence_grows :: "MemoryStore \<Rightarrow> MemoryStore \<Rightarrow> bool" where
  "evidence_grows s s' =
     (\<forall>i v. get (evidence s) i = Some v \<longrightarrow>
       get (evidence s') i = Some v \<and> get (evidencePayloads s') i = get (evidencePayloads s) i)"

text \<open>What a call does to the two tables: nothing, or one new sealed record, with its payload or without.\<close>

definition seals :: "(string \<Rightarrow> string) \<Rightarrow> MemoryStore \<Rightarrow> MemoryStore \<Rightarrow> bool" where
  "seals h s s' = (same_evidence s s' \<or>
     (\<exists>v. get (evidence s) (ID v) = None \<and> evd_Sealed v \<and> evidence s' = put (ID v) v (evidence s) \<and>
       (evidencePayloads s' = evidencePayloads s \<or>
        (\<exists>p. evidencePayloads s' = put (ID v) p (evidencePayloads s) \<and> intact_payload h v p))))"

lemma same_evidence_seals: "same_evidence s s' \<Longrightarrow> seals h s s'"
  by (simp add: seals_def)

lemma payload_recorded:
  "evidence_ok h s \<Longrightarrow> get (evidence s) i = None \<Longrightarrow> get (evidencePayloads s) i = None"
  unfolding evidence_ok_def by (metis not_None_eq)

lemma payload_intact_stored:
  "evidence_ok h s \<Longrightarrow> get (evidence s) i = Some v \<Longrightarrow> get (evidencePayloads s) i = Some p \<Longrightarrow> intact_payload h v p"
  unfolding evidence_ok_def by (metis option.inject)

lemma seals_ok:
  assumes "seals h s s'" and "evidence_ok h s"
  shows "evidence_ok h s' \<and> evidence_grows s s'"
proof (cases "same_evidence s s'")
  case True
  then show ?thesis using assms(2) by (simp add: same_evidence_def evidence_ok_def evidence_grows_def)
next
  case False
  then obtain v where v: "get (evidence s) (ID v) = None" "evd_Sealed v" "evidence s' = put (ID v) v (evidence s)"
    and p: "evidencePayloads s' = evidencePayloads s \<or>
      (\<exists>p. evidencePayloads s' = put (ID v) p (evidencePayloads s) \<and> intact_payload h v p)"
    using assms(1) by (auto simp: seals_def)
  have "get (evidencePayloads s) (ID v) = None" using payload_recorded assms(2) v(1) .
  with assms(2) v p show ?thesis
    unfolding evidence_ok_def evidence_grows_def
    by (intro conjI allI impI) (auto split: if_split_asm)
qed

section \<open>The five calls that seal evidence\<close>

lemma seals_frames:
  "seals h s (appendAuditLocked e k x y z w r m t) = seals h s t"
  "seals h s (appendOutboxLocked e k x y z g t) = seals h s t"
  "seals h s (saveOperation e k i op x y m z t) = seals h s t"
  by (simp_all add: seals_def same_evidence_def)

lemma seals_refl: "seals h s s"
  by (simp add: seals_def same_evidence_def)

lemma seals_payload:
  assumes "get (evidence s) i = None" and "ID v = i" and "evd_Sealed v" and "intact_payload h v p"
  shows "seals h s (t\<lparr>evidence := put i v (evidence s), evidencePayloads := put i p (evidencePayloads s)\<rparr>)"
  using assms by (auto simp: seals_def)

lemma seals_bare:
  assumes "get (evidence s) i = None" and "ID v = i" and "evd_Sealed v"
  shows "seals h s (s\<lparr>evidence := put i v (evidence s)\<rparr>)"
  using assms by (auto simp: seals_def)

lemma sealedEvidence_simps [simp]:
  "ID (sealedEvidence i now j ein digest payload) = i"
  "evd_Sealed (sealedEvidence i now j ein digest payload)"
  "intact_payload h (sealedEvidence i now j ein (''sha256:'' @ h payload) payload) payload"
  by (simp_all add: sealedEvidence_def intact_payload_def)

lemma payload_digest: "sha256hex e = h \<Longrightarrow> operationStepPayloadDigest e p = ''sha256:'' @ h p"
  by (simp add: operationStepPayloadDigest_def sha256_digest_def)

lemma fresh_evidence: "fresh_ids e s \<Longrightarrow> get (evidence s) (newid e k ''evd'') = None"
  by (simp add: fresh_ids_def)

lemmas seals_rules = seals_frames seals_refl seals_payload seals_bare fresh_evidence

lemma AppendOperationEvidencePayload_seals:
  assumes "sha256hex e = h" and "fresh_ids e s"
  shows "seals h s (snd (AppendOperationEvidencePayload e ein payload worker fence actor s))"
  using assms
  by (simp add: AppendOperationEvidencePayload_def Let_def payload_digest seals_rules
      sealedEvidence_simps(3) [unfolded append.simps] split: option.split)

lemma AppendEvidence_seals:
  assumes "fresh_ids e s"
  shows "seals h s (snd (AppendEvidence e v actor s))"
  using assms by (simp add: AppendEvidence_def Let_def seals_rules stamp_def split: option.split)

lemma AppendOperationStepTrace_seals:
  assumes "sha256hex e = h" and "fresh_ids e s"
  shows "seals h s (snd (AppendOperationStepTrace e tin worker fence actor s))"
  using assms
  by (simp add: AppendOperationStepTrace_def Let_def payload_digest seals_rules intact_payload_def
      split: option.split sum.split prod.split)

lemma commitCompletion_seals:
  assumes "sha256hex e = h" and "fresh_ids e s"
  shows "seals h s (snd (commitCompletion e i op ein found (operationStepPayloadDigest e payload) payload fence now actor s))"
  using assms
  by (simp add: commitCompletion_def Let_def payload_digest seals_rules
      sealedEvidence_simps(3) [unfolded append.simps] split: option.split)

lemma CompleteOperationWithEvidencePayload_seals:
  assumes "sha256hex e = h" and "fresh_ids e s"
  shows "seals h s (snd (CompleteOperationWithEvidencePayload e i expected ein payload worker fence actor s))"
  using assms
  by (simp add: CompleteOperationWithEvidencePayload_def Let_def commitCompletion_seals seals_rules
      split: option.split sum.split)

lemma ResolveUnknownOperationOutcomeWithEvidence_seals:
  assumes "sha256hex e = h" and "fresh_ids e s"
  shows "seals h s (snd (ResolveUnknownOperationOutcomeWithEvidence e i expected resolution ein payload actor s))"
  using assms
  by (simp add: ResolveUnknownOperationOutcomeWithEvidence_def Let_def payload_digest seals_rules
      OperationEvidencePayloadDigest_def intact_payload_def sealedEvidence_def split: option.split sum.split)

lemma exec_seals:
  assumes "sha256hex e = h" and "fresh_ids e s"
  shows "seals h s (snd (exec e c s))"
proof (cases "writes_evidence c")
  case True
  then show ?thesis
    using assms by (cases c) (auto simp: AppendOperationStepTrace_seals AppendOperationEvidencePayload_seals
        AppendEvidence_seals CompleteOperationWithEvidencePayload_seals ResolveUnknownOperationOutcomeWithEvidence_seals)
qed (use exec_evidence in \<open>simp add: same_evidence_seals\<close>)

section \<open>Runs\<close>

lemma evidence_ok_init: "evidence_ok h NewMemoryStoreWith"
  by (simp add: evidence_ok_def NewMemoryStoreWith_def)

lemma evidence_grows_trans: "evidence_grows s t \<Longrightarrow> evidence_grows t u \<Longrightarrow> evidence_grows s u"
  unfolding evidence_grows_def by metis

lemma step_evidence: "authority_step h s s' \<Longrightarrow> evidence_ok h s \<Longrightarrow> evidence_ok h s' \<and> evidence_grows s s'"
proof (induction rule: authority_step.induct)
  case (call e s c)
  then show ?case using exec_seals seals_ok by blast
next
  case (other s s')
  then show ?case by (intro seals_ok same_evidence_seals) (simp_all add: same_authority_def same_evidence_def)
qed

lemma runs_evidence: "runs h s s' \<Longrightarrow> evidence_ok h s \<Longrightarrow> evidence_ok h s' \<and> evidence_grows s s'"
proof (induction rule: rtranclp_induct)
  case base
  then show ?case by (simp add: evidence_grows_def)
next
  case (step s1 s2)
  then show ?case using step_evidence evidence_grows_trans by blast
qed

lemma reachable_evidence_ok: "reachable h s \<Longrightarrow> evidence_ok h s"
  unfolding reachable_def using runs_evidence evidence_ok_init by blast

lemma findDirectEvidence_stored:
  assumes "findDirectEvidence s i digest = Some v" and "evidence_ok h s"
  shows "get (evidence s) (ID v) = Some v \<and> evd_Digest v = digest \<and> evd_OperationID v = i"
proof -
  have "v \<in> set (vals (evidence s))" "evd_Digest v = digest" "evd_OperationID v = i"
    using assms(1) unfolding findDirectEvidence_def by (auto simp: find_Some_iff)
  then show ?thesis using assms(2) by (force simp: evidence_ok_def vals_iff)
qed

lemma AppendOperationEvidencePayload_stores:
  assumes "sha256hex e = h" and "AppendOperationEvidencePayload e ein payload worker fence actor s = (Inr v, s1)"
    and "evidence_ok h s"
  shows "\<exists>p. get (evidence s1) (ID v) = Some v \<and> get (evidencePayloads s1) (ID v) = Some p \<and> h p = h payload"
  using assms findDirectEvidence_stored
  by (auto simp: AppendOperationEvidencePayload_def Let_def payload_digest payload_intact_def
      split: option.split_asm if_split_asm dest!: findDirectEvidence_stored)

text \<open>
  C17: Sealed evidence is immutable. Every evidence record is sealed; whatever runs, it stays in the
  store unchanged, and its payload - or the absence of one - stays the same too. A stored payload
  has the SHA-256 digest and the length its record states.
\<close>
theorem sealed_evidence_is_immutable:
  assumes "reachable h s" and "runs h s s'" and "get (evidence s) i = Some v"
  shows "get (evidence s') i = Some v \<and> get (evidencePayloads s') i = get (evidencePayloads s) i \<and>
    evd_Sealed v \<and> ID v = i \<and>
    (case get (evidencePayloads s) i of None \<Rightarrow> True
     | Some p \<Rightarrow> evd_HasPayload v \<and> evd_Digest v = ''sha256:'' @ h p \<and> evd_Size v = int (length p))"
proof -
  have ok: "evidence_ok h s" using reachable_evidence_ok [OF assms(1)] .
  have "evidence_grows s s'" using runs_evidence [OF assms(2) ok] by simp
  then have "get (evidence s') i = Some v" "get (evidencePayloads s') i = get (evidencePayloads s) i"
    using assms(3) by (simp_all add: evidence_grows_def)
  moreover have "evd_Sealed v" "ID v = i" using ok assms(3) by (simp_all add: evidence_ok_def)
  ultimately show ?thesis
    using payload_intact_stored [OF ok assms(3)] by (simp add: intact_payload_def split: option.split)
qed

text \<open>
  C18: Evidence round trip. When a worker's payload has been accepted, reading it back by the
  identifier of the returned record - in any state any run leads to - returns that very record
  with the stored payload, which has the digest of the payload that was handed in; an integrity
  conflict is never reported.
\<close>
theorem evidence_payload_roundtrip:
  assumes "reachable h s" and "sha256hex e = h" and "fresh_ids e s"
    and "AppendOperationEvidencePayload e ein payload worker fence actor s = (Inr v, s1)"
    and "runs h s1 s2" and "sha256hex e' = h" and "TrimSpace (ID v) = ID v"
  shows "\<exists>p. GetEvidencePayload e' (ID v) s2 = Inr (v, p) \<and> h p = h payload \<and>
    evd_Digest v = ''sha256:'' @ h payload"
proof -
  have ok: "evidence_ok h s" using reachable_evidence_ok [OF assms(1)] .
  have ok1: "evidence_ok h s1"
    using seals_ok [OF AppendOperationEvidencePayload_seals [OF assms(2,3)] ok, of ein payload worker fence actor] assms(4) by simp
  have stored: "\<exists>p. get (evidence s1) (ID v) = Some v \<and> get (evidencePayloads s1) (ID v) = Some p \<and> h p = h payload"
    using AppendOperationEvidencePayload_stores [OF assms(2,4) ok] .
  then obtain p where p: "get (evidence s2) (ID v) = Some v" "get (evidencePayloads s2) (ID v) = Some p" "h p = h payload"
    using runs_evidence [OF assms(5) ok1] unfolding evidence_grows_def by metis
  moreover have "intact_payload h v p"
    using runs_evidence [OF assms(5) ok1] p(1,2) payload_intact_stored by blast
  ultimately show ?thesis
    using assms(6,7) by (auto simp: GetEvidencePayload_def payload_digest intact_payload_def)
qed

section \<open>Instances\<close>

definition demo_seal :: "EvidenceMetadata call" where
  "demo_seal = AppendOperationEvidencePayload (demo_env 4) demo_evidence ''data'' ''w1'' 1 ''w1'' (demo_state demo_claimed)"

lemma demo_seal_eval: "\<not> isl (fst demo_seal)" "length demo_claimed = 4"
  by code_simp+

lemma demo_seal_trim: "TrimSpace (ID (projr (fst demo_seal))) = ID (projr (fst demo_seal))"
proof -
  have "ID (projr (fst demo_seal)) = ''evd'' @ replicate (Suc (Suc (Suc 79))) (CHR ''x'')" by code_simp
  moreover have "TrimSpace (''evd'' @ replicate (Suc (Suc (Suc n))) (CHR ''x'')) = ''evd'' @ replicate (Suc (Suc (Suc n))) (CHR ''x'')" for n
    by (rule TrimSpace_fix) (simp_all add: space1_def space2_def space3_def replicate_app_Cons_same)
  ultimately show ?thesis by metis
qed

lemma demo_seal_fresh: "fresh_ids (demo_env 4) (demo_state demo_claimed)"
  by (rule demo_fresh_ids) code_simp

lemma demo_seal_reachable: "reachable demo_hash (snd demo_seal)"
  using reachable_exec [OF demo_state_reachable [OF demo_claimed_ok] demo_env_hash demo_seal_fresh,
      of "RAppendPayload (demo_evidence, ''data'', ''w1'', 1, ''w1'')"] by (simp add: demo_seal_def)

theorem sealed_evidence_is_immutable_witness:
  "\<exists>v. get (evidence (snd demo_seal)) (ID v) = Some v \<and> evd_Sealed v \<and> evd_Digest v = ''sha256:data''"
proof -
  obtain p where g: "get (evidence (snd demo_seal)) (ID (projr (fst demo_seal))) = Some (projr (fst demo_seal))"
    "get (evidencePayloads (snd demo_seal)) (ID (projr (fst demo_seal))) = Some p" "demo_hash p = demo_hash ''data''"
    using AppendOperationEvidencePayload_stores [OF demo_env_hash call_eq [OF demo_seal_eval(1), unfolded demo_seal_def]
        reachable_evidence_ok [OF demo_state_reachable [OF demo_claimed_ok]]] unfolding demo_seal_def by blast
  have "evd_Sealed (projr (fst demo_seal)) \<and> evd_Digest (projr (fst demo_seal)) = ''sha256:'' @ demo_hash ''data''"
    using sealed_evidence_is_immutable [OF demo_seal_reachable rtranclp.rtrancl_refl g(1)] g(2,3) by simp
  then show ?thesis using g(1) by (intro exI [of _ "projr (fst demo_seal)"]) (simp add: demo_hash_def)
qed

theorem evidence_payload_roundtrip_witness:
  "\<exists>p. GetEvidencePayload (demo_env 9) (ID (projr (fst demo_seal))) (snd demo_seal) = Inr (projr (fst demo_seal), p) \<and>
     demo_hash p = demo_hash ''data''"
  using evidence_payload_roundtrip [OF demo_state_reachable [OF demo_claimed_ok] demo_env_hash demo_seal_fresh
      call_eq [OF demo_seal_eval(1), unfolded demo_seal_def] rtranclp.rtrancl_refl demo_env_hash]
    demo_seal_trim unfolding demo_seal_def by blast

end
