(* ===== verification/Rollback.thy ===== *)
theory Rollback
  imports Moves Evidence
begin

text \<open>
  Roll-back over whole runs: an operation is only reported as rolled back when every completed
  step that can be compensated has been, and a step only counts as compensated when sealed
  evidence of it is in the store.
\<close>

section \<open>Keys of compensation steps\<close>

text \<open>Identifiers contain no colon, so the operation of a step can be read off its key.\<close>

definition plain_ids :: "MemoryStore \<Rightarrow> bool" where
  "plain_ids s = (\<forall>i op. get (operations s) i = Some op \<longrightarrow> CHR '':'' \<notin> set i)"

lemma comp_key_inject:
  assumes "comp_key i k = comp_key j l" and "CHR '':'' \<notin> set i" and "CHR '':'' \<notin> set j"
  shows "i = j \<and> k = l"
proof -
  have "takeWhile (\<lambda>c. c \<noteq> CHR '':'') (x @ CHR '':'' # y) = x" if "CHR '':'' \<notin> set x" for x y
    using that by (subst takeWhile_append2) auto
  then have "i = j" using assms unfolding comp_key_def by (metis append_Cons append_Nil)
  then show ?thesis using assms(1) by (simp add: comp_key_def)
qed

definition compensated :: "MemoryStore \<Rightarrow> OperationCompensationStep \<Rightarrow> bool" where
  "compensated s st = (\<exists>v p. get (evidence s) (ID v) = Some v \<and> get (evidencePayloads s) (ID v) = Some p \<and>
     evd_OperationID v = cs_OperationID st \<and> evd_Phase v = OperationStepPhaseCompensation \<and>
     evd_StepKey v = cs_StepKey st \<and> evd_Digest v = cs_EvidenceDigest st \<and> evd_Sealed v)"

definition compensation_ok :: "MemoryStore \<Rightarrow> bool" where
  "compensation_ok s =
     (well_keyed (compensationSteps s) \<and>
      (\<forall>k st. get (compensationSteps s) k = Some st \<longrightarrow> k = comp_key (cs_OperationID st) (cs_StepKey st) \<and>
        (\<exists>op. get (operations s) (cs_OperationID st) = Some op \<and>
          (op_State op = OperationRolledBack \<longrightarrow> \<not> compensation_open (cs_OperationID st) st)) \<and>
        cs_State st \<noteq> CompensationStepSkipped \<and> (cs_State st = CompensationStepSucceeded \<longrightarrow> compensated s st)))"

lemma compensation_okD:
  assumes "compensation_ok s" and "get (compensationSteps s) k = Some st" and "get (operations s) (cs_OperationID st) = Some op"
  shows "k = comp_key (cs_OperationID st) (cs_StepKey st)" and "cs_State st \<noteq> CompensationStepSkipped"
    and "cs_State st = CompensationStepSucceeded \<longrightarrow> compensated s st"
    and "op_State op = OperationRolledBack \<longrightarrow> \<not> compensation_open (cs_OperationID st) st"
  using assms unfolding compensation_ok_def by force+

text \<open>What a call does to the steps: it writes steps of one operation, which is not finished.\<close>

definition writes_steps :: "MemoryStore \<Rightarrow> MemoryStore \<Rightarrow> bool" where
  "writes_steps s s' = (compensationSteps s' = compensationSteps s \<or>
     (\<exists>i op. get (operations s) i = Some op \<and> \<not> IsTerminal (op_State op) \<and> well_keyed (compensationSteps s') \<and>
       (\<forall>k st. get (compensationSteps s') k = Some st \<longrightarrow> get (compensationSteps s) k = Some st \<or>
         cs_OperationID st = i \<and> k = comp_key i (cs_StepKey st) \<and>
         cs_State st \<noteq> CompensationStepSkipped \<and> (cs_State st = CompensationStepSucceeded \<longrightarrow> compensated s st))))"

lemma writes_stepsI:
  assumes "get (operations s) i = Some op" and "\<not> IsTerminal (op_State op)" and "well_keyed (compensationSteps s')"
    and "\<And>k st. get (compensationSteps s') k = Some st \<Longrightarrow> get (compensationSteps s) k = Some st \<or>
         cs_OperationID st = i \<and> k = comp_key i (cs_StepKey st) \<and>
         cs_State st \<noteq> CompensationStepSkipped \<and> (cs_State st = CompensationStepSucceeded \<longrightarrow> compensated s st)"
  shows "writes_steps s s'"
  using assms unfolding writes_steps_def by blast

lemma writes_same: "compensationSteps s' = compensationSteps s \<Longrightarrow> writes_steps s s'"
  by (simp add: writes_steps_def)

lemma writes_stepsD:
  assumes "writes_steps s s'" and "get (compensationSteps s') k = Some st"
  shows "get (compensationSteps s) k = Some st \<or> (\<exists>op. get (operations s) (cs_OperationID st) = Some op \<and>
    \<not> IsTerminal (op_State op) \<and> k = comp_key (cs_OperationID st) (cs_StepKey st) \<and>
    cs_State st \<noteq> CompensationStepSkipped \<and> (cs_State st = CompensationStepSucceeded \<longrightarrow> compensated s st))"
  using assms unfolding writes_steps_def by auto

lemma well_keyed_filter: "well_keyed m \<Longrightarrow> well_keyed (filter P m)"
  by (simp add: well_keyed_def distinct_map_filter)

lemma get_filter:
  "well_keyed m \<Longrightarrow> get (filter (\<lambda>(k, v). P v) m) k = Some v \<Longrightarrow> get m k = Some v \<and> P v"
  using well_keyed_filter [of m "\<lambda>(k, v). P v"] by (simp flip: well_keyed_get)

lemma putRows_well_keyed: "well_keyed m \<Longrightarrow> well_keyed (putRows i rows m)"
  unfolding putRows_def by (induction rows arbitrary: m) simp_all

lemma putRows_get:
  "get (putRows i rows m) k = Some st \<Longrightarrow> st \<in> set rows \<and> k = comp_key i (cs_StepKey st) \<or> get m k = Some st"
proof (induction rows arbitrary: m)
  case (Cons r rows)
  have "get (putRows i rows (put (comp_key i (cs_StepKey r)) r m)) k = Some st"
    using Cons.prems by (simp add: putRows_def)
  from Cons.IH [OF this] show ?case by (auto split: if_split_asm)
qed (simp add: putRows_def)

lemma planRows_new: "st \<in> set (planRows e k i now plan) \<Longrightarrow> cs_OperationID st = i \<and> cs_State st = CompensationStepPending"
  by (induction e k i now plan rule: planRows.induct) (auto simp: planRow_def)

lemma SetPlan_writes:
  assumes "compensation_ok s"
  shows "writes_steps s (snd (SetOperationCompensationPlan e i expected plan actor s))"
proof (cases "get (operations s) i")
  case (Some op)
  have wk: "well_keyed (compensationSteps s)" using assms by (simp add: compensation_ok_def)
  let ?kept = "filter (\<lambda>(k, step). cs_OperationID step \<noteq> i) (compensationSteps s)"
  have "get (putRows i (planRows e 3 i now plan') ?kept) k = Some st \<Longrightarrow>
      get (compensationSteps s) k = Some st \<or> cs_OperationID st = i \<and> k = comp_key i (cs_StepKey st) \<and>
        cs_State st \<noteq> CompensationStepSkipped \<and> (cs_State st = CompensationStepSucceeded \<longrightarrow> compensated s st)" for k st now plan'
    using get_filter [OF wk, of "\<lambda>v. cs_OperationID v \<noteq> i" k st] by (auto dest!: putRows_get planRows_new)
  then have "writes_steps s s'" if "op_State op = OperationPlanning"
      "compensationSteps s' = putRows i (planRows e 3 i now plan') ?kept" for s' now plan'
    using that Some wk by (intro writes_stepsI [of s i op]) (simp_all add: putRows_well_keyed well_keyed_filter)
  then show ?thesis
    using Some by (simp add: SetOperationCompensationPlan_def Let_def writes_same split: sum.split)
qed (simp add: writes_same SetOperationCompensationPlan_def)

text \<open>The handlers that rewrite the step they found under the key of the operation.\<close>

lemma step_of_operation:
  assumes "compensation_ok s" and "plain_ids s" and "get (operations s) i = Some op"
    and "get (compensationSteps s) (comp_key i k) = Some st"
  shows "cs_OperationID st = i \<and> cs_StepKey st = k"
proof -
  obtain op' where "comp_key i k = comp_key (cs_OperationID st) (cs_StepKey st)" "get (operations s) (cs_OperationID st) = Some op'"
    using assms(1,4) unfolding compensation_ok_def by blast
  then show ?thesis using comp_key_inject assms(2,3) unfolding plain_ids_def by metis
qed

definition unfinished :: "MemoryStore \<Rightarrow> string \<Rightarrow> bool" where
  "unfinished s i = (case get (operations s) i of None \<Rightarrow> False | Some op \<Rightarrow> \<not> IsTerminal (op_State op))"

lemma writes_frames:
  "writes_steps s (appendAuditLocked e k x y z w r m t) = writes_steps s t"
  "writes_steps s (appendOutboxLocked e k x y z g t) = writes_steps s t"
  "writes_steps s (saveOperation e k i op x y m z t) = writes_steps s t"
  "writes_steps s (saveCompensationStep e k key i step op x y m t) =
     writes_steps s (t\<lparr>compensationSteps := put key step (compensationSteps t)\<rparr>)"
  by (simp_all add: writes_steps_def)

lemma writes_one:
  assumes "well_keyed (compensationSteps s)" and "unfinished s (cs_OperationID st)"
    and "k = comp_key (cs_OperationID st) (cs_StepKey st)" and "cs_State st \<noteq> CompensationStepSkipped"
    and "cs_State st = CompensationStepSucceeded \<longrightarrow> compensated s st"
  shows "writes_steps s (s\<lparr>compensationSteps := put k st (compensationSteps s)\<rparr>)"
proof -
  obtain op where "get (operations s) (cs_OperationID st) = Some op" "\<not> IsTerminal (op_State op)"
    using assms(2) by (auto simp: unfinished_def split: option.split_asm)
  then show ?thesis
    using assms by (intro writes_stepsI [of s "cs_OperationID st" op]) (auto split: if_split_asm)
qed

lemmas writes_rules = writes_same writes_frames writes_one unfinished_def touch_def

text \<open>The facts about the step a handler finds under its key.\<close>

lemma found_step:
  assumes "compensation_ok s" and "plain_ids s" and "get (operations s) i = Some op"
    and "get (compensationSteps s) (comp_key i k) = Some st"
  shows "well_keyed (compensationSteps s)" and "cs_OperationID st = i" and "cs_StepKey st = k"
    and "cs_State st \<noteq> CompensationStepSkipped" and "cs_State st = CompensationStepSucceeded \<longrightarrow> compensated s st"
  using step_of_operation [OF assms] assms(1,4) by (auto simp: compensation_ok_def)

lemma compensated_upd [simp]:
  "compensated s (st\<lparr>cs_ForwardCompleted := b\<rparr>) = compensated s st"
  "compensated s (st\<lparr>cs_ForwardCompletedAt := t\<rparr>) = compensated s st"
  "compensated s (st\<lparr>Revision := n\<rparr>) = compensated s st"
  "compensated s (st\<lparr>UpdatedAt := u\<rparr>) = compensated s st"
  by (simp_all add: compensated_def)

lemma Forward_writes:
  assumes "compensation_ok s" and "plain_ids s"
  shows "writes_steps s (snd (RecordOperationForwardStepCompleted e i stepKey expected worker fence actor s))"
proof (cases "get (operations s) i")
  case (Some op)
  show ?thesis
  proof (cases "get (compensationSteps s) (comp_key i (TrimSpace stepKey))")
    case st: (Some st)
    note f = found_step [OF assms Some st]
    show ?thesis
      using Some st f by (auto simp: RecordOperationForwardStepCompleted_def Let_def writes_rules)
  qed (use Some in \<open>simp add: RecordOperationForwardStepCompleted_def Let_def writes_same\<close>)
qed (simp add: writes_same RecordOperationForwardStepCompleted_def)

lemma pending_first:
  assumes "sort_by lt (filter (compensation_pending i) (vals m)) = st # rest"
  shows "cs_OperationID st = i" and "st \<in> set (vals m)" and "cs_State st = CompensationStepPending"
proof -
  have "st \<in> set (sort_by lt (filter (compensation_pending i) (vals m)))" using assms by simp
  then show "cs_OperationID st = i" "st \<in> set (vals m)" "cs_State st = CompensationStepPending"
    by (simp_all add: compensation_pending_def)
qed

lemma ClaimNext_writes:
  assumes "compensation_ok s"
  shows "writes_steps s (snd (ClaimNextOperationCompensationStep e i worker fence actor s))"
proof (cases "get (operations s) i")
  case (Some op)
  have wk: "well_keyed (compensationSteps s)" using assms by (simp add: compensation_ok_def)
  show ?thesis
  proof (cases "sort_by (\<lambda>x y. cs_ForwardOrder y < cs_ForwardOrder x) (filter (compensation_pending i) (vals (compensationSteps s)))")
    case Nil
    then show ?thesis using Some by (simp add: ClaimNextOperationCompensationStep_def Let_def writes_same)
  next
    case (Cons st rest)
    note p = pending_first [OF Cons]
    show ?thesis
      using Some Cons p(1) wk by (simp add: ClaimNextOperationCompensationStep_def Let_def writes_rules)
  qed
qed (simp add: writes_same ClaimNextOperationCompensationStep_def)

lemma Fail_writes:
  assumes "compensation_ok s" and "plain_ids s"
  shows "writes_steps s (snd (ReportOperationCompensationStepFailure e i stepKey worker fence failure actor s))"
proof (cases "get (operations s) i")
  case (Some op)
  show ?thesis
  proof (cases "get (compensationSteps s) (comp_key i (TrimSpace stepKey))")
    case st: (Some st)
    note f = found_step [OF assms Some st]
    show ?thesis
      using Some st f by (simp add: ReportOperationCompensationStepFailure_def Let_def writes_rules)
  qed (use Some in \<open>simp add: ReportOperationCompensationStepFailure_def Let_def writes_same\<close>)
qed (simp add: writes_same ReportOperationCompensationStepFailure_def)

lemma sealed_step_evidence:
  assumes "hasSealedStepEvidenceLocked e s i OperationStepPhaseCompensation k attempt d" and "evidence_ok h s"
    and "cs_OperationID st = i" and "cs_StepKey st = k" and "cs_EvidenceDigest st = d"
  shows "compensated s st"
proof -
  obtain v where v: "v \<in> set (vals (evidence s))" "evd_OperationID v = i" "evd_Phase v = OperationStepPhaseCompensation"
    "evd_StepKey v = k" "evd_Digest v = d" "evd_Sealed v" "payload_intact e s v d"
    using assms(1) by (auto simp: hasSealedStepEvidenceLocked_def list_ex_iff)
  then have "get (evidence s) (ID v) = Some v" using assms(2) by (force simp: evidence_ok_def vals_iff)
  moreover obtain p where "get (evidencePayloads s) (ID v) = Some p"
    using v(7) by (auto simp: payload_intact_def split: option.split_asm)
  ultimately show ?thesis
    using v assms(3-5) unfolding compensated_def by (intro exI [of _ v] exI [of _ p]) simp
qed

lemma Complete_writes:
  assumes "compensation_ok s" and "plain_ids s" and "evidence_ok h s"
  shows "writes_steps s (snd (CompleteOperationCompensationStep e i stepKey worker fence d actor s))"
proof (cases "get (operations s) i")
  case (Some op)
  show ?thesis
  proof (cases "get (compensationSteps s) (comp_key i (TrimSpace stepKey))")
    case st: (Some st)
    note f = found_step [OF assms(1,2) Some st]
    have "compensated s (st\<lparr>cs_State := CompensationStepSucceeded, cs_EvidenceDigest := TrimSpace d,
        cs_FinishedAt := t, cs_LastError := ''''\<rparr>)"
      if "hasSealedStepEvidenceLocked e s i OperationStepPhaseCompensation (TrimSpace stepKey) (cs_Attempt st) (TrimSpace d)" for t
      using sealed_step_evidence [OF that assms(3)] f by simp
    then show ?thesis
      using Some st f by (simp add: CompleteOperationCompensationStep_def Let_def writes_rules)
  qed (use Some in \<open>simp add: CompleteOperationCompensationStep_def Let_def writes_same\<close>)
qed (simp add: writes_same CompleteOperationCompensationStep_def)

lemma exec_writes:
  assumes "compensation_ok s" and "plain_ids s" and "evidence_ok h s"
  shows "writes_steps s (snd (exec e c s))"
proof (cases "writes_compensation c")
  case True
  then show ?thesis
    using assms by (cases c) (auto simp: SetPlan_writes Forward_writes ClaimNext_writes Complete_writes Fail_writes)
qed (simp add: exec_compensation writes_same)

section \<open>Entering the rolled-back state\<close>

lemma hasCompensatable_open: "\<not> hasCompensatableForwardLocked s i \<Longrightarrow> st \<in> set (vals (compensationSteps s)) \<Longrightarrow> \<not> compensation_open i st"
  by (auto simp: hasCompensatableForwardLocked_def compensation_open_def list_ex_iff)

lemma Begin_entered:
  assumes "op_State op' = OperationRolledBack" and "op_State op \<noteq> OperationRolledBack" and "get (operations s) j = Some op"
    and "get (operations (snd (BeginOperationCompensation e i expected actor s))) j = Some op'"
    and "st \<in> set (vals (compensationSteps s))"
  shows "\<not> compensation_open j st"
  using assms hasCompensatable_open
  by (auto simp: BeginOperationCompensation_def Let_def touch_def split: option.split_asm if_split_asm)

lemma Claim_entered:
  assumes "op_State op' = OperationRolledBack" and "op_State op \<noteq> OperationRolledBack" and "get (operations s) j = Some op"
    and "get (operations (snd (ClaimNextOperationCompensationStep e i worker fence actor s))) j = Some op'"
    and "st \<in> set (vals (compensationSteps (snd (ClaimNextOperationCompensationStep e i worker fence actor s))))"
  shows "\<not> compensation_open j st"
  using assms
  by (auto simp: ClaimNextOperationCompensationStep_def Let_def touch_def list_ex_iff
      split: option.split_asm if_split_asm list.split_asm)

lemma Complete_entered:
  assumes "op_State op' = OperationRolledBack" and "op_State op \<noteq> OperationRolledBack" and "get (operations s) j = Some op"
    and "get (operations (snd (CompleteOperationCompensationStep e i stepKey worker fence d actor s))) j = Some op'"
    and "st \<in> set (vals (compensationSteps (snd (CompleteOperationCompensationStep e i stepKey worker fence d actor s))))"
  shows "\<not> compensation_open j st"
proof (cases "get (operations s) i")
  case (Some op1)
  show ?thesis
  proof (cases "get (compensationSteps s) (comp_key i (TrimSpace stepKey))")
    case (Some st1)
    with \<open>get (operations s) i = Some op1\<close> show ?thesis
      using assms by (simp add: CompleteOperationCompensationStep_def Let_def list_ex_iff split: if_split_asm)
        (auto simp: rolledBackOperation_def touch_def)
  qed (use assms Some in \<open>simp add: CompleteOperationCompensationStep_def Let_def split: if_split_asm\<close>)
qed (use assms in \<open>simp add: CompleteOperationCompensationStep_def\<close>)

lemma exec_entered:
  assumes ok: "ops_ok (operations s)" "fresh_op_ids e s"
    and op': "get (operations (snd (exec e c s))) j = Some op'" "op_State op' = OperationRolledBack"
    and op: "get (operations s) j = Some op" "op_State op \<noteq> OperationRolledBack"
    and st: "st \<in> set (vals (compensationSteps (snd (exec e c s))))"
  shows "\<not> compensation_open j st"
proof -
  have m: "moves c (op_State op) OperationRolledBack"
    using op_movesD [OF exec_moves [OF ok, of c] op(1) op'(1)] op(2) op'(2) by simp
  show ?thesis
  proof (cases c)
    case (RBeginComp x)
    then show ?thesis
      using Begin_entered [OF op'(2) op(2,1), of e _ _ _ st] op' st BeginOperationCompensation_compensation by (cases x) simp
  next
    case (RClaimComp x)
    then show ?thesis using Claim_entered [OF op'(2) op(2,1), of e _ _ _ _ st] op' st by (cases x) simp
  next
    case (RCompleteComp x)
    then show ?thesis using Complete_entered [OF op'(2) op(2,1), of e _ _ _ _ _ _ st] op' st by (cases x) simp
  qed (use m in \<open>auto elim: CanDirectOperationTransition.elims split: if_split_asm\<close>)
qed

section \<open>Runs\<close>

lemma compensated_grows: "compensated s st \<Longrightarrow> evidence_grows s s' \<Longrightarrow> compensated s' st"
  unfolding compensated_def evidence_grows_def by metis

lemma exec_compensation_ok:
  assumes "compensation_ok s" and "plain_ids s" and "evidence_ok h s" and "ops_ok (operations s)"
    and "fresh_ids e s" and "sha256hex e = h"
  shows "compensation_ok (snd (exec e c s))"
proof -
  let ?s = "snd (exec e c s)"
  have fresh: "fresh_op_ids e s" using assms(5) by (simp add: fresh_ids_def)
  have grows: "evidence_grows s ?s" using seals_ok [OF exec_seals [OF assms(6,5)] assms(3)] by simp
  have w: "writes_steps s ?s" using exec_writes [OF assms(1-3)] .
  have wk: "well_keyed (compensationSteps ?s)" using w assms(1) by (auto simp: writes_steps_def compensation_ok_def)
  have "k = comp_key (cs_OperationID st) (cs_StepKey st) \<and>
      (\<exists>op. get (operations ?s) (cs_OperationID st) = Some op \<and>
        (op_State op = OperationRolledBack \<longrightarrow> \<not> compensation_open (cs_OperationID st) st)) \<and>
      cs_State st \<noteq> CompensationStepSkipped \<and> (cs_State st = CompensationStepSucceeded \<longrightarrow> compensated ?s st)"
    if st: "get (compensationSteps ?s) k = Some st" for k st
  proof -
    have "\<exists>op. get (operations s) (cs_OperationID st) = Some op \<and> k = comp_key (cs_OperationID st) (cs_StepKey st) \<and>
        (op_State op = OperationRolledBack \<longrightarrow> \<not> compensation_open (cs_OperationID st) st) \<and>
        cs_State st \<noteq> CompensationStepSkipped \<and> (cs_State st = CompensationStepSucceeded \<longrightarrow> compensated s st)"
      using writes_stepsD [OF w st]
    proof
      assume "get (compensationSteps s) k = Some st"
      then show ?thesis using assms(1) unfolding compensation_ok_def by blast
    next
      assume "\<exists>op. get (operations s) (cs_OperationID st) = Some op \<and> \<not> IsTerminal (op_State op) \<and>
        k = comp_key (cs_OperationID st) (cs_StepKey st) \<and> cs_State st \<noteq> CompensationStepSkipped \<and> (cs_State st = CompensationStepSucceeded \<longrightarrow> compensated s st)"
      then show ?thesis by (auto simp: IsTerminal_iff)
    qed
    then obtain op where op: "get (operations s) (cs_OperationID st) = Some op" "k = comp_key (cs_OperationID st) (cs_StepKey st)"
      "op_State op = OperationRolledBack \<longrightarrow> \<not> compensation_open (cs_OperationID st) st"
      "cs_State st \<noteq> CompensationStepSkipped" "cs_State st = CompensationStepSucceeded \<longrightarrow> compensated s st" by blast
    obtain op' where op': "get (operations ?s) (cs_OperationID st) = Some op'"
      using exec.evolves [OF assms(4) fresh op(1), of c] by auto
    show ?thesis
      using op op' exec_entered [OF assms(4) fresh op' _ op(1) _ get_vals [OF st]] compensated_grows [OF _ grows] by blast
  qed
  then show ?thesis using wk by (simp add: compensation_ok_def)
qed

lemma plain_ids_back:
  assumes "runs h s s'" and "ops_ok (operations s)" and "plain_ids s'"
  shows "plain_ids s"
  unfolding plain_ids_def
proof (intro allI impI)
  fix i op assume op: "get (operations s) i = Some op"
  obtain op' where "get (operations s') i = Some op'" by (rule runs_evolve [OF assms(2,1) op])
  then show "CHR '':'' \<notin> set i" using assms(3) by (simp add: plain_ids_def)
qed

lemma compensation_ok_init: "compensation_ok NewMemoryStoreWith"
  by (simp add: compensation_ok_def NewMemoryStoreWith_def)

lemma reachable_compensation_ok:
  assumes "reachable h s" and "plain_ids s"
  shows "compensation_ok s"
proof -
  have "runs h NewMemoryStoreWith s" using assms(1) by (simp add: reachable_def)
  then show ?thesis using assms(2)
  proof (induction rule: rtranclp_induct)
    case base
    then show ?case by (simp add: compensation_ok_init)
  next
    case (step s1 s2)
    have r1: "reachable h s1" using step by (simp add: reachable_def)
    have "runs h s1 s2" using step(2) by simp
    then have p1: "plain_ids s1" using plain_ids_back reachable_ops_ok [OF r1] step(4) by blast
    from step(2) show ?case
    proof (cases rule: authority_step.cases)
      case (call e c)
      then show ?thesis
        using exec_compensation_ok [OF step(3) [OF p1] p1 reachable_evidence_ok [OF r1] reachable_ops_ok [OF r1]] by simp
    next
      case other
      then show ?thesis using step(3) [OF p1] by (simp add: compensation_ok_def same_authority_def compensated_def)
    qed
  qed
qed

text \<open>
  C14: Rolled back means compensated. When an operation is in ROLLED_BACK, every step of its plan
  that was completed and can be compensated is in state SUCCEEDED, and the store holds sealed
  evidence of its compensation - a record of the compensation phase of that step, with a stored
  payload that has the digest the step carries.
\<close>
theorem rolled_back_means_compensated:
  assumes "reachable h s" and "plain_ids s" and "get (operations s) i = Some op" and "op_State op = OperationRolledBack"
    and "get (compensationSteps s) k = Some st" and "cs_OperationID st = i" and "cs_ForwardCompleted st"
    and "cs_Strategy st \<noteq> CompensationNone"
  shows "cs_State st = CompensationStepSucceeded \<and>
    (\<exists>v p. get (evidence s) (ID v) = Some v \<and> evd_Sealed v \<and> evd_OperationID v = i \<and>
      evd_Phase v = OperationStepPhaseCompensation \<and> evd_StepKey v = cs_StepKey st \<and>
      evd_Digest v = cs_EvidenceDigest st \<and> get (evidencePayloads s) (ID v) = Some p \<and>
      cs_EvidenceDigest st = ''sha256:'' @ h p)"
proof -
  have "get (operations s) (cs_OperationID st) = Some op" using assms(3,6) by simp
  note st = compensation_okD [OF reachable_compensation_ok [OF assms(1,2)] assms(5) this]
  then have ok: "cs_State st = CompensationStepSucceeded"
    using assms(4,6-8) by (auto simp: compensation_open_def)
  then obtain v p where v: "get (evidence s) (ID v) = Some v" "get (evidencePayloads s) (ID v) = Some p"
      "evd_OperationID v = cs_OperationID st" "evd_Phase v = OperationStepPhaseCompensation"
      "evd_StepKey v = cs_StepKey st" "evd_Digest v = cs_EvidenceDigest st" "evd_Sealed v"
    using st(3) by (auto simp: compensated_def)
  have "evd_Digest v = ''sha256:'' @ h p"
    using payload_intact_stored [OF reachable_evidence_ok [OF assms(1)] v(1,2)] by (simp add: intact_payload_def)
  then show ?thesis using ok v assms(6) by (intro conjI exI [of _ v] exI [of _ p]) simp_all
qed

section \<open>A compensation whose worker is gone\<close>

definition after_start :: "OperationState set" where
  "after_start = {OperationQueued, OperationRunning, OperationVerifying, OperationRetryWait, OperationFailed,
     OperationCancelRequested, OperationRollingBack, OperationRollbackFailed, OperationNeedsOperator,
     OperationSucceeded, OperationCancelled}"

text \<open>A step that runs under a fence token which is no longer the operation's.\<close>

definition orphaned :: "MemoryStore \<Rightarrow> string \<Rightarrow> string \<Rightarrow> OperationCompensationStep \<Rightarrow> bool" where
  "orphaned s i k st =
     (get (compensationSteps s) k = Some st \<and> compensation_open i st \<and> cs_State st = CompensationStepRunning \<and>
      (\<exists>op. get (operations s) i = Some op \<and> cs_FenceToken st < op_FenceToken op \<and> op_State op \<in> after_start))"

lemma putRows_other:
  "(\<And>r. r \<in> set rows \<Longrightarrow> comp_key i (cs_StepKey r) \<noteq> k) \<Longrightarrow> get (putRows i rows m) k = get m k"
  unfolding putRows_def by (induction rows arbitrary: m) auto

lemma orphan_SetPlan:
  assumes "orphaned s i k st" and "compensation_ok s" and "plain_ids s"
  shows "get (compensationSteps (snd (SetOperationCompensationPlan e j expected plan actor s))) k = Some st"
proof (cases "get (operations s) j")
  case (Some op)
  have o: "get (compensationSteps s) k = Some st" "cs_OperationID st = i"
    using assms(1) by (auto simp: orphaned_def compensation_open_def)
  have wk: "well_keyed (compensationSteps s)" "k = comp_key i (cs_StepKey st)"
    using assms(2) o by (auto simp: compensation_ok_def)
  show ?thesis
  proof (cases "op_State op = OperationPlanning")
    case True
    then have "j \<noteq> i" using assms(1) Some by (auto simp: orphaned_def after_start_def)
    then have "comp_key j x \<noteq> k" for x
      using wk(2) comp_key_inject assms(1,3) Some unfolding plain_ids_def orphaned_def by metis
    then have "get (putRows j rows (filter (\<lambda>(k, step). cs_OperationID step \<noteq> j) (compensationSteps s))) k = Some st" for rows
      using o wk(1) \<open>j \<noteq> i\<close> by (subst putRows_other) (simp_all flip: well_keyed_get add: well_keyed_filter)
    then show ?thesis using Some o by (simp add: SetOperationCompensationPlan_def Let_def split: sum.split)
  qed (use Some o in \<open>simp add: SetOperationCompensationPlan_def\<close>)
qed (use assms(1) in \<open>simp add: SetOperationCompensationPlan_def orphaned_def\<close>)

lemma orphanedD:
  assumes "orphaned s i k st" and "compensation_ok s"
  shows "get (compensationSteps s) k = Some st" and "cs_OperationID st = i" and "k = comp_key i (cs_StepKey st)"
    and "cs_ForwardCompleted st" and "cs_State st = CompensationStepRunning"
    and "\<exists>op. get (operations s) i = Some op \<and> cs_FenceToken st < op_FenceToken op \<and> op_State op \<in> after_start"
  using assms unfolding orphaned_def compensation_open_def compensation_ok_def by auto

lemma orphan_key:
  assumes "orphaned s i k st" and "compensation_ok s" and "plain_ids s" and "get (operations s) j = Some op"
    and "comp_key j x = k"
  shows "j = i \<and> x = cs_StepKey st"
  using assms orphanedD [OF assms(1,2)] comp_key_inject unfolding plain_ids_def by metis

lemma orphan_Forward:
  assumes "orphaned s i k st" and "compensation_ok s" and "plain_ids s"
  shows "get (compensationSteps (snd (RecordOperationForwardStepCompleted e j stepKey expected worker fence actor s))) k = Some st"
proof (cases "get (operations s) j")
  case (Some op)
  note o = orphanedD [OF assms(1,2)]
  show ?thesis
    using o(1,4) Some by (auto simp: RecordOperationForwardStepCompleted_def Let_def split: option.split)
qed (use orphanedD [OF assms(1,2)] in \<open>simp add: RecordOperationForwardStepCompleted_def\<close>)

lemma orphan_Claim:
  assumes "orphaned s i k st" and "compensation_ok s" and "plain_ids s"
  shows "get (compensationSteps (snd (ClaimNextOperationCompensationStep e j worker fence actor s))) k = Some st"
proof (cases "get (operations s) j")
  case (Some op)
  note o = orphanedD [OF assms(1,2)]
  have "well_keyed (compensationSteps s)" using assms(2) by (simp add: compensation_ok_def)
  have other: "comp_key j (cs_StepKey p) \<noteq> k"
    if "sort_by lt (filter (compensation_pending j) (vals (compensationSteps s))) = p # rest" for lt p rest
  proof
    assume key: "comp_key j (cs_StepKey p) = k"
    note p = pending_first [OF that]
    obtain l where "get (compensationSteps s) l = Some p"
      using p(2) \<open>well_keyed _\<close> by (auto simp: vals_iff)
    moreover have "l = k" using calculation assms(2) key p(1) by (auto simp: compensation_ok_def)
    ultimately show False using o(1,5) p(3) by simp
  qed
  show ?thesis
    using o(1) Some other by (auto simp: ClaimNextOperationCompensationStep_def Let_def split: list.split)
qed (use orphanedD [OF assms(1,2)] in \<open>simp add: ClaimNextOperationCompensationStep_def\<close>)

lemma orphan_Complete:
  assumes "orphaned s i k st" and "compensation_ok s" and "plain_ids s"
  shows "get (compensationSteps (snd (CompleteOperationCompensationStep e j stepKey worker fence d actor s))) k = Some st"
proof (cases "get (operations s) j")
  case (Some op)
  note o = orphanedD [OF assms(1,2)]
  show ?thesis
    using o(1,5,6) Some orphan_key [OF assms Some]
    by (auto simp: CompleteOperationCompensationStep_def Let_def OperationLeaseActive_def split: option.split)
qed (use orphanedD [OF assms(1,2)] in \<open>simp add: CompleteOperationCompensationStep_def\<close>)

lemma orphan_Fail:
  assumes "orphaned s i k st" and "compensation_ok s" and "plain_ids s"
  shows "get (compensationSteps (snd (ReportOperationCompensationStepFailure e j stepKey worker fence failure actor s))) k = Some st"
proof (cases "get (operations s) j")
  case (Some op)
  note o = orphanedD [OF assms(1,2)]
  show ?thesis
    using o(1,5,6) Some orphan_key [OF assms Some]
    by (auto simp: ReportOperationCompensationStepFailure_def Let_def OperationLeaseActive_def split: option.split)
qed (use orphanedD [OF assms(1,2)] in \<open>simp add: ReportOperationCompensationStepFailure_def\<close>)

lemma orphan_step:
  assumes "orphaned s i k st" and "compensation_ok s" and "plain_ids s"
  shows "get (compensationSteps (snd (exec e c s))) k = Some st"
proof (cases "writes_compensation c")
  case True
  then show ?thesis
    using assms by (cases c) (auto simp: orphan_SetPlan orphan_Forward orphan_Claim orphan_Complete orphan_Fail)
qed (use orphanedD [OF assms(1,2)] in \<open>simp add: exec_compensation\<close>)

lemma after_start_moves:
  assumes "moves c a b" and "a \<in> after_start" and "b \<noteq> OperationRolledBack"
  shows "b \<in> after_start"
  using assms by (cases c) (auto simp: after_start_def elim: CanDirectOperationTransition.elims split: if_split_asm)

lemma orphan_exec:
  assumes "orphaned s i k st" and "compensation_ok s" and "plain_ids s" and "ops_ok (operations s)" and "fresh_ids e s"
  shows "orphaned (snd (exec e c s)) i k st"
proof -
  let ?s = "snd (exec e c s)"
  note o = orphanedD [OF assms(1,2)]
  have fresh: "fresh_op_ids e s" using assms(5) by (simp add: fresh_ids_def)
  have st: "get (compensationSteps ?s) k = Some st" using orphan_step [OF assms(1-3)] .
  obtain op where op: "get (operations s) i = Some op" "cs_FenceToken st < op_FenceToken op" "op_State op \<in> after_start"
    using o(6) by blast
  obtain op' where op': "get (operations ?s) i = Some op'" "op' = op \<or> op_evolves op op'"
    using exec.evolves [OF assms(4) fresh op(1), of c] by auto
  have op_open: "compensation_open i st" using assms(1) by (simp add: orphaned_def)
  have rb: "op_State op' \<noteq> OperationRolledBack"
    using exec_entered [OF assms(4) fresh op'(1) _ op(1) _ get_vals [OF st]] op_open op(3) by (auto simp: after_start_def)
  have "op_State op' \<in> after_start"
    using op_movesD [OF exec_moves [OF assms(4) fresh, of c] op(1) op'(1)] after_start_moves [OF _ op(3) rb] op(3) by auto
  moreover have "op_FenceToken op \<le> op_FenceToken op'" using op'(2) by (auto simp: op_evolves_def)
  ultimately show ?thesis
    using st op_open o(5) op(2) op'(1) by (auto simp: orphaned_def)
qed

lemma orphan_runs:
  assumes "reachable h s" and "orphaned s i k st" and "runs h s s'" and "plain_ids s'"
  shows "orphaned s' i k st"
  using assms(3,4)
proof (induction rule: rtranclp_induct)
  case (step s1 s2)
  have r1: "reachable h s1" using assms(1) step(1) by (simp add: reachable_def)
  have "runs h s1 s2" using step(2) by simp
  then have p1: "plain_ids s1" using plain_ids_back reachable_ops_ok [OF r1] step(4) by blast
  from step(2) show ?case
  proof (cases rule: authority_step.cases)
    case (call e c)
    then show ?thesis
      using orphan_exec [OF step(3) [OF p1] reachable_compensation_ok [OF r1 p1] p1 reachable_ops_ok [OF r1]] by simp
  next
    case other
    then show ?thesis using step(3) [OF p1] by (simp add: orphaned_def same_authority_def)
  qed
qed (use assms(2) in simp)

text \<open>
  C26: A compensation worker that is lost cannot be replaced. Once a step of a roll-back runs under
  a fence token older than that of its operation - the worker crashed and another one took the
  lease over - no sequence of calls ever changes the step again, and the operation never reaches
  ROLLED_BACK.
\<close>
theorem lost_compensation_worker_blocks_rollback:
  assumes "reachable h s" and "orphaned s i k st" and "runs h s s'" and "plain_ids s'"
  shows "get (compensationSteps s') k = Some st \<and>
    (\<exists>op. get (operations s') i = Some op \<and> op_State op \<noteq> OperationRolledBack)"
  using orphan_runs [OF assms] by (auto simp: orphaned_def after_start_def)

section \<open>Instances\<close>

lemma plain_ids_check: "list_all (\<lambda>(k, op). CHR '':'' \<notin> set k) (operations s) \<Longrightarrow> plain_ids s"
  by (auto simp: plain_ids_def list_all_iff dest!: get_mem)

definition demo_plan :: "CompensationPlanStep list" where
  "demo_plan = [\<lparr>pl_StepKey = ''a'', pl_ForwardOrder = 1, pl_Strategy = CompensationAutomaticRollback, pl_Action = ''undo a'',
     pl_InputDigest = ''sha256:'' @ replicate 64 (CHR ''0''), pl_MaxAttempts = 3\<rparr>]"

text \<open>A planned operation completes its step and fails; worker \<open>w1\<close> takes up the compensation.\<close>

definition demo_compensating :: "request list" where
  "demo_compensating =
     [RCreate (demo_request, ''key'', ''alice'', ''req''),
      RTransition (''opx'', 1, OperationPlanning, '''', ''alice''),
      RSetPlan (''opx'', 2, demo_plan, ''alice''),
      RTransition (''opx'', 3, OperationQueued, '''', ''alice''),
      RClaim (''opx'', ''w1'', 60 * Second, 4 * Second),
      RStart (''opx'', 5, ''w1'', 1, ''w1''),
      RForwardStep (''opx'', ''a'', 6, ''w1'', 1, ''w1''),
      RFail (''opx'', 7, ''w1'', 1, \<lparr>rep_Class = OperationFailurePermanent, rep_Code = '''',
        rep_Message = ''boom'', rep_RetryAfterSeconds = 0\<rparr>, ''w1''),
      RBeginComp (''opx'', 8, ''alice''),
      RClaim (''opx'', ''w1'', 60 * Second, 12 * Second),
      RClaimComp (''opx'', ''w1'', 2, ''w1'')]"

definition demo_proof :: string where
  "demo_proof = replicate 64 (CHR ''e'')"

definition demo_rolled_back :: "request list" where
  "demo_rolled_back = demo_compensating @
     [RAppendTrace (\<lparr>tin_OperationID = ''opx'', tin_Phase = OperationStepPhaseCompensation, tin_StepKey = ''a'',
        tin_TraceKey = ''t1'', tin_Level = OperationStepLogInfo, tin_EventType = ''undone'', tin_Message = ''undone'',
        tin_EvidenceKind = ''log'', tin_MediaType = ''text/plain'', tin_Location = '''', tin_Payload = demo_proof\<rparr>, ''w1'', 2, ''w1''),
      RCompleteComp (''opx'', ''a'', ''w1'', 2, ''sha256:'' @ demo_proof, ''w1'')]"

text \<open>Instead, \<open>w1\<close> is lost and \<open>w2\<close> claims the operation.\<close>

definition demo_orphan :: "request list" where
  "demo_orphan = demo_compensating @ [RClaim (''opx'', ''w2'', 60 * Second, 200 * Second)]"

definition demo_step :: "request list \<Rightarrow> OperationCompensationStep" where
  "demo_step cs = the (get (compensationSteps (demo_state cs)) ''opx:a'')"

definition demo_rolled_back_check :: bool where
  "demo_rolled_back_check = (case demo_run 0 demo_rolled_back demo0 of None \<Rightarrow> False | Some s \<Rightarrow>
     list_all (\<lambda>(k, op). CHR '':'' \<notin> set k) (operations s) \<and>
     (case get (operations s) ''opx'' of None \<Rightarrow> False | Some op \<Rightarrow> op_State op = OperationRolledBack) \<and>
     (case get (compensationSteps s) ''opx:a'' of None \<Rightarrow> False | Some st \<Rightarrow>
        cs_OperationID st = ''opx'' \<and> cs_ForwardCompleted st \<and> cs_Strategy st \<noteq> CompensationNone))"

lemma demo_rolled_back_eval: demo_rolled_back_check
  by code_simp

lemma demo_rolled_back_facts:
  "demo_run 0 demo_rolled_back demo0 \<noteq> None" "plain_ids (demo_state demo_rolled_back)"
  "get (operations (demo_state demo_rolled_back)) ''opx'' = Some (demo_op demo_rolled_back ''opx'')"
  "op_State (demo_op demo_rolled_back ''opx'') = OperationRolledBack"
  "get (compensationSteps (demo_state demo_rolled_back)) ''opx:a'' = Some (demo_step demo_rolled_back)"
  "cs_OperationID (demo_step demo_rolled_back) = ''opx''" "cs_ForwardCompleted (demo_step demo_rolled_back)"
  "cs_Strategy (demo_step demo_rolled_back) \<noteq> CompensationNone"
  using demo_rolled_back_eval unfolding demo_rolled_back_check_def demo_state_def demo_op_def demo_step_def
  by (auto intro!: plain_ids_check split: option.split_asm)

theorem rolled_back_means_compensated_witness:
  "op_State (demo_op demo_rolled_back ''opx'') = OperationRolledBack \<and>
   cs_State (demo_step demo_rolled_back) = CompensationStepSucceeded"
  using rolled_back_means_compensated [OF demo_state_reachable [OF demo_rolled_back_facts(1)] demo_rolled_back_facts(2-8)]
    demo_rolled_back_facts(4) by simp

definition demo_orphan_check :: bool where
  "demo_orphan_check = (case demo_run 0 demo_orphan demo0 of None \<Rightarrow> False | Some s \<Rightarrow>
     list_all (\<lambda>(k, op). CHR '':'' \<notin> set k) (operations s) \<and>
     (case get (compensationSteps s) ''opx:a'' of None \<Rightarrow> False | Some st \<Rightarrow>
        compensation_open ''opx'' st \<and> cs_State st = CompensationStepRunning \<and>
        (case get (operations s) ''opx'' of None \<Rightarrow> False | Some op \<Rightarrow>
           cs_FenceToken st < op_FenceToken op \<and> op_State op = OperationRollingBack)))"

lemma demo_orphan_eval: demo_orphan_check
  by code_simp

lemma demo_orphan_facts:
  "demo_run 0 demo_orphan demo0 \<noteq> None" "plain_ids (demo_state demo_orphan)"
  "orphaned (demo_state demo_orphan) ''opx'' ''opx:a'' (demo_step demo_orphan)"
  using demo_orphan_eval unfolding demo_orphan_check_def demo_state_def demo_step_def orphaned_def after_start_def
  by (auto intro!: plain_ids_check split: option.split_asm)

theorem lost_compensation_worker_blocks_rollback_witness:
  "\<exists>s st op. orphaned s ''opx'' ''opx:a'' st \<and> get (operations s) ''opx'' = Some op \<and> op_State op \<noteq> OperationRolledBack"
  using lost_compensation_worker_blocks_rollback [OF demo_state_reachable [OF demo_orphan_facts(1)] demo_orphan_facts(3)
      rtranclp.rtrancl_refl demo_orphan_facts(2)] demo_orphan_facts(3) by blast

end
