(* ===== verification/Workflow.thy ===== *)
theory Workflow
  imports Rollback
begin

text \<open>
  The operation calls against the transition table of \<open>state_machine.go\<close>: every request is a step
  of an abstract workflow over states alone, whose steps are those of the table, three shortcuts
  through it, and two deviations from it. Then the gate between the request of a risky operation
  and its execution.
\<close>

section \<open>The abstract workflow\<close>

inductive workflow :: "request \<Rightarrow> OperationState option \<Rightarrow> OperationState option \<Rightarrow> bool" where
  stay: "workflow c x x"
| created: "b \<in> {OperationDraft, OperationAwaitingApproval, OperationQueued} \<Longrightarrow> workflow c None (Some b)"
| table: "CanTransition a b \<Longrightarrow> workflow c (Some a) (Some b)"
| shortcut: "CanTransition a m \<Longrightarrow> CanTransition m b \<Longrightarrow>
    m \<in> {OperationApproved, OperationVerifying, OperationRollingBack} \<Longrightarrow> workflow c (Some a) (Some b)"
| failed_rollback: "b \<in> {OperationRetryWait, OperationFailed} \<Longrightarrow>
    workflow (RFail x) (Some OperationRollingBack) (Some b)"
| resolved: "workflow (RResolve y) (Some OperationFailed) (Some OperationSucceeded)"
| resolved_evidence: "workflow (RResolveEvid z) (Some OperationFailed) (Some OperationSucceeded)"

inductive_cases workflow_SomeE: "workflow c (Some a) (Some b)"

lemma cancel_in_table:
  "declared_state a \<Longrightarrow> a \<notin> {OperationRunning, OperationVerifying, OperationRollingBack} \<Longrightarrow> \<not> IsTerminal a \<Longrightarrow>
   CanTransition a OperationCancelled"
  by (cases a) auto

lemma moves_workflow:
  assumes "moves c a b" and "declared_state a"
  shows "workflow c (Some a) (Some b)"
proof (cases "CanTransition a b")
  case False
  have short: "workflow c (Some a) (Some b)"
    if "CanTransition a m" "CanTransition m b" "m \<in> {OperationApproved, OperationVerifying, OperationRollingBack}" for m
    using that by (rule workflow.shortcut)
  show ?thesis
    using assms False short [of OperationApproved] short [of OperationVerifying] short [of OperationRollingBack]
    by (cases c)
      (auto dest: direct_allowed cancel_in_table intro: workflow.failed_rollback workflow.resolved workflow.resolved_evidence
        split: if_split_asm)
qed (rule workflow.table)

lemma born_workflow: "born c b \<Longrightarrow> workflow c None (Some b)"
  by (cases c) (auto intro: workflow.created)


definition demo_start :: request where
  "demo_start = RStart (''opx'', 4, ''w1'', 1, ''w1'')"

lemma demo_started:
  "demo_run 0 (demo_claimed @ [demo_start]) demo0 \<noteq> None"
  "map_option op_State (get (operations (demo_state demo_claimed)) ''opx'') = Some OperationQueued"
  "map_option op_State (get (operations (demo_state (demo_claimed @ [demo_start]))) ''opx'') = Some OperationRunning"
  by code_simp+


section \<open>The deviation\<close>

text \<open>
  C27: A failure report can end a roll-back outside the table. For an operation that is rolling
  back, the holder of the lease may report a failure of the forward work: the call succeeds and
  leaves the operation in RETRY_WAIT or FAILED, which the table does not allow from ROLLING_BACK.
\<close>
theorem failure_report_leaves_the_table:
  assumes "get (operations s) i = Some op" and "op_State op = OperationRollingBack" and "Revision op = expected"
    and "OperationLeaseActive op worker fence (nowUTC e 0)"
    and "ValidOperationFailureClass (rep_Class report)" and "TrimSpace (rep_Message report) \<noteq> ''''"
    and "0 \<le> rep_RetryAfterSeconds report"
  shows "\<exists>op' s'. ReportOperationFailure e i expected worker fence report actor s = (Inr op', s') \<and>
    get (operations s') i = Some op' \<and> op_State op' \<in> {OperationRetryWait, OperationFailed} \<and>
    \<not> CanTransition (op_State op) (op_State op')"
  using assms by (simp add: ReportOperationFailure_def failedOperation_def Let_def touch_def)

definition demo_failure :: OperationFailureReport where
  "demo_failure = \<lparr>rep_Class = OperationFailurePermanent, rep_Code = '''', rep_Message = ''boom'', rep_RetryAfterSeconds = 0\<rparr>"

definition demo_compensating_op :: Operation where
  "demo_compensating_op = demo_op demo_compensating ''opx''"

lemma demo_compensating_eval:
  "case demo_run 0 demo_compensating demo0 of None \<Rightarrow> False | Some s \<Rightarrow>
     (case get (operations s) ''opx'' of None \<Rightarrow> False | Some op \<Rightarrow>
        op_State op = OperationRollingBack \<and> OperationLeaseActive op ''w1'' 2 (nowUTC (demo_env 12) 0))"
  by code_simp

lemma demo_compensating_facts:
  "get (operations (demo_state demo_compensating)) ''opx'' = Some demo_compensating_op"
  "op_State demo_compensating_op = OperationRollingBack"
  "OperationLeaseActive demo_compensating_op ''w1'' 2 (nowUTC (demo_env 12) 0)"
  using demo_compensating_eval unfolding demo_state_def demo_op_def demo_compensating_op_def
  by (auto split: option.split_asm)

theorem failure_report_leaves_the_table_witness:
  "\<exists>op' s'. ReportOperationFailure (demo_env 12) ''opx'' (Revision demo_compensating_op) ''w1'' 2 demo_failure ''w1''
      (demo_state demo_compensating) = (Inr op', s') \<and> op_State op' \<in> {OperationRetryWait, OperationFailed}"
proof -
  have r: "ValidOperationFailureClass (rep_Class demo_failure)" "TrimSpace (rep_Message demo_failure) \<noteq> ''''"
    "0 \<le> rep_RetryAfterSeconds demo_failure"
    by code_simp+
  show ?thesis
    using failure_report_leaves_the_table [OF demo_compensating_facts(1,2) refl demo_compensating_facts(3) r, of "''w1''"] by blast
qed

section \<open>The approval gate\<close>

text \<open>The operation an approval call addresses, and what each of the two calls has checked.\<close>

lemma approve_checks:
  assumes "get (operations s) i = Some op" and "op_State op = OperationAwaitingApproval" and "ops_ok (operations s)"
    and "get (operations (snd (ApproveOperationAndQueue e j expected actor s))) i = Some op'" and "op_State op' \<noteq> OperationAwaitingApproval"
  shows "TrimSpace j = i \<and> Revision op = expected \<and> TrimSpace actor \<noteq> '''' \<and> TrimSpace actor \<noteq> op_ActorID op"
  using assms owner_stored [OF assms(3)]
  by (auto simp: ApproveOperationAndQueue_def Let_def ops_ok_def split: option.split_asm if_split_asm)

lemma owner_approve_checks:
  assumes "get (operations s) i = Some op" and "op_State op = OperationAwaitingApproval" and "ops_ok (operations s)"
    and "get (operations (snd (approveOwnerDestructiveOperationLocked e j p c actor s))) i = Some op'"
    and "op_State op' \<noteq> OperationAwaitingApproval"
  shows "ownerBinding j p c s = Some op \<and> validateDestructiveRecoveryLocked s op (nowUTC e 0) = Inr ()"
proof (cases "ownerBinding j p c s")
  case None
  then show ?thesis using assms by (simp add: approveOwnerDestructiveOperationLocked_def)
next
  case (Some op1)
  have st: "get (operations s) (ID op1) = Some op1" using owner_stored [OF assms(3)] ownerBinding_Some [OF Some] by blast
  let ?path = "[(OperationApproved, ''operation.owner_approved'', []), (OperationQueued, ''operation.owner_queued'', [])]"
  show ?thesis
  proof (cases "op_State op1 = OperationAwaitingApproval \<and> validateDestructiveRecoveryLocked s op1 (nowUTC e 0) = Inr ()")
    case True
    then have run: "approveOwnerDestructiveOperationLocked e j p c actor s = ownerTransitions e 1 op1 ?path actor s"
      using Some by (simp add: approveOwnerDestructiveOperationLocked_def del: ownerTransitions.simps)
    have "i = ID op1"
      using ownerTransitions_path [OF st, of ?path e 1 actor] True assms(1,2,4,5) unfolding run
      by (auto simp del: ownerTransitions.simps)
    then show ?thesis using True Some st assms(1) by simp
  next
    case False
    then show ?thesis
      using Some assms by (auto simp: approveOwnerDestructiveOperationLocked_def simp del: ownerTransitions.simps
          split: sum.split_asm if_split_asm)
  qed
qed


text \<open>An operation that \<open>alice\<close> requests with a payload, and \<open>bob\<close> approves.\<close>

definition demo_awaiting :: "request list" where
  "demo_awaiting = [RCreateAwaiting (demo_request, ''key'', ''alice'', ''req'', ''application/json'', ''{}'')]"

definition demo_approval :: request where
  "demo_approval = RApprove (''opx'', 3, ''bob'')"

lemma demo_awaiting_eval:
  "demo_run 0 (demo_awaiting @ [demo_approval]) demo0 \<noteq> None"
  "demo_run 0 demo_awaiting demo0 \<noteq> None"
  "map_option op_State (get (operations (demo_state demo_awaiting)) ''opx'') = Some OperationAwaitingApproval"
  "map_option op_State (get (operations (demo_state (demo_awaiting @ [demo_approval]))) ''opx'') = Some OperationQueued"
  by code_simp+


end
