(* ===== verification/Termination.thy ===== *)
theory Termination
  imports Demo
begin

text \<open>
  Retrying ends: the attempt budget of an operation bounds how often its execution can be started,
  whatever calls come in between and whoever makes them.
\<close>

section \<open>Counting starts\<close>

text \<open>A run of the authority in which the execution of the operation \<open>i\<close> is started \<open>n\<close> times.\<close>

inductive attempts_run :: "(string \<Rightarrow> string) \<Rightarrow> string \<Rightarrow> MemoryStore \<Rightarrow> nat \<Rightarrow> MemoryStore \<Rightarrow> bool" for h i s where
  none: "attempts_run h i s 0 s"
| start: "attempts_run h i s n t \<Longrightarrow> sha256hex e = h \<Longrightarrow> fresh_ids e t \<Longrightarrow>
    StartOperationAttempt e i expected worker fence actor t = (Inr op, t') \<Longrightarrow> attempts_run h i s (Suc n) t'"
| owner_start: "attempts_run h i s n t \<Longrightarrow> sha256hex e = h \<Longrightarrow> fresh_ids e t \<Longrightarrow>
    startOwnerDestructiveOperationLocked e operationID projectID clusterID actor t = (Inr op, t') \<Longrightarrow> ID op = i \<Longrightarrow>
    attempts_run h i s (Suc n) t'"
| other: "attempts_run h i s n t \<Longrightarrow> authority_step h t t' \<Longrightarrow> attempts_run h i s n t'"

definition attempts :: "MemoryStore \<Rightarrow> string \<Rightarrow> int" where
  "attempts s i = (case get (operations s) i of None \<Rightarrow> 0 | Some op \<Rightarrow> op_Attempt op)"

lemma start_counts:
  assumes "StartOperationAttempt e i expected worker fence actor t = (Inr op, t')"
  shows "attempts t' i = attempts t i + 1 \<and> get (operations t') i \<noteq> None"
  using assms by (auto simp: StartOperationAttempt_def Let_def attempts_def touch_def split: option.split_asm if_split_asm sum.split_asm)

lemma owner_start_counts:
  assumes "startOwnerDestructiveOperationLocked e operationID projectID clusterID actor t = (Inr op, t')" and "ops_ok (operations t)"
  shows "attempts t' (ID op) = attempts t (ID op) + 1 \<and> get (operations t') (ID op) \<noteq> None"
proof -
  obtain old where old: "ownerBinding operationID projectID clusterID t = Some old"
    and op: "ID op = ID old" "op_Attempt op = op_Attempt old + 1" and t': "get (operations t') (ID op) = Some op"
    using assms(1) by (auto simp: startOwnerDestructiveOperationLocked_def Let_def touch_def
        split: option.split_asm if_split_asm sum.split_asm)
  have "get (operations t) (ID old) = Some old"
    using old ops_okD [OF assms(2)] by (auto simp: ownerBinding_def split: option.split_asm if_split_asm)
  then show ?thesis using op t' by (simp add: attempts_def)
qed

lemma step_attempts:
  assumes "authority_step h t t'" and "ops_ok (operations t)"
  shows "attempts t i \<le> attempts t' i \<and> (get (operations t) i \<noteq> None \<longrightarrow> get (operations t') i \<noteq> None)"
proof (cases "get (operations t) i")
  case None
  have "0 \<le> attempts t' i"
    using ops_okD [OF ops_steps_ok [OF step_changes_ops [OF assms] assms(2)]]
    by (auto simp: attempts_def op_wf_def split: option.split)
  then show ?thesis using None by (simp add: attempts_def)
next
  case (Some op)
  then show ?thesis using ops_steps_evolve [OF step_changes_ops [OF assms] Some] by (auto simp: attempts_def op_evolves_def)
qed

lemma attempts_run_counts:
  assumes "attempts_run h i s n t" and "reachable h s"
  shows "reachable h t \<and> attempts s i + int n \<le> attempts t i \<and> (n \<noteq> 0 \<longrightarrow> get (operations t) i \<noteq> None)"
  using assms
proof (induction rule: attempts_run.induct)
  case (start n t e expected worker fence actor op t')
  then have "reachable h t'" using reachable_exec [of h t e "RStart (i, expected, worker, fence, actor)"] by simp
  then show ?case using start_counts [OF start.hyps(4)] start.IH [OF start.prems] by auto
next
  case (owner_start n t e operationID projectID clusterID actor op t')
  then have "reachable h t'" using reachable_exec [of h t e "ROwnerStart (operationID, projectID, clusterID, actor)"] by simp
  moreover have "ops_ok (operations t)" using owner_start.IH [OF owner_start.prems] reachable_ops_ok by blast
  ultimately show ?case using owner_start_counts [OF owner_start.hyps(4)] owner_start.hyps(5) owner_start.IH [OF owner_start.prems] by auto
next
  case (other n t t')
  then have t: "reachable h t" "reachable h t'" using reachable_runs by blast+
  then show ?case using step_attempts [OF other.hyps(2) reachable_ops_ok [OF t(1)], of i] other.IH [OF other.prems] by auto
qed simp

section \<open>The theorem\<close>

text \<open>
  C9: Retrying ends. In any run from a reachable store, the execution of an operation is started at
  most as often as its attempt budget still allows: the starts and the attempts before never exceed
  the maximum of the retry policy of its class, which is at most five.
\<close>
theorem retries_terminate:
  assumes "reachable h s" and "attempts_run h i s n t" and "n \<noteq> 0"
  shows "\<exists>op. get (operations t) i = Some op \<and> attempts s i + int n \<le> op_Attempt op \<and>
    op_Attempt op \<le> MaxAttempts (RetryPolicyForOperationClass (op_Class op)) \<and> n \<le> 5"
proof -
  have t: "reachable h t" "attempts s i + int n \<le> attempts t i" "get (operations t) i \<noteq> None"
    using attempts_run_counts [OF assms(2,1)] assms(3) by blast+
  then obtain op where op: "get (operations t) i = Some op" by blast
  then have "op_wf op" using ops_okD [OF reachable_ops_ok [OF t(1)]] by blast
  then have b: "op_Attempt op \<le> MaxAttempts (RetryPolicyForOperationClass (op_Class op))" unfolding op_wf_def class_policy_def by metis
  have "MaxAttempts (RetryPolicyForOperationClass c) \<le> 5" for c by (cases c) simp_all
  then have "op_Attempt op \<le> 5" using b order_trans by blast
  moreover have "0 \<le> attempts s i"
    using ops_okD [OF reachable_ops_ok [OF assms(1)]] by (auto simp: attempts_def op_wf_def split: option.split)
  moreover have "attempts s i + int n \<le> op_Attempt op" using t(2) op by (simp add: attempts_def)
  ultimately show ?thesis using op b by simp
qed

definition demo_start :: "Operation call" where
  "demo_start = StartOperationAttempt (demo_env 4) ''opx'' 4 ''w1'' 1 ''w1'' (demo_state demo_claimed)"

lemma demo_start_eval: "\<not> isl (fst demo_start) \<and> demo_fresh 4 (demo_state demo_claimed)"
  by code_simp

theorem retries_terminate_witness:
  "\<exists>op. get (operations (snd demo_start)) ''opx'' = Some op \<and> 1 \<le> op_Attempt op"
proof -
  note claimed = demo_state_reachable [OF demo_claimed_ok]
  obtain op t' where p: "demo_start = (Inr op, t')" using demo_start_eval by (metis isl_def sum.exhaust_sel prod.collapse)
  have "attempts_run demo_hash ''opx'' (demo_state demo_claimed) (Suc 0) t'"
    using demo_start_eval p demo_fresh_ids unfolding demo_start_def by (intro attempts_run.start [OF attempts_run.none]) simp_all
  from retries_terminate [OF claimed this]
  obtain op' where op': "get (operations t') ''opx'' = Some op'" "attempts (demo_state demo_claimed) ''opx'' + 1 \<le> op_Attempt op'" by auto
  have "0 \<le> attempts (demo_state demo_claimed) ''opx''"
    using ops_okD [OF reachable_ops_ok [OF claimed]] by (auto simp: attempts_def op_wf_def split: option.split)
  then show ?thesis unfolding p snd_conv by (intro exI [of _ op']) (use op' in simp)
qed

end
