(* ===== verification/Paging.thy ===== *)
theory Paging
  imports Trace Lookup
begin

text \<open>
  The bounded listings of operations, evidence and audit events: \<open>operation_page.go\<close>,
  \<open>evidence_page.go\<close> and the pagers of \<open>audit_store.go\<close> and \<open>memory_store.go\<close> in
  \<open>internal/controlplane\<close>. Every pager selects the entries it may show, sorts them and cuts the result
  at a limit; the worker queues do the same for the operations that are due.
\<close>

section \<open>Pages\<close>

text \<open>\<open>if len(out) > limit { out = out[:limit] }\<close>, for the positive limits of the pagers.\<close>

definition cut :: "int \<Rightarrow> 'a list \<Rightarrow> 'a list" where
  "cut limit out = (if limit < int (length out) then take (nat limit) out else out)"

text \<open>Most recently updated first, then newest creation time, then descending identifier.\<close>

definition newest_first :: "'a ResourceMeta_scheme \<Rightarrow> 'a ResourceMeta_scheme \<Rightarrow> bool" where
  "newest_first x y =
     (if UpdatedAt x \<noteq> UpdatedAt y then UpdatedAt y < UpdatedAt x
      else if CreatedAt x \<noteq> CreatedAt y then CreatedAt y < CreatedAt x
      else ID y < ID x)"

section \<open>Pages of operations\<close>

definition listOperationsPageLocked :: "string \<Rightarrow> string list option \<Rightarrow> int \<Rightarrow> MemoryStore \<Rightarrow> Operation list" where
  "listOperationsPageLocked projectID allowedProjects limit s =
     (let limit = (if limit \<le> 0 \<or> 500 < limit then 200 else limit) in
      cut limit (sort_by newest_first
        (filter (\<lambda>op. (projectID = '''' \<or> op_ProjectID op = projectID) \<and>
             (case allowedProjects of None \<Rightarrow> True | Some ps \<Rightarrow> op_ProjectID op \<in> set ps)) (vals (operations s)))))"

definition ListOperationsPage :: "string \<Rightarrow> int \<Rightarrow> MemoryStore \<Rightarrow> Operation list" where
  "ListOperationsPage projectID limit s = listOperationsPageLocked projectID None limit s"

definition ListOperationsPageByProjects :: "string list \<Rightarrow> int \<Rightarrow> MemoryStore \<Rightarrow> Operation list" where
  "ListOperationsPageByProjects projectIDs limit s =
     (let allowed = filter (\<lambda>p. p \<noteq> '''') (map TrimSpace projectIDs) in
      if allowed = [] then [] else listOperationsPageLocked '''' (Some allowed) limit s)"

definition ListOperationsByKindTargetPage ::
  "string \<Rightarrow> string \<Rightarrow> string \<Rightarrow> int \<Rightarrow> MemoryStore \<Rightarrow> Operation list res" where
  "ListOperationsByKindTargetPage projectID kind targetRef limit s =
     (let projectID = TrimSpace projectID; kind = TrimSpace kind; targetRef = TrimSpace targetRef in
      if projectID = '''' \<or> kind = '''' \<or> targetRef = '''' \<or> limit \<le> 0 \<or> 200 < limit then Inl ErrValidation
      else Inr (cut limit (sort_by newest_first
        (filter (\<lambda>op. op_ProjectID op = projectID \<and> op_Kind op = kind \<and> op_TargetRef op = targetRef) (vals (operations s))))))"

section \<open>Worker queues\<close>

text \<open>
  What a worker may pick up: queued operations, retries that are due, and running operations whose
  lease has run out.
\<close>

definition queue_eligible :: "int \<Rightarrow> Operation \<Rightarrow> bool" where
  "queue_eligible at op =
     (op_State op = OperationQueued \<or>
      (op_State op = OperationRetryWait \<and> op_NextAttemptAt op \<noteq> None \<and> \<not> after (op_NextAttemptAt op) at) \<or>
      (op_State op = OperationRunning \<and> (op_LeaseExpiresAt op = None \<or> \<not> after (op_LeaseExpiresAt op) at)))"

definition due_at :: "Operation \<Rightarrow> int" where
  "due_at op = (case op_NextAttemptAt op of
       Some t \<Rightarrow> if op_State op = OperationRetryWait then t else CreatedAt op
     | None \<Rightarrow> CreatedAt op)"

definition ListClaimableOperationsByKind :: "string \<Rightarrow> int \<Rightarrow> int \<Rightarrow> MemoryStore \<Rightarrow> Operation list res" where
  "ListClaimableOperationsByKind kind at limit s =
     (let kind = TrimSpace kind in
      if kind = '''' \<or> limit \<le> 0 \<or> 200 < limit then Inl ErrValidation
      else Inr (cut limit (sort_by (less_on2 due_at ID)
        (filter (\<lambda>op. op_Kind op = kind \<and> queue_eligible at op) (vals (operations s))))))"

definition ListClaimableOperationsByKindTargetPrefix ::
  "string \<Rightarrow> string \<Rightarrow> int \<Rightarrow> int \<Rightarrow> MemoryStore \<Rightarrow> Operation list res" where
  "ListClaimableOperationsByKindTargetPrefix kind targetPrefix at limit s =
     (let kind = TrimSpace kind; targetPrefix = TrimSpace targetPrefix in
      if kind = '''' \<or> targetPrefix = '''' \<or> limit \<le> 0 \<or> 200 < limit then Inl ErrValidation
      else Inr (cut limit (sort_by (less_on2 due_at ID)
        (filter (\<lambda>op. op_Kind op = kind \<and> HasPrefix (op_TargetRef op) targetPrefix \<and> queue_eligible at op) (vals (operations s))))))"

definition ListUnknownRecoveryOperationsByKindTargetPrefix ::
  "string \<Rightarrow> string \<Rightarrow> int \<Rightarrow> MemoryStore \<Rightarrow> Operation list res" where
  "ListUnknownRecoveryOperationsByKindTargetPrefix kind targetPrefix limit s =
     (let kind = TrimSpace kind; targetPrefix = TrimSpace targetPrefix in
      if kind = '''' \<or> targetPrefix = '''' \<or> limit \<le> 0 \<or> 200 < limit then Inl ErrValidation
      else Inr (cut limit (sort_by (less_on2 UpdatedAt ID)
        (filter (\<lambda>op. op_Kind op = kind \<and> HasPrefix (op_TargetRef op) targetPrefix \<and>
             op_State op = OperationFailed \<and> op_LastFailureClass op = OperationFailureUnknown) (vals (operations s))))))"

section \<open>Pages of evidence\<close>

definition ListEvidencePageByProject :: "string \<Rightarrow> int \<Rightarrow> MemoryStore \<Rightarrow> EvidenceMetadata list" where
  "ListEvidencePageByProject projectID limit s =
     (let projectID = TrimSpace projectID in
      if projectID = '''' then []
      else
        let limit = (if limit \<le> 0 \<or> 500 < limit then 200 else limit);
            operationIDs = map ID (filter (\<lambda>op. op_ProjectID op = projectID) (vals (operations s)))
        in cut limit (sort_by newest_first (filter (\<lambda>v. evd_OperationID v \<in> set operationIDs) (vals (evidence s)))))"

definition ListEvidencePageByOperation :: "string \<Rightarrow> int \<Rightarrow> MemoryStore \<Rightarrow> EvidenceMetadata list res" where
  "ListEvidencePageByOperation operationID limit s =
     (let operationID = TrimSpace operationID in
      if operationID = '''' then Inr []
      else
        let limit = (if limit \<le> 0 \<or> 500 < limit then 100 else limit) in
        (case get (operations s) operationID of
           None \<Rightarrow> Inl ErrNotFound
         | Some op \<Rightarrow> Inr (cut limit (sort_by newest_first (filter (\<lambda>v. evd_OperationID v = operationID) (vals (evidence s)))))))"

section \<open>Pages of the audit log\<close>

definition auditNewestFirst :: "AuditEvent list \<Rightarrow> AuditEvent list" where
  "auditNewestFirst values =
     sort_by (\<lambda>x y. if aud_OccurredAt x = aud_OccurredAt y then aud_ID y < aud_ID x else aud_OccurredAt y < aud_OccurredAt x) values"

definition ListAudit :: "int \<Rightarrow> MemoryStore \<Rightarrow> AuditEvent list" where
  "ListAudit limit s =
     (let limit = (if limit \<le> 0 \<or> 1000 < limit then 100 else limit) in cut limit (auditNewestFirst (audit s)))"

definition ListAuditPageByResource :: "string \<Rightarrow> string \<Rightarrow> int \<Rightarrow> MemoryStore \<Rightarrow> AuditEvent list res" where
  "ListAuditPageByResource resourceType resourceID limit s =
     (let resourceType = TrimSpace resourceType; resourceID = TrimSpace resourceID in
      if resourceType = '''' \<or> resourceID = '''' then Inl ErrValidation
      else
        let limit = (if limit \<le> 0 \<or> 200 < limit then 50 else limit) in
        Inr (cut limit (auditNewestFirst
          (filter (\<lambda>v. aud_ResourceType v = resourceType \<and> aud_ResourceID v = resourceID) (audit s)))))"

end
