(* ===== verification/Queues.thy ===== *)
theory Queues
  imports Paging Evidence
begin

text \<open>
  What the bounded listings show: pages do not depend on the order of the Go maps nor on what other
  tenants do, and the worker queues offer the operations \<open>ClaimOperation\<close> hands out.
\<close>

section \<open>Sorting without ties\<close>

text \<open>An order on records that only leaves records of the same key undecided.\<close>

locale page_order = weak_order lt for lt :: "'a \<Rightarrow> 'a \<Rightarrow> bool" +
  fixes key :: "'a \<Rightarrow> 'k"
  assumes total: "key x \<noteq> key y \<Longrightarrow> lt x y \<or> lt y x"
begin

lemma strictly_sorted:
  assumes "sorted_wrt (\<lambda>a b. \<not> lt b a) xs" and "distinct (map key xs)"
  shows "sorted_wrt lt xs"
  using assms by (induction xs) (use total in force)+

lemma sorted_unique:
  "sorted_wrt lt xs \<Longrightarrow> sorted_wrt lt ys \<Longrightarrow> set xs = set ys \<Longrightarrow> xs = ys"
proof (induction xs arbitrary: ys)
  case (Cons x xs)
  then obtain y ys' where ys: "ys = y # ys'" by (cases ys) auto
  have "x = y" using Cons.prems asym unfolding ys by (metis insert_iff list.simps(15) sorted_wrt.simps(2))
  moreover have "x \<notin> set xs" "y \<notin> set ys'" using Cons.prems asym unfolding ys by (metis sorted_wrt.simps(2))+
  then have "set xs = set ys'" using Cons.prems(3) \<open>x = y\<close> unfolding ys by auto
  ultimately show ?case using Cons ys by simp
qed simp

lemma page_canonical:
  assumes "distinct (map key xs)" and "distinct (map key ys)" and "set xs = set ys"
  shows "sort_by lt xs = sort_by lt ys"
  using assms by (intro sorted_unique strictly_sorted sorted_sort_by) simp_all

lemma page_top:
  assumes "x \<in> set xs" and "x \<notin> set (cut n (sort_by lt xs))" and "0 \<le> n" and "distinct (map key xs)"
  shows "int (length (cut n (sort_by lt xs))) = n \<and> (\<forall>y \<in> set (cut n (sort_by lt xs)). lt y x)"
proof -
  let ?ys = "sort_by lt xs"
  have c: "cut n ?ys = take (nat n) ?ys" "nat n < length xs" using assms by (auto simp: cut_def split: if_split_asm)
  have "x \<in> set (drop (nat n) ?ys)" using assms(1,2) unfolding c by (metis Un_iff append_take_drop_id set_append set_sort_by)
  moreover have "sorted_wrt lt (take (nat n) ?ys @ drop (nat n) ?ys)"
    using assms(4) strictly_sorted sorted_sort_by by simp
  ultimately show ?thesis using c assms(3) unfolding sorted_wrt_append by simp
qed

end

lemma less_on2_le: "less_on2 f g x y \<Longrightarrow> f x \<le> f y"
  by (auto simp: less_on2_def split: if_split_asm)

lemma set_cut: "x \<in> set (cut n xs) \<Longrightarrow> x \<in> set xs"
  by (auto simp: cut_def split: if_split_asm dest: in_set_takeD)

interpretation newest: page_order newest_first ID
  by unfold_locales (auto simp: newest_first_def split: if_splits)

interpretation due: page_order "less_on2 due_at ID" ID
  by unfold_locales (auto simp: less_on2_def split: if_splits)

section \<open>Tables and pages\<close>

lemma ops_steps_keyed: "ops_steps m m' \<Longrightarrow> well_keyed m \<Longrightarrow> well_keyed m'"
  by (induction rule: ops_steps.induct) simp_all

lemma reachable_keyed: "reachable h s \<Longrightarrow> well_keyed (operations s)"
  using ops_steps_keyed [OF runs_change_ops [OF _ ops_ok_init]] unfolding reachable_def by (simp add: NewMemoryStoreWith_def)

lemma distinct_ids:
  assumes "well_keyed t" and "\<And>i v. get t i = Some v \<Longrightarrow> f v = i"
  shows "distinct (map f (filter P (vals t)))"
proof -
  have "map f (vals t) = map fst t" using assms by (auto simp: vals_def well_keyed_get)
  then show ?thesis using assms(1) by (simp add: well_keyed_def distinct_map_filter)
qed

lemma distinct_ops: "reachable h s \<Longrightarrow> distinct (map ID (filter P (vals (operations s))))"
  using reachable_keyed reachable_ops_ok ops_okD by (intro distinct_ids) blast+

lemma distinct_evidence: "reachable h s \<Longrightarrow> distinct (map ID (filter P (vals (evidence s))))"
  using reachable_evidence_ok [of h s] by (intro distinct_ids) (auto simp: evidence_ok_def)

text \<open>Two tables that agree on the entries a filter keeps.\<close>

lemma filter_agree:
  assumes "well_keyed t" and "well_keyed t'" and "\<And>i v. P v \<Longrightarrow> get t i = Some v \<longleftrightarrow> get t' i = Some v"
  shows "set (filter P (vals t)) = set (filter P (vals t'))"
  using assms by (auto simp: vals_iff)

lemma operations_page:
  "ListOperationsPageByProjects projectIDs limit s =
     cut (if limit \<le> 0 \<or> 500 < limit then 200 else limit)
       (sort_by newest_first (filter (\<lambda>op. op_ProjectID op \<in> TrimSpace ` set projectIDs - {''''}) (vals (operations s))))"
proof -
  define allowed where "allowed = filter (\<lambda>p. p \<noteq> '''') (map TrimSpace projectIDs)"
  have a: "set allowed = TrimSpace ` set projectIDs - {''''}" by (auto simp: allowed_def)
  show ?thesis
  proof (cases "allowed = []")
    case True
    then have "filter (\<lambda>op. op_ProjectID op \<in> TrimSpace ` set projectIDs - {''''}) (vals (operations s)) = []"
      unfolding a [symmetric] by simp
    then show ?thesis using True by (simp only: ListOperationsPageByProjects_def Let_def allowed_def [symmetric] sort_by.simps if_True) (simp add: cut_def)
  next
    case False
    then show ?thesis using a
      by (simp add: ListOperationsPageByProjects_def listOperationsPageLocked_def Let_def flip: allowed_def)
  qed
qed

lemma evidence_page_agrees:
  assumes "reachable h s" and "reachable h s'"
    and ops: "\<And>i op. op_ProjectID op = TrimSpace p \<Longrightarrow> get (operations s) i = Some op \<longleftrightarrow> get (operations s') i = Some op"
    and evs: "\<And>i v op. get (operations s) (evd_OperationID v) = Some op \<Longrightarrow> op_ProjectID op = TrimSpace p \<Longrightarrow>
      get (evidence s) i = Some v \<longleftrightarrow> get (evidence s') i = Some v"
  shows "ListEvidencePageByProject p n s' = ListEvidencePageByProject p n s"
proof -
  let ?ids = "\<lambda>s. set (map ID (filter (\<lambda>op. op_ProjectID op = TrimSpace p) (vals (operations s))))"
  have ids: "?ids s' = ?ids s"
    using filter_agree [OF reachable_keyed [OF assms(2)] reachable_keyed [OF assms(1)], of "\<lambda>op. op_ProjectID op = TrimSpace p"] ops
    by auto
  have own: "\<exists>op. get (operations s) i = Some op \<and> op_ProjectID op = TrimSpace p" if "i \<in> ?ids s" for i
    using that vals_get [OF reachable_keyed [OF assms(1)]] ops_okD [OF reachable_ops_ok [OF assms(1)]] by auto
  have wk: "well_keyed (evidence s)" "well_keyed (evidence s')"
    using reachable_evidence_ok [OF assms(1)] reachable_evidence_ok [OF assms(2)] by (simp_all add: evidence_ok_def)
  have "set (filter (\<lambda>v. evd_OperationID v \<in> ?ids s) (vals (evidence s'))) = set (filter (\<lambda>v. evd_OperationID v \<in> ?ids s) (vals (evidence s)))"
    using own evs by (intro filter_agree wk) blast
  then have "sort_by newest_first (filter (\<lambda>v. evd_OperationID v \<in> ?ids s) (vals (evidence s'))) =
      sort_by newest_first (filter (\<lambda>v. evd_OperationID v \<in> ?ids s) (vals (evidence s)))"
    by (intro newest.page_canonical distinct_evidence [OF assms(1)] distinct_evidence [OF assms(2)])
  then show ?thesis using ids by (simp add: ListEvidencePageByProject_def Let_def)
qed

section \<open>Theorems\<close>


section \<open>Worker queues\<close>

lemma claim_iff:
  assumes "get (operations s) i = Some op" and "TrimSpace worker \<noteq> ''''" and "0 < ttl"
  shows "(\<exists>r. fst (ClaimOperation e i worker ttl at s) = Inr r) \<longleftrightarrow>
    (if op_State op = OperationRetryWait then op_NextAttemptAt op \<noteq> None \<and> \<not> after (op_NextAttemptAt op) at
     else claimable_state (op_State op)) \<and>
    \<not> (after (op_LeaseExpiresAt op) at \<and> TrimSpace (op_LeaseOwner op) \<noteq> TrimSpace worker)"
  using assms by (auto simp: ClaimOperation_def requeueDueRetry_def claimable_state_def Let_def touch_def)

text \<open>
  C11: The worker queue offers what can be claimed. Every operation it lists is stored, of the asked
  kind, and \<open>ClaimOperation\<close> gives it to any worker unless another worker still holds its lease.
  Conversely a queued, waiting or running operation of the kind that a worker without a lease on it
  can claim is listed, unless the page is full of operations that were due no later.
\<close>
theorem queue_offers_claimable_work:
  assumes "reachable h s" and "ListClaimableOperationsByKind kind at limit s = Inr page"
    and "TrimSpace worker \<noteq> ''''" and "0 < ttl"
  shows "(\<forall>op \<in> set page. get (operations s) (ID op) = Some op \<and> op_Kind op = TrimSpace kind \<and>
      (\<not> after (op_LeaseExpiresAt op) at \<longrightarrow> (\<exists>r. fst (ClaimOperation e (ID op) worker ttl at s) = Inr r))) \<and>
    (\<forall>i op r. get (operations s) i = Some op \<and> op_Kind op = TrimSpace kind \<and>
      op_State op \<in> {OperationQueued, OperationRetryWait, OperationRunning} \<and> TrimSpace (op_LeaseOwner op) \<noteq> TrimSpace worker \<and>
      fst (ClaimOperation e i worker ttl at s) = Inr r \<longrightarrow>
      op \<in> set page \<or> int (length page) = limit \<and> (\<forall>q \<in> set page. due_at q \<le> due_at op))"
proof -
  let ?ops = "filter (\<lambda>op. op_Kind op = TrimSpace kind \<and> queue_eligible at op) (vals (operations s))"
  have page: "page = cut limit (sort_by (less_on2 due_at ID) ?ops)" and limit: "0 \<le> limit"
    using assms(2) by (auto simp: ListClaimableOperationsByKind_def Let_def split: if_split_asm)
  have sound: "get (operations s) (ID op) = Some op \<and> op_Kind op = TrimSpace kind \<and>
      (\<not> after (op_LeaseExpiresAt op) at \<longrightarrow> (\<exists>r. fst (ClaimOperation e (ID op) worker ttl at s) = Inr r))" if "op \<in> set page" for op
  proof -
    have op: "op \<in> set (vals (operations s))" "op_Kind op = TrimSpace kind" "queue_eligible at op"
      using set_cut [OF that [unfolded page]] by auto
    then have "get (operations s) (ID op) = Some op"
      using vals_get [OF reachable_keyed [OF assms(1)]] ops_okD [OF reachable_ops_ok [OF assms(1)]] by blast
    then show ?thesis using op claim_iff [OF _ assms(3,4), where e = e and at = at]
      by (auto simp: queue_eligible_def claimable_state_def)
  qed
  have full: "op \<in> set page \<or> int (length page) = limit \<and> (\<forall>q \<in> set page. due_at q \<le> due_at op)"
    if "get (operations s) i = Some op" "op_Kind op = TrimSpace kind" "op_State op \<in> {OperationQueued, OperationRetryWait, OperationRunning}"
      "TrimSpace (op_LeaseOwner op) \<noteq> TrimSpace worker" "fst (ClaimOperation e i worker ttl at s) = Inr r" for i op r
  proof -
    have "queue_eligible at op" using that claim_iff [OF that(1) assms(3,4), where e = e and at = at] by (auto simp: queue_eligible_def)
    then have "op \<in> set ?ops" using get_vals [OF that(1)] that(2) by simp
    from due.page_top [OF this _ limit distinct_ops [OF assms(1)]] show ?thesis
      unfolding page [symmetric] using less_on2_le by metis
  qed
  show ?thesis using sound full by blast
qed

text \<open>
  C40: Abandoned verification is never queued. An operation whose worker disappeared while it was
  verifying, rolling back or cancelling can be claimed once the lease has run out, but at no time and
  with no limit does one of the worker queues list it.
\<close>
theorem abandoned_work_is_not_queued:
  assumes "get (operations s) i = Some op" and "op_State op \<in> {OperationVerifying, OperationRollingBack, OperationCancelRequested}"
    and "\<not> after (op_LeaseExpiresAt op) at" and "TrimSpace worker \<noteq> ''''" and "0 < ttl"
  shows "(\<exists>r. fst (ClaimOperation e i worker ttl at s) = Inr r) \<and>
    (\<forall>kind targetPrefix at' limit page.
       ListClaimableOperationsByKind kind at' limit s = Inr page \<or>
       ListClaimableOperationsByKindTargetPrefix kind targetPrefix at' limit s = Inr page \<or>
       ListUnknownRecoveryOperationsByKindTargetPrefix kind targetPrefix limit s = Inr page \<longrightarrow> op \<notin> set page)"
proof -
  have "\<exists>r. fst (ClaimOperation e i worker ttl at s) = Inr r"
    using assms(2,3) unfolding claim_iff [OF assms(1,4,5)] by (auto simp: claimable_state_def)
  moreover have "\<not> queue_eligible at' op" "op_State op \<noteq> OperationFailed" for at' using assms(2) by (auto simp: queue_eligible_def)
  ultimately show ?thesis
    by (auto simp: ListClaimableOperationsByKind_def ListClaimableOperationsByKindTargetPrefix_def
        ListUnknownRecoveryOperationsByKindTargetPrefix_def Let_def split: if_split_asm dest!: set_cut)
qed

section \<open>A concrete queue\<close>

definition demo_verifying :: "request list" where
  "demo_verifying = demo_claimed @ [RStart (''opx'', 4, ''w1'', 1, ''w1''), RVerify (''opx'', 5, ''w1'', 1, ''w1'')]"

definition queue_check :: bool where
  "queue_check =
     (case (demo_run 0 demo_queued demo0, demo_run 0 demo_verifying demo0) of
        (Some s, Some t) \<Rightarrow>
          (case (ListClaimableOperationsByKind ''cluster.apply'' (5 * Second) 10 s, get (operations t) ''opx'') of
             (Inr [op], Some op') \<Rightarrow> ID op = ''opx'' \<and> op_LeaseExpiresAt op = None \<and>
               op_State op' = OperationVerifying \<and> \<not> after (op_LeaseExpiresAt op') (60 * Second)
           | _ \<Rightarrow> False) \<and>
          map ID (ListOperationsPageByProjects ['' prj ''] 10 s) = [''opx'']
      | _ \<Rightarrow> False)"

lemma queue_eval: queue_check
  by code_simp

lemma queue_facts:
  "demo_run 0 demo_verifying demo0 \<noteq> None"
  "\<exists>op. ListClaimableOperationsByKind ''cluster.apply'' (5 * Second) 10 (demo_state demo_queued) = Inr [op] \<and>
     ID op = ''opx'' \<and> op_LeaseExpiresAt op = None"
  "\<exists>op. get (operations (demo_state demo_verifying)) ''opx'' = Some op \<and> op_State op = OperationVerifying \<and>
     \<not> after (op_LeaseExpiresAt op) (60 * Second)"
  "map ID (ListOperationsPageByProjects ['' prj ''] 10 (demo_state demo_queued)) = [''opx'']"
  using queue_eval unfolding queue_check_def demo_state_def
  by (auto split: option.split_asm sum.split_asm list.split_asm)

lemma trim_w2: "TrimSpace ''w2'' = ''w2''"
  by code_simp

theorem queue_offers_claimable_work_witness:
  "\<exists>r. fst (ClaimOperation (demo_env 9) ''opx'' ''w2'' (10 * Second) (5 * Second) (demo_state demo_queued)) = Inr r"
proof -
  obtain op where op: "ListClaimableOperationsByKind ''cluster.apply'' (5 * Second) 10 (demo_state demo_queued) = Inr [op]"
    "ID op = ''opx''" "op_LeaseExpiresAt op = None" using queue_facts(2) by blast
  from queue_offers_claimable_work [OF demo_state_reachable [OF demo_queued_ok] op(1), of "''w2''" "10 * Second" "demo_env 9"]
  show ?thesis using op(2,3) by (simp add: trim_w2 Second_def)
qed

theorem abandoned_work_is_not_queued_witness:
  "\<exists>op. get (operations (demo_state demo_verifying)) ''opx'' = Some op \<and>
     (\<forall>page. ListClaimableOperationsByKind ''cluster.apply'' (60 * Second) 10 (demo_state demo_verifying) = Inr page \<longrightarrow> op \<notin> set page) \<and>
     (\<exists>r. fst (ClaimOperation (demo_env 9) ''opx'' ''w2'' (10 * Second) (60 * Second) (demo_state demo_verifying)) = Inr r)"
proof -
  obtain op where op: "get (operations (demo_state demo_verifying)) ''opx'' = Some op" "op_State op = OperationVerifying"
    "\<not> after (op_LeaseExpiresAt op) (60 * Second)" using queue_facts(3) by blast
  from abandoned_work_is_not_queued [OF op(1) _ op(3), of "''w2''" "10 * Second" "demo_env 9"] op(1,2) show ?thesis
    by (simp add: trim_w2 Second_def)
qed

text \<open>A tenant next door: another project is made, and an operation in it.\<close>

definition next_door :: MemoryStore where
  "next_door = (demo_state demo_queued)\<lparr>projects := [(''prj'', demo_project), (''p2'', demo_project\<lparr>ID := ''p2''\<rparr>)]\<rparr>"

definition neighbour :: MemoryStore where
  "neighbour = snd (exec (demo_env 9) (RCreate (demo_request\<lparr>req_ProjectID := ''p2''\<rparr>, ''key'', ''bob'', ''req'')) next_door)"

definition neighbour_check :: bool where
  "neighbour_check = (demo_fresh 9 next_door \<and> length (operations neighbour) = 2 \<and>
     evidence neighbour = [] \<and> evidence (demo_state demo_queued) = [] \<and>
     filter (\<lambda>(k, op). op_ProjectID op = ''prj'') (operations neighbour) =
     filter (\<lambda>(k, op). op_ProjectID op = ''prj'') (operations (demo_state demo_queued)))"

lemma neighbour_eval: neighbour_check
  by code_simp

lemma neighbour_reachable: "reachable demo_hash neighbour"
proof -
  have "authority_step demo_hash (demo_state demo_queued) next_door"
    by (rule authority_step.other) (simp add: same_authority_def next_door_def audit_extends_def)
  then have "reachable demo_hash next_door" using reachable_runs [OF demo_state_reachable [OF demo_queued_ok]] by blast
  then show ?thesis using neighbour_eval demo_fresh_ids unfolding neighbour_def neighbour_check_def
    by (intro reachable_exec) simp_all
qed


end
