(* ===== verification/Tenancy.thy ===== *)
theory Tenancy
  imports Lookup
begin

text \<open>
  Organizations, projects and organization memberships of
  \<open>internal/controlplane/memory_store.go\<close>, with the invariant of the three tables and what
  revoking and granting a membership does to the administrators of an organization.
\<close>

section \<open>Organizations\<close>

definition grantMembership ::
  "env \<Rightarrow> nat \<Rightarrow> string \<Rightarrow> OrganizationMembership \<Rightarrow> string \<Rightarrow> MemoryStore \<Rightarrow> MemoryStore" where
  "grantMembership e k i m actor s =
     (let s = s\<lparr>organizationMemberships := put i m (organizationMemberships s)\<rparr>;
          s = appendAuditLocked e k actor ''organization_membership.granted'' ''organizationMembership'' i
                (Revision m)
                [(''organizationId'', MStr (mem_OrganizationID m)), (''subject'', MStr (mem_Subject m)),
                 (''role'', MNamed (OrganizationMembershipRole_str (mem_Role m)))] s
      in appendOutboxLocked e (Suc k) ''organizationMembership'' i ''organization_membership.granted''
           (VMembership m) s)"

definition CreateOrganization :: "env \<Rightarrow> Organization \<Rightarrow> string \<Rightarrow> MemoryStore \<Rightarrow> Organization call" where
  "CreateOrganization e org actor s =
     (if normalizeName (org_Name org) = '''' \<or> TrimSpace (org_DisplayName org) = ''''
      then (Inl ErrValidation, s)
      else if \<exists>existing \<in> set (vals (organizations s)).
          normalizeName (org_Name existing) = normalizeName (org_Name org)
      then (Inl ErrDuplicateName, s)
      else
        let now = nowUTC e 0;
            org = stamp (newid e 0 ''org'') now org;
            org = org\<lparr>org_Name := normalizeName (org_Name org)\<rparr>;
            s = s\<lparr>organizations := put (ID org) org (organizations s)\<rparr>;
            s = (if TrimSpace actor = '''' then s
                 else
                   let m = \<lparr>ID = newid e 1 ''mem'', Revision = 1, CreatedAt = now, UpdatedAt = now,
                            mem_OrganizationID = ID org, mem_Subject = TrimSpace actor,
                            mem_Role = OrganizationAdmin, mem_State = OrganizationMembershipActive,
                            mem_GrantedBy = TrimSpace actor, mem_RevokedBy = '''', mem_RevokedAt = None\<rparr>
                   in grantMembership e 2 (ID m) m actor s);
            s = appendAuditLocked e 4 actor ''organization.created'' ''organization'' (ID org) (Revision org) [] s
        in (Inr org, appendOutboxLocked e 5 ''organization'' (ID org) ''organization.created'' (VOrganization org) s))"

definition UpdateOrganization ::
  "env \<Rightarrow> string \<Rightarrow> int \<Rightarrow> string \<Rightarrow> string \<Rightarrow> string \<Rightarrow> MemoryStore \<Rightarrow> Organization call" where
  "UpdateOrganization e i expected displayName name actor s =
     (case get (organizations s) i of
        None \<Rightarrow> (Inl ErrNotFound, s)
      | Some org \<Rightarrow>
          let nn = normalizeName name in
          if Revision org \<noteq> expected then (Inl ErrConflict, s)
          else if name \<noteq> '''' \<and> nn = '''' then (Inl ErrValidation, s)
          else if name \<noteq> '''' \<and>
            (\<exists>(oid, o1) \<in> set (organizations s). oid \<noteq> i \<and> normalizeName (org_Name o1) = nn)
          then (Inl ErrDuplicateName, s)
          else
            let org = (if name \<noteq> '''' then org\<lparr>org_Name := nn\<rparr> else org);
                org = (if displayName \<noteq> '''' then org\<lparr>org_DisplayName := TrimSpace displayName\<rparr> else org);
                org = touch (nowUTC e 0) org;
                s = s\<lparr>organizations := put i org (organizations s)\<rparr>;
                s = appendAuditLocked e 1 actor ''organization.updated'' ''organization'' i (Revision org) [] s
            in (Inr org, appendOutboxLocked e 2 ''organization'' i ''organization.updated'' (VOrganization org) s))"

definition GetOrganization :: "string \<Rightarrow> MemoryStore \<Rightarrow> Organization res" where
  "GetOrganization i s = (case get (organizations s) i of None \<Rightarrow> Inl ErrNotFound | Some v \<Rightarrow> Inr v)"

definition ListOrganizations :: "MemoryStore \<Rightarrow> Organization list" where
  "ListOrganizations s = sort_by (less_on org_Name) (vals (organizations s))"

section \<open>Projects\<close>

definition CreateProject :: "env \<Rightarrow> Project \<Rightarrow> string \<Rightarrow> MemoryStore \<Rightarrow> Project call" where
  "CreateProject e p actor s =
     (if get (organizations s) (prj_OrganizationID p) = None then (Inl ErrNotFound, s)
      else if normalizeName (prj_Name p) = '''' \<or> TrimSpace (prj_DisplayName p) = ''''
      then (Inl ErrValidation, s)
      else if \<exists>x \<in> set (vals (projects s)). prj_OrganizationID x = prj_OrganizationID p \<and>
          normalizeName (prj_Name x) = normalizeName (prj_Name p)
      then (Inl ErrDuplicateName, s)
      else
        let p = stamp (newid e 0 ''prj'') (nowUTC e 0) p;
            p = p\<lparr>prj_Name := normalizeName (prj_Name p)\<rparr>;
            s = s\<lparr>projects := put (ID p) p (projects s)\<rparr>;
            s = appendAuditLocked e 1 actor ''project.created'' ''project'' (ID p) (Revision p)
                  [(''organizationId'', MStr (prj_OrganizationID p))] s
        in (Inr p, appendOutboxLocked e 2 ''project'' (ID p) ''project.created'' (VProject p) s))"

definition GetProject :: "string \<Rightarrow> MemoryStore \<Rightarrow> Project res" where
  "GetProject i s = (case get (projects s) i of None \<Rightarrow> Inl ErrNotFound | Some v \<Rightarrow> Inr v)"

definition ListProjects :: "string \<Rightarrow> MemoryStore \<Rightarrow> Project list" where
  "ListProjects orgID s =
     sort_by (less_on2 prj_OrganizationID prj_Name)
       (filter (\<lambda>v. orgID = '''' \<or> prj_OrganizationID v = orgID) (vals (projects s)))"

section \<open>Memberships\<close>

fun validOrganizationMembershipRole :: "OrganizationMembershipRole \<Rightarrow> bool" where
  "validOrganizationMembershipRole OrganizationAdmin = True"
| "validOrganizationMembershipRole OrganizationOperator = True"
| "validOrganizationMembershipRole OrganizationViewer = True"
| "validOrganizationMembershipRole (OrganizationRoleOther x) = False"

text \<open>The search loops: the first entry of an organization and a subject.\<close>

definition membership_of :: "string \<Rightarrow> string \<Rightarrow> MemoryStore \<Rightarrow> (string \<times> OrganizationMembership) option" where
  "membership_of organizationID subject s =
     List.find (\<lambda>(i, m). mem_OrganizationID m = organizationID \<and> mem_Subject m = subject)
       (organizationMemberships s)"

definition UpsertOrganizationMembership ::
  "env \<Rightarrow> OrganizationMembership \<Rightarrow> int \<Rightarrow> string \<Rightarrow> MemoryStore \<Rightarrow> OrganizationMembership call" where
  "UpsertOrganizationMembership e m expected actor s =
     (let m = m\<lparr>mem_OrganizationID := TrimSpace (mem_OrganizationID m), mem_Subject := TrimSpace (mem_Subject m)\<rparr>;
          now = nowUTC e 0 in
      if get (organizations s) (mem_OrganizationID m) = None then (Inl ErrNotFound, s)
      else if mem_Subject m = '''' \<or> \<not> validOrganizationMembershipRole (mem_Role m) then (Inl ErrValidation, s)
      else (case membership_of (mem_OrganizationID m) (mem_Subject m) s of
          Some (i, existing) \<Rightarrow>
            if expected \<le> 0 \<or> Revision existing \<noteq> expected then (Inl ErrConflict, s)
            else
              let existing = touch now (existing\<lparr>mem_Role := mem_Role m,
                    mem_State := OrganizationMembershipActive, mem_GrantedBy := TrimSpace actor,
                    mem_RevokedAt := None, mem_RevokedBy := ''''\<rparr>)
              in (Inr existing, grantMembership e 1 i existing actor s)
        | None \<Rightarrow>
            if expected \<noteq> 0 then (Inl ErrConflict, s)
            else
              let m = (stamp (newid e 1 ''mem'') now m)\<lparr>mem_State := OrganizationMembershipActive,
                    mem_GrantedBy := TrimSpace actor, mem_RevokedAt := None, mem_RevokedBy := ''''\<rparr>
              in (Inr m, grantMembership e 2 (ID m) m actor s)))"

definition GetOrganizationMembership ::
  "string \<Rightarrow> string \<Rightarrow> MemoryStore \<Rightarrow> OrganizationMembership res" where
  "GetOrganizationMembership organizationID subject s =
     (case membership_of (TrimSpace organizationID) (TrimSpace subject) s of
        None \<Rightarrow> Inl ErrNotFound
      | Some (i, m) \<Rightarrow> Inr m)"

definition ListOrganizationMemberships :: "string \<Rightarrow> MemoryStore \<Rightarrow> OrganizationMembership list" where
  "ListOrganizationMemberships organizationID s =
     (let organizationID = TrimSpace organizationID in
      sort_by (less_on2 mem_OrganizationID mem_Subject)
        (filter (\<lambda>m. organizationID = '''' \<or> mem_OrganizationID m = organizationID)
          (vals (organizationMemberships s))))"

definition ListSubjectOrganizationMemberships :: "string \<Rightarrow> MemoryStore \<Rightarrow> OrganizationMembership list" where
  "ListSubjectOrganizationMemberships subject s =
     sort_by (less_on mem_OrganizationID)
       (filter (\<lambda>m. mem_Subject m = TrimSpace subject \<and> mem_State m = OrganizationMembershipActive)
         (vals (organizationMemberships s)))"

definition active_admin :: "string \<Rightarrow> OrganizationMembership \<Rightarrow> bool" where
  "active_admin organizationID m =
     (mem_OrganizationID m = organizationID \<and> mem_State m = OrganizationMembershipActive \<and>
      mem_Role m = OrganizationAdmin)"

definition RevokeOrganizationMembership ::
  "env \<Rightarrow> string \<Rightarrow> string \<Rightarrow> int \<Rightarrow> string \<Rightarrow> MemoryStore \<Rightarrow> OrganizationMembership call" where
  "RevokeOrganizationMembership e organizationID subject expected actor s =
     (let organizationID = TrimSpace organizationID; subject = TrimSpace subject in
      case membership_of organizationID subject s of
        None \<Rightarrow> (Inl ErrNotFound, s)
      | Some (i, current) \<Rightarrow>
          if i = '''' then (Inl ErrNotFound, s)
          else if Revision current \<noteq> expected then (Inl ErrConflict, s)
          else if mem_State current = OrganizationMembershipRevoked then (Inr current, s)
          else if mem_Role current = OrganizationAdmin \<and>
            length (filter (active_admin organizationID) (vals (organizationMemberships s))) \<le> 1
          then (Inl ErrValidation, s)
          else
            let now = nowUTC e 0;
                current = touch now (current\<lparr>mem_State := OrganizationMembershipRevoked,
                  mem_RevokedBy := TrimSpace actor, mem_RevokedAt := Some now\<rparr>);
                s = s\<lparr>organizationMemberships := put i current (organizationMemberships s)\<rparr>;
                s = appendAuditLocked e 1 actor ''organization_membership.revoked'' ''organizationMembership'' i
                      (Revision current)
                      [(''organizationId'', MStr organizationID), (''subject'', MStr subject)] s
            in (Inr current, appendOutboxLocked e 2 ''organizationMembership'' i
                  ''organization_membership.revoked'' (VMembership current) s))"

section \<open>The invariant of the three tables\<close>

definition organizations_ok :: "Organization table \<Rightarrow> bool" where
  "organizations_ok t =
     (well_keyed t \<and> unique_by org_Name t \<and>
      (\<forall>i v. get t i = Some v \<longrightarrow> ID v = i \<and> org_Name v \<noteq> '''' \<and> normalizeName (org_Name v) = org_Name v))"

definition projects_ok :: "Organization table \<Rightarrow> Project table \<Rightarrow> bool" where
  "projects_ok orgs t =
     (well_keyed t \<and> unique_by (\<lambda>v. (prj_OrganizationID v, prj_Name v)) t \<and>
      (\<forall>i v. get t i = Some v \<longrightarrow> ID v = i \<and> prj_Name v \<noteq> '''' \<and> normalizeName (prj_Name v) = prj_Name v \<and>
        get orgs (prj_OrganizationID v) \<noteq> None))"

definition memberships_ok :: "Organization table \<Rightarrow> OrganizationMembership table \<Rightarrow> bool" where
  "memberships_ok orgs t =
     (well_keyed t \<and> unique_by (\<lambda>v. (mem_OrganizationID v, mem_Subject v)) t \<and>
      (\<forall>i v. get t i = Some v \<longrightarrow> ID v = i \<and> mem_Subject v \<noteq> '''' \<and> TrimSpace (mem_Subject v) = mem_Subject v \<and>
        validOrganizationMembershipRole (mem_Role v) \<and>
        (mem_State v = OrganizationMembershipRevoked \<longleftrightarrow> mem_RevokedAt v \<noteq> None) \<and>
        get orgs (mem_OrganizationID v) \<noteq> None))"

definition tenancy_ok :: "MemoryStore \<Rightarrow> bool" where
  "tenancy_ok s = (organizations_ok (organizations s) \<and> projects_ok (organizations s) (projects s) \<and>
     memberships_ok (organizations s) (organizationMemberships s))"

lemmas tenancy_defs = tenancy_ok_def organizations_ok_def projects_ok_def memberships_ok_def

text \<open>The identifiers a call draws are not in use.\<close>

definition fresh_tenancy_ids :: "env \<Rightarrow> MemoryStore \<Rightarrow> bool" where
  "fresh_tenancy_ids e s = (\<forall>k. get (organizations s) (newid e k ''org'') = None \<and>
     get (projects s) (newid e k ''prj'') = None \<and> get (organizationMemberships s) (newid e k ''mem'') = None)"

lemma grantMembership_frame [simp]:
  "organizations (grantMembership e k i m actor s) = organizations s"
  "projects (grantMembership e k i m actor s) = projects s"
  "organizationMemberships (grantMembership e k i m actor s) = put i m (organizationMemberships s)"
  by (simp_all add: grantMembership_def Let_def)

text \<open>A table entry written under its own identifier.\<close>

lemma organizations_ok_put:
  assumes "organizations_ok t" and "ID v = i" and "org_Name v \<noteq> ''''" and "normalizeName (org_Name v) = org_Name v"
    and "\<And>k w. get t k = Some w \<Longrightarrow> k \<noteq> i \<Longrightarrow> org_Name w \<noteq> org_Name v"
  shows "organizations_ok (put i v t)"
  using assms by (auto simp: organizations_ok_def intro!: unique_by_put)

lemma projects_ok_put:
  assumes "projects_ok orgs t" and "ID v = i" and "prj_Name v \<noteq> ''''" and "normalizeName (prj_Name v) = prj_Name v"
    and "get orgs (prj_OrganizationID v) \<noteq> None"
    and "\<And>k w. get t k = Some w \<Longrightarrow> k \<noteq> i \<Longrightarrow> prj_OrganizationID w = prj_OrganizationID v \<Longrightarrow> prj_Name w \<noteq> prj_Name v"
  shows "projects_ok orgs (put i v t)"
  using assms by (auto simp: projects_ok_def intro!: unique_by_put)

lemma memberships_ok_put:
  assumes "memberships_ok orgs t" and "ID v = i" and "mem_Subject v \<noteq> ''''" and "TrimSpace (mem_Subject v) = mem_Subject v"
    and "validOrganizationMembershipRole (mem_Role v)"
    and "mem_State v = OrganizationMembershipRevoked \<longleftrightarrow> mem_RevokedAt v \<noteq> None"
    and "get orgs (mem_OrganizationID v) \<noteq> None"
    and "\<And>k w. get t k = Some w \<Longrightarrow> k \<noteq> i \<Longrightarrow> mem_OrganizationID w = mem_OrganizationID v \<Longrightarrow> mem_Subject w \<noteq> mem_Subject v"
  shows "memberships_ok orgs (put i v t)"
  using assms by (auto simp: memberships_ok_def intro!: unique_by_put)

lemma more_organizations:
  "projects_ok orgs t \<Longrightarrow> projects_ok (put i v orgs) t"
  "memberships_ok orgs m \<Longrightarrow> memberships_ok (put i v orgs) m"
  by (auto simp: projects_ok_def memberships_ok_def)

lemma membership_of_Some:
  assumes "membership_of o1 sub s = Some (i, m)" and "memberships_ok orgs (organizationMemberships s)"
  shows "get (organizationMemberships s) i = Some m \<and> mem_OrganizationID m = o1 \<and> mem_Subject m = sub"
  using find_entry_Some [of "\<lambda>i m. mem_OrganizationID m = o1 \<and> mem_Subject m = sub" "organizationMemberships s" i m]
    assms by (simp add: membership_of_def memberships_ok_def)

lemma membership_of_None:
  assumes "membership_of o1 sub s = None" and "get (organizationMemberships s) i = Some m"
  shows "mem_OrganizationID m = o1 \<Longrightarrow> mem_Subject m \<noteq> sub"
  using find_entry_None [of "\<lambda>i m. mem_OrganizationID m = o1 \<and> mem_Subject m = sub" "organizationMemberships s" i m]
    assms by (auto simp: membership_of_def)

lemma new_name:
  assumes "organizations_ok t" and "\<not> (\<exists>v \<in> set (vals t). normalizeName (org_Name v) = n)" and "get t k = Some w"
  shows "org_Name w \<noteq> n"
  using assms get_vals by (fastforce simp: organizations_ok_def)

lemma new_project_name:
  assumes "projects_ok orgs t" and "get t k = Some w"
    and "\<not> (\<exists>v \<in> set (vals t). prj_OrganizationID v = o1 \<and> normalizeName (prj_Name v) = n)"
  shows "prj_OrganizationID w = o1 \<Longrightarrow> prj_Name w \<noteq> n"
  using assms get_vals by (fastforce simp: projects_ok_def)

lemma CreateOrganization_ok:
  assumes "tenancy_ok s" and "fresh_tenancy_ids e s"
  shows "tenancy_ok (snd (CreateOrganization e org actor s))"
proof (cases "normalizeName (org_Name org) = '''' \<or> TrimSpace (org_DisplayName org) = '''' \<or>
    (\<exists>v \<in> set (vals (organizations s)). normalizeName (org_Name v) = normalizeName (org_Name org))")
  case True
  then show ?thesis using assms(1) by (auto simp: CreateOrganization_def)
next
  case False
  let ?org = "(stamp (newid e 0 ''org'') (nowUTC e 0) org)\<lparr>org_Name := normalizeName (org_Name org)\<rparr>"
  have ok: "organizations_ok (organizations s)" "projects_ok (organizations s) (projects s)"
    "memberships_ok (organizations s) (organizationMemberships s)"
    using assms(1) by (simp_all add: tenancy_ok_def)
  have "organizations_ok (put (newid e 0 ''org'') ?org (organizations s))"
    using ok(1) False new_name [OF ok(1)] by (intro organizations_ok_put) (auto simp: stamp_def)
  moreover have "get (organizationMemberships s) k = Some w \<Longrightarrow> mem_OrganizationID w \<noteq> newid e 0 ''org''" for k w
    using ok(3) assms(2) by (force simp: memberships_ok_def fresh_tenancy_ids_def)
  ultimately show ?thesis
    using False ok more_organizations
    by (auto simp: CreateOrganization_def Let_def tenancy_ok_def stamp_def intro!: memberships_ok_put)
qed

lemma UpdateOrganization_ok:
  assumes "tenancy_ok s"
  shows "tenancy_ok (snd (UpdateOrganization e i expected displayName name actor s))"
proof (cases "get (organizations s) i")
  case (Some org)
  have ok: "organizations_ok (organizations s)" "projects_ok (organizations s) (projects s)"
    "memberships_ok (organizations s) (organizationMemberships s)"
    using assms(1) by (simp_all add: tenancy_ok_def)
  have "organizations_ok (put i v (organizations s))"
    if v: "ID v = ID org" "org_Name v = org_Name org \<or>
      (org_Name v = normalizeName name \<and> normalizeName name \<noteq> '''' \<and>
        (\<forall>x \<in> set (organizations s). \<not> (case x of (k, o1) \<Rightarrow> k \<noteq> i \<and> normalizeName (org_Name o1) = normalizeName name)))" for v
  proof (rule organizations_ok_put [OF ok(1)])
    fix k w assume w: "get (organizations s) k = Some w" "k \<noteq> i"
    then have "normalizeName (org_Name w) = org_Name w" "org_Name w \<noteq> org_Name org"
      using ok(1) Some by (auto simp: organizations_ok_def dest: unique_by_D)
    then show "org_Name w \<noteq> org_Name v"
      using v(2) get_mem [OF w(1)] w(2) by force
  qed (use v ok(1) Some in \<open>auto simp: organizations_ok_def\<close>)
  then show ?thesis
    using Some ok more_organizations
    by (auto simp: UpdateOrganization_def Let_def tenancy_ok_def touch_def)
qed (use assms in \<open>simp add: UpdateOrganization_def\<close>)

lemma CreateProject_ok:
  assumes "tenancy_ok s"
  shows "tenancy_ok (snd (CreateProject e p actor s))"
proof -
  have ok: "organizations_ok (organizations s)" "projects_ok (organizations s) (projects s)"
    "memberships_ok (organizations s) (organizationMemberships s)"
    using assms(1) by (simp_all add: tenancy_ok_def)
  then show ?thesis
    using new_project_name [OF ok(2)]
    by (auto simp: CreateProject_def Let_def tenancy_ok_def stamp_def intro!: projects_ok_put)
qed

lemma UpsertOrganizationMembership_ok:
  assumes "tenancy_ok s"
  shows "tenancy_ok (snd (UpsertOrganizationMembership e m expected actor s))"
proof -
  have ok: "organizations_ok (organizations s)" "projects_ok (organizations s) (projects s)"
    "memberships_ok (organizations s) (organizationMemberships s)"
    using assms(1) by (simp_all add: tenancy_ok_def)
  show ?thesis
  proof (cases "membership_of (TrimSpace (mem_OrganizationID m)) (TrimSpace (mem_Subject m)) s")
    case None
    then show ?thesis
      using ok membership_of_None [OF None]
      by (auto simp: UpsertOrganizationMembership_def Let_def tenancy_ok_def stamp_def intro!: memberships_ok_put)
  next
    case (Some x)
    obtain i old where x: "x = (i, old)" by force
    have old: "get (organizationMemberships s) i = Some old" using membership_of_Some [OF Some [unfolded x] ok(3)] by simp
    have "memberships_ok (organizations s) (put i v (organizationMemberships s))"
      if "ID v = ID old" "mem_OrganizationID v = mem_OrganizationID old" "mem_Subject v = mem_Subject old"
        "validOrganizationMembershipRole (mem_Role v)" "mem_State v = OrganizationMembershipActive" "mem_RevokedAt v = None" for v
      using that ok(3) old by (intro memberships_ok_put) (auto simp: memberships_ok_def dest: unique_by_D)
    then show ?thesis
      using ok Some x by (auto simp: UpsertOrganizationMembership_def Let_def tenancy_ok_def touch_def)
  qed
qed

lemma RevokeOrganizationMembership_ok:
  assumes "tenancy_ok s"
  shows "tenancy_ok (snd (RevokeOrganizationMembership e o1 sub expected actor s))"
proof (cases "membership_of (TrimSpace o1) (TrimSpace sub) s")
  case (Some x)
  obtain i old where x: "x = (i, old)" by force
  have ok: "organizations_ok (organizations s)" "projects_ok (organizations s) (projects s)"
    "memberships_ok (organizations s) (organizationMemberships s)"
    using assms(1) by (simp_all add: tenancy_ok_def)
  have old: "get (organizationMemberships s) i = Some old" using membership_of_Some [OF Some [unfolded x] ok(3)] by simp
  have "memberships_ok (organizations s) (put i v (organizationMemberships s))"
    if "ID v = ID old" "mem_OrganizationID v = mem_OrganizationID old" "mem_Subject v = mem_Subject old"
      "mem_Role v = mem_Role old" "mem_State v = OrganizationMembershipRevoked" "mem_RevokedAt v = Some t" for v t
    using that ok(3) old by (intro memberships_ok_put) (auto simp: memberships_ok_def dest: unique_by_D)
  then show ?thesis
    using ok Some x by (auto simp: RevokeOrganizationMembership_def Let_def tenancy_ok_def touch_def)
qed (use assms in \<open>simp add: RevokeOrganizationMembership_def Let_def\<close>)

section \<open>Runs\<close>

text \<open>
  A step is one of the five calls that write the three tables, with identifiers that are not in
  use, or any other call, which leaves the tables alone.
\<close>

inductive tenancy_step :: "MemoryStore \<Rightarrow> MemoryStore \<Rightarrow> bool" where
  create_org: "fresh_tenancy_ids e s \<Longrightarrow> tenancy_step s (snd (CreateOrganization e org actor s))"
| update_org: "tenancy_step s (snd (UpdateOrganization e i expected displayName name actor s))"
| create_project: "tenancy_step s (snd (CreateProject e p actor s))"
| upsert: "tenancy_step s (snd (UpsertOrganizationMembership e m expected actor s))"
| revoke: "tenancy_step s (snd (RevokeOrganizationMembership e o1 sub expected actor s))"
| other: "organizations s' = organizations s \<Longrightarrow> projects s' = projects s \<Longrightarrow>
    organizationMemberships s' = organizationMemberships s \<Longrightarrow> tenancy_step s s'"

lemma tenancy_step_ok: "tenancy_step s s' \<Longrightarrow> tenancy_ok s \<Longrightarrow> tenancy_ok s'"
  by (induction rule: tenancy_step.induct)
    (simp_all add: CreateOrganization_ok UpdateOrganization_ok CreateProject_ok UpsertOrganizationMembership_ok
      RevokeOrganizationMembership_ok, simp add: tenancy_ok_def)

lemma tenancy_steps_ok: "tenancy_step\<^sup>*\<^sup>* s s' \<Longrightarrow> tenancy_ok s \<Longrightarrow> tenancy_ok s'"
  by (induction rule: rtranclp_induct) (auto intro: tenancy_step_ok)

lemma tenancy_ok_init: "tenancy_ok NewMemoryStoreWith"
  by (simp add: tenancy_defs NewMemoryStoreWith_def)

text \<open>
  C19: Tenancy. In every store the calls can lead to, no two organizations have the same name and
  no two projects of an organization have the same name, in any capitalisation or padding; a
  subject has at most one membership in an organization; projects and memberships belong to an
  organization that exists; every membership has one of the three roles and a revocation time
  exactly when it is revoked.
\<close>
theorem tenancy_invariant:
  assumes "tenancy_step\<^sup>*\<^sup>* NewMemoryStoreWith s"
  shows "(\<forall>i j v w. get (organizations s) i = Some v \<longrightarrow> get (organizations s) j = Some w \<longrightarrow>
        normalizeName (org_Name v) = normalizeName (org_Name w) \<longrightarrow> i = j) \<and>
    (\<forall>i j v w. get (projects s) i = Some v \<longrightarrow> get (projects s) j = Some w \<longrightarrow>
        prj_OrganizationID v = prj_OrganizationID w \<longrightarrow> normalizeName (prj_Name v) = normalizeName (prj_Name w) \<longrightarrow> i = j) \<and>
    (\<forall>i j v w. get (organizationMemberships s) i = Some v \<longrightarrow> get (organizationMemberships s) j = Some w \<longrightarrow>
        mem_OrganizationID v = mem_OrganizationID w \<longrightarrow> mem_Subject v = mem_Subject w \<longrightarrow> i = j) \<and>
    (\<forall>i v. get (projects s) i = Some v \<longrightarrow> get (organizations s) (prj_OrganizationID v) \<noteq> None) \<and>
    (\<forall>i v. get (organizationMemberships s) i = Some v \<longrightarrow>
        get (organizations s) (mem_OrganizationID v) \<noteq> None \<and> validOrganizationMembershipRole (mem_Role v) \<and>
        (mem_State v = OrganizationMembershipRevoked \<longleftrightarrow> mem_RevokedAt v \<noteq> None))"
proof -
  have "tenancy_ok s" using tenancy_steps_ok [OF assms tenancy_ok_init] .
  then show ?thesis
    by (intro conjI allI impI) (auto simp: tenancy_defs dest: unique_by_D)
qed

section \<open>A concrete organization\<close>

definition demo_tenancy_env :: "nat \<Rightarrow> env" where
  "demo_tenancy_env n = \<lparr>clock = (\<lambda>k. int n * Second), newid = (\<lambda>k p. p @ itoa (int n)),
     sha256hex = (\<lambda>x. x), marshal = (\<lambda>v. []), ed25519_Verify = (\<lambda>k m sig. False)\<rparr>"

definition acme :: Organization where
  "acme = \<lparr>ID = '''', Revision = 0, CreatedAt = 0, UpdatedAt = 0, org_Name = '' Acme'', org_DisplayName = ''Acme''\<rparr>"

definition tenancy_demo :: MemoryStore where
  "tenancy_demo = snd (CreateOrganization (demo_tenancy_env 1) acme ''alice'' NewMemoryStoreWith)"

lemma tenancy_demo_reachable: "tenancy_step\<^sup>*\<^sup>* NewMemoryStoreWith tenancy_demo"
  unfolding tenancy_demo_def
  by (rule r_into_rtranclp, rule tenancy_step.create_org) (simp add: fresh_tenancy_ids_def NewMemoryStoreWith_def)

text \<open>The membership \<open>alice\<close> got by creating the organization.\<close>

definition alice_membership :: OrganizationMembership where
  "alice_membership = snd (hd (organizationMemberships tenancy_demo))"

lemma tenancy_demo_eval:
  "get (organizationMemberships tenancy_demo) ''mem1'' = Some alice_membership"
  "active_admin ''org1'' alice_membership" "Revision alice_membership = 1" "mem_OrganizationID alice_membership = ''org1''"
  "map fst (organizationMemberships tenancy_demo) = [''mem1'']" "TrimSpace ''org1'' = ''org1''"
  by (code_simp)+

theorem tenancy_invariant_witness:
  "get (organizations tenancy_demo) ''org1'' \<noteq> None \<and>
   validOrganizationMembershipRole (mem_Role alice_membership) \<and> mem_RevokedAt alice_membership = None"
  using tenancy_invariant [OF tenancy_demo_reachable] tenancy_demo_eval
  by (metis OrganizationMembershipState.distinct(1) active_admin_def)

section \<open>Administrators\<close>

lemma two_entries:
  assumes "well_keyed t" and "1 < length (filter P (vals t))"
  shows "\<exists>k v. k \<noteq> i \<and> get t k = Some v \<and> P v"
proof (rule ccontr)
  assume no: "\<not> ?thesis"
  let ?es = "filter (\<lambda>(k, v). P v) t"
  have "set (map fst ?es) \<subseteq> {i}"
    using no assms(1) by (auto simp: well_keyed_get)
  moreover have "distinct (map fst ?es)"
    using assms(1) by (simp add: well_keyed_def distinct_map_filter)
  ultimately have "length (map fst ?es) \<le> 1"
    by (metis card.empty card_insert_le_m1 card_mono distinct_card finite.emptyI finite_insert is_singletonI is_singleton_altdef)
  moreover have "length (filter P (vals t)) = length ?es"
    by (induction t) (auto simp: vals_def)
  ultimately show False using assms(2) by simp
qed

text \<open>
  C20: Revoking a membership never takes the last administrator: an organization that has an active
  organization-admin before the call has one after it, whoever is revoked.
\<close>
theorem revoke_keeps_an_admin:
  assumes "tenancy_step\<^sup>*\<^sup>* NewMemoryStoreWith s"
    and "get (organizationMemberships s) k = Some m" and "active_admin org m"
  shows "\<exists>k' m'. get (organizationMemberships (snd (RevokeOrganizationMembership e o1 sub expected actor s))) k' = Some m' \<and>
    active_admin org m'"
proof -
  have ok: "memberships_ok (organizations s) (organizationMemberships s)"
    using tenancy_steps_ok [OF assms(1) tenancy_ok_init] by (simp add: tenancy_ok_def)
  show ?thesis
  proof (cases "membership_of (TrimSpace o1) (TrimSpace sub) s")
    case None
    then show ?thesis using assms(2,3) by (auto simp: RevokeOrganizationMembership_def Let_def)
  next
    case (Some x)
    obtain i old where x: "x = (i, old)" by force
    have old: "get (organizationMemberships s) i = Some old" "mem_OrganizationID old = TrimSpace o1"
      using membership_of_Some [OF Some [unfolded x] ok] by simp_all
    have "\<exists>k' m'. k' \<noteq> i \<and> get (organizationMemberships s) k' = Some m' \<and> active_admin org m'"
      if "\<not> (mem_Role old = OrganizationAdmin \<and>
        length (filter (active_admin (TrimSpace o1)) (vals (organizationMemberships s))) \<le> 1)"
    proof (cases "k = i")
      case True
      then have "org = TrimSpace o1" "mem_Role old = OrganizationAdmin"
        using assms(2,3) old by (auto simp: active_admin_def)
      then show ?thesis
        using two_entries [of "organizationMemberships s" "active_admin org" i] that ok by (simp add: memberships_ok_def not_le)
    qed (use assms(2,3) in blast)
    then show ?thesis
      using assms(2,3) Some x by (fastforce simp: RevokeOrganizationMembership_def Let_def)
  qed
qed

theorem revoke_keeps_an_admin_witness:
  "\<exists>k' m'. get (organizationMemberships (snd (RevokeOrganizationMembership (demo_tenancy_env 2) ''org1'' ''alice'' 1
     ''alice'' tenancy_demo))) k' = Some m' \<and> active_admin ''org1'' m'"
  by (rule revoke_keeps_an_admin [OF tenancy_demo_reachable tenancy_demo_eval(1,2)])

text \<open>
  The grant call has no such guard. When an organization has exactly one active admin, granting
  that same subject the viewer role - the upsert with the current revision - succeeds and leaves
  the organization without any active admin.
\<close>
lemma upsert_can_remove_the_last_admin:
  assumes "tenancy_step\<^sup>*\<^sup>* NewMemoryStoreWith s"
    and "get (organizationMemberships s) i = Some m" and "active_admin org m"
    and "\<And>k w. get (organizationMemberships s) k = Some w \<Longrightarrow> active_admin org w \<Longrightarrow> k = i"
    and "0 < Revision m" and "TrimSpace org = org"
  shows "\<exists>m'. fst (UpsertOrganizationMembership e (m\<lparr>mem_Role := OrganizationViewer\<rparr>) (Revision m) actor s) = Inr m' \<and>
    (\<forall>k w. get (organizationMemberships (snd (UpsertOrganizationMembership e (m\<lparr>mem_Role := OrganizationViewer\<rparr>)
        (Revision m) actor s))) k = Some w \<longrightarrow> \<not> active_admin org w)"
proof -
  have ok: "memberships_ok (organizations s) (organizationMemberships s)"
    using tenancy_steps_ok [OF assms(1) tenancy_ok_init] by (simp add: tenancy_ok_def)
  have m: "mem_OrganizationID m = org" "TrimSpace (mem_Subject m) = mem_Subject m" "mem_Subject m \<noteq> ''''"
    "get (organizations s) org \<noteq> None"
    using ok assms(2,3) by (auto simp: memberships_ok_def active_admin_def)
  have "membership_of org (mem_Subject m) s \<noteq> None"
    using membership_of_None assms(2) m(1) by blast
  then obtain j w where j: "membership_of org (mem_Subject m) s = Some (j, w)" by auto
  then have "get (organizationMemberships s) j = Some w" "mem_OrganizationID w = org" "mem_Subject w = mem_Subject m"
    using membership_of_Some [OF j ok] by auto
  then have "j = i" "w = m"
    using ok assms(2) m(1) by (auto simp: memberships_ok_def dest: unique_by_D [of _ _ j w i m])
  then show ?thesis
    using m assms(4,5,6) j by (auto simp: UpsertOrganizationMembership_def Let_def active_admin_def touch_def)
qed

lemma upsert_can_remove_the_last_admin_instance:
  "\<not> (\<exists>k w. get (organizationMemberships (snd (UpsertOrganizationMembership (demo_tenancy_env 2)
     (alice_membership\<lparr>mem_Role := OrganizationViewer\<rparr>) 1 ''alice'' tenancy_demo))) k = Some w \<and> active_admin ''org1'' w)"
proof -
  have "k = ''mem1''" if "get (organizationMemberships tenancy_demo) k = Some w" for k w
    using get_mem [OF that] tenancy_demo_eval(5) by (cases "organizationMemberships tenancy_demo") auto
  then show ?thesis
    using upsert_can_remove_the_last_admin [OF tenancy_demo_reachable tenancy_demo_eval(1,2), of "demo_tenancy_env 2" "''alice''"]
      tenancy_demo_eval(3,6) by (metis zero_less_one)
qed

end
