(* ===== verification/Outbox.thy ===== *)
theory Outbox
  imports Lookup
begin

text \<open>
  The transactional outbox of \<open>internal/controlplane/memory_store.go\<close>: publishers claim batches of
  events for a bounded time and mark them as published. The theorems say which events a claim
  takes, in which order, and that a claimed event is not handed to anyone else until the claim
  has run out.
\<close>

section \<open>The calls\<close>

text \<open>An event a claim at time \<open>at\<close> may take.\<close>

definition outbox_eligible :: "int \<Rightarrow> OutboxEvent \<Rightarrow> bool" where
  "outbox_eligible at ev =
     (\<not> (evt_PublishedAt ev \<noteq> None \<or> at < evt_AvailableAt ev) \<and> \<not> after (evt_ClaimedUntil ev) at)"

definition claimedEvent :: "string \<Rightarrow> int \<Rightarrow> int \<Rightarrow> OutboxEvent \<Rightarrow> OutboxEvent" where
  "claimedEvent worker until now ev =
     touch now (ev\<lparr>evt_ClaimedBy := worker, evt_ClaimedUntil := Some until, evt_Attempt := evt_Attempt ev + 1\<rparr>)"

text \<open>
  The loop over the sorted identifiers; \<open>k\<close> counts the clock readings. The identifiers are keys of
  the map, so the lookup always succeeds.
\<close>

fun claimOutboxLoop ::
  "env \<Rightarrow> nat \<Rightarrow> string \<Rightarrow> int \<Rightarrow> int \<Rightarrow> int \<Rightarrow> string list \<Rightarrow> OutboxEvent list \<Rightarrow> OutboxEvent table \<Rightarrow>
   OutboxEvent list \<times> OutboxEvent table" where
  "claimOutboxLoop e k worker limit ttl at [] out t = (out, t)"
| "claimOutboxLoop e k worker limit ttl at (i # ids) out t =
     (if limit \<le> int (length out) then (out, t)
      else (case get t i of
          None \<Rightarrow> claimOutboxLoop e k worker limit ttl at ids out t
        | Some ev \<Rightarrow>
            if \<not> outbox_eligible at ev then claimOutboxLoop e k worker limit ttl at ids out t
            else
              let ev = claimedEvent worker (at + ttl) (nowUTC e k) ev
              in claimOutboxLoop e (Suc k) worker limit ttl at ids (out @ [ev]) (put i ev t)))"

definition outbox_order :: "string \<times> OutboxEvent \<Rightarrow> string \<times> OutboxEvent \<Rightarrow> bool" where
  "outbox_order = less_on2 (\<lambda>(i, ev). evt_AvailableAt ev) (\<lambda>(i, ev). ID ev)"

definition ClaimOutbox :: "env \<Rightarrow> string \<Rightarrow> int \<Rightarrow> int \<Rightarrow> int \<Rightarrow> MemoryStore \<Rightarrow> OutboxEvent list call" where
  "ClaimOutbox e worker limit ttl at s =
     (if worker = '''' \<or> limit \<le> 0 \<or> ttl \<le> 0 then (Inl ErrValidation, s)
      else
        let ids = map fst (sort_by outbox_order (outbox s));
            r = claimOutboxLoop e 0 worker limit ttl at ids [] (outbox s)
        in (Inr (fst r), s\<lparr>outbox := snd r\<rparr>))"

definition MarkOutboxPublished :: "env \<Rightarrow> string \<Rightarrow> string \<Rightarrow> int \<Rightarrow> MemoryStore \<Rightarrow> unit call" where
  "MarkOutboxPublished e i worker at s =
     (case get (outbox s) i of
        None \<Rightarrow> (Inl ErrNotFound, s)
      | Some ev \<Rightarrow>
          if evt_ClaimedBy ev \<noteq> worker \<or> \<not> after (evt_ClaimedUntil ev) at then (Inl ErrStaleFence, s)
          else
            let ev = touch (nowUTC e 0) (ev\<lparr>evt_PublishedAt := Some at, evt_ClaimedBy := '''',
                  evt_ClaimedUntil := None\<rparr>)
            in (Inr (), s\<lparr>outbox := put i ev (outbox s)\<rparr>))"

section \<open>What a claim takes\<close>

text \<open>The reference: of the events in order, the first \<open>limit\<close> eligible ones.\<close>

definition outbox_batch :: "int \<Rightarrow> int \<Rightarrow> OutboxEvent table \<Rightarrow> (string \<times> OutboxEvent) list" where
  "outbox_batch limit at t = take (nat limit) (filter (\<lambda>(i, ev). outbox_eligible at ev) (sort_by outbox_order t))"

fun claimed_batch :: "env \<Rightarrow> nat \<Rightarrow> string \<Rightarrow> int \<Rightarrow> (string \<times> OutboxEvent) list \<Rightarrow> (string \<times> OutboxEvent) list" where
  "claimed_batch e k worker until [] = []"
| "claimed_batch e k worker until ((i, ev) # es) =
     (i, claimedEvent worker until (nowUTC e k) ev) # claimed_batch e (Suc k) worker until es"

lemma claimOutboxLoop_batch:
  assumes "distinct (map fst es)" and "\<And>i ev. (i, ev) \<in> set es \<Longrightarrow> get t i = Some ev"
  shows "claimOutboxLoop e k worker limit ttl at (map fst es) out t =
    (let b = claimed_batch e k worker (at + ttl)
        (take (nat (limit - int (length out))) (filter (\<lambda>(i, ev). outbox_eligible at ev) es))
     in (out @ map snd b, fold (\<lambda>(i, ev). put i ev) b t))"
  using assms
proof (induction es arbitrary: k out t)
  case (Cons x es)
  obtain i ev where x: "x = (i, ev)" by force
  have g: "get t i = Some ev" using Cons.prems(2) x by simp
  show ?case
  proof (cases "limit \<le> int (length out) \<or> \<not> outbox_eligible at ev")
    case True
    moreover have "claimOutboxLoop e k worker limit ttl at (map fst es) out t =
      (let b = claimed_batch e k worker (at + ttl)
          (take (nat (limit - int (length out))) (filter (\<lambda>(i, ev). outbox_eligible at ev) es))
       in (out @ map snd b, fold (\<lambda>(i, ev). put i ev) b t))"
      using Cons.IH [of t k out] Cons.prems by simp
    ultimately show ?thesis using x g by (auto simp: Let_def)
  next
    case False
    let ?ev = "claimedEvent worker (at + ttl) (nowUTC e k) ev"
    have n: "nat (limit - int (length out)) = Suc (nat (limit - (1 + int (length out))))" using False by arith
    have "get (put i ?ev t) j = Some w" if "(j, w) \<in> set es" for j w
      using that Cons.prems x by (force simp: image_iff)
    then show ?thesis
      using False x n g Cons.IH [of "put i ?ev t" "Suc k" "out @ [?ev]"] Cons.prems(1) by (simp add: Let_def)
  qed
qed simp

lemma sorted_entries: "well_keyed t \<Longrightarrow> distinct (map fst (sort_by lt t)) \<and> (\<forall>(i, ev) \<in> set (sort_by lt t). get t i = Some ev)"
  by (auto simp: well_keyed_get well_keyed_def)

lemma get_fold_put:
  "distinct (map fst b) \<Longrightarrow> get (fold (\<lambda>(i, ev). put i ev) b t) k = (case get b k of None \<Rightarrow> get t k | Some v \<Rightarrow> Some v)"
  by (induction b arbitrary: t) (auto simp: get_def put_def update_conv' split: option.split, metis fst_conv image_eqI)

lemma fst_claimed_batch [simp]: "map fst (claimed_batch e k worker until es) = map fst es"
  by (induction e k worker until es rule: claimed_batch.induct) auto

lemma claimed_batch_mem:
  "(i, v) \<in> set (claimed_batch e k worker until es) \<Longrightarrow>
   \<exists>ev now. (i, ev) \<in> set es \<and> v = claimedEvent worker until now ev"
  by (induction e k worker until es rule: claimed_batch.induct) auto

lemma claimed_batch_IDs: "map (ID \<circ> snd) (claimed_batch e k worker until es) = map (ID \<circ> snd) es"
  by (induction e k worker until es rule: claimed_batch.induct) (auto simp: claimedEvent_def)

lemma well_keyed_fold_put: "well_keyed t \<Longrightarrow> well_keyed (fold (\<lambda>(i, ev). put i ev) b t)"
  by (induction b arbitrary: t) auto

definition outbox_ok :: "OutboxEvent table \<Rightarrow> bool" where
  "outbox_ok t = (well_keyed t \<and> (\<forall>i ev. get t i = Some ev \<longrightarrow> ID ev = i))"

lemma ClaimOutbox_batch:
  assumes "well_keyed (outbox s)" and "worker \<noteq> ''''" and "0 < limit" and "0 < ttl"
  shows "ClaimOutbox e worker limit ttl at s =
    (let b = claimed_batch e 0 worker (at + ttl) (outbox_batch limit at (outbox s))
     in (Inr (map snd b), s\<lparr>outbox := fold (\<lambda>(i, ev). put i ev) b (outbox s)\<rparr>))"
proof -
  have "claimOutboxLoop e 0 worker limit ttl at (map fst (sort_by outbox_order (outbox s))) [] (outbox s) =
    (let b = claimed_batch e 0 worker (at + ttl) (outbox_batch limit at (outbox s))
     in (map snd b, fold (\<lambda>(i, ev). put i ev) b (outbox s)))"
    using sorted_entries [OF assms(1), of outbox_order] by (subst claimOutboxLoop_batch) (auto simp: outbox_batch_def)
  then show ?thesis using assms(2-4) by (simp add: ClaimOutbox_def Let_def)
qed

lemma outbox_batch_mem: "(i, ev) \<in> set (outbox_batch limit at t) \<Longrightarrow> (i, ev) \<in> set t \<and> outbox_eligible at ev"
  by (auto simp: outbox_batch_def dest!: in_set_takeD)

lemma distinct_outbox_batch: "well_keyed t \<Longrightarrow> distinct (map fst (outbox_batch limit at t))"
  using sorted_entries [of t outbox_order] unfolding outbox_batch_def
  by (simp add: take_map [symmetric] distinct_map_filter distinct_take)

lemma outbox_batch_oldest:
  assumes "(j, w) \<in> set t" and "outbox_eligible at w" and "(j, w) \<notin> set (outbox_batch limit at t)"
  shows "length (outbox_batch limit at t) = nat limit \<and>
    (\<forall>(i, ev) \<in> set (outbox_batch limit at t). \<not> outbox_order (j, w) (i, ev))"
proof -
  let ?es = "filter (\<lambda>(i, ev). outbox_eligible at ev) (sort_by outbox_order t)"
  let ?n = "nat limit"
  have "sorted_wrt (\<lambda>a b. \<not> outbox_order b a) ?es"
    unfolding outbox_order_def by (rule sorted_wrt_filter [OF key2_order.sorted_sort_by])
  then have sorted: "\<forall>a \<in> set (take ?n ?es). \<forall>b \<in> set (drop ?n ?es). \<not> outbox_order b a"
    by (metis append_take_drop_id sorted_wrt_append)
  have "(j, w) \<in> set ?es" using assms(1,2) by simp
  then have "(j, w) \<in> set (drop ?n ?es)"
    using assms(3) by (metis Un_iff append_take_drop_id outbox_batch_def set_append)
  moreover from this have "?n < length ?es" by (cases "?n < length ?es") auto
  ultimately show ?thesis using sorted unfolding outbox_batch_def by auto
qed

lemma claim_entries:
  assumes "outbox_ok t" and "b = claimed_batch e k worker until (outbox_batch limit at t)"
  shows "distinct (map fst b)" and "map ID (map snd b) = map fst b" and "map fst b = map fst (outbox_batch limit at t)"
    and "length b = length (outbox_batch limit at t)"
    and "(i, v) \<in> set b \<Longrightarrow> \<exists>ev. (i, ev) \<in> set (outbox_batch limit at t) \<and> get t i = Some ev \<and> outbox_eligible at ev \<and>
      (\<exists>now. v = claimedEvent worker until now ev)"
proof -
  show "distinct (map fst b)" "map fst b = map fst (outbox_batch limit at t)"
    using assms distinct_outbox_batch by (auto simp: outbox_ok_def)
  then show "length b = length (outbox_batch limit at t)" by (metis length_map)
  have "(ID \<circ> snd) x = fst x" if "x \<in> set (outbox_batch limit at t)" for x
    using that outbox_batch_mem [of "fst x" "snd x" limit at t] assms(1)
      well_keyed_get [of t "fst x" "snd x"] by (simp add: outbox_ok_def)
  then show "map ID (map snd b) = map fst b"
    using claimed_batch_IDs [of e k worker until "outbox_batch limit at t"] assms(2) by auto
  show "\<exists>ev. (i, ev) \<in> set (outbox_batch limit at t) \<and> get t i = Some ev \<and> outbox_eligible at ev \<and>
      (\<exists>now. v = claimedEvent worker until now ev)" if "(i, v) \<in> set b"
    using claimed_batch_mem [of i v e k worker until] that outbox_batch_mem assms
    by (fastforce simp: outbox_ok_def well_keyed_get)
qed

lemma claim_leaves_newer:
  assumes "outbox_ok t" and "b = claimed_batch e k worker until (outbox_batch limit at t)"
    and j: "get t j = Some w" "outbox_eligible at w" "j \<notin> ID ` set (map snd b)"
  shows "length b = nat limit" and "ev \<in> set (map snd b) \<Longrightarrow> evt_AvailableAt ev < evt_AvailableAt w \<or>
      evt_AvailableAt ev = evt_AvailableAt w \<and> ID ev \<le> j"
proof -
  note b = claim_entries [OF assms(1,2)]
  have "j \<notin> set (map fst (outbox_batch limit at t))"
    using j(3) b(2,3) by (metis image_set)
  then have "(j, w) \<notin> set (outbox_batch limit at t)" by force
  note old = outbox_batch_oldest [OF get_mem [OF j(1)] j(2) this]
  then show "length b = nat limit" using b(4) by simp
  show "evt_AvailableAt ev < evt_AvailableAt w \<or> evt_AvailableAt ev = evt_AvailableAt w \<and> ID ev \<le> j"
    if "ev \<in> set (map snd b)"
  proof -
    from that obtain i where "(i, ev) \<in> set b" by auto
    from b(5) [OF this] obtain v now where "(i, v) \<in> set (outbox_batch limit at t)" "get t i = Some v"
      "ev = claimedEvent worker until now v" by blast
    then show ?thesis
      using old assms(1) j(1) by (fastforce simp: outbox_order_def less_on2_def claimedEvent_def outbox_ok_def touch_def split: if_splits)
  qed
qed

text \<open>
  C21: What a claim takes. A valid claim returns at most \<open>limit\<close> events; each was unpublished,
  available and not under a running claim, and is now stored as claimed by the worker until
  \<open>at + ttl\<close> with one more attempt. If an eligible event is left out, the batch is full and every
  event in it is at least as old - by availability time, then by identifier. All other events are
  unchanged.
\<close>
theorem ClaimOutbox_takes_the_oldest:
  assumes "outbox_ok (outbox s)" and "worker \<noteq> ''''" and "0 < limit" and "0 < ttl"
  shows "\<exists>out s'. ClaimOutbox e worker limit ttl at s = (Inr out, s') \<and> int (length out) \<le> limit \<and>
    distinct (map ID out) \<and>
    (\<forall>ev \<in> set out. get (outbox s') (ID ev) = Some ev \<and>
      (\<exists>old. get (outbox s) (ID ev) = Some old \<and> outbox_eligible at old \<and> evt_ClaimedBy ev = worker \<and>
        evt_ClaimedUntil ev = Some (at + ttl) \<and> evt_Attempt ev = evt_Attempt old + 1 \<and>
        evt_Payload ev = evt_Payload old \<and> evt_PublishedAt ev = None)) \<and>
    (\<forall>i. i \<notin> ID ` set out \<longrightarrow> get (outbox s') i = get (outbox s) i) \<and>
    (\<forall>j w. get (outbox s) j = Some w \<longrightarrow> outbox_eligible at w \<longrightarrow> j \<notin> ID ` set out \<longrightarrow>
      int (length out) = limit \<and>
      (\<forall>ev \<in> set out. evt_AvailableAt ev < evt_AvailableAt w \<or>
        evt_AvailableAt ev = evt_AvailableAt w \<and> ID ev \<le> j))"
proof -
  define b where "b = claimed_batch e 0 worker (at + ttl) (outbox_batch limit at (outbox s))"
  note b = claim_entries [OF assms(1) b_def]
  let ?s' = "s\<lparr>outbox := fold (\<lambda>(i, ev). put i ev) b (outbox s)\<rparr>"
  have claim: "ClaimOutbox e worker limit ttl at s = (Inr (map snd b), ?s')"
    using ClaimOutbox_batch [OF _ assms(2-4)] assms(1) by (simp add: b_def outbox_ok_def Let_def)
  have left_out: "int (length b) = limit \<and> (\<forall>ev \<in> set (map snd b). evt_AvailableAt ev < evt_AvailableAt w \<or>
      evt_AvailableAt ev = evt_AvailableAt w \<and> ID ev \<le> j)"
    if "get (outbox s) j = Some w" "outbox_eligible at w" "j \<notin> ID ` set (map snd b)" for j w
    using claim_leaves_newer [OF assms(1) b_def that] assms(3) by auto
  have taken: "get (outbox ?s') (ID ev) = Some ev \<and>
      (\<exists>old. get (outbox s) (ID ev) = Some old \<and> outbox_eligible at old \<and> evt_ClaimedBy ev = worker \<and>
        evt_ClaimedUntil ev = Some (at + ttl) \<and> evt_Attempt ev = evt_Attempt old + 1 \<and>
        evt_Payload ev = evt_Payload old \<and> evt_PublishedAt ev = None)" if "ev \<in> set (map snd b)" for ev
  proof -
    from that obtain i where i: "(i, ev) \<in> set b" by auto
    from b(5) [OF this] obtain v now where v: "get (outbox s) i = Some v" "outbox_eligible at v"
      "ev = claimedEvent worker (at + ttl) now v" by blast
    moreover have "get b i = Some ev" using i b(1) by (simp add: get_def)
    ultimately show ?thesis
      using assms(1) b(1) by (auto simp: outbox_ok_def claimedEvent_def touch_def get_fold_put outbox_eligible_def)
  qed
  have d: "distinct (map ID (map snd b))" using b(1,2) by metis
  have "int (length b) \<le> limit"
    using assms(3) b(4) by (simp add: outbox_batch_def)
  moreover have "get (outbox ?s') i = get (outbox s) i" if "i \<notin> ID ` set (map snd b)" for i
  proof -
    have "i \<notin> set (map fst b)" using that b(2) by (metis image_set)
    then show ?thesis using b(1) by (simp add: get_fold_put get_def [of b] map_of_eq_None_iff [THEN iffD2])
  qed
  ultimately show ?thesis
    using claim d left_out taken by (intro exI [of _ "map snd b"] exI [of _ ?s']) simp
qed

section \<open>Exclusive claims\<close>

text \<open>
  A step of the outbox: a claim, a publication, or any other call, which at most adds events
  under new identifiers.
\<close>

inductive outbox_step :: "MemoryStore \<Rightarrow> MemoryStore \<Rightarrow> bool" where
  claim: "outbox_step s (snd (ClaimOutbox e worker limit ttl at s))"
| publish: "outbox_step s (snd (MarkOutboxPublished e i worker at s))"
| other: "outbox_ok (outbox s') \<Longrightarrow> (\<And>i ev. get (outbox s) i = Some ev \<Longrightarrow> get (outbox s') i = Some ev) \<Longrightarrow> outbox_step s s'"

lemma append_outbox_step:
  assumes "outbox_ok (outbox s)" and "get (outbox s) (newid e k ''evt'') = None"
  shows "outbox_step s (appendOutboxLocked e k ty i ev payload s)"
  using assms by (intro outbox_step.other) (auto simp: appendOutboxLocked_def Let_def outbox_ok_def split: if_splits)

lemma ClaimOutbox_invalid:
  "worker = '''' \<or> limit \<le> 0 \<or> ttl \<le> 0 \<Longrightarrow> ClaimOutbox e worker limit ttl at s = (Inl ErrValidation, s)"
  by (auto simp: ClaimOutbox_def)

lemma claimed_entry:
  assumes "outbox_ok (outbox s)" and "get (outbox s) i = Some ev"
  shows "\<exists>ev'. get (outbox (snd (ClaimOutbox e worker limit ttl at s))) i = Some ev' \<and>
    (ev' = ev \<or> outbox_eligible at ev \<and> 0 < ttl \<and> (\<exists>now. ev' = claimedEvent worker (at + ttl) now ev))"
proof (cases "worker = '''' \<or> limit \<le> 0 \<or> ttl \<le> 0")
  case False
  define b where "b = claimed_batch e 0 worker (at + ttl) (outbox_batch limit at (outbox s))"
  note b = claim_entries [OF assms(1) b_def]
  have "get (outbox (snd (ClaimOutbox e worker limit ttl at s))) i = (case get b i of None \<Rightarrow> Some ev | Some v \<Rightarrow> Some v)"
    using ClaimOutbox_batch [of s worker limit ttl e at] False assms b(1)
    by (simp add: b_def [symmetric] outbox_ok_def Let_def get_fold_put split: option.split)
  then show ?thesis
    using b(5) get_mem [of b i] assms(2) False by (fastforce split: option.splits)
qed (use assms in \<open>simp add: ClaimOutbox_invalid\<close>)

lemma ClaimOutbox_ok:
  assumes "outbox_ok (outbox s)"
  shows "outbox_ok (outbox (snd (ClaimOutbox e worker limit ttl at s)))"
proof (cases "worker = '''' \<or> limit \<le> 0 \<or> ttl \<le> 0")
  case False
  define b where "b = claimed_batch e 0 worker (at + ttl) (outbox_batch limit at (outbox s))"
  note b = claim_entries [OF assms b_def]
  have "ID v = i" if "get (fold (\<lambda>(i, ev). put i ev) b (outbox s)) i = Some v" for i v
    using that b(1,5) get_mem [of b i] assms
    by (fastforce simp: get_fold_put outbox_ok_def claimedEvent_def split: option.splits)
  then show ?thesis
    using ClaimOutbox_batch [of s worker limit ttl e at] False assms
    by (simp add: b_def [symmetric] outbox_ok_def Let_def well_keyed_fold_put)
qed (use assms in \<open>simp add: ClaimOutbox_invalid\<close>)

text \<open>An event nobody may claim at or before time \<open>t\<close>: published, or under a claim that lasts longer.\<close>

definition held_at :: "int \<Rightarrow> OutboxEvent \<Rightarrow> bool" where
  "held_at t ev = (evt_PublishedAt ev \<noteq> None \<or> after (evt_ClaimedUntil ev) t)"

lemma held_not_eligible: "held_at t ev \<Longrightarrow> \<not> outbox_eligible t ev"
  by (auto simp: held_at_def outbox_eligible_def)

lemma outbox_step_ok: "outbox_step s s' \<Longrightarrow> outbox_ok (outbox s) \<Longrightarrow> outbox_ok (outbox s')"
  by (induction rule: outbox_step.induct)
    (auto simp: ClaimOutbox_ok, auto simp: MarkOutboxPublished_def Let_def outbox_ok_def split: option.split)

lemma outbox_step_held:
  assumes "outbox_step s s'" and "outbox_ok (outbox s)" and "get (outbox s) i = Some ev" and "held_at t ev"
  shows "\<exists>ev'. get (outbox s') i = Some ev' \<and> held_at t ev' \<and> (evt_PublishedAt ev \<noteq> None \<longrightarrow> evt_PublishedAt ev' \<noteq> None)"
  using assms
proof (induction rule: outbox_step.induct)
  case (claim s e worker limit ttl at)
  then show ?case
    using claimed_entry [OF claim(1,2), of e worker limit ttl at]
    by (fastforce simp: held_at_def outbox_eligible_def claimedEvent_def touch_def after_Some)
next
  case (publish s e j worker at)
  then show ?case
    by (auto simp: MarkOutboxPublished_def Let_def held_at_def touch_def split: option.split)
qed auto

lemma outbox_steps_held:
  assumes "outbox_step\<^sup>*\<^sup>* s s'" and "outbox_ok (outbox s)" and "get (outbox s) i = Some ev" and "held_at t ev"
  shows "outbox_ok (outbox s') \<and> (\<exists>ev'. get (outbox s') i = Some ev' \<and> held_at t ev')"
  using assms
proof (induction rule: rtranclp_induct)
  case (step s1 s2)
  then show ?case using outbox_step_ok outbox_step_held by metis
qed auto

lemma claim_result:
  assumes "ClaimOutbox e worker limit ttl at s = (Inr out, s')" and "outbox_ok (outbox s)" and "ev \<in> set out"
  shows "get (outbox s') (ID ev) = Some ev \<and> evt_ClaimedUntil ev = Some (at + ttl) \<and>
    (\<exists>old. get (outbox s) (ID ev) = Some old \<and> outbox_eligible at old)"
proof -
  have v: "worker \<noteq> ''''" "0 < limit" "0 < ttl"
    using assms(1) ClaimOutbox_invalid [of worker limit ttl e at s] by (auto simp flip: not_le)
  define b where "b = claimed_batch e 0 worker (at + ttl) (outbox_batch limit at (outbox s))"
  note b = claim_entries [OF assms(2) b_def]
  have out: "out = map snd b" "outbox s' = fold (\<lambda>(i, ev). put i ev) b (outbox s)"
    using assms(1) ClaimOutbox_batch [OF _ v, of s e at] assms(2) by (auto simp: b_def outbox_ok_def Let_def)
  obtain i where i: "(i, ev) \<in> set b" using assms(3) out by auto
  from b(5) [OF i] obtain old now where "get (outbox s) i = Some old" "outbox_eligible at old"
    "ev = claimedEvent worker (at + ttl) now old" by blast
  then show ?thesis
    using assms(2) b(1) i out(2) by (auto simp: outbox_ok_def claimedEvent_def touch_def get_fold_put get_def [of b])
qed

lemma outbox_reachable_ok: "outbox_step\<^sup>*\<^sup>* NewMemoryStoreWith s \<Longrightarrow> outbox_ok (outbox s)"
proof (induction rule: rtranclp_induct)
  case base
  then show ?case by (simp add: outbox_ok_def NewMemoryStoreWith_def)
qed (auto intro: outbox_step_ok)

text \<open>
  C22: Exclusive claims. An event handed to one publisher until \<open>at1 + ttl1\<close> is not handed out
  again - to anyone - by a claim at an earlier time, whatever claims, publications and new events
  happen in between.
\<close>
theorem outbox_claims_are_exclusive:
  assumes "outbox_step\<^sup>*\<^sup>* NewMemoryStoreWith s"
    and "ClaimOutbox e1 w1 limit1 ttl1 at1 s = (Inr out1, s1)" and "outbox_step\<^sup>*\<^sup>* s1 s2"
    and "ClaimOutbox e2 w2 limit2 ttl2 at2 s2 = (Inr out2, s3)" and "at2 < at1 + ttl1"
  shows "ID ` set out1 \<inter> ID ` set out2 = {}"
proof -
  have ok: "outbox_ok (outbox s)" using outbox_reachable_ok [OF assms(1)] .
  have ok1: "outbox_ok (outbox s1)" using ClaimOutbox_ok [OF ok, of e1 w1 limit1 ttl1 at1] assms(2) by simp
  have "ID ev1 \<noteq> ID ev2" if ev: "ev1 \<in> set out1" "ev2 \<in> set out2" for ev1 ev2
  proof
    assume eq: "ID ev1 = ID ev2"
    have c: "get (outbox s1) (ID ev1) = Some ev1" "held_at at2 ev1"
      using claim_result [OF assms(2) ok ev(1)] assms(5) by (auto simp: held_at_def)
    obtain ev' where "outbox_ok (outbox s2)" "get (outbox s2) (ID ev1) = Some ev'" "held_at at2 ev'"
      using outbox_steps_held [OF assms(3) ok1 c] by blast
    then show False
      using claim_result [OF assms(4) _ ev(2)] eq held_not_eligible by auto
  qed
  then show ?thesis by blast
qed

text \<open>
  C23: Delivery is final. Only the holder of a running claim can mark an event as published, and
  from then on no claim, at any time, ever returns it again.
\<close>
theorem published_events_are_not_redelivered:
  assumes "outbox_step\<^sup>*\<^sup>* NewMemoryStoreWith s"
    and "MarkOutboxPublished e1 i worker at1 s = (Inr (), s1)" and "outbox_step\<^sup>*\<^sup>* s1 s2"
    and "ClaimOutbox e2 w2 limit ttl at2 s2 = (Inr out, s3)"
  shows "i \<notin> ID ` set out \<and>
    (\<exists>ev. get (outbox s) i = Some ev \<and> evt_ClaimedBy ev = worker \<and> after (evt_ClaimedUntil ev) at1)"
proof -
  have ok: "outbox_ok (outbox s)" using outbox_reachable_ok [OF assms(1)] .
  have ok1: "outbox_ok (outbox s1)"
    using outbox_step_ok [OF outbox_step.publish ok, of e1 i worker at1] assms(2) by simp
  obtain ev where ev: "get (outbox s) i = Some ev" "evt_ClaimedBy ev = worker" "after (evt_ClaimedUntil ev) at1"
    "\<exists>ev1. get (outbox s1) i = Some ev1 \<and> held_at at2 ev1"
    using assms(2) by (auto simp: MarkOutboxPublished_def Let_def held_at_def touch_def split: option.split_asm if_split_asm)
  obtain ev' where "outbox_ok (outbox s2)" "get (outbox s2) i = Some ev'" "held_at at2 ev'"
    using outbox_steps_held [OF assms(3) ok1] ev(4) by blast
  then have "i \<notin> ID ` set out"
    using claim_result [OF assms(4)] held_not_eligible by fastforce
  then show ?thesis using ev by blast
qed

section \<open>A concrete outbox\<close>

definition outbox_demo_env :: env where
  "outbox_demo_env = \<lparr>clock = (\<lambda>k. 0), newid = (\<lambda>k p. p @ itoa (int k)), sha256hex = (\<lambda>x. x), marshal = (\<lambda>v. []), ed25519_Verify = (\<lambda>k m sig. False)\<rparr>"

definition outbox_demo :: MemoryStore where
  "outbox_demo = appendOutboxLocked outbox_demo_env 2 ''project'' ''p'' ''project.created'' (VStrings [])
     (appendOutboxLocked outbox_demo_env 1 ''project'' ''p'' ''project.created'' (VStrings []) NewMemoryStoreWith)"

definition outbox_claim :: "string \<Rightarrow> int \<Rightarrow> MemoryStore \<Rightarrow> OutboxEvent list call" where
  "outbox_claim w at s = ClaimOutbox outbox_demo_env w 1 Second at s"

lemma outbox_demo_reachable: "outbox_step\<^sup>*\<^sup>* NewMemoryStoreWith outbox_demo"
proof -
  let ?s = "appendOutboxLocked outbox_demo_env 1 ''project'' ''p'' ''project.created'' (VStrings []) NewMemoryStoreWith"
  have ok: "outbox_ok (outbox NewMemoryStoreWith)" by (simp add: outbox_ok_def NewMemoryStoreWith_def)
  have 1: "outbox_step NewMemoryStoreWith ?s"
    by (rule append_outbox_step [OF ok]) (simp add: NewMemoryStoreWith_def)
  have "get (outbox ?s) (newid outbox_demo_env 2 ''evt'') = None" by code_simp
  then have "outbox_step ?s outbox_demo"
    unfolding outbox_demo_def by (rule append_outbox_step [OF outbox_step_ok [OF 1 ok]])
  with 1 show ?thesis by simp
qed

text \<open>Two publishers take one event each; the second one gets the event the first one left.\<close>

lemma outbox_demo_claims:
  "map ID (projr (fst (outbox_claim ''p1'' 0 outbox_demo))) = [''evt1'']"
  "map ID (projr (fst (outbox_claim ''p2'' 1 (snd (outbox_claim ''p1'' 0 outbox_demo))))) = [''evt2'']"
  "\<not> isl (fst (outbox_claim ''p1'' 0 outbox_demo))"
  "\<not> isl (fst (outbox_claim ''p2'' 1 (snd (outbox_claim ''p1'' 0 outbox_demo))))"
  by code_simp+

theorem ClaimOutbox_takes_the_oldest_witness:
  "\<exists>out s'. ClaimOutbox outbox_demo_env ''p1'' 1 Second 0 outbox_demo = (Inr out, s') \<and> int (length out) \<le> 1"
proof -
  have "''p1'' \<noteq> ''''" "0 < (1 :: int)" "0 < Second" by (simp_all add: Second_def)
  from ClaimOutbox_takes_the_oldest [OF outbox_reachable_ok [OF outbox_demo_reachable] this, of outbox_demo_env 0]
  show ?thesis by blast
qed

theorem outbox_claims_are_exclusive_witness:
  "ID ` set (projr (fst (outbox_claim ''p1'' 0 outbox_demo))) \<inter>
   ID ` set (projr (fst (outbox_claim ''p2'' 1 (snd (outbox_claim ''p1'' 0 outbox_demo))))) = {} \<and>
   map ID (projr (fst (outbox_claim ''p2'' 1 (snd (outbox_claim ''p1'' 0 outbox_demo))))) = [''evt2'']"
  using outbox_claims_are_exclusive [OF outbox_demo_reachable
      call_eq [OF outbox_demo_claims(3), unfolded outbox_claim_def] rtranclp.rtrancl_refl
      call_eq [OF outbox_demo_claims(4), unfolded outbox_claim_def]] outbox_demo_claims(2)
  by (simp add: outbox_claim_def Second_def)

lemma outbox_demo_publish:
  "\<not> isl (fst (MarkOutboxPublished outbox_demo_env ''evt1'' ''p1'' 2 (snd (outbox_claim ''p1'' 0 outbox_demo))))"
  "\<not> isl (fst (outbox_claim ''p3'' (5 * Second)
     (snd (MarkOutboxPublished outbox_demo_env ''evt1'' ''p1'' 2 (snd (outbox_claim ''p1'' 0 outbox_demo))))))"
  by code_simp+

theorem published_events_are_not_redelivered_witness:
  "''evt1'' \<notin> ID ` set (projr (fst (outbox_claim ''p3'' (5 * Second)
     (snd (MarkOutboxPublished outbox_demo_env ''evt1'' ''p1'' 2 (snd (outbox_claim ''p1'' 0 outbox_demo)))))))"
proof -
  let ?s = "snd (outbox_claim ''p1'' 0 outbox_demo)"
  let ?p = "MarkOutboxPublished outbox_demo_env ''evt1'' ''p1'' 2 ?s"
  have "outbox_step outbox_demo ?s"
    unfolding outbox_claim_def by (rule outbox_step.claim)
  then have r: "outbox_step\<^sup>*\<^sup>* NewMemoryStoreWith ?s"
    using outbox_demo_reachable by (rule rtranclp.rtrancl_into_rtrancl [rotated])
  have p: "?p = (Inr (), snd ?p)" using call_eq [OF outbox_demo_publish(1)] by simp
  have c: "ClaimOutbox outbox_demo_env ''p3'' 1 Second (5 * Second) (snd ?p) =
      (Inr (projr (fst (outbox_claim ''p3'' (5 * Second) (snd ?p)))), snd (outbox_claim ''p3'' (5 * Second) (snd ?p)))"
    using call_eq [OF outbox_demo_publish(2)] unfolding outbox_claim_def [of "''p3''"] .
  show ?thesis
    using published_events_are_not_redelivered [OF r p rtranclp.rtrancl_refl c] by blast
qed

end
