(* ===== verification/Encoding.thy ===== *)
theory Encoding
  imports Prelude
begin

text \<open>
  Two more parts of Go's standard library that the control plane relies on: \<open>json.Valid\<close>, as the
  byte scanner of \<open>encoding/json\<close> with its stack of open containers, and the decoding of padded
  base64 of \<open>encoding/base64\<close>.
\<close>

section \<open>The JSON scanner\<close>

datatype json_context = ObjectKey | ObjectValue | ArrayValue

datatype json_state =
    BeginValue | BeginValueOrEmpty | BeginString | BeginStringOrEmpty | EndValue | EndTop
  | InString | InStringEsc | InStringEscU nat | Neg | Digits | AfterInteger | Dot | Dot0 | Exp | ExpSign | Exp0
  | Literal string

definition json_space :: "char \<Rightarrow> bool" where
  "json_space c = (c \<in> {CHR '' '', CHR 0x09, CHR 0x0D, CHR 0x0A})"

definition digit :: "char \<Rightarrow> bool" where
  "digit c = (let n = (of_char c :: nat) in 48 \<le> n \<and> n \<le> 57)"

text \<open>\<open>pushParseState\<close>: containers nest at most 10000 deep.\<close>

definition json_push :: "json_context \<Rightarrow> json_context list \<Rightarrow> json_state \<Rightarrow> (json_state \<times> json_context list) option" where
  "json_push c st next = (if 10000 \<le> int (length st) then None else Some (next, c # st))"

definition json_pop :: "json_context list \<Rightarrow> (json_state \<times> json_context list) option" where
  "json_pop st = (case st of [] \<Rightarrow> None | [c] \<Rightarrow> Some (EndTop, []) | c # d # st \<Rightarrow> Some (EndValue, d # st))"

fun json_end_value :: "char \<Rightarrow> json_context list \<Rightarrow> (json_state \<times> json_context list) option" where
  "json_end_value c [] = (if json_space c then Some (EndTop, []) else None)"
| "json_end_value c (x # st) =
     (if json_space c then Some (EndValue, x # st)
      else (case x of
          ObjectKey \<Rightarrow> if c = CHR '':'' then Some (BeginValue, ObjectValue # st) else None
        | ObjectValue \<Rightarrow> if c = CHR '','' then Some (BeginString, ObjectKey # st)
                         else if c = CHR ''}'' then json_pop (x # st) else None
        | ArrayValue \<Rightarrow> if c = CHR '','' then Some (BeginValue, x # st)
                        else if c = CHR '']'' then json_pop (x # st) else None))"

definition json_begin_value :: "char \<Rightarrow> json_context list \<Rightarrow> (json_state \<times> json_context list) option" where
  "json_begin_value c st =
     (if json_space c then Some (BeginValue, st)
      else if c = CHR ''{'' then json_push ObjectKey st BeginStringOrEmpty
      else if c = CHR ''['' then json_push ArrayValue st BeginValueOrEmpty
      else if c = CHR 0x22 then Some (InString, st)
      else if c = CHR ''-'' then Some (Neg, st)
      else if c = CHR ''0'' then Some (AfterInteger, st)
      else if c = CHR ''t'' then Some (Literal ''rue'', st)
      else if c = CHR ''f'' then Some (Literal ''alse'', st)
      else if c = CHR ''n'' then Some (Literal ''ull'', st)
      else if digit c then Some (Digits, st) else None)"

definition json_begin_string :: "char \<Rightarrow> json_context list \<Rightarrow> (json_state \<times> json_context list) option" where
  "json_begin_string c st =
     (if json_space c then Some (BeginString, st) else if c = CHR 0x22 then Some (InString, st) else None)"

definition json_after_integer :: "char \<Rightarrow> json_context list \<Rightarrow> (json_state \<times> json_context list) option" where
  "json_after_integer c st =
     (if c = CHR ''.'' then Some (Dot, st)
      else if c = CHR ''e'' \<or> c = CHR ''E'' then Some (Exp, st) else json_end_value c st)"

fun json_step :: "json_state \<Rightarrow> json_context list \<Rightarrow> char \<Rightarrow> (json_state \<times> json_context list) option" where
  "json_step BeginValue st c = json_begin_value c st"
| "json_step BeginValueOrEmpty st c =
     (if json_space c then Some (BeginValueOrEmpty, st)
      else if c = CHR '']'' then json_end_value c st else json_begin_value c st)"
| "json_step BeginString st c = json_begin_string c st"
| "json_step BeginStringOrEmpty st c =
     (if json_space c then Some (BeginStringOrEmpty, st)
      else if c = CHR ''}'' then json_end_value c (ObjectValue # tl st) else json_begin_string c st)"
| "json_step EndValue st c = json_end_value c st"
| "json_step EndTop st c = (if json_space c then Some (EndTop, st) else None)"
| "json_step InString st c =
     (if c = CHR 0x22 then Some (EndValue, st)
      else if c = CHR 0x5C then Some (InStringEsc, st)
      else if (of_char c :: nat) < 32 then None else Some (InString, st))"
| "json_step InStringEsc st c =
     (if c \<in> {CHR ''b'', CHR ''f'', CHR ''n'', CHR ''r'', CHR ''t'', CHR 0x5C, CHR ''/'', CHR 0x22} then Some (InString, st)
      else if c = CHR ''u'' then Some (InStringEscU 3, st) else None)"
| "json_step (InStringEscU n) st c =
     (if \<not> hex_digit c then None
      else (case n of 0 \<Rightarrow> Some (InString, st) | Suc m \<Rightarrow> Some (InStringEscU m, st)))"
| "json_step Neg st c = (if c = CHR ''0'' then Some (AfterInteger, st) else if digit c then Some (Digits, st) else None)"
| "json_step Digits st c = (if digit c then Some (Digits, st) else json_after_integer c st)"
| "json_step AfterInteger st c = json_after_integer c st"
| "json_step Dot st c = (if digit c then Some (Dot0, st) else None)"
| "json_step Dot0 st c =
     (if digit c then Some (Dot0, st) else if c = CHR ''e'' \<or> c = CHR ''E'' then Some (Exp, st) else json_end_value c st)"
| "json_step Exp st c =
     (if c = CHR ''+'' \<or> c = CHR ''-'' then Some (ExpSign, st) else if digit c then Some (Exp0, st) else None)"
| "json_step ExpSign st c = (if digit c then Some (Exp0, st) else None)"
| "json_step Exp0 st c = (if digit c then Some (Exp0, st) else json_end_value c st)"
| "json_step (Literal []) st c = json_end_value c st"
| "json_step (Literal (x # xs)) st c =
     (if c \<noteq> x then None else Some (if xs = [] then EndValue else Literal xs, st))"

fun json_run :: "json_state \<Rightarrow> json_context list \<Rightarrow> string \<Rightarrow> (json_state \<times> json_context list) option" where
  "json_run q st [] = Some (q, st)"
| "json_run q st (c # cs) = (case json_step q st c of None \<Rightarrow> None | Some (q, st) \<Rightarrow> json_run q st cs)"

text \<open>At the end of the input the scanner is fed one more blank, unless it has seen a whole value.\<close>

definition json_Valid :: "string \<Rightarrow> bool" where
  "json_Valid s =
     (case json_run BeginValue [] s of
        None \<Rightarrow> False
      | Some (EndTop, st) \<Rightarrow> True
      | Some (q, st) \<Rightarrow> (case json_step q st (CHR '' '') of Some (EndTop, st) \<Rightarrow> True | _ \<Rightarrow> False))"

lemma json_Valid_Nil [simp]: "\<not> json_Valid []"
  by (simp add: json_Valid_def json_begin_value_def json_space_def)

section \<open>Base64\<close>

text \<open>\<open>base64.StdEncoding\<close>: line breaks are skipped, padding is required, spare bits are not checked.\<close>

definition b64_value :: "char \<Rightarrow> nat option" where
  "b64_value c = (let n = (of_char c :: nat) in
     if 65 \<le> n \<and> n \<le> 90 then Some (n - 65)
     else if 97 \<le> n \<and> n \<le> 122 then Some (n - 71)
     else if 48 \<le> n \<and> n \<le> 57 then Some (n + 4)
     else if c = CHR ''+'' then Some 62 else if c = CHR ''/'' then Some 63 else None)"

definition b64_bytes :: "nat \<Rightarrow> nat \<Rightarrow> nat \<Rightarrow> nat \<Rightarrow> string" where
  "b64_bytes a b c d = map char_of [a * 4 + b div 16, b mod 16 * 16 + c div 4, c mod 4 * 64 + d]"

fun b64_quads :: "string \<Rightarrow> string option" where
  "b64_quads [] = Some []"
| "b64_quads (a # b # c # d # rest) =
     (case (b64_value a, b64_value b) of
        (Some x, Some y) \<Rightarrow>
          if c = CHR ''='' then (if d = CHR ''='' \<and> rest = [] then Some (take 1 (b64_bytes x y 0 0)) else None)
          else (case b64_value c of
              None \<Rightarrow> None
            | Some z \<Rightarrow>
                if d = CHR ''='' then (if rest = [] then Some (take 2 (b64_bytes x y z 0)) else None)
                else (case b64_value d of
                    None \<Rightarrow> None
                  | Some w \<Rightarrow> map_option ((@) (b64_bytes x y z w)) (b64_quads rest)))
      | _ \<Rightarrow> None)"
| "b64_quads _ = None"

definition b64_decode :: "string \<Rightarrow> string option" where
  "b64_decode s = b64_quads (filter (\<lambda>c. c \<noteq> CHR 0x0A \<and> c \<noteq> CHR 0x0D) s)"

lemma b64_quads_length: "b64_quads s = Some r \<Longrightarrow> 4 * length r \<le> 3 * length s"
proof (induction s arbitrary: r rule: b64_quads.induct)
  case (2 a b c d rest)
  then show ?case
    by (auto simp: b64_bytes_def split: option.split_asm if_split_asm)
qed auto

text \<open>A decoded value is at most three quarters as long as its encoding.\<close>

lemma b64_decode_length:
  assumes "b64_decode s = Some r"
  shows "4 * length r \<le> 3 * length s"
proof -
  have "length (filter (\<lambda>c. c \<noteq> CHR 0x0A \<and> c \<noteq> CHR 0x0D) s) \<le> length s" by simp
  then show ?thesis using b64_quads_length [OF assms [unfolded b64_decode_def]] by linarith
qed

end
