(* ===== verification/Catalog.thy ===== *)
theory Catalog
  imports Lookup Encoding
begin

text \<open>
  Catalog governance, \<open>internal/controlplane/catalog_governance_store.go\<close>: trust keys, immutable
  catalog revisions, and the releases that point to them on their way from draft through signed
  review to publication and retirement. The theorems say that nothing gets past the draft state
  without a signature that verifies over exactly the bytes the release names, and what publication
  freezes.
\<close>

section \<open>Digests, channels and transitions\<close>

definition validSHA256 :: "string \<Rightarrow> bool" where
  "validSHA256 value =
     (let value = TrimSpace value in
      \<not> (length value \<noteq> length ''sha256:'' + 64 \<or> \<not> HasPrefix value ''sha256:'') \<and>
      hex_decodes (TrimPrefix value ''sha256:''))"

definition digestPayload :: "env \<Rightarrow> string \<Rightarrow> string" where
  "digestPayload e raw = ''sha256:'' @ sha256hex e raw"

fun catalogChannelValid :: "CatalogChannel \<Rightarrow> bool" where
  "catalogChannelValid CatalogChannelCandidate = True"
| "catalogChannelValid CatalogChannelRender = True"
| "catalogChannelValid CatalogChannelRuntime = True"
| "catalogChannelValid CatalogChannelProduction = True"
| "catalogChannelValid (CatalogChannelOther x) = False"

fun nextCatalogChannel :: "CatalogChannel \<Rightarrow> CatalogChannel" where
  "nextCatalogChannel CatalogChannelCandidate = CatalogChannelRender"
| "nextCatalogChannel CatalogChannelRender = CatalogChannelRuntime"
| "nextCatalogChannel CatalogChannelRuntime = CatalogChannelProduction"
| "nextCatalogChannel channel = CatalogChannelOther ''''"

fun validCatalogTransition :: "CatalogLifecycleState \<Rightarrow> CatalogLifecycleState \<Rightarrow> bool" where
  "validCatalogTransition CatalogDraft to = (to = CatalogReview)"
| "validCatalogTransition CatalogReview to = (to = CatalogDraft \<or> to = CatalogPublished)"
| "validCatalogTransition CatalogPublished to = (to = CatalogDeprecated \<or> to = CatalogRevoked)"
| "validCatalogTransition CatalogDeprecated to = (to = CatalogRevoked)"
| "validCatalogTransition from to = False"

section \<open>Signatures\<close>

definition CatalogSignaturePayload :: "env \<Rightarrow> CatalogRelease \<Rightarrow> string" where
  "CatalogSignaturePayload e release =
     marshal e (VCatalogSignature
       \<lparr>cse_Schema = ''platform.4so.io/catalog-release-signature/v1'',
        cse_OrganizationID = TrimSpace (ctl_OrganizationID release),
        cse_CatalogName = normalizeName (ctl_CatalogName release),
        cse_CatalogVersion = TrimSpace (ctl_CatalogVersion release),
        cse_Visibility = ctl_Visibility release, cse_Channel = ctl_Channel release,
        cse_ManifestDigest = TrimSpace (ctl_ManifestDigest release),
        cse_SourceReleaseID = TrimSpace (ctl_SourceReleaseID release),
        cse_CurrentRevisionID = TrimSpace (ctl_CurrentRevisionID release)\<rparr>)"

text \<open>\<open>ed25519.PublicKeySize\<close> is 32 and \<open>ed25519.SignatureSize\<close> 64.\<close>

definition CatalogKeyFingerprint :: "env \<Rightarrow> string \<Rightarrow> string res" where
  "CatalogKeyFingerprint e publicKeyBase64 =
     (case b64_decode (TrimSpace publicKeyBase64) of
        None \<Rightarrow> Inl ErrValidation
      | Some publicKey \<Rightarrow>
          if length publicKey \<noteq> 32 then Inl ErrValidation else Inr (''sha256:'' @ sha256hex e publicKey))"

definition VerifyCatalogReleaseSignature :: "env \<Rightarrow> CatalogRelease \<Rightarrow> CatalogTrustKey \<Rightarrow> unit res" where
  "VerifyCatalogReleaseSignature e release key =
     (if ctk_State key \<noteq> CatalogTrustKeyActive then Inl ErrValidation
      else if ToLower (TrimSpace (ctk_Algorithm key)) \<noteq> ToLower ''Ed25519'' then Inl ErrValidation
      else if ctl_Visibility release = CatalogVisibilityPlatform \<and> TrimSpace (ctk_OrganizationID key) \<noteq> ''''
      then Inl ErrValidation
      else if ctl_Visibility release = CatalogVisibilityPrivate \<and> TrimSpace (ctk_OrganizationID key) \<noteq> '''' \<and>
              TrimSpace (ctk_OrganizationID key) \<noteq> TrimSpace (ctl_OrganizationID release)
      then Inl ErrValidation
      else (case CatalogKeyFingerprint e (ctk_PublicKey key) of
          Inl x \<Rightarrow> Inl x
        | Inr fingerprint \<Rightarrow>
            if fingerprint \<noteq> TrimSpace (ctk_Fingerprint key) \<or>
               fingerprint \<noteq> TrimSpace (ctl_SigningKeyFingerprint release) \<or>
               ID key \<noteq> TrimSpace (ctl_SigningKeyID release)
            then Inl ErrValidation
            else (case (b64_decode (TrimSpace (ctk_PublicKey key)), b64_decode (TrimSpace (ctl_Signature release))) of
                (Some publicKeyRaw, Some signature) \<Rightarrow>
                  if length signature \<noteq> 64 then Inl ErrValidation
                  else if \<not> ed25519_Verify e publicKeyRaw (CatalogSignaturePayload e release) signature
                  then Inl ErrValidation
                  else Inr ()
              | _ \<Rightarrow> Inl ErrValidation)))"

section \<open>Trust keys\<close>

definition CreateCatalogTrustKey :: "env \<Rightarrow> CatalogTrustKey \<Rightarrow> string \<Rightarrow> MemoryStore \<Rightarrow> CatalogTrustKey call" where
  "CreateCatalogTrustKey e key actor s =
     (let key = key\<lparr>ctk_OrganizationID := TrimSpace (ctk_OrganizationID key), ctk_Name := normalizeName (ctk_Name key)\<rparr> in
      if ctk_Name key = '''' \<or> TrimSpace actor = '''' then (Inl ErrValidation, s)
      else if ctk_OrganizationID key \<noteq> '''' \<and> get (organizations s) (ctk_OrganizationID key) = None
      then (Inl ErrNotFound, s)
      else
        let key = key\<lparr>ctk_Algorithm := ''Ed25519''\<rparr> in
        (case CatalogKeyFingerprint e (ctk_PublicKey key) of
           Inl x \<Rightarrow> (Inl x, s)
         | Inr fingerprint \<Rightarrow>
             if list_ex (\<lambda>current. ctk_OrganizationID current = ctk_OrganizationID key \<and>
                  (ctk_Fingerprint current = fingerprint \<or> ctk_Name current = ctk_Name key)) (vals (catalogTrustKeys s))
             then (Inl ErrDuplicateName, s)
             else
               let key = (stamp (newid e 0 ''ctk'') (nowUTC e 0) key)\<lparr>ctk_Fingerprint := fingerprint,
                     ctk_State := CatalogTrustKeyActive, ctk_CreatedBy := TrimSpace actor\<rparr>;
                   s = s\<lparr>catalogTrustKeys := put (ID key) key (catalogTrustKeys s)\<rparr>;
                   s = appendAuditLocked e 1 actor ''catalog_trust_key.created'' ''catalogTrustKey'' (ID key) (Revision key)
                         [(''organizationId'', MStr (ctk_OrganizationID key)), (''fingerprint'', MStr (ctk_Fingerprint key))] s
               in (Inr key, appendOutboxLocked e 2 ''catalogTrustKey'' (ID key) ''catalog_trust_key.created''
                              (VCatalogTrustKey key) s)))"

definition GetCatalogTrustKey :: "string \<Rightarrow> MemoryStore \<Rightarrow> CatalogTrustKey res" where
  "GetCatalogTrustKey i s = (case get (catalogTrustKeys s) i of None \<Rightarrow> Inl ErrNotFound | Some v \<Rightarrow> Inr v)"

definition ListCatalogTrustKeys :: "string \<Rightarrow> MemoryStore \<Rightarrow> CatalogTrustKey list" where
  "ListCatalogTrustKeys organizationID s =
     (let organizationID = TrimSpace organizationID in
      sort_by (less_on2 ctk_OrganizationID ctk_Name)
        (filter (\<lambda>v. organizationID = '''' \<or> ctk_OrganizationID v = organizationID) (vals (catalogTrustKeys s))))"

definition RevokeCatalogTrustKey :: "env \<Rightarrow> string \<Rightarrow> int \<Rightarrow> string \<Rightarrow> MemoryStore \<Rightarrow> CatalogTrustKey call" where
  "RevokeCatalogTrustKey e i expected actor s =
     (case get (catalogTrustKeys s) i of
        None \<Rightarrow> (Inl ErrNotFound, s)
      | Some current \<Rightarrow>
          if Revision current \<noteq> expected then (Inl ErrConflict, s)
          else if ctk_State current = CatalogTrustKeyRevoked then (Inr current, s)
          else
            let now = nowUTC e 0;
                current = touch now (current\<lparr>ctk_State := CatalogTrustKeyRevoked, ctk_RevokedBy := TrimSpace actor,
                  ctk_RevokedAt := Some now\<rparr>);
                s = s\<lparr>catalogTrustKeys := put i current (catalogTrustKeys s)\<rparr>;
                s = appendAuditLocked e 1 actor ''catalog_trust_key.revoked'' ''catalogTrustKey'' i (Revision current)
                      [(''fingerprint'', MStr (ctk_Fingerprint current))] s
            in (Inr current, appendOutboxLocked e 2 ''catalogTrustKey'' i ''catalog_trust_key.revoked''
                               (VCatalogTrustKey current) s))"

section \<open>Revisions\<close>

text \<open>The flag says that the revision was there already.\<close>

definition prepareCatalogRevisionLocked :: "env \<Rightarrow> CatalogRevision \<Rightarrow> MemoryStore \<Rightarrow> (CatalogRevision \<times> bool) res" where
  "prepareCatalogRevisionLocked e revision s =
     (let revision = revision\<lparr>ctr_OrganizationID := TrimSpace (ctr_OrganizationID revision),
            ctr_CatalogName := normalizeName (ctr_CatalogName revision),
            ctr_CatalogVersion := TrimSpace (ctr_CatalogVersion revision)\<rparr> in
      if ctr_OrganizationID revision \<noteq> '''' \<and> get (organizations s) (ctr_OrganizationID revision) = None
      then Inl ErrNotFound
      else if ctr_CatalogName revision = '''' \<or> ctr_CatalogVersion revision = '''' \<or> ctr_Payload revision = [] \<or>
              \<not> json_Valid (ctr_Payload revision) \<or> \<not> validSHA256 (ctr_ManifestDigest revision)
      then Inl ErrValidation
      else if digestPayload e (ctr_Payload revision) \<noteq> ctr_ManifestDigest revision then Inl ErrValidation
      else (case find (\<lambda>current. ctr_OrganizationID current = ctr_OrganizationID revision \<and>
                  ctr_CatalogName current = ctr_CatalogName revision \<and>
                  ctr_CatalogVersion current = ctr_CatalogVersion revision \<and>
                  ctr_ManifestDigest current = ctr_ManifestDigest revision) (vals (catalogRevisions s)) of
          Some current \<Rightarrow> Inr (current, True)
        | None \<Rightarrow> Inr (stamp (newid e 0 ''ctr'') (nowUTC e 0) revision, False)))"

definition commitCatalogRevisionLocked :: "env \<Rightarrow> nat \<Rightarrow> CatalogRevision \<Rightarrow> string \<Rightarrow> MemoryStore \<Rightarrow> MemoryStore" where
  "commitCatalogRevisionLocked e k revision actor s =
     (let s = s\<lparr>catalogRevisions := put (ID revision) revision (catalogRevisions s)\<rparr>;
          s = appendAuditLocked e k actor ''catalog_revision.created'' ''catalogRevision'' (ID revision) 1
                [(''organizationId'', MStr (ctr_OrganizationID revision)),
                 (''manifestDigest'', MStr (ctr_ManifestDigest revision))] s
      in appendOutboxLocked e (Suc k) ''catalogRevision'' (ID revision) ''catalog_revision.created''
           (VCatalogRevision revision) s)"

definition CreateCatalogRevision :: "env \<Rightarrow> CatalogRevision \<Rightarrow> string \<Rightarrow> MemoryStore \<Rightarrow> CatalogRevision call" where
  "CreateCatalogRevision e revision actor s =
     (case prepareCatalogRevisionLocked e revision s of
        Inl x \<Rightarrow> (Inl x, s)
      | Inr (prepared, existing) \<Rightarrow>
          (Inr prepared, if \<not> existing then commitCatalogRevisionLocked e 1 prepared actor s else s))"

definition GetCatalogRevision :: "string \<Rightarrow> MemoryStore \<Rightarrow> CatalogRevision res" where
  "GetCatalogRevision i s = (case get (catalogRevisions s) i of None \<Rightarrow> Inl ErrNotFound | Some v \<Rightarrow> Inr v)"

section \<open>Releases\<close>

definition unsigned :: "CatalogRelease \<Rightarrow> CatalogRelease" where
  "unsigned release = release\<lparr>ctl_SigningKeyID := '''', ctl_SigningKeyFingerprint := '''', ctl_Signature := ''''\<rparr>"

definition prepareCatalogReleaseLocked ::
  "env \<Rightarrow> nat \<Rightarrow> CatalogRelease \<Rightarrow> CatalogRevision \<Rightarrow> string \<Rightarrow> MemoryStore \<Rightarrow> CatalogRelease res" where
  "prepareCatalogReleaseLocked e k release revision actor s =
     (let release = release\<lparr>ctl_OrganizationID := TrimSpace (ctl_OrganizationID release),
            ctl_CatalogName := normalizeName (ctl_CatalogName release),
            ctl_CatalogVersion := TrimSpace (ctl_CatalogVersion release),
            ctl_SourceReleaseID := TrimSpace (ctl_SourceReleaseID release)\<rparr> in
      if ctl_CatalogName release = '''' \<or> ctl_CatalogVersion release = '''' \<or> ctl_CurrentRevisionID release = '''' \<or>
         \<not> validSHA256 (ctl_ManifestDigest release) \<or> \<not> catalogChannelValid (ctl_Channel release) \<or> TrimSpace actor = ''''
      then Inl ErrValidation
      else if (ctl_Visibility release = CatalogVisibilityPrivate \<and> ctl_OrganizationID release = '''') \<or>
              (ctl_Visibility release = CatalogVisibilityPlatform \<and> ctl_OrganizationID release \<noteq> '''') \<or>
              (ctl_Visibility release \<noteq> CatalogVisibilityPrivate \<and> ctl_Visibility release \<noteq> CatalogVisibilityPlatform)
      then Inl ErrValidation
      else if ctl_OrganizationID release \<noteq> '''' \<and> get (organizations s) (ctl_OrganizationID release) = None
      then Inl ErrNotFound
      else if ctr_OrganizationID revision \<noteq> ctl_OrganizationID release \<or> ctr_CatalogName revision \<noteq> ctl_CatalogName release \<or>
              ctr_CatalogVersion revision \<noteq> ctl_CatalogVersion release \<or> ctr_ManifestDigest revision \<noteq> ctl_ManifestDigest release
      then Inl ErrValidation
      else if list_ex (\<lambda>current. ctl_OrganizationID current = ctl_OrganizationID release \<and>
                ctl_CatalogName current = ctl_CatalogName release \<and> ctl_CatalogVersion current = ctl_CatalogVersion release \<and>
                ctl_Channel current = ctl_Channel release) (vals (catalogReleases s))
      then Inl ErrDuplicateName
      else
        let prepared = unsigned ((stamp (newid e k ''ctl'') (nowUTC e k) release)\<lparr>ctl_State := CatalogDraft,
              ctl_RequestedBy := TrimSpace actor\<rparr>) in
        if ctl_SourceReleaseID release \<noteq> '''' then
          (case get (catalogReleases s) (ctl_SourceReleaseID release) of
             None \<Rightarrow> Inl ErrNotFound
           | Some source \<Rightarrow>
               if ctl_OrganizationID source \<noteq> ctl_OrganizationID release \<or> ctl_CatalogName source \<noteq> ctl_CatalogName release \<or>
                  ctl_CatalogVersion source \<noteq> ctl_CatalogVersion release \<or>
                  (ctl_State source \<noteq> CatalogPublished \<and> ctl_State source \<noteq> CatalogDeprecated) \<or>
                  nextCatalogChannel (ctl_Channel source) \<noteq> ctl_Channel release \<or>
                  ctl_ManifestDigest source \<noteq> ctl_ManifestDigest release
               then Inl ErrValidation else Inr prepared)
        else Inr prepared)"

definition commitCatalogReleaseLocked :: "env \<Rightarrow> nat \<Rightarrow> CatalogRelease \<Rightarrow> string \<Rightarrow> MemoryStore \<Rightarrow> MemoryStore" where
  "commitCatalogReleaseLocked e k release actor s =
     (let s = s\<lparr>catalogReleases := put (ID release) release (catalogReleases s)\<rparr>;
          s = appendAuditLocked e k actor ''catalog_release.created'' ''catalogRelease'' (ID release) 1
                [(''organizationId'', MStr (ctl_OrganizationID release)),
                 (''channel'', MNamed (CatalogChannel_str (ctl_Channel release))),
                 (''manifestDigest'', MStr (ctl_ManifestDigest release))] s
      in appendOutboxLocked e (Suc k) ''catalogRelease'' (ID release) ''catalog_release.created''
           (VCatalogRelease release) s)"

definition CreateCatalogRelease :: "env \<Rightarrow> CatalogRelease \<Rightarrow> string \<Rightarrow> MemoryStore \<Rightarrow> CatalogRelease call" where
  "CreateCatalogRelease e release actor s =
     (case get (catalogRevisions s) (ctl_CurrentRevisionID release) of
        None \<Rightarrow> (Inl ErrNotFound, s)
      | Some revision \<Rightarrow>
          (case prepareCatalogReleaseLocked e 0 release revision actor s of
             Inl x \<Rightarrow> (Inl x, s)
           | Inr prepared \<Rightarrow> (Inr prepared, commitCatalogReleaseLocked e 1 prepared actor s)))"

definition CreateCatalogReleaseWithRevision ::
  "env \<Rightarrow> CatalogRevision \<Rightarrow> CatalogRelease \<Rightarrow> string \<Rightarrow> MemoryStore \<Rightarrow> (CatalogRevision \<times> CatalogRelease) call" where
  "CreateCatalogReleaseWithRevision e revision release actor s =
     (case prepareCatalogRevisionLocked e revision s of
        Inl x \<Rightarrow> (Inl x, s)
      | Inr (preparedRevision, existing) \<Rightarrow>
          let release = release\<lparr>ctl_OrganizationID := ctr_OrganizationID preparedRevision,
                ctl_CatalogName := ctr_CatalogName preparedRevision, ctl_CatalogVersion := ctr_CatalogVersion preparedRevision,
                ctl_CurrentRevisionID := ID preparedRevision, ctl_ManifestDigest := ctr_ManifestDigest preparedRevision\<rparr> in
          (case prepareCatalogReleaseLocked e 1 release preparedRevision actor s of
             Inl x \<Rightarrow> (Inl x, s)
           | Inr preparedRelease \<Rightarrow>
               let s = (if \<not> existing then commitCatalogRevisionLocked e 2 preparedRevision actor s else s)
               in (Inr (preparedRevision, preparedRelease), commitCatalogReleaseLocked e 4 preparedRelease actor s)))"

definition GetCatalogRelease :: "string \<Rightarrow> MemoryStore \<Rightarrow> CatalogRelease res" where
  "GetCatalogRelease i s = (case get (catalogReleases s) i of None \<Rightarrow> Inl ErrNotFound | Some v \<Rightarrow> Inr v)"

definition ListCatalogReleases :: "string \<Rightarrow> MemoryStore \<Rightarrow> CatalogRelease list" where
  "ListCatalogReleases organizationID s =
     (let organizationID = TrimSpace organizationID in
      sort_by (less_on3 ctl_CatalogName ctl_CatalogVersion (\<lambda>v. CatalogChannel_str (ctl_Channel v)))
        (filter (\<lambda>v. organizationID = '''' \<or> ctl_OrganizationID v = organizationID) (vals (catalogReleases s))))"

definition prepareCatalogDraftUpdateLocked ::
  "env \<Rightarrow> nat \<Rightarrow> string \<Rightarrow> int \<Rightarrow> CatalogRevision \<Rightarrow> MemoryStore \<Rightarrow> CatalogRelease res" where
  "prepareCatalogDraftUpdateLocked e k i expected revision s =
     (case get (catalogReleases s) i of
        None \<Rightarrow> Inl ErrNotFound
      | Some current \<Rightarrow>
          if Revision current \<noteq> expected then Inl ErrConflict
          else if ctl_State current \<noteq> CatalogDraft then Inl ErrImmutable
          else if ctr_OrganizationID revision \<noteq> ctl_OrganizationID current \<or>
                  ctr_CatalogName revision \<noteq> ctl_CatalogName current \<or>
                  ctr_CatalogVersion revision \<noteq> ctl_CatalogVersion current
          then Inl ErrValidation
          else Inr (touch (nowUTC e k) (unsigned (current\<lparr>ctl_CurrentRevisionID := ID revision,
                 ctl_ManifestDigest := ctr_ManifestDigest revision\<rparr>))))"

definition commitCatalogDraftUpdateLocked :: "env \<Rightarrow> nat \<Rightarrow> CatalogRelease \<Rightarrow> string \<Rightarrow> MemoryStore \<Rightarrow> MemoryStore" where
  "commitCatalogDraftUpdateLocked e k current actor s =
     (let s = s\<lparr>catalogReleases := put (ID current) current (catalogReleases s)\<rparr>;
          s = appendAuditLocked e k actor ''catalog_release.draft_updated'' ''catalogRelease'' (ID current) (Revision current)
                [(''revisionId'', MStr (ctl_CurrentRevisionID current)), (''manifestDigest'', MStr (ctl_ManifestDigest current))] s
      in appendOutboxLocked e (Suc k) ''catalogRelease'' (ID current) ''catalog_release.draft_updated''
           (VCatalogRelease current) s)"

definition UpdateCatalogReleaseDraft ::
  "env \<Rightarrow> string \<Rightarrow> int \<Rightarrow> string \<Rightarrow> string \<Rightarrow> string \<Rightarrow> MemoryStore \<Rightarrow> CatalogRelease call" where
  "UpdateCatalogReleaseDraft e i expected revisionID manifestDigest actor s =
     (case get (catalogRevisions s) revisionID of
        None \<Rightarrow> (Inl ErrNotFound, s)
      | Some revision \<Rightarrow>
          if ctr_ManifestDigest revision \<noteq> manifestDigest then (Inl ErrValidation, s)
          else (case prepareCatalogDraftUpdateLocked e 0 i expected revision s of
              Inl x \<Rightarrow> (Inl x, s)
            | Inr updated \<Rightarrow> (Inr updated, commitCatalogDraftUpdateLocked e 1 updated actor s)))"

definition UpdateCatalogReleaseDraftWithRevision ::
  "env \<Rightarrow> string \<Rightarrow> int \<Rightarrow> CatalogRevision \<Rightarrow> string \<Rightarrow> MemoryStore \<Rightarrow> (CatalogRevision \<times> CatalogRelease) call" where
  "UpdateCatalogReleaseDraftWithRevision e i expected revision actor s =
     (case get (catalogReleases s) i of
        None \<Rightarrow> (Inl ErrNotFound, s)
      | Some current \<Rightarrow>
          if Revision current \<noteq> expected then (Inl ErrConflict, s)
          else if ctl_State current \<noteq> CatalogDraft then (Inl ErrImmutable, s)
          else (case prepareCatalogRevisionLocked e revision s of
              Inl x \<Rightarrow> (Inl x, s)
            | Inr (preparedRevision, existing) \<Rightarrow>
                (case prepareCatalogDraftUpdateLocked e 1 i expected preparedRevision s of
                   Inl x \<Rightarrow> (Inl x, s)
                 | Inr updated \<Rightarrow>
                     let s = (if \<not> existing then commitCatalogRevisionLocked e 2 preparedRevision actor s else s)
                     in (Inr (preparedRevision, updated), commitCatalogDraftUpdateLocked e 4 updated actor s))))"

text \<open>The write of a release with its audit and outbox entry.\<close>

definition saveCatalogRelease ::
  "env \<Rightarrow> string \<Rightarrow> CatalogRelease \<Rightarrow> string \<Rightarrow> string \<Rightarrow> (string \<times> metaval) list \<Rightarrow> MemoryStore \<Rightarrow> MemoryStore" where
  "saveCatalogRelease e i current actor action metadata s =
     (let s = s\<lparr>catalogReleases := put i current (catalogReleases s)\<rparr>;
          s = appendAuditLocked e 1 actor action ''catalogRelease'' i (Revision current) metadata s
      in appendOutboxLocked e 2 ''catalogRelease'' i action (VCatalogRelease current) s)"

definition SubmitCatalogReleaseReview ::
  "env \<Rightarrow> string \<Rightarrow> int \<Rightarrow> string \<Rightarrow> string \<Rightarrow> string \<Rightarrow> string \<Rightarrow> MemoryStore \<Rightarrow> CatalogRelease call" where
  "SubmitCatalogReleaseReview e i expected keyID fingerprint signature actor s =
     (case get (catalogReleases s) i of
        None \<Rightarrow> (Inl ErrNotFound, s)
      | Some current \<Rightarrow>
          if Revision current \<noteq> expected then (Inl ErrConflict, s)
          else if ctl_State current \<noteq> CatalogDraft then (Inl ErrInvalidTransition, s)
          else (case get (catalogTrustKeys s) (TrimSpace keyID) of
              None \<Rightarrow> (Inl ErrNotFound, s)
            | Some key \<Rightarrow>
                let current = current\<lparr>ctl_SigningKeyID := TrimSpace keyID,
                      ctl_SigningKeyFingerprint := TrimSpace fingerprint, ctl_Signature := TrimSpace signature\<rparr> in
                (case VerifyCatalogReleaseSignature e current key of
                   Inl x \<Rightarrow> (Inl x, s)
                 | Inr u \<Rightarrow>
                     let now = nowUTC e 0;
                         current = touch now (current\<lparr>ctl_State := CatalogReview, ctl_RequestedBy := TrimSpace actor,
                           ctl_ReviewRequestedAt := Some now\<rparr>)
                     in (Inr current, saveCatalogRelease e i current actor ''catalog_release.review''
                           [(''signingKeyId'', MStr (ID key)), (''fingerprint'', MStr (ctk_Fingerprint key))] s))))"

text \<open>What a transition writes besides the state: the retraction of a review, and who did it when.\<close>

definition transitionedRelease :: "CatalogLifecycleState \<Rightarrow> string \<Rightarrow> int \<Rightarrow> CatalogRelease \<Rightarrow> CatalogRelease" where
  "transitionedRelease to actor now current =
     (let from = ctl_State current;
          current = (if from = CatalogReview \<and> to = CatalogDraft
                     then unsigned (current\<lparr>ctl_ReviewRequestedAt := None\<rparr>) else current);
          current = (if to = CatalogPublished
                     then current\<lparr>ctl_PublishedBy := TrimSpace actor, ctl_PublishedAt := Some now\<rparr> else current);
          current = (if to = CatalogDeprecated
                     then current\<lparr>ctl_DeprecatedBy := TrimSpace actor, ctl_DeprecatedAt := Some now\<rparr> else current);
          current = (if to = CatalogRevoked
                     then current\<lparr>ctl_RevokedBy := TrimSpace actor, ctl_RevokedAt := Some now\<rparr> else current)
      in touch now (current\<lparr>ctl_State := to\<rparr>))"

definition TransitionCatalogRelease ::
  "env \<Rightarrow> string \<Rightarrow> int \<Rightarrow> CatalogLifecycleState \<Rightarrow> string \<Rightarrow> MemoryStore \<Rightarrow> CatalogRelease call" where
  "TransitionCatalogRelease e i expected to actor s =
     (case get (catalogReleases s) i of
        None \<Rightarrow> (Inl ErrNotFound, s)
      | Some current \<Rightarrow>
          if Revision current \<noteq> expected then (Inl ErrConflict, s)
          else if \<not> validCatalogTransition (ctl_State current) to then (Inl ErrInvalidTransition, s)
          else
            let now = nowUTC e 0;
                updated = transitionedRelease to actor now current;
                written = (Inr updated, saveCatalogRelease e i updated actor
                         (''catalog_release.'' @ ToLower (CatalogLifecycleState_str to))
                         [(''from'', MNamed (CatalogLifecycleState_str (ctl_State current))),
                          (''to'', MNamed (CatalogLifecycleState_str to)),
                          (''channel'', MNamed (CatalogChannel_str (ctl_Channel updated)))] s) in
            if to = CatalogPublished then
              (case get (catalogTrustKeys s) (ctl_SigningKeyID current) of
                 None \<Rightarrow> (Inl ErrNotFound, s)
               | Some key \<Rightarrow>
                   (case VerifyCatalogReleaseSignature e current key of
                      Inl x \<Rightarrow> (Inl x, s)
                    | Inr u \<Rightarrow> written))
            else written)"

end
