(* ===== verification/Blueprints.thy ===== *)
theory Blueprints
  imports Catalog
begin

text \<open>
  Blueprint overlays, revisions, releases and assignments: \<open>blueprint_overlay.go\<close> and the blueprint
  calls of \<open>memory_store.go\<close> in \<open>internal/controlplane\<close>. The two anchored expressions of the overlay
  check are written as predicates on byte strings; the search for secret-shaped path segments works on
  UTF-8 and folds case as \<open>regexp\<close> does, including the three runes outside ASCII that fold to a letter
  of the expression.
\<close>

section \<open>Overlays\<close>

fun split_on :: "char \<Rightarrow> string \<Rightarrow> string list" where
  "split_on c [] = [[]]"
| "split_on c (x # xs) = (if x = c then [] # split_on c xs else (case split_on c xs of [] \<Rightarrow> [[x]] | w # ws \<Rightarrow> (x # w) # ws))"

definition HasSuffix :: "string \<Rightarrow> string \<Rightarrow> bool" where
  "HasSuffix s p = HasPrefix (rev s) (rev p)"

text \<open>\<open>^[0-9]+\.[0-9]+\.[0-9]+$\<close>\<close>

definition overlaySemver :: "string \<Rightarrow> bool" where
  "overlaySemver s = (let parts = split_on (CHR ''.'') s in length parts = 3 \<and> list_all (\<lambda>p. p \<noteq> [] \<and> list_all digit p) parts)"

text \<open>\<open>^[a-z0-9]([-a-z0-9]*[a-z0-9])?$\<close>\<close>

definition label_char :: "char \<Rightarrow> bool" where
  "label_char c = (digit c \<or> (let n = (of_char c :: nat) in 97 \<le> n \<and> n \<le> 122))"

definition overlayName :: "string \<Rightarrow> bool" where
  "overlayName s = (s \<noteq> [] \<and> label_char (hd s) \<and> label_char (last s) \<and> list_all (\<lambda>c. label_char c \<or> c = CHR ''-'') s)"

text \<open>The number of bytes of the first rune; a byte that starts no valid encoding stands alone.\<close>

definition cont :: "char \<Rightarrow> bool" where
  "cont c = (let n = (of_char c :: nat) in 128 \<le> n \<and> n \<le> 191)"

definition second_ok :: "nat \<Rightarrow> char \<Rightarrow> bool" where
  "second_ok lead c = (let n = (of_char c :: nat) in
     (if lead = 0xE0 then 0xA0 else if lead = 0xF0 then 0x90 else 0x80) \<le> n \<and>
     n \<le> (if lead = 0xED then 0x9F else if lead = 0xF4 then 0x8F else 0xBF))"

definition rune_width :: "string \<Rightarrow> nat" where
  "rune_width s = (case s of [] \<Rightarrow> 0 | a # rest \<Rightarrow>
     (let n = (of_char a :: nat) in
      if 0xC2 \<le> n \<and> n \<le> 0xDF \<and> rest \<noteq> [] \<and> cont (hd rest) then 2
      else if 0xE0 \<le> n \<and> n \<le> 0xEF \<and> 2 \<le> length rest \<and> second_ok n (rest ! 0) \<and> cont (rest ! 1) then 3
      else if 0xF0 \<le> n \<and> n \<le> 0xF4 \<and> 3 \<le> length rest \<and> second_ok n (rest ! 0) \<and> cont (rest ! 1) \<and> cont (rest ! 2) then 4
      else 1))"

text \<open>
  One letter of a case-insensitive expression against lower-cased text: the letter itself, or the long
  s, the Kelvin sign and the dotted capital I for \<open>s\<close>, \<open>k\<close> and \<open>i\<close>.
\<close>

definition fold_letter :: "char \<Rightarrow> string \<Rightarrow> string option" where
  "fold_letter c s =
     (if HasPrefix s [c] then Some (drop 1 s)
      else if c = CHR ''s'' \<and> HasPrefix s [CHR 0xC5, CHR 0xBF] then Some (drop 2 s)
      else if c = CHR ''k'' \<and> HasPrefix s [CHR 0xE2, CHR 0x84, CHR 0xAA] then Some (drop 3 s)
      else if c = CHR ''i'' \<and> HasPrefix s [CHR 0xC4, CHR 0xB0] then Some (drop 2 s)
      else None)"

fun fold_word :: "string \<Rightarrow> string \<Rightarrow> string option" where
  "fold_word [] s = Some s"
| "fold_word (c # w) s = (case fold_letter c s of None \<Rightarrow> None | Some s \<Rightarrow> fold_word w s)"

text \<open>\<open>(?i)(password|token|secret|private.?key|credential)\<close> at the start of the text, and anywhere in it.\<close>

definition sensitive_here :: "string \<Rightarrow> bool" where
  "sensitive_here s =
     (list_ex (\<lambda>w. fold_word w s \<noteq> None) [''password'', ''token'', ''secret'', ''credential''] \<or>
      (case fold_word ''private'' s of
         None \<Rightarrow> False
       | Some s \<Rightarrow> fold_word ''key'' s \<noteq> None \<or>
           (s \<noteq> [] \<and> hd s \<noteq> CHR 0x0A \<and> fold_word ''key'' (drop (rune_width s) s) \<noteq> None)))"

fun overlaySensitiveSegment :: "string \<Rightarrow> bool" where
  "overlaySensitiveSegment [] = sensitive_here []"
| "overlaySensitiveSegment (c # s) = (sensitive_here (c # s) \<or> overlaySensitiveSegment s)"

definition sensitive_path :: "string \<Rightarrow> bool" where
  "sensitive_path path = list_ex (\<lambda>segment. let segment = ToLower segment in
     overlaySensitiveSegment segment \<and> \<not> HasSuffix segment ''ref'' \<and> \<not> HasSuffix segment ''reference'') (split_on (CHR ''/'') path)"

text \<open>The loop over the changes, with the paths seen so far; it gives the changes with trimmed paths.\<close>

fun normalizeChanges :: "string list \<Rightarrow> BlueprintOverlayChange list \<Rightarrow> BlueprintOverlayChange list res" where
  "normalizeChanges seen [] = Inr []"
| "normalizeChanges seen (c # cs) =
     (let c = c\<lparr>ovc_Path := TrimSpace (ovc_Path c)\<rparr> in
      if \<not> HasPrefix (ovc_Path c) ''/spec/'' \<or> HasPrefix (ovc_Path c) ''/spec/fieldOwnership'' \<or> ovc_Path c \<in> set seen
      then Inl ErrValidation
      else if ovc_Value c = [] \<or> \<not> json_Valid (ovc_Value c) then Inl ErrValidation
      else if sensitive_path (ovc_Path c) then Inl ErrValidation
      else (case normalizeChanges (ovc_Path c # seen) cs of Inl x \<Rightarrow> Inl x | Inr cs \<Rightarrow> Inr (c # cs)))"

definition NormalizeBlueprintOverlay :: "env \<Rightarrow> BlueprintOverlay \<Rightarrow> BlueprintOverlay res" where
  "NormalizeBlueprintOverlay e v =
     (let v = v\<lparr>bov_ProjectID := TrimSpace (bov_ProjectID v), bov_Name := ToLower (TrimSpace (bov_Name v)),
            bov_Version := TrimSpace (bov_Version v), bov_ScopeKey := ToLower (TrimSpace (bov_ScopeKey v))\<rparr> in
      if bov_ProjectID v = '''' \<or> \<not> overlayName (bov_Name v) \<or> 63 < length (bov_Name v) \<or> \<not> overlaySemver (bov_Version v) \<or>
         \<not> overlayName (bov_ScopeKey v) \<or> 63 < length (bov_ScopeKey v)
      then Inl ErrValidation
      else if bov_Scope v \<noteq> BlueprintOverlayProvider \<and> bov_Scope v \<noteq> BlueprintOverlayEnvironment then Inl ErrValidation
      else if bov_Changes v = [] \<or> 128 < length (bov_Changes v) then Inl ErrValidation
      else (case normalizeChanges [] (bov_Changes v) of
          Inl x \<Rightarrow> Inl x
        | Inr changes \<Rightarrow>
            let v = v\<lparr>bov_Changes := sort_by (less_on ovc_Path) changes\<rparr>;
                raw = marshal e (VOverlayMaterial (bov_ProjectID v) (bov_Name v) (bov_Version v) (bov_Scope v)
                        (bov_ScopeKey v) (bov_Changes v))
            in Inr (v\<lparr>bov_Digest := sha256_digest e raw\<rparr>)))"

definition CreateBlueprintOverlay :: "env \<Rightarrow> BlueprintOverlay \<Rightarrow> string \<Rightarrow> MemoryStore \<Rightarrow> BlueprintOverlay call" where
  "CreateBlueprintOverlay e overlay actor s =
     (if get (projects s) (bov_ProjectID overlay) = None then (Inl ErrNotFound, s)
      else (case NormalizeBlueprintOverlay e overlay of
          Inl x \<Rightarrow> (Inl x, s)
        | Inr overlay \<Rightarrow>
            if list_ex (\<lambda>existing. bov_ProjectID existing = bov_ProjectID overlay \<and> bov_Name existing = bov_Name overlay \<and>
                 bov_Version existing = bov_Version overlay) (vals (blueprintOverlays s))
            then (Inl ErrDuplicateName, s)
            else
              let overlay = (stamp (newid e 0 ''bpo'') (nowUTC e 0) overlay)\<lparr>bov_CreatedBy := TrimSpace actor\<rparr>;
                  s = s\<lparr>blueprintOverlays := put (ID overlay) overlay (blueprintOverlays s)\<rparr>;
                  s = appendAuditLocked e 1 actor ''blueprint_overlay.created'' ''blueprintOverlay'' (ID overlay) (Revision overlay)
                        [(''projectId'', MStr (bov_ProjectID overlay)),
                         (''scope'', MNamed (BlueprintOverlayScope_str (bov_Scope overlay))),
                         (''scopeKey'', MStr (bov_ScopeKey overlay)), (''digest'', MStr (bov_Digest overlay))] s
              in (Inr overlay, appendOutboxLocked e 2 ''blueprintOverlay'' (ID overlay) ''blueprint_overlay.created''
                                 (VBlueprintOverlay overlay) s)))"

definition GetBlueprintOverlay :: "string \<Rightarrow> MemoryStore \<Rightarrow> BlueprintOverlay res" where
  "GetBlueprintOverlay i s = (case get (blueprintOverlays s) i of None \<Rightarrow> Inl ErrNotFound | Some v \<Rightarrow> Inr v)"

definition ListBlueprintOverlays :: "string \<Rightarrow> BlueprintOverlayScope \<Rightarrow> MemoryStore \<Rightarrow> BlueprintOverlay list" where
  "ListBlueprintOverlays projectID scope s =
     sort_by (less_on3 bov_Name bov_Version ID)
       (filter (\<lambda>v. (projectID = '''' \<or> bov_ProjectID v = projectID) \<and>
          (BlueprintOverlayScope_str scope = '''' \<or> bov_Scope v = scope)) (vals (blueprintOverlays s)))"

section \<open>Revisions\<close>

definition historicalResolutionDigest :: string where
  "historicalResolutionDigest = ''sha256:'' @ replicate 64 (CHR ''0'')"

definition NormalizeBlueprintRevisionResolution :: "BlueprintRevision \<Rightarrow> BlueprintRevision" where
  "NormalizeBlueprintRevisionResolution v =
     (let v = (if bpr_BaseBlueprintDigest v = '''' then v\<lparr>bpr_BaseBlueprintDigest := bpr_BlueprintDigest v\<rparr> else v);
          v = (if bpr_OverlayDigest v = '''' then v\<lparr>bpr_OverlayDigest := historicalResolutionDigest\<rparr> else v);
          v = (if bpr_OwnershipDigest v = '''' then v\<lparr>bpr_OwnershipDigest := historicalResolutionDigest\<rparr> else v);
          v = (if bpr_BasePayload v = [] then v\<lparr>bpr_BasePayload := bpr_Payload v\<rparr> else v)
      in if bpr_ResolutionPayload v = []
         then v\<lparr>bpr_ResolutionPayload := ''{\"fields\":[],\"migration\":\"historical-pre-overlay\"}''\<rparr> else v)"

text \<open>An overlay a revision names belongs to its project and has the scope of its slot.\<close>

definition checkOverlay :: "MemoryStore \<Rightarrow> string \<Rightarrow> BlueprintOverlayScope \<Rightarrow> string \<Rightarrow> unit res" where
  "checkOverlay s projectID scope overlayID =
     (if overlayID \<noteq> '''' then
        (case get (blueprintOverlays s) overlayID of
           None \<Rightarrow> Inl ErrNotFound
         | Some overlay \<Rightarrow>
             if bov_ProjectID overlay \<noteq> projectID \<or> bov_Scope overlay \<noteq> scope then Inl ErrValidation else Inr ())
      else Inr ())"

definition same_revision :: "BlueprintRevision \<Rightarrow> BlueprintRevision \<Rightarrow> bool" where
  "same_revision x r = (bpr_ProjectID x = bpr_ProjectID r \<and> bpr_BlueprintDigest x = bpr_BlueprintDigest r \<and>
     bpr_CatalogDigest x = bpr_CatalogDigest r \<and> bpr_BaseBlueprintDigest x = bpr_BaseBlueprintDigest r \<and>
     bpr_OverlayDigest x = bpr_OverlayDigest r \<and> bpr_OwnershipDigest x = bpr_OwnershipDigest r)"

definition prepareBlueprintRevisionLocked :: "env \<Rightarrow> BlueprintRevision \<Rightarrow> MemoryStore \<Rightarrow> (BlueprintRevision \<times> bool) res" where
  "prepareBlueprintRevisionLocked e r s =
     (let r = NormalizeBlueprintRevisionResolution r in
      if get (projects s) (bpr_ProjectID r) = None then Inl ErrNotFound
      else if \<not> HasPrefix (bpr_BlueprintDigest r) ''sha256:'' \<or> \<not> HasPrefix (bpr_CatalogDigest r) ''sha256:'' \<or>
              \<not> HasPrefix (bpr_BaseBlueprintDigest r) ''sha256:'' \<or> \<not> HasPrefix (bpr_OverlayDigest r) ''sha256:'' \<or>
              \<not> HasPrefix (bpr_OwnershipDigest r) ''sha256:'' \<or> bpr_Payload r = [] \<or> \<not> json_Valid (bpr_Payload r) \<or>
              bpr_BasePayload r = [] \<or> \<not> json_Valid (bpr_BasePayload r) \<or> bpr_ResolutionPayload r = [] \<or>
              \<not> json_Valid (bpr_ResolutionPayload r)
      then Inl ErrValidation
      else (case checkOverlay s (bpr_ProjectID r) BlueprintOverlayProvider (bpr_ProviderOverlayID r) of
          Inl x \<Rightarrow> Inl x
        | Inr u \<Rightarrow>
            (case checkOverlay s (bpr_ProjectID r) BlueprintOverlayEnvironment (bpr_EnvironmentOverlayID r) of
               Inl x \<Rightarrow> Inl x
             | Inr u \<Rightarrow>
                 (case find (\<lambda>x. same_revision x r) (vals (revisions s)) of
                    Some x \<Rightarrow> Inr (x, True)
                  | None \<Rightarrow> Inr (stamp (newid e 0 ''bpr'') (nowUTC e 0) r, False)))))"

definition commitBlueprintRevisionLocked :: "env \<Rightarrow> nat \<Rightarrow> BlueprintRevision \<Rightarrow> string \<Rightarrow> MemoryStore \<Rightarrow> MemoryStore" where
  "commitBlueprintRevisionLocked e k r actor s =
     (let s = s\<lparr>revisions := put (ID r) r (revisions s)\<rparr>;
          s = appendAuditLocked e k actor ''blueprint_revision.created'' ''blueprintRevision'' (ID r) (Revision r)
                [(''projectId'', MStr (bpr_ProjectID r))] s
      in appendOutboxLocked e (Suc k) ''blueprintRevision'' (ID r) ''blueprint_revision.created'' (VBlueprintRevision r) s)"

definition CreateBlueprintRevision :: "env \<Rightarrow> BlueprintRevision \<Rightarrow> string \<Rightarrow> MemoryStore \<Rightarrow> BlueprintRevision call" where
  "CreateBlueprintRevision e r actor s =
     (case prepareBlueprintRevisionLocked e r s of
        Inl x \<Rightarrow> (Inl x, s)
      | Inr (prepared, existing) \<Rightarrow>
          (Inr prepared, if \<not> existing then commitBlueprintRevisionLocked e 1 prepared actor s else s))"

definition GetBlueprintRevision :: "string \<Rightarrow> MemoryStore \<Rightarrow> BlueprintRevision res" where
  "GetBlueprintRevision i s = (case get (revisions s) i of None \<Rightarrow> Inl ErrNotFound | Some v \<Rightarrow> Inr v)"

section \<open>Releases\<close>

fun validBlueprintTransition :: "BlueprintLifecycleState \<Rightarrow> BlueprintLifecycleState \<Rightarrow> bool" where
  "validBlueprintTransition BlueprintDraft to = (to = BlueprintReview)"
| "validBlueprintTransition BlueprintReview to = (to = BlueprintDraft \<or> to = BlueprintPublished)"
| "validBlueprintTransition BlueprintPublished to = (to = BlueprintDeprecated \<or> to = BlueprintRevoked)"
| "validBlueprintTransition BlueprintDeprecated to = (to = BlueprintRevoked)"
| "validBlueprintTransition from to = False"

text \<open>
  Whether a catalog release can carry a blueprint of a project: it is published with the given digest
  and visible to the project's organization. A project that is not stored reads as the zero project.
\<close>

definition project_organization :: "MemoryStore \<Rightarrow> string \<Rightarrow> string" where
  "project_organization s projectID = (case get (projects s) projectID of None \<Rightarrow> '''' | Some p \<Rightarrow> prj_OrganizationID p)"

definition catalog_carries :: "MemoryStore \<Rightarrow> string \<Rightarrow> string \<Rightarrow> CatalogRelease \<Rightarrow> bool" where
  "catalog_carries s projectID digest catalogRelease =
     (\<not> (ctl_State catalogRelease \<noteq> CatalogPublished \<or> ctl_ManifestDigest catalogRelease \<noteq> digest \<or>
         (ctl_Visibility catalogRelease = CatalogVisibilityPrivate \<and>
          ctl_OrganizationID catalogRelease \<noteq> project_organization s projectID)))"

text \<open>The signature check of a linked catalog release.\<close>

definition verifyCatalogLink :: "env \<Rightarrow> MemoryStore \<Rightarrow> CatalogRelease \<Rightarrow> unit res" where
  "verifyCatalogLink e s catalogRelease =
     (case get (catalogTrustKeys s) (ctl_SigningKeyID catalogRelease) of
        None \<Rightarrow> Inl ErrNotFound
      | Some key \<Rightarrow> VerifyCatalogReleaseSignature e catalogRelease key)"

definition createCatalogLink :: "env \<Rightarrow> MemoryStore \<Rightarrow> BlueprintRelease \<Rightarrow> unit res" where
  "createCatalogLink e s release =
     (if TrimSpace (rel_CatalogReleaseID release) \<noteq> '''' then
        (case get (catalogReleases s) (TrimSpace (rel_CatalogReleaseID release)) of
           None \<Rightarrow> Inl ErrNotFound
         | Some catalogRelease \<Rightarrow>
             if \<not> catalog_carries s (rel_ProjectID release) (rel_CatalogDigest release) catalogRelease then Inl ErrValidation
             else verifyCatalogLink e s catalogRelease)
      else Inr ())"

definition publishable :: "BlueprintLifecycleState \<Rightarrow> bool" where
  "publishable st = (st = BlueprintPublished \<or> st = BlueprintDeprecated)"

text \<open>The loop over the upgrade sources of a new release, with the identifiers seen so far.\<close>

fun createSources :: "MemoryStore \<Rightarrow> BlueprintRelease \<Rightarrow> string list \<Rightarrow> string list \<Rightarrow> unit res" where
  "createSources s release seen [] = Inr ()"
| "createSources s release seen (sourceID # rest) =
     (if sourceID = '''' \<or> sourceID \<in> set seen then Inl ErrValidation
      else (case get (blueprintReleases s) sourceID of
          None \<Rightarrow> Inl ErrValidation
        | Some source \<Rightarrow>
            if rel_ProjectID source \<noteq> rel_ProjectID release \<or>
               normalizeName (rel_BlueprintName source) \<noteq> normalizeName (rel_BlueprintName release) \<or>
               \<not> publishable (rel_State source)
            then Inl ErrValidation else createSources s release (sourceID # seen) rest))"

definition prepareBlueprintReleaseLocked ::
  "env \<Rightarrow> nat \<Rightarrow> BlueprintRelease \<Rightarrow> BlueprintRevision \<Rightarrow> string \<Rightarrow> MemoryStore \<Rightarrow> BlueprintRelease res" where
  "prepareBlueprintReleaseLocked e k release revision actor s =
     (if get (projects s) (rel_ProjectID release) = None then Inl ErrNotFound
      else if bpr_ProjectID revision \<noteq> rel_ProjectID release \<or> bpr_BlueprintName revision \<noteq> rel_BlueprintName release \<or>
              bpr_BlueprintVersion revision \<noteq> rel_BlueprintVersion release \<or>
              bpr_BlueprintDigest revision \<noteq> rel_CurrentBlueprintDigest release \<or>
              bpr_CatalogDigest revision \<noteq> rel_CatalogDigest release
      then Inl ErrValidation
      else (case createCatalogLink e s release of
          Inl x \<Rightarrow> Inl x
        | Inr u \<Rightarrow>
            if normalizeName (rel_BlueprintName release) = '''' \<or> TrimSpace (rel_BlueprintVersion release) = ''''
            then Inl ErrValidation
            else if list_ex (\<lambda>existing. rel_ProjectID existing = rel_ProjectID release \<and>
                      normalizeName (rel_BlueprintName existing) = normalizeName (rel_BlueprintName release) \<and>
                      rel_BlueprintVersion existing = rel_BlueprintVersion release) (vals (blueprintReleases s))
            then Inl ErrDuplicateName
            else (case createSources s release [] (rel_UpgradeFromIDs release) of
                Inl x \<Rightarrow> Inl x
              | Inr u \<Rightarrow> Inr ((stamp (newid e k ''bpl'') (nowUTC e k) release)\<lparr>rel_State := BlueprintDraft,
                  rel_BlueprintName := normalizeName (rel_BlueprintName release), rel_RequestedBy := TrimSpace actor,
                  rel_UpgradeFromIDs := sort (rel_UpgradeFromIDs release)\<rparr>))))"

definition commitBlueprintReleaseLocked :: "env \<Rightarrow> nat \<Rightarrow> BlueprintRelease \<Rightarrow> string \<Rightarrow> MemoryStore \<Rightarrow> MemoryStore" where
  "commitBlueprintReleaseLocked e k release actor s =
     (let s = s\<lparr>blueprintReleases := put (ID release) release (blueprintReleases s)\<rparr>;
          s = appendAuditLocked e k actor ''blueprint_release.created'' ''blueprintRelease'' (ID release) (Revision release)
                [(''projectId'', MStr (rel_ProjectID release)), (''blueprintName'', MStr (rel_BlueprintName release)),
                 (''blueprintVersion'', MStr (rel_BlueprintVersion release))] s
      in appendOutboxLocked e (Suc k) ''blueprintRelease'' (ID release) ''blueprint_release.created''
           (VBlueprintRelease release) s)"

definition CreateBlueprintRelease :: "env \<Rightarrow> BlueprintRelease \<Rightarrow> string \<Rightarrow> MemoryStore \<Rightarrow> BlueprintRelease call" where
  "CreateBlueprintRelease e release actor s =
     (case get (revisions s) (rel_CurrentRevisionID release) of
        None \<Rightarrow> (Inl ErrNotFound, s)
      | Some revision \<Rightarrow>
          (case prepareBlueprintReleaseLocked e 0 release revision actor s of
             Inl x \<Rightarrow> (Inl x, s)
           | Inr prepared \<Rightarrow> (Inr prepared, commitBlueprintReleaseLocked e 1 prepared actor s)))"

definition CreateBlueprintReleaseWithRevision ::
  "env \<Rightarrow> BlueprintRevision \<Rightarrow> BlueprintRelease \<Rightarrow> string \<Rightarrow> MemoryStore \<Rightarrow> (BlueprintRevision \<times> BlueprintRelease) call" where
  "CreateBlueprintReleaseWithRevision e revision release actor s =
     (case prepareBlueprintRevisionLocked e revision s of
        Inl x \<Rightarrow> (Inl x, s)
      | Inr (preparedRevision, existing) \<Rightarrow>
          let release = release\<lparr>rel_ProjectID := bpr_ProjectID preparedRevision,
                rel_BlueprintName := bpr_BlueprintName preparedRevision,
                rel_BlueprintVersion := bpr_BlueprintVersion preparedRevision,
                rel_CurrentRevisionID := ID preparedRevision,
                rel_CurrentBlueprintDigest := bpr_BlueprintDigest preparedRevision,
                rel_CatalogDigest := bpr_CatalogDigest preparedRevision\<rparr> in
          (case prepareBlueprintReleaseLocked e 1 release preparedRevision actor s of
             Inl x \<Rightarrow> (Inl x, s)
           | Inr preparedRelease \<Rightarrow>
               let s = (if \<not> existing then commitBlueprintRevisionLocked e 2 preparedRevision actor s else s)
               in (Inr (preparedRevision, preparedRelease), commitBlueprintReleaseLocked e 4 preparedRelease actor s)))"

definition GetBlueprintRelease :: "string \<Rightarrow> MemoryStore \<Rightarrow> BlueprintRelease res" where
  "GetBlueprintRelease i s = (case get (blueprintReleases s) i of None \<Rightarrow> Inl ErrNotFound | Some v \<Rightarrow> Inr v)"

definition ListBlueprintReleases :: "string \<Rightarrow> MemoryStore \<Rightarrow> BlueprintRelease list" where
  "ListBlueprintReleases projectID s =
     sort_by (less_on3 rel_BlueprintName rel_BlueprintVersion ID)
       (filter (\<lambda>v. projectID = '''' \<or> rel_ProjectID v = projectID) (vals (blueprintReleases s)))"

text \<open>The loop over the upgrade sources of a draft update.\<close>

fun updateSources :: "MemoryStore \<Rightarrow> string \<Rightarrow> BlueprintRelease \<Rightarrow> string list \<Rightarrow> string list \<Rightarrow> unit res" where
  "updateSources s i current seen [] = Inr ()"
| "updateSources s i current seen (sourceID # rest) =
     (if sourceID = i \<or> sourceID = '''' \<or> sourceID \<in> set seen then Inl ErrValidation
      else (case get (blueprintReleases s) sourceID of
          None \<Rightarrow> Inl ErrValidation
        | Some source \<Rightarrow>
            if rel_ProjectID source \<noteq> rel_ProjectID current \<or> rel_BlueprintName source \<noteq> rel_BlueprintName current \<or>
               \<not> publishable (rel_State source)
            then Inl ErrValidation else updateSources s i current (sourceID # seen) rest))"

definition prepareBlueprintDraftUpdateLocked ::
  "env \<Rightarrow> nat \<Rightarrow> string \<Rightarrow> int \<Rightarrow> BlueprintRevision \<Rightarrow> bool \<Rightarrow> string \<Rightarrow> string list \<Rightarrow> MemoryStore \<Rightarrow> BlueprintRelease res" where
  "prepareBlueprintDraftUpdateLocked e k i expected revision executionReady planStatus upgradeFromIDs s =
     (case get (blueprintReleases s) i of
        None \<Rightarrow> Inl ErrNotFound
      | Some current \<Rightarrow>
          if Revision current \<noteq> expected then Inl ErrConflict
          else if rel_State current \<noteq> BlueprintDraft then Inl ErrImmutable
          else if bpr_ProjectID revision \<noteq> rel_ProjectID current \<or> bpr_BlueprintName revision \<noteq> rel_BlueprintName current \<or>
                  bpr_BlueprintVersion revision \<noteq> rel_BlueprintVersion current
          then Inl ErrValidation
          else (case updateSources s i current [] upgradeFromIDs of
              Inl x \<Rightarrow> Inl x
            | Inr u \<Rightarrow> Inr (touch (nowUTC e k) (current\<lparr>rel_CurrentRevisionID := ID revision,
                rel_CurrentBlueprintDigest := bpr_BlueprintDigest revision, rel_CatalogDigest := bpr_CatalogDigest revision,
                rel_ExecutionReady := executionReady, rel_PlanStatus := TrimSpace planStatus,
                rel_UpgradeFromIDs := sort upgradeFromIDs\<rparr>))))"

definition commitBlueprintDraftUpdateLocked :: "env \<Rightarrow> nat \<Rightarrow> BlueprintRelease \<Rightarrow> string \<Rightarrow> MemoryStore \<Rightarrow> MemoryStore" where
  "commitBlueprintDraftUpdateLocked e k current actor s =
     (let s = s\<lparr>blueprintReleases := put (ID current) current (blueprintReleases s)\<rparr>;
          s = appendAuditLocked e k actor ''blueprint_release.draft_updated'' ''blueprintRelease'' (ID current) (Revision current)
                [(''revisionId'', MStr (rel_CurrentRevisionID current)),
                 (''blueprintDigest'', MStr (rel_CurrentBlueprintDigest current))] s
      in appendOutboxLocked e (Suc k) ''blueprintRelease'' (ID current) ''blueprint_release.draft_updated''
           (VBlueprintRelease current) s)"


definition UpdateBlueprintReleaseDraft ::
  "env \<Rightarrow> string \<Rightarrow> int \<Rightarrow> string \<Rightarrow> string \<Rightarrow> string \<Rightarrow> bool \<Rightarrow> string \<Rightarrow> string list \<Rightarrow> string \<Rightarrow> MemoryStore \<Rightarrow> BlueprintRelease call" where
  "UpdateBlueprintReleaseDraft e i expected revisionID blueprintDigest catalogDigest executionReady planStatus upgradeFromIDs actor s =
     (case get (revisions s) revisionID of
        None \<Rightarrow> (Inl ErrNotFound, s)
      | Some revision \<Rightarrow>
          if bpr_BlueprintDigest revision \<noteq> blueprintDigest \<or> bpr_CatalogDigest revision \<noteq> catalogDigest then (Inl ErrValidation, s)
          else (case prepareBlueprintDraftUpdateLocked e 0 i expected revision executionReady planStatus upgradeFromIDs s of
              Inl x \<Rightarrow> (Inl x, s)
            | Inr updated \<Rightarrow> (Inr updated, commitBlueprintDraftUpdateLocked e 1 updated actor s)))"

definition UpdateBlueprintReleaseDraftWithRevision ::
  "env \<Rightarrow> string \<Rightarrow> int \<Rightarrow> BlueprintRevision \<Rightarrow> bool \<Rightarrow> string \<Rightarrow> string list \<Rightarrow> string \<Rightarrow> MemoryStore \<Rightarrow>
   (BlueprintRevision \<times> BlueprintRelease) call" where
  "UpdateBlueprintReleaseDraftWithRevision e i expected revision executionReady planStatus upgradeFromIDs actor s =
     (case get (blueprintReleases s) i of
        None \<Rightarrow> (Inl ErrNotFound, s)
      | Some current \<Rightarrow>
          if Revision current \<noteq> expected then (Inl ErrConflict, s)
          else if rel_State current \<noteq> BlueprintDraft then (Inl ErrImmutable, s)
          else (case prepareBlueprintRevisionLocked e revision s of
              Inl x \<Rightarrow> (Inl x, s)
            | Inr (preparedRevision, existing) \<Rightarrow>
                (case prepareBlueprintDraftUpdateLocked e 1 i expected preparedRevision executionReady planStatus upgradeFromIDs s of
                   Inl x \<Rightarrow> (Inl x, s)
                 | Inr updated \<Rightarrow>
                     let s = (if \<not> existing then commitBlueprintRevisionLocked e 2 preparedRevision actor s else s)
                     in (Inr (preparedRevision, updated), commitBlueprintDraftUpdateLocked e 4 updated actor s))))"

text \<open>What publishing demands: an approver, a catalog release that still carries the blueprint, and publishable sources.\<close>

definition publishCatalogLink :: "env \<Rightarrow> MemoryStore \<Rightarrow> BlueprintRelease \<Rightarrow> unit res" where
  "publishCatalogLink e s current =
     (if TrimSpace (rel_CatalogReleaseID current) \<noteq> '''' then
        (case get (catalogReleases s) (rel_CatalogReleaseID current) of
           None \<Rightarrow> Inl ErrValidation
         | Some catalogRelease \<Rightarrow>
             if \<not> catalog_carries s (rel_ProjectID current) (rel_CatalogDigest current) catalogRelease then Inl ErrValidation
             else verifyCatalogLink e s catalogRelease)
      else Inr ())"

definition publishCheck :: "env \<Rightarrow> string \<Rightarrow> MemoryStore \<Rightarrow> BlueprintRelease \<Rightarrow> unit res" where
  "publishCheck e actor s current =
     (if TrimSpace actor = '''' then Inl ErrValidation
      else (case publishCatalogLink e s current of
          Inl x \<Rightarrow> Inl x
        | Inr u \<Rightarrow>
            if list_ex (\<lambda>sourceID. case get (blueprintReleases s) sourceID of
                 None \<Rightarrow> True | Some source \<Rightarrow> \<not> publishable (rel_State source)) (rel_UpgradeFromIDs current)
            then Inl ErrValidation else Inr ()))"

definition transitionedBlueprint :: "BlueprintLifecycleState \<Rightarrow> string \<Rightarrow> int \<Rightarrow> BlueprintRelease \<Rightarrow> BlueprintRelease" where
  "transitionedBlueprint to actor now current =
     (let from = rel_State current;
          current = (if to = BlueprintPublished
                     then current\<lparr>rel_PublishedBy := actor, rel_PublishedAt := Some now\<rparr> else current);
          current = (if to = BlueprintReview
                     then current\<lparr>rel_RequestedBy := actor, rel_ReviewRequestedAt := Some now\<rparr> else current);
          current = (if from = BlueprintReview \<and> to = BlueprintDraft
                     then current\<lparr>rel_ReviewRequestedAt := None\<rparr> else current);
          current = (if to = BlueprintDeprecated
                     then current\<lparr>rel_DeprecatedBy := actor, rel_DeprecatedAt := Some now\<rparr> else current);
          current = (if to = BlueprintRevoked
                     then current\<lparr>rel_RevokedBy := actor, rel_RevokedAt := Some now\<rparr> else current)
      in touch now (current\<lparr>rel_State := to\<rparr>))"

definition TransitionBlueprintRelease ::
  "env \<Rightarrow> string \<Rightarrow> int \<Rightarrow> BlueprintLifecycleState \<Rightarrow> string \<Rightarrow> MemoryStore \<Rightarrow> BlueprintRelease call" where
  "TransitionBlueprintRelease e i expected to actor s =
     (case get (blueprintReleases s) i of
        None \<Rightarrow> (Inl ErrNotFound, s)
      | Some current \<Rightarrow>
          if Revision current \<noteq> expected then (Inl ErrConflict, s)
          else if \<not> validBlueprintTransition (rel_State current) to then (Inl ErrInvalidTransition, s)
          else (case (if to = BlueprintPublished then publishCheck e actor s current else Inr ()) of
              Inl x \<Rightarrow> (Inl x, s)
            | Inr u \<Rightarrow>
                let updated = transitionedBlueprint to actor (nowUTC e 0) current;
                    action = ''blueprint_release.'' @ ToLower (BlueprintLifecycleState_str to);
                    s = s\<lparr>blueprintReleases := put i updated (blueprintReleases s)\<rparr>;
                    s = appendAuditLocked e 1 actor action ''blueprintRelease'' i (Revision updated)
                          [(''from'', MNamed (BlueprintLifecycleState_str (rel_State current))),
                           (''to'', MNamed (BlueprintLifecycleState_str to))] s
                in (Inr updated, appendOutboxLocked e 2 ''blueprintRelease'' i action (VBlueprintRelease updated) s)))"

section \<open>Assignments\<close>

definition CreateAssignment :: "env \<Rightarrow> Assignment \<Rightarrow> string \<Rightarrow> MemoryStore \<Rightarrow> Assignment call" where
  "CreateAssignment e a actor s =
     (if get (projects s) (asg_ProjectID a) = None then (Inl ErrNotFound, s)
      else if get (revisions s) (asg_BlueprintRevisionID a) = None then (Inl ErrNotFound, s)
      else if TrimSpace (asg_TargetRef a) = '''' then (Inl ErrValidation, s)
      else if list_ex (\<lambda>x. asg_ProjectID x = asg_ProjectID a \<and> asg_TargetRef x = asg_TargetRef a) (vals (assignments s))
      then (Inl ErrDuplicateName, s)
      else
        let a = (stamp (newid e 0 ''asn'') (nowUTC e 0) a)\<lparr>asg_DesiredGeneration := 1\<rparr>;
            s = s\<lparr>assignments := put (ID a) a (assignments s)\<rparr>;
            s = appendAuditLocked e 1 actor ''assignment.created'' ''assignment'' (ID a) (Revision a) [] s
        in (Inr a, appendOutboxLocked e 2 ''assignment'' (ID a) ''assignment.created'' (VAssignment a) s))"

definition UpdateAssignment :: "env \<Rightarrow> string \<Rightarrow> int \<Rightarrow> string \<Rightarrow> int \<Rightarrow> string \<Rightarrow> MemoryStore \<Rightarrow> Assignment call" where
  "UpdateAssignment e i expected revisionID generation actor s =
     (case get (assignments s) i of
        None \<Rightarrow> (Inl ErrNotFound, s)
      | Some a \<Rightarrow>
          if Revision a \<noteq> expected then (Inl ErrConflict, s)
          else if get (revisions s) revisionID = None then (Inl ErrNotFound, s)
          else if generation \<le> asg_DesiredGeneration a then (Inl ErrValidation, s)
          else
            let a = touch (nowUTC e 0) (a\<lparr>asg_BlueprintRevisionID := revisionID, asg_DesiredGeneration := generation\<rparr>);
                s = s\<lparr>assignments := put i a (assignments s)\<rparr>;
                s = appendAuditLocked e 1 actor ''assignment.updated'' ''assignment'' i (Revision a)
                      [(''desiredGeneration'', MInt generation)] s
            in (Inr a, appendOutboxLocked e 2 ''assignment'' i ''assignment.updated'' (VAssignment a) s))"

definition GetAssignment :: "string \<Rightarrow> MemoryStore \<Rightarrow> Assignment res" where
  "GetAssignment i s = (case get (assignments s) i of None \<Rightarrow> Inl ErrNotFound | Some v \<Rightarrow> Inr v)"

end
