(* ===== verification/IdentityAuthority.thy ===== *)
theory IdentityAuthority
  imports Catalog
begin

text \<open>
  The identity authority: \<open>identity_authority.go\<close> and \<open>identity_authority_store.go\<close> in
  \<open>internal/controlplane\<close>. It holds the mappings from groups of the identity provider to roles, their
  resolution for the groups of a caller, and the hash-chained security audit log.
\<close>

section \<open>Group mappings\<close>

definition OIDCGroupMappingMethod :: string where
  "OIDCGroupMappingMethod = ''OIDC_GROUP_MAPPING_AUTHORITY_V1''"

definition SecurityAuditMethod :: string where
  "SecurityAuditMethod = ''IMMUTABLE_AUTHN_AUTHZ_AUDIT_V1''"

definition validProductRole :: "string \<Rightarrow> bool" where
  "validProductRole role = (TrimSpace role \<in> {''platform-admin'', ''platform-operator'', ''platform-viewer''})"

definition validProjectRole :: "string \<Rightarrow> bool" where
  "validProjectRole role = (TrimSpace role \<in> {''project-admin'', ''project-operator'', ''project-viewer'', ''''})"

fun validMembershipRoleLocal :: "OrganizationMembershipRole \<Rightarrow> bool" where
  "validMembershipRoleLocal OrganizationAdmin = True"
| "validMembershipRoleLocal OrganizationOperator = True"
| "validMembershipRoleLocal OrganizationViewer = True"
| "validMembershipRoleLocal _ = False"

definition ValidateOIDCGroupMapping :: "OIDCGroupMapping \<Rightarrow> unit res" where
  "ValidateOIDCGroupMapping v =
     (if TrimSpace (ogm_Group v) = '''' \<or> \<not> validProductRole (ogm_ProductRole v) then Inl ErrValidation
      else if ogm_OrganizationID v = '''' \<and> OrganizationMembershipRole_str (ogm_OrganizationRole v) \<noteq> '''' then Inl ErrValidation
      else if ogm_OrganizationID v \<noteq> '''' \<and> \<not> validMembershipRoleLocal (ogm_OrganizationRole v) then Inl ErrValidation
      else if ogm_ProjectID v = '''' \<and> ogm_ProjectRole v \<noteq> '''' then Inl ErrValidation
      else if ogm_ProjectID v \<noteq> '''' \<and> \<not> validProjectRole (ogm_ProjectRole v) \<or> (ogm_ProjectID v \<noteq> '''' \<and> ogm_ProjectRole v = '''')
      then Inl ErrValidation
      else Inr ())"

definition level :: "string \<Rightarrow> nat" where
  "level role =
     (if role \<in> {''platform-admin'', ''organization-admin'', ''project-admin''} then 3
      else if role \<in> {''platform-operator'', ''organization-operator'', ''project-operator''} then 2
      else if role \<in> {''platform-viewer'', ''organization-viewer'', ''project-viewer''} then 1 else 0)"

text \<open>Reading an absent entry of a Go map of strings gives the empty string.\<close>

definition lookup_str :: "string table \<Rightarrow> string \<Rightarrow> string" where
  "lookup_str m k = (case get m k of None \<Rightarrow> '''' | Some v \<Rightarrow> v)"

text \<open>One turn of the loop over the matched mappings, for one of the two role tables.\<close>

definition raise_role :: "string \<Rightarrow> string \<Rightarrow> string table \<Rightarrow> string table" where
  "raise_role scope role roles =
     (if scope \<noteq> '''' \<and> level (lookup_str roles scope) < level role then put scope role roles else roles)"

fun raise_org :: "OIDCGroupMapping \<Rightarrow> string table \<Rightarrow> string table" where
  "raise_org m = raise_role (ogm_OrganizationID m) (OrganizationMembershipRole_str (ogm_OrganizationRole m))"

fun raise_project :: "OIDCGroupMapping \<Rightarrow> string table \<Rightarrow> string table" where
  "raise_project m = raise_role (ogm_ProjectID m) (ogm_ProjectRole m)"

definition matchedMappings :: "OIDCGroupMapping list \<Rightarrow> string list \<Rightarrow> OIDCGroupMapping list" where
  "matchedMappings mappings groups =
     (let groupSet = filter (\<lambda>g. g \<noteq> '''') (map TrimSpace groups) in
      sort_by (less_on ID) (filter (\<lambda>m. ogm_State m = OIDCGroupMappingActive \<and> TrimSpace (ogm_Group m) \<in> set groupSet) mappings))"

text \<open>\<open>json.Marshal\<close> writes a map in the order of its keys.\<close>

definition ResolveOIDCGroupMappings :: "env \<Rightarrow> OIDCGroupMapping list \<Rightarrow> string list \<Rightarrow> OIDCGroupResolution" where
  "ResolveOIDCGroupMappings e mappings groups =
     (let matched = matchedMappings mappings groups;
          ids = map ID matched;
          orgRoles = fold raise_org matched [];
          projectRoles = fold raise_project matched [];
          roles = sort (remdups (map ogm_ProductRole matched));
          raw = marshal e (VOIDCResolution OIDCGroupMappingMethod ids roles (sort_by (less_on fst) orgRoles)
                  (sort_by (less_on fst) projectRoles))
      in \<lparr>ogr_Method = OIDCGroupMappingMethod, ogr_MappingDigest = sha256_digest e raw, ogr_ProductRoles = roles,
          ogr_OrganizationRoles = orgRoles, ogr_ProjectRoles = projectRoles, ogr_MappingIDs = ids\<rparr>)"

definition CreateOIDCGroupMapping :: "env \<Rightarrow> OIDCGroupMapping \<Rightarrow> string \<Rightarrow> MemoryStore \<Rightarrow> OIDCGroupMapping call" where
  "CreateOIDCGroupMapping e v actor s =
     (let v = v\<lparr>ogm_Group := TrimSpace (ogm_Group v), ogm_ProductRole := TrimSpace (ogm_ProductRole v),
            ogm_OrganizationID := TrimSpace (ogm_OrganizationID v), ogm_ProjectID := TrimSpace (ogm_ProjectID v),
            ogm_ProjectRole := TrimSpace (ogm_ProjectRole v)\<rparr> in
      (case ValidateOIDCGroupMapping v of
         Inl x \<Rightarrow> (Inl x, s)
       | Inr u \<Rightarrow>
           if list_ex (\<lambda>cur. ogm_State cur = OIDCGroupMappingActive \<and> ogm_Group cur = ogm_Group v \<and>
                ogm_ProductRole cur = ogm_ProductRole v \<and> ogm_OrganizationID cur = ogm_OrganizationID v \<and>
                ogm_OrganizationRole cur = ogm_OrganizationRole v \<and> ogm_ProjectID cur = ogm_ProjectID v \<and>
                ogm_ProjectRole cur = ogm_ProjectRole v) (vals (oidcGroupMappings s))
           then (Inl ErrDuplicateName, s)
           else
             let v = (stamp (newid e 0 ''ogm'') (nowUTC e 0) v)\<lparr>ogm_State := OIDCGroupMappingActive, ogm_CreatedBy := TrimSpace actor\<rparr>;
                 s = s\<lparr>oidcGroupMappings := put (ID v) v (oidcGroupMappings s)\<rparr>;
                 s = appendAuditLocked e 1 actor ''oidc_group_mapping.created'' ''oidcGroupMapping'' (ID v) (Revision v)
                       [(''group'', MStr (ogm_Group v)), (''productRole'', MStr (ogm_ProductRole v)),
                        (''organizationId'', MStr (ogm_OrganizationID v)), (''projectId'', MStr (ogm_ProjectID v))] s
             in (Inr v, appendOutboxLocked e 2 ''oidcGroupMapping'' (ID v) ''oidc_group_mapping.created'' (VOIDCGroupMapping v) s)))"

definition ListOIDCGroupMappings :: "OIDCGroupMappingState \<Rightarrow> MemoryStore \<Rightarrow> OIDCGroupMapping list" where
  "ListOIDCGroupMappings state s =
     sort_by (less_on2 ogm_Group ID)
       (filter (\<lambda>v. state = OIDCGroupMappingStateOther '''' \<or> ogm_State v = state) (vals (oidcGroupMappings s)))"

definition RevokeOIDCGroupMapping :: "env \<Rightarrow> string \<Rightarrow> int \<Rightarrow> string \<Rightarrow> MemoryStore \<Rightarrow> OIDCGroupMapping call" where
  "RevokeOIDCGroupMapping e i expected actor s =
     (case get (oidcGroupMappings s) (TrimSpace i) of
        None \<Rightarrow> (Inl ErrNotFound, s)
      | Some v \<Rightarrow>
          if Revision v \<noteq> expected then (Inl ErrConflict, s)
          else if ogm_State v = OIDCGroupMappingRevoked then (Inr v, s)
          else
            let now = nowUTC e 0;
                v = touch now (v\<lparr>ogm_State := OIDCGroupMappingRevoked, ogm_RevokedBy := TrimSpace actor, ogm_RevokedAt := Some now\<rparr>);
                s = s\<lparr>oidcGroupMappings := put (ID v) v (oidcGroupMappings s)\<rparr>;
                s = appendAuditLocked e 1 actor ''oidc_group_mapping.revoked'' ''oidcGroupMapping'' (ID v) (Revision v)
                      [(''group'', MStr (ogm_Group v))] s
            in (Inr v, appendOutboxLocked e 2 ''oidcGroupMapping'' (ID v) ''oidc_group_mapping.revoked'' (VOIDCGroupMapping v) s))"

definition ResolveOIDCGroups :: "env \<Rightarrow> string list \<Rightarrow> MemoryStore \<Rightarrow> OIDCGroupResolution" where
  "ResolveOIDCGroups e groups s = ResolveOIDCGroupMappings e (vals (oidcGroupMappings s)) groups"

section \<open>The security audit log\<close>

definition auditCategories :: "string list" where
  "auditCategories = [''AUTHENTICATION'', ''AUTHORIZATION'', ''SCOPE_AUTHORIZATION'', ''CAPABILITY_AUTHORIZATION'',
     ''DELEGATION_AUTHORIZATION'', ''APPROVAL_AUTHORIZATION'', ''OPERATION_EXECUTOR_AUTHORIZATION'']"

definition ValidateSecurityAuditInput :: "SecurityAuditInput \<Rightarrow> unit res" where
  "ValidateSecurityAuditInput v =
     (if TrimSpace (sai_Category v) \<notin> set auditCategories then Inl ErrValidation
      else if TrimSpace (sai_Decision v) \<noteq> ''ALLOW'' \<and> TrimSpace (sai_Decision v) \<noteq> ''DENY'' then Inl ErrValidation
      else
        let clientID = TrimSpace (sai_OAuthClientID v); binding = TrimSpace (sai_MCPInteropBindingDigest v) in
        if 512 < length clientID \<or> list_ex (\<lambda>c. c \<in> {CHR 0x0D, CHR 0x0A, CHR 0x09}) clientID then Inl ErrValidation
        else if binding \<noteq> '''' \<and> \<not> validSHA256 binding then Inl ErrValidation
        else Inr ())"

definition SecurityAuditEventDigest :: "env \<Rightarrow> SecurityAuditEvent \<Rightarrow> string" where
  "SecurityAuditEventDigest e v = sha256_digest e (marshal e (VSecurityAuditEvent (v\<lparr>sae_Digest := ''''\<rparr>)))"

fun validateChain :: "env \<Rightarrow> string \<Rightarrow> nat \<Rightarrow> SecurityAuditEvent list \<Rightarrow> unit res" where
  "validateChain e prev i [] = Inr ()"
| "validateChain e prev i (v # vs) =
     (if sae_Sequence v \<noteq> int i + 1 \<or> sae_MethodVersion v \<noteq> SecurityAuditMethod \<or> sae_PreviousDigest v \<noteq> prev \<or>
         sae_Digest v = '''' \<or> SecurityAuditEventDigest e v \<noteq> sae_Digest v
      then Inl ErrValidation else validateChain e (sae_Digest v) (Suc i) vs)"

definition ValidateSecurityAuditChain :: "env \<Rightarrow> SecurityAuditEvent list \<Rightarrow> unit res" where
  "ValidateSecurityAuditChain e values = validateChain e '''' 0 values"

definition AppendSecurityAudit :: "env \<Rightarrow> SecurityAuditInput \<Rightarrow> MemoryStore \<Rightarrow> SecurityAuditEvent call" where
  "AppendSecurityAudit e input s =
     (let input = input\<lparr>sai_OAuthClientID := TrimSpace (sai_OAuthClientID input),
            sai_MCPInteropBindingDigest := TrimSpace (sai_MCPInteropBindingDigest input)\<rparr> in
      (case ValidateSecurityAuditInput input of
         Inl x \<Rightarrow> (Inl x, s)
       | Inr u \<Rightarrow>
           let prev = (if securityAudit s \<noteq> [] then sae_Digest (last (securityAudit s)) else '''');
               v = SecurityAuditInput.extend input \<lparr>sae_ID = newid e 0 ''sau'', sae_Sequence = int (length (securityAudit s)) + 1,
                     sae_OccurredAt = nowUTC e 0, sae_MethodVersion = SecurityAuditMethod, sae_PreviousDigest = prev, sae_Digest = ''''\<rparr>;
               v = (if TrimSpace (sai_ActorID v) = '''' then v\<lparr>sai_ActorID := ''anonymous''\<rparr> else v);
               v = v\<lparr>sae_Digest := SecurityAuditEventDigest e v\<rparr>
           in (Inr v, s\<lparr>securityAudit := securityAudit s @ [v]\<rparr>)))"

definition ListSecurityAudit :: "int \<Rightarrow> MemoryStore \<Rightarrow> SecurityAuditEvent list" where
  "ListSecurityAudit limit s =
     (let limit = (if limit \<le> 0 \<or> 1000 < limit then 100 else limit);
          start = int (length (securityAudit s)) - limit;
          start = (if start < 0 then 0 else start)
      in drop (nat start) (securityAudit s))"

text \<open>The loop over the request identifiers and the scan for the first and the last event wanted.\<close>

fun wantedIDs :: "string list \<Rightarrow> string list \<Rightarrow> string list option" where
  "wantedIDs wanted [] = Some wanted"
| "wantedIDs wanted (i # rest) =
     (let i = TrimSpace i in if i = '''' \<or> i \<in> set wanted then None else wantedIDs (i # wanted) rest)"

fun windowScan :: "string list \<Rightarrow> int \<Rightarrow> int \<Rightarrow> int \<Rightarrow> SecurityAuditEvent list \<Rightarrow> int \<times> int" where
  "windowScan wanted i first lst [] = (first, lst)"
| "windowScan wanted i first lst (event # rest) =
     (if sai_RequestID event \<in> set wanted then windowScan wanted (i + 1) (if first < 0 then i else first) i rest
      else windowScan wanted (i + 1) first lst rest)"

definition ListSecurityAuditRequestIDWindow :: "string list \<Rightarrow> MemoryStore \<Rightarrow> SecurityAuditEvent list res" where
  "ListSecurityAuditRequestIDWindow requestIDs s =
     (if requestIDs = [] \<or> 24 < length requestIDs then Inl ErrValidation
      else (case wantedIDs [] requestIDs of
          None \<Rightarrow> Inl ErrValidation
        | Some wanted \<Rightarrow>
            (case windowScan wanted 0 (-1) (-1) (securityAudit s) of (first, lst) \<Rightarrow>
               if first < 0 then Inr []
               else if 20000 < lst - first + 1 then Inl ErrValidation
               else Inr (take (nat (lst + 1 - first)) (drop (nat first) (securityAudit s))))))"

end
