(* ===== verification/ServiceAccounts.thy ===== *)
theory ServiceAccounts
  imports Lookup
begin

text \<open>
  Service accounts and their API tokens: \<open>internal/controlplane/service_account_store.go\<close>.
\<close>

section \<open>Permissions\<close>

definition validServiceAccountRole :: "string \<Rightarrow> bool" where
  "validServiceAccountRole role = (role = ''platform-viewer'' \<or> role = ''platform-operator'')"

text \<open>The two permissions of every role, and those of operators alone.\<close>

definition readPermissions :: "string list" where
  "readPermissions = [''read'', ''mcp.read'']"

definition operatorPermissions :: "string list" where
  "operatorPermissions = [''operate'', ''mcp.operate'', ''ai.diagnose'', ''operation.execute'']"

fun collectPermissions :: "string \<Rightarrow> string list \<Rightarrow> string list \<Rightarrow> string list res" where
  "collectPermissions role out [] = Inr out"
| "collectPermissions role out (raw # rest) =
     (let permission = ToLower (TrimSpace raw) in
      if permission = '''' \<or> permission \<in> set out then collectPermissions role out rest
      else if permission \<in> set readPermissions then collectPermissions role (out @ [permission]) rest
      else if permission \<in> set operatorPermissions then
        (if role \<noteq> ''platform-operator'' then Inl ErrValidation else collectPermissions role (out @ [permission]) rest)
      else Inl ErrValidation)"

text \<open>The map of what was seen has exactly the collected permissions, so it stays without the one added to an empty list.\<close>

definition normalizeTokenPermissions :: "string \<Rightarrow> string list \<Rightarrow> string list res" where
  "normalizeTokenPermissions role input =
     (case collectPermissions role [] input of
        Inl x \<Rightarrow> Inl x
      | Inr collected \<Rightarrow>
          let out = (if collected = [] then [''read''] else collected);
              out = (if ''read'' \<notin> set collected then out @ [''read''] else out)
          in Inr (sort out))"

section \<open>Accounts\<close>

definition CreateServiceAccount :: "env \<Rightarrow> ServiceAccount \<Rightarrow> string \<Rightarrow> MemoryStore \<Rightarrow> ServiceAccount call" where
  "CreateServiceAccount e account actor s =
     (let account = account\<lparr>sa_OrganizationID := TrimSpace (sa_OrganizationID account), sa_ProjectID := TrimSpace (sa_ProjectID account),
            sa_Name := normalizeName (sa_Name account), sa_DisplayName := TrimSpace (sa_DisplayName account),
            sa_ProductRole := TrimSpace (sa_ProductRole account)\<rparr> in
      if get (organizations s) (sa_OrganizationID account) = None then (Inl ErrNotFound, s)
      else if sa_ProjectID account \<noteq> '''' \<and>
              (case get (projects s) (sa_ProjectID account) of
                 None \<Rightarrow> True | Some project \<Rightarrow> prj_OrganizationID project \<noteq> sa_OrganizationID account)
      then (Inl ErrValidation, s)
      else if sa_Name account = '''' \<or> sa_DisplayName account = '''' \<or> \<not> validServiceAccountRole (sa_ProductRole account)
      then (Inl ErrValidation, s)
      else if list_ex (\<lambda>existing. sa_OrganizationID existing = sa_OrganizationID account \<and>
                sa_ProjectID existing = sa_ProjectID account \<and> sa_Name existing = sa_Name account) (vals (serviceAccounts s))
      then (Inl ErrDuplicateName, s)
      else
        let account = (stamp (newid e 0 ''svc'') (nowUTC e 0) account)\<lparr>sa_State := ServiceAccountActive,
              sa_CreatedBy := TrimSpace actor, sa_RevokedBy := '''', sa_RevokedAt := None\<rparr>;
            s = s\<lparr>serviceAccounts := put (ID account) account (serviceAccounts s)\<rparr>;
            s = appendAuditLocked e 1 actor ''service_account.created'' ''serviceAccount'' (ID account) (Revision account)
                  [(''organizationId'', MStr (sa_OrganizationID account)), (''projectId'', MStr (sa_ProjectID account)),
                   (''productRole'', MStr (sa_ProductRole account))] s
        in (Inr account, appendOutboxLocked e 2 ''serviceAccount'' (ID account) ''service_account.created'' (VServiceAccount account) s))"

definition GetServiceAccount :: "string \<Rightarrow> MemoryStore \<Rightarrow> ServiceAccount res" where
  "GetServiceAccount i s = (case get (serviceAccounts s) (TrimSpace i) of None \<Rightarrow> Inl ErrNotFound | Some v \<Rightarrow> Inr v)"

definition ListServiceAccounts :: "string \<Rightarrow> MemoryStore \<Rightarrow> ServiceAccount list" where
  "ListServiceAccounts organizationID s =
     (let organizationID = TrimSpace organizationID in
      sort_by (less_on2 sa_OrganizationID sa_Name)
        (filter (\<lambda>v. organizationID = '''' \<or> sa_OrganizationID v = organizationID) (vals (serviceAccounts s))))"

definition revokedToken :: "string \<Rightarrow> int \<Rightarrow> APIToken \<Rightarrow> APIToken" where
  "revokedToken actor now token =
     touch now (token\<lparr>tok_State := APITokenRevoked, tok_RevokedBy := TrimSpace actor, tok_RevokedAt := Some now\<rparr>)"

text \<open>The loop that revokes the active tokens of an account, with the number of environment readings so far.\<close>

fun revokeTokens :: "env \<Rightarrow> string \<Rightarrow> string \<Rightarrow> int \<Rightarrow> nat \<Rightarrow> (string \<times> APIToken) list \<Rightarrow> MemoryStore \<Rightarrow> nat \<times> MemoryStore" where
  "revokeTokens e i actor now k [] s = (k, s)"
| "revokeTokens e i actor now k ((tokenID, token) # rest) s =
     (if tok_ServiceAccountID token = i \<and> tok_State token = APITokenActive then
        let token = revokedToken actor now token;
            s = s\<lparr>apiTokens := put tokenID token (apiTokens s)\<rparr>;
            s = appendAuditLocked e k actor ''api_token.revoked'' ''apiToken'' (ID token) (Revision token)
                  [(''serviceAccountId'', MStr i), (''reason'', MStr ''service-account-revoked'')] s
        in revokeTokens e i actor now (Suc k) rest s
      else revokeTokens e i actor now k rest s)"

definition RevokeServiceAccount :: "env \<Rightarrow> string \<Rightarrow> int \<Rightarrow> string \<Rightarrow> MemoryStore \<Rightarrow> ServiceAccount call" where
  "RevokeServiceAccount e i expected actor s =
     (let i = TrimSpace i in
      (case get (serviceAccounts s) i of
         None \<Rightarrow> (Inl ErrNotFound, s)
       | Some current \<Rightarrow>
           if Revision current \<noteq> expected then (Inl ErrConflict, s)
           else if sa_State current = ServiceAccountRevoked then (Inr current, s)
           else
             let now = nowUTC e 0;
                 current = touch now (current\<lparr>sa_State := ServiceAccountRevoked, sa_RevokedBy := TrimSpace actor, sa_RevokedAt := Some now\<rparr>);
                 s = s\<lparr>serviceAccounts := put i current (serviceAccounts s)\<rparr>;
                 (k, s) = revokeTokens e i actor now 1 (apiTokens s) s;
                 s = appendAuditLocked e k actor ''service_account.revoked'' ''serviceAccount'' i (Revision current)
                       [(''organizationId'', MStr (sa_OrganizationID current)), (''projectId'', MStr (sa_ProjectID current))] s
             in (Inr current, appendOutboxLocked e (Suc k) ''serviceAccount'' i ''service_account.revoked'' (VServiceAccount current) s)))"

section \<open>Tokens\<close>

definition redactedAPIToken :: "APIToken \<Rightarrow> APIToken" where
  "redactedAPIToken token = token\<lparr>tok_TokenDigest := '''', tok_IdempotencyKey := ''''\<rparr>"

text \<open>A token is filed under the identifier the caller chose, or a new one.\<close>

definition token_id :: "env \<Rightarrow> nat \<Rightarrow> APIToken \<Rightarrow> string" where
  "token_id e k token = (if TrimSpace (ID token) = '''' then newid e k ''tok'' else TrimSpace (ID token))"

definition issuedToken :: "env \<Rightarrow> nat \<Rightarrow> ServiceAccount \<Rightarrow> string list \<Rightarrow> string \<Rightarrow> int \<Rightarrow> APIToken \<Rightarrow> APIToken" where
  "issuedToken e k account permissions actor now token =
     (stamp (token_id e k token) now token)\<lparr>tok_ServiceAccountID := ID account, tok_OrganizationID := sa_OrganizationID account,
        tok_ProjectID := sa_ProjectID account, tok_Permissions := permissions, tok_State := APITokenActive,
        tok_CreatedBy := TrimSpace actor, tok_RevokedAt := None, tok_RevokedBy := ''''\<rparr>"

definition CreateAPIToken :: "env \<Rightarrow> APIToken \<Rightarrow> string \<Rightarrow> MemoryStore \<Rightarrow> APIToken call" where
  "CreateAPIToken e token actor s =
     (case get (serviceAccounts s) (TrimSpace (tok_ServiceAccountID token)) of
        None \<Rightarrow> (Inl ErrNotFound, s)
      | Some account \<Rightarrow>
          if sa_State account \<noteq> ServiceAccountActive then (Inl ErrValidation, s)
          else if tok_ExpiresAt token = 0 \<or> \<not> nowUTC e 0 < tok_ExpiresAt token \<or> nowUTC e 1 + 366 * 24 * Hour < tok_ExpiresAt token
          then (Inl ErrValidation, s)
          else (case normalizeTokenPermissions (sa_ProductRole account) (tok_Permissions token) of
              Inl x \<Rightarrow> (Inl x, s)
            | Inr permissions \<Rightarrow>
                if TrimSpace (tok_TokenDigest token) = '''' \<or> TrimSpace (tok_TokenPrefix token) = '''' then (Inl ErrValidation, s)
                else
                  let token = token\<lparr>tok_IdempotencyKey := TrimSpace (tok_IdempotencyKey token)\<rparr> in
                  if tok_IdempotencyKey token = '''' \<or> 200 < length (tok_IdempotencyKey token) then (Inl ErrValidation, s)
                  else if list_ex (\<lambda>existing. tok_ServiceAccountID existing = ID account \<and>
                            tok_IdempotencyKey existing = tok_IdempotencyKey token) (vals (apiTokens s))
                  then (Inl ErrConflict, s)
                  else
                    let token = issuedToken e 2 account permissions actor (nowUTC e 2) token;
                        s = s\<lparr>apiTokens := put (ID token) token (apiTokens s)\<rparr>;
                        s = appendAuditLocked e 3 actor ''api_token.issued'' ''apiToken'' (ID token) (Revision token)
                              [(''serviceAccountId'', MStr (ID account)), (''organizationId'', MStr (sa_OrganizationID account)),
                               (''projectId'', MStr (sa_ProjectID account)), (''expiresAt'', MTime (Some (tok_ExpiresAt token))),
                               (''permissions'', MStrs permissions)] s
                    in (Inr token, appendOutboxLocked e 4 ''apiToken'' (ID token) ''api_token.issued''
                                     (VAPIToken (redactedAPIToken token)) s)))"

definition GetAPIToken :: "string \<Rightarrow> MemoryStore \<Rightarrow> APIToken res" where
  "GetAPIToken i s = (case get (apiTokens s) (TrimSpace i) of None \<Rightarrow> Inl ErrNotFound | Some v \<Rightarrow> Inr v)"

definition GetAPITokenByIdempotencyKey :: "string \<Rightarrow> string \<Rightarrow> MemoryStore \<Rightarrow> APIToken res" where
  "GetAPITokenByIdempotencyKey serviceAccountID key s =
     (case find (\<lambda>v. tok_ServiceAccountID v = TrimSpace serviceAccountID \<and> tok_IdempotencyKey v = TrimSpace key) (vals (apiTokens s)) of
        None \<Rightarrow> Inl ErrNotFound
      | Some v \<Rightarrow> Inr v)"

definition ListAPITokens :: "string \<Rightarrow> MemoryStore \<Rightarrow> APIToken list" where
  "ListAPITokens serviceAccountID s =
     sort_by (less_on CreatedAt)
       (filter (\<lambda>v. TrimSpace serviceAccountID = '''' \<or> tok_ServiceAccountID v = TrimSpace serviceAccountID) (vals (apiTokens s)))"

definition RevokeAPIToken :: "env \<Rightarrow> string \<Rightarrow> int \<Rightarrow> string \<Rightarrow> MemoryStore \<Rightarrow> APIToken call" where
  "RevokeAPIToken e i expected actor s =
     (case get (apiTokens s) (TrimSpace i) of
        None \<Rightarrow> (Inl ErrNotFound, s)
      | Some current \<Rightarrow>
          if Revision current \<noteq> expected then (Inl ErrConflict, s)
          else if tok_State current = APITokenRevoked then (Inr current, s)
          else
            let current = revokedToken actor (nowUTC e 0) current;
                s = s\<lparr>apiTokens := put (ID current) current (apiTokens s)\<rparr>;
                s = appendAuditLocked e 1 actor ''api_token.revoked'' ''apiToken'' (ID current) (Revision current)
                      [(''serviceAccountId'', MStr (tok_ServiceAccountID current))] s
            in (Inr current, appendOutboxLocked e 2 ''apiToken'' (ID current) ''api_token.revoked''
                               (VAPIToken (redactedAPIToken current)) s))"

definition RotateAPIToken :: "env \<Rightarrow> string \<Rightarrow> int \<Rightarrow> APIToken \<Rightarrow> string \<Rightarrow> MemoryStore \<Rightarrow> (APIToken \<times> APIToken) call" where
  "RotateAPIToken e oldID expected replacement actor s =
     (case get (apiTokens s) (TrimSpace oldID) of
        None \<Rightarrow> (Inl ErrNotFound, s)
      | Some old \<Rightarrow>
          if Revision old \<noteq> expected then (Inl ErrConflict, s)
          else if tok_State old \<noteq> APITokenActive then (Inl ErrValidation, s)
          else (case get (serviceAccounts s) (tok_ServiceAccountID old) of
              None \<Rightarrow> (Inl ErrValidation, s)
            | Some account \<Rightarrow>
                if sa_State account \<noteq> ServiceAccountActive then (Inl ErrValidation, s)
                else
                  let now = nowUTC e 0;
                      replacement = (if tok_ExpiresAt replacement = 0 then replacement\<lparr>tok_ExpiresAt := tok_ExpiresAt old\<rparr> else replacement) in
                  if \<not> now < tok_ExpiresAt replacement \<or> now + 366 * 24 * Hour < tok_ExpiresAt replacement then (Inl ErrValidation, s)
                  else (case normalizeTokenPermissions (sa_ProductRole account)
                              (if tok_Permissions replacement = [] then tok_Permissions old else tok_Permissions replacement) of
                      Inl x \<Rightarrow> (Inl x, s)
                    | Inr permissions \<Rightarrow>
                        if TrimSpace (tok_TokenDigest replacement) = '''' \<or> TrimSpace (tok_TokenPrefix replacement) = '''' then (Inl ErrValidation, s)
                        else
                          let replacement = replacement\<lparr>tok_IdempotencyKey := TrimSpace (tok_IdempotencyKey replacement)\<rparr> in
                          if tok_IdempotencyKey replacement = '''' \<or> 200 < length (tok_IdempotencyKey replacement) then (Inl ErrValidation, s)
                          else if list_ex (\<lambda>existing. tok_ServiceAccountID existing = ID account \<and>
                                    tok_IdempotencyKey existing = tok_IdempotencyKey replacement) (vals (apiTokens s))
                          then (Inl ErrConflict, s)
                          else
                            let old = revokedToken actor now old;
                                s = s\<lparr>apiTokens := put (ID old) old (apiTokens s)\<rparr>;
                                replacement = (issuedToken e 1 account permissions actor now replacement)\<lparr>tok_RotatedFromID := ID old\<rparr>;
                                s = s\<lparr>apiTokens := put (ID replacement) replacement (apiTokens s)\<rparr>;
                                s = appendAuditLocked e 2 actor ''api_token.rotated'' ''apiToken'' (ID replacement) (Revision replacement)
                                      [(''serviceAccountId'', MStr (ID account)), (''rotatedFromId'', MStr (ID old)),
                                       (''expiresAt'', MTime (Some (tok_ExpiresAt replacement)))] s
                            in (Inr (old, replacement), appendOutboxLocked e 3 ''apiToken'' (ID replacement) ''api_token.rotated''
                                                          (VAPIToken (redactedAPIToken replacement)) s))))"

end
