(* ===== verification/MCPDelegation.thy ===== *)
theory MCPDelegation
  imports Lookup
begin

text \<open>
  Delegation of human authority to MCP clients: \<open>internal/controlplane/mcp_delegation.go\<close>, with the
  registry of trusted clients and the grants users give them.
\<close>

section \<open>Normal forms\<close>

fun MCPDelegationAccessProfile_str :: "MCPDelegationAccessProfile \<Rightarrow> string" where
  "MCPDelegationAccessProfile_str MCPDelegationView = ''VIEW''"
| "MCPDelegationAccessProfile_str MCPDelegationOperate = ''OPERATE''"
| "MCPDelegationAccessProfile_str MCPDelegationAdministration = ''ADMINISTRATION''"
| "MCPDelegationAccessProfile_str (MCPDelegationProfileOther x) = x"

text \<open>\<open>strings.TrimRight(s, "/")\<close>.\<close>

definition TrimRightSlash :: "string \<Rightarrow> string" where
  "TrimRightSlash s = rev (dropWhile (\<lambda>c. c = CHR ''/'') (rev s))"

fun redirectURIs :: "string list \<Rightarrow> string list \<Rightarrow> string list" where
  "redirectURIs out [] = out"
| "redirectURIs out (u # rest) =
     (let u = TrimSpace u in if u = '''' \<or> u \<in> set out then redirectURIs out rest else redirectURIs (out @ [u]) rest)"

definition normalizeMCPClient :: "MCPTrustedClient \<Rightarrow> MCPTrustedClient res" where
  "normalizeMCPClient v =
     (let v = v\<lparr>mtc_ClientID := TrimSpace (mtc_ClientID v), mtc_DisplayName := TrimSpace (mtc_DisplayName v),
            mtc_Provider := ToLower (TrimSpace (mtc_Provider v))\<rparr> in
      if mtc_ClientID v = '''' \<or> mtc_DisplayName v = '''' then Inl ErrValidation
      else if mtc_Provider v \<notin> {''chatgpt'', ''claude'', ''gemini'', ''grok'', ''other''} then Inl ErrValidation
      else Inr (v\<lparr>mtc_RedirectURIs := sort (redirectURIs [] (mtc_RedirectURIs v))\<rparr>))"

definition normalizeMCPGrant :: "MCPDelegationGrant \<Rightarrow> int \<Rightarrow> MCPDelegationGrant res" where
  "normalizeMCPGrant v now =
     (let v = v\<lparr>mdg_Issuer := TrimRightSlash (TrimSpace (mdg_Issuer v)), mdg_Subject := TrimSpace (mdg_Subject v),
            mdg_ClientID := TrimSpace (mdg_ClientID v), mdg_OrganizationID := TrimSpace (mdg_OrganizationID v),
            mdg_ProjectID := TrimSpace (mdg_ProjectID v), mdg_ConsentDigest := TrimSpace (mdg_ConsentDigest v)\<rparr> in
      if mdg_Issuer v = '''' \<or> mdg_Subject v = '''' \<or> mdg_ClientID v = '''' \<or> mdg_ConsentDigest v = '''' then Inl ErrValidation
      else if mdg_AccessProfile v \<notin> {MCPDelegationView, MCPDelegationOperate, MCPDelegationAdministration} then Inl ErrValidation
      else if mdg_ProjectID v \<noteq> '''' \<and> mdg_OrganizationID v = '''' then Inl ErrValidation
      else if mdg_ExpiresAt v = 0 \<or> \<not> now < mdg_ExpiresAt v \<or> now + 30 * 24 * Hour < mdg_ExpiresAt v then Inl ErrValidation
      else Inr v)"

section \<open>Trusted clients\<close>

definition CreateMCPTrustedClient :: "env \<Rightarrow> MCPTrustedClient \<Rightarrow> string \<Rightarrow> MemoryStore \<Rightarrow> MCPTrustedClient call" where
  "CreateMCPTrustedClient e v actor s =
     (case normalizeMCPClient v of
        Inl x \<Rightarrow> (Inl x, s)
      | Inr v \<Rightarrow>
          if list_ex (\<lambda>cur. mtc_ClientID cur = mtc_ClientID v \<and> mtc_State cur = MCPTrustedClientActive) (vals (mcpTrustedClients s))
          then (Inl ErrConflict, s)
          else
            let v = (stamp (newid e 0 ''mcpcli'') (nowUTC e 0) v)\<lparr>mtc_State := MCPTrustedClientActive, mtc_CreatedBy := TrimSpace actor\<rparr>;
                s = s\<lparr>mcpTrustedClients := put (ID v) v (mcpTrustedClients s)\<rparr>;
                s = appendAuditLocked e 1 actor ''mcp_trusted_client.created'' ''mcpTrustedClient'' (ID v) (Revision v)
                      [(''clientId'', MStr (mtc_ClientID v)), (''provider'', MStr (mtc_Provider v))] s
            in (Inr v, appendOutboxLocked e 2 ''mcpTrustedClient'' (ID v) ''mcp_trusted_client.created'' (VMCPTrustedClient v) s))"

definition ListMCPTrustedClients :: "MemoryStore \<Rightarrow> MCPTrustedClient list" where
  "ListMCPTrustedClients s = sort_by (less_on mtc_DisplayName) (vals (mcpTrustedClients s))"

definition GetMCPTrustedClientByClientID :: "string \<Rightarrow> MemoryStore \<Rightarrow> MCPTrustedClient res" where
  "GetMCPTrustedClientByClientID clientID s =
     (case find (\<lambda>v. mtc_ClientID v = TrimSpace clientID) (vals (mcpTrustedClients s)) of
        None \<Rightarrow> Inl ErrNotFound
      | Some v \<Rightarrow> Inr v)"

definition revokedGrant :: "string \<Rightarrow> int \<Rightarrow> MCPDelegationGrant \<Rightarrow> MCPDelegationGrant" where
  "revokedGrant actor now g =
     touch now (g\<lparr>mdg_State := MCPDelegationGrantRevoked, mdg_RevokedBy := TrimSpace actor, mdg_RevokedAt := Some now\<rparr>)"

text \<open>The loop over the grants of a client; writing the entry under its own key changes it in place.\<close>

definition revokeGrants :: "string \<Rightarrow> string \<Rightarrow> int \<Rightarrow> MCPDelegationGrant table \<Rightarrow> MCPDelegationGrant table" where
  "revokeGrants clientID actor now t =
     map (\<lambda>(gid, g). (gid, if mdg_ClientID g = clientID \<and> mdg_State g = MCPDelegationGrantActive then revokedGrant actor now g else g)) t"

definition RevokeMCPTrustedClient :: "env \<Rightarrow> string \<Rightarrow> int \<Rightarrow> string \<Rightarrow> MemoryStore \<Rightarrow> MCPTrustedClient call" where
  "RevokeMCPTrustedClient e i expected actor s =
     (case get (mcpTrustedClients s) (TrimSpace i) of
        None \<Rightarrow> (Inl ErrNotFound, s)
      | Some v \<Rightarrow>
          if Revision v \<noteq> expected then (Inl ErrConflict, s)
          else if mtc_State v = MCPTrustedClientRevoked then (Inr v, s)
          else
            let now = nowUTC e 0;
                v = touch now (v\<lparr>mtc_State := MCPTrustedClientRevoked, mtc_RevokedBy := TrimSpace actor, mtc_RevokedAt := Some now\<rparr>);
                s = s\<lparr>mcpTrustedClients := put (ID v) v (mcpTrustedClients s)\<rparr>;
                s = s\<lparr>mcpDelegationGrants := revokeGrants (mtc_ClientID v) actor now (mcpDelegationGrants s)\<rparr>;
                s = appendAuditLocked e 1 actor ''mcp_trusted_client.revoked'' ''mcpTrustedClient'' (ID v) (Revision v)
                      [(''clientId'', MStr (mtc_ClientID v))] s
            in (Inr v, appendOutboxLocked e 2 ''mcpTrustedClient'' (ID v) ''mcp_trusted_client.revoked'' (VMCPTrustedClient v) s))"

section \<open>Grants\<close>

text \<open>The scope of a grant: an organization that is stored, and a project inside it.\<close>

definition checkGrantScope :: "MemoryStore \<Rightarrow> MCPDelegationGrant \<Rightarrow> unit res" where
  "checkGrantScope s v =
     (if mdg_OrganizationID v \<noteq> '''' then
        (case get (organizations s) (mdg_OrganizationID v) of
           None \<Rightarrow> Inl ErrNotFound
         | Some org \<Rightarrow>
             if ID org = '''' then Inl ErrNotFound
             else if mdg_ProjectID v \<noteq> '''' then
               (case get (projects s) (mdg_ProjectID v) of
                  None \<Rightarrow> Inl ErrNotFound
                | Some p \<Rightarrow> if prj_OrganizationID p \<noteq> mdg_OrganizationID v then Inl ErrValidation else Inr ())
             else Inr ())
      else Inr ())"

definition CreateMCPDelegationGrant :: "env \<Rightarrow> MCPDelegationGrant \<Rightarrow> string \<Rightarrow> MemoryStore \<Rightarrow> MCPDelegationGrant call" where
  "CreateMCPDelegationGrant e v actor s =
     (let now = nowUTC e 0 in
      (case normalizeMCPGrant v now of
         Inl x \<Rightarrow> (Inl x, s)
       | Inr v \<Rightarrow>
           if \<not> list_ex (\<lambda>c. mtc_ClientID c = mdg_ClientID v \<and> mtc_State c = MCPTrustedClientActive) (vals (mcpTrustedClients s))
           then (Inl ErrValidation, s)
           else (case checkGrantScope s v of
               Inl x \<Rightarrow> (Inl x, s)
             | Inr u \<Rightarrow>
                 if list_ex (\<lambda>g. mdg_Subject g = mdg_Subject v \<and> mdg_ClientID g = mdg_ClientID v \<and>
                      mdg_OrganizationID g = mdg_OrganizationID v \<and> mdg_ProjectID g = mdg_ProjectID v \<and>
                      mdg_State g = MCPDelegationGrantActive \<and> now < mdg_ExpiresAt g) (vals (mcpDelegationGrants s))
                 then (Inl ErrConflict, s)
                 else
                   let v = (stamp (newid e 0 ''mcpgr'') now v)\<lparr>mdg_State := MCPDelegationGrantActive, mdg_CreatedBy := TrimSpace actor\<rparr>;
                       s = s\<lparr>mcpDelegationGrants := put (ID v) v (mcpDelegationGrants s)\<rparr>;
                       s = appendAuditLocked e 1 actor ''mcp_delegation_grant.created'' ''mcpDelegationGrant'' (ID v) (Revision v)
                             [(''clientId'', MStr (mdg_ClientID v)), (''subject'', MStr (mdg_Subject v)),
                              (''organizationId'', MStr (mdg_OrganizationID v)), (''projectId'', MStr (mdg_ProjectID v)),
                              (''accessProfile'', MNamed (MCPDelegationAccessProfile_str (mdg_AccessProfile v))),
                              (''expiresAt'', MTime (Some (mdg_ExpiresAt v)))] s
                   in (Inr v, appendOutboxLocked e 2 ''mcpDelegationGrant'' (ID v) ''mcp_delegation_grant.created''
                                (VMCPDelegationGrant v) s))))"

definition ListMCPDelegationGrants :: "string \<Rightarrow> MemoryStore \<Rightarrow> MCPDelegationGrant list" where
  "ListMCPDelegationGrants subject s =
     (let subject = TrimSpace subject in
      sort_by (less_on CreatedAt) (filter (\<lambda>v. subject = '''' \<or> mdg_Subject v = subject) (vals (mcpDelegationGrants s))))"

definition GetActiveMCPDelegationGrant :: "string \<Rightarrow> string \<Rightarrow> string \<Rightarrow> int \<Rightarrow> MemoryStore \<Rightarrow> MCPDelegationGrant res" where
  "GetActiveMCPDelegationGrant issuer subject clientID now s =
     (let issuer = TrimRightSlash (TrimSpace issuer); subject = TrimSpace subject; clientID = TrimSpace clientID in
      (case find (\<lambda>v. mdg_Issuer v = issuer \<and> mdg_Subject v = subject \<and> mdg_ClientID v = clientID \<and>
                mdg_State v = MCPDelegationGrantActive \<and> now < mdg_ExpiresAt v) (vals (mcpDelegationGrants s)) of
         None \<Rightarrow> Inl ErrNotFound
       | Some v \<Rightarrow> Inr v))"

definition RevokeMCPDelegationGrant :: "env \<Rightarrow> string \<Rightarrow> int \<Rightarrow> string \<Rightarrow> MemoryStore \<Rightarrow> MCPDelegationGrant call" where
  "RevokeMCPDelegationGrant e i expected actor s =
     (case get (mcpDelegationGrants s) (TrimSpace i) of
        None \<Rightarrow> (Inl ErrNotFound, s)
      | Some v \<Rightarrow>
          if Revision v \<noteq> expected then (Inl ErrConflict, s)
          else if mdg_State v = MCPDelegationGrantRevoked then (Inr v, s)
          else
            let v = revokedGrant actor (nowUTC e 0) v;
                s = s\<lparr>mcpDelegationGrants := put (ID v) v (mcpDelegationGrants s)\<rparr>;
                s = appendAuditLocked e 1 actor ''mcp_delegation_grant.revoked'' ''mcpDelegationGrant'' (ID v) (Revision v)
                      [(''clientId'', MStr (mdg_ClientID v)), (''subject'', MStr (mdg_Subject v))] s
            in (Inr v, appendOutboxLocked e 2 ''mcpDelegationGrant'' (ID v) ''mcp_delegation_grant.revoked'' (VMCPDelegationGrant v) s))"

end
