(* ===== verification/Footprint.thy ===== *)
theory Footprint
  imports Frames Tenancy Outbox Blueprints IdentityAuthority ServiceAccounts MCPDelegation
begin

text \<open>
  Which part of the store a call may write. The store splits into the parts of its components; a call
  writes only parts of its own component, appends to the audit log and adds events to the outbox.
\<close>

section \<open>Parts of the store\<close>

datatype part =
    PTenancy | PMappings | PSecurity | PAccounts | PDelegation | POverlays | PBlueprints | PCatalog | POperations

fun same_part :: "part \<Rightarrow> MemoryStore \<Rightarrow> MemoryStore \<Rightarrow> bool" where
  "same_part PTenancy s s' = (organizations s' = organizations s \<and> projects s' = projects s \<and>
     organizationMemberships s' = organizationMemberships s)"
| "same_part PMappings s s' = (oidcGroupMappings s' = oidcGroupMappings s)"
| "same_part PSecurity s s' = (securityAudit s' = securityAudit s)"
| "same_part PAccounts s s' = (serviceAccounts s' = serviceAccounts s \<and> apiTokens s' = apiTokens s)"
| "same_part PDelegation s s' = (mcpTrustedClients s' = mcpTrustedClients s \<and> mcpDelegationGrants s' = mcpDelegationGrants s)"
| "same_part POverlays s s' = (blueprintOverlays s' = blueprintOverlays s)"
| "same_part PBlueprints s s' = (revisions s' = revisions s \<and> blueprintReleases s' = blueprintReleases s \<and> assignments s' = assignments s)"
| "same_part PCatalog s s' = (catalogTrustKeys s' = catalogTrustKeys s \<and> catalogRevisions s' = catalogRevisions s \<and>
     catalogReleases s' = catalogReleases s)"
| "same_part POperations s s' = (operations s' = operations s \<and> idempotency s' = idempotency s \<and> steps s' = steps s \<and>
     stepTraces s' = stepTraces s \<and> compensationSteps s' = compensationSteps s \<and> evidence s' = evidence s \<and>
     evidencePayloads s' = evidencePayloads s \<and> operationRequestPayloads s' = operationRequestPayloads s \<and>
     recoveryCheckpoints s' = recoveryCheckpoints s)"

text \<open>Adding events under identifiers drawn by the call.\<close>

inductive emits :: "env \<Rightarrow> OutboxEvent table \<Rightarrow> OutboxEvent table \<Rightarrow> bool" for e where
  none: "emits e t t"
| more: "emits e t t' \<Longrightarrow> ID ev = newid e k ''evt'' \<Longrightarrow> emits e t (put (newid e k ''evt'') ev t')"

lemma emits_trans: "emits e t' t'' \<Longrightarrow> emits e t t' \<Longrightarrow> emits e t t''"
  by (induction rule: emits.induct) (auto intro: emits.more)

lemma emits_later: "emits (later n e) t t' \<Longrightarrow> emits e t t'"
  by (induction rule: emits.induct) (auto intro: emits.intros)

lemma emits_keeps: "emits e t t' \<Longrightarrow> \<forall>k. get t (newid e k ''evt'') = None \<Longrightarrow> get t i = Some ev \<Longrightarrow> get t' i = Some ev"
proof (induction rule: emits.induct)
  case (more t t' v k)
  then have "get t' i = Some ev" "i \<noteq> newid e k ''evt''" by auto
  then show ?case by simp
qed

lemma emits_ok: "emits e t t' \<Longrightarrow> outbox_ok t \<Longrightarrow> outbox_ok t'"
proof (induction rule: emits.induct)
  case (more t t' ev k)
  then show ?case unfolding outbox_ok_def by simp
qed

definition footprint :: "env \<Rightarrow> part set \<Rightarrow> MemoryStore \<Rightarrow> MemoryStore \<Rightarrow> bool" where
  "footprint e ps s s' =
     ((\<forall>p. p \<notin> ps \<longrightarrow> same_part p s s') \<and> audit_extends s s' \<and> emits e (outbox s) (outbox s'))"

named_theorems writes \<open>what the steps of a call write\<close>

lemma same_part_trans: "same_part p s t \<Longrightarrow> same_part p t u \<Longrightarrow> same_part p s u"
  by (cases p) simp_all

lemma footprint_refl [writes]: "footprint e ps s s"
proof -
  have "same_part p s s" for p by (cases p) simp_all
  then show ?thesis by (simp add: footprint_def emits.none)
qed

lemma footprint_trans: "footprint e ps s t \<Longrightarrow> footprint e ps t u \<Longrightarrow> footprint e ps s u"
  unfolding footprint_def by (blast intro: same_part_trans audit_extends_trans emits_trans)

lemma footprint_later: "footprint (later n e) ps s t \<Longrightarrow> footprint e ps s t"
  unfolding footprint_def using emits_later by blast

text \<open>The writers of the two logs.\<close>

lemma same_part_logs:
  "same_part p s (appendAuditLocked e k a b c d r m t) = same_part p s t"
  "same_part p s (appendOutboxLocked e k a b c v t) = same_part p s t"
  by (cases p; simp)+

lemma outbox_appendOutboxLocked:
  "\<exists>ev. ID ev = newid e k ''evt'' \<and> outbox (appendOutboxLocked e k a b c v t) = put (newid e k ''evt'') ev (outbox t)"
  by (simp add: appendOutboxLocked_def Let_def) (metis ResourceMeta.select_convs(1))

lemma footprint_appendAudit [writes]: "footprint e ps s t \<Longrightarrow> footprint e ps s (appendAuditLocked e' k a b c d r m t)"
  unfolding footprint_def same_part_logs using audit_extends_trans by (fastforce simp: audit_extends_def audit_appendAuditLocked)

lemma footprint_appendOutbox [writes]: "footprint e ps s t \<Longrightarrow> footprint e ps s (appendOutboxLocked e k a b c v t)"
  unfolding footprint_def same_part_logs
  using outbox_appendOutboxLocked [of e k a b c v t] emits.more by (force simp: audit_extends_def)

lemma footprint_appendOutbox_later [writes]:
  "footprint e ps s t \<Longrightarrow> footprint e ps s (appendOutboxLocked (later n e) k a b c v t)"
  unfolding footprint_def same_part_logs
  using outbox_appendOutboxLocked [of "later n e" k a b c v t] emits.more by (force simp: audit_extends_def)

text \<open>Writing a table of one of the parts.\<close>

lemma same_part_upd:
  "p \<noteq> PTenancy \<Longrightarrow> same_part p s (t\<lparr>organizations := x1\<rparr>) = same_part p s t"
  "p \<noteq> PTenancy \<Longrightarrow> same_part p s (t\<lparr>projects := x2\<rparr>) = same_part p s t"
  "p \<noteq> PTenancy \<Longrightarrow> same_part p s (t\<lparr>organizationMemberships := x3\<rparr>) = same_part p s t"
  "p \<noteq> PMappings \<Longrightarrow> same_part p s (t\<lparr>oidcGroupMappings := x4\<rparr>) = same_part p s t"
  "p \<noteq> PSecurity \<Longrightarrow> same_part p s (t\<lparr>securityAudit := x5\<rparr>) = same_part p s t"
  "p \<noteq> PAccounts \<Longrightarrow> same_part p s (t\<lparr>serviceAccounts := x6\<rparr>) = same_part p s t"
  "p \<noteq> PAccounts \<Longrightarrow> same_part p s (t\<lparr>apiTokens := x7\<rparr>) = same_part p s t"
  "p \<noteq> PDelegation \<Longrightarrow> same_part p s (t\<lparr>mcpTrustedClients := x8\<rparr>) = same_part p s t"
  "p \<noteq> PDelegation \<Longrightarrow> same_part p s (t\<lparr>mcpDelegationGrants := x9\<rparr>) = same_part p s t"
  "p \<noteq> POverlays \<Longrightarrow> same_part p s (t\<lparr>blueprintOverlays := y1\<rparr>) = same_part p s t"
  "p \<noteq> PBlueprints \<Longrightarrow> same_part p s (t\<lparr>revisions := y2\<rparr>) = same_part p s t"
  "p \<noteq> PBlueprints \<Longrightarrow> same_part p s (t\<lparr>blueprintReleases := y3\<rparr>) = same_part p s t"
  "p \<noteq> PBlueprints \<Longrightarrow> same_part p s (t\<lparr>assignments := y4\<rparr>) = same_part p s t"
  "p \<noteq> PCatalog \<Longrightarrow> same_part p s (t\<lparr>catalogTrustKeys := y5\<rparr>) = same_part p s t"
  "p \<noteq> PCatalog \<Longrightarrow> same_part p s (t\<lparr>catalogRevisions := y6\<rparr>) = same_part p s t"
  "p \<noteq> PCatalog \<Longrightarrow> same_part p s (t\<lparr>catalogReleases := y7\<rparr>) = same_part p s t"
  "p \<noteq> POperations \<Longrightarrow> same_part p s (t\<lparr>operations := z1\<rparr>) = same_part p s t"
  "p \<noteq> POperations \<Longrightarrow> same_part p s (t\<lparr>idempotency := z2\<rparr>) = same_part p s t"
  "p \<noteq> POperations \<Longrightarrow> same_part p s (t\<lparr>steps := z3\<rparr>) = same_part p s t"
  "p \<noteq> POperations \<Longrightarrow> same_part p s (t\<lparr>stepTraces := z4\<rparr>) = same_part p s t"
  "p \<noteq> POperations \<Longrightarrow> same_part p s (t\<lparr>compensationSteps := z5\<rparr>) = same_part p s t"
  "p \<noteq> POperations \<Longrightarrow> same_part p s (t\<lparr>evidence := z6\<rparr>) = same_part p s t"
  "p \<noteq> POperations \<Longrightarrow> same_part p s (t\<lparr>evidencePayloads := z7\<rparr>) = same_part p s t"
  "p \<noteq> POperations \<Longrightarrow> same_part p s (t\<lparr>operationRequestPayloads := z8\<rparr>) = same_part p s t"
  "p \<noteq> POperations \<Longrightarrow> same_part p s (t\<lparr>recoveryCheckpoints := z9\<rparr>) = same_part p s t"
  by (cases p; simp)+

lemma footprint_upd [writes]:
  "PTenancy \<in> ps \<Longrightarrow> footprint e ps s (t\<lparr>organizations := x1\<rparr>) = footprint e ps s t"
  "PTenancy \<in> ps \<Longrightarrow> footprint e ps s (t\<lparr>projects := x2\<rparr>) = footprint e ps s t"
  "PTenancy \<in> ps \<Longrightarrow> footprint e ps s (t\<lparr>organizationMemberships := x3\<rparr>) = footprint e ps s t"
  "PMappings \<in> ps \<Longrightarrow> footprint e ps s (t\<lparr>oidcGroupMappings := x4\<rparr>) = footprint e ps s t"
  "PSecurity \<in> ps \<Longrightarrow> footprint e ps s (t\<lparr>securityAudit := x5\<rparr>) = footprint e ps s t"
  "PAccounts \<in> ps \<Longrightarrow> footprint e ps s (t\<lparr>serviceAccounts := x6\<rparr>) = footprint e ps s t"
  "PAccounts \<in> ps \<Longrightarrow> footprint e ps s (t\<lparr>apiTokens := x7\<rparr>) = footprint e ps s t"
  "PDelegation \<in> ps \<Longrightarrow> footprint e ps s (t\<lparr>mcpTrustedClients := x8\<rparr>) = footprint e ps s t"
  "PDelegation \<in> ps \<Longrightarrow> footprint e ps s (t\<lparr>mcpDelegationGrants := x9\<rparr>) = footprint e ps s t"
  "POverlays \<in> ps \<Longrightarrow> footprint e ps s (t\<lparr>blueprintOverlays := y1\<rparr>) = footprint e ps s t"
  "PBlueprints \<in> ps \<Longrightarrow> footprint e ps s (t\<lparr>revisions := y2\<rparr>) = footprint e ps s t"
  "PBlueprints \<in> ps \<Longrightarrow> footprint e ps s (t\<lparr>blueprintReleases := y3\<rparr>) = footprint e ps s t"
  "PBlueprints \<in> ps \<Longrightarrow> footprint e ps s (t\<lparr>assignments := y4\<rparr>) = footprint e ps s t"
  "PCatalog \<in> ps \<Longrightarrow> footprint e ps s (t\<lparr>catalogTrustKeys := y5\<rparr>) = footprint e ps s t"
  "PCatalog \<in> ps \<Longrightarrow> footprint e ps s (t\<lparr>catalogRevisions := y6\<rparr>) = footprint e ps s t"
  "PCatalog \<in> ps \<Longrightarrow> footprint e ps s (t\<lparr>catalogReleases := y7\<rparr>) = footprint e ps s t"
  "POperations \<in> ps \<Longrightarrow> footprint e ps s (t\<lparr>operations := z1\<rparr>) = footprint e ps s t"
  "POperations \<in> ps \<Longrightarrow> footprint e ps s (t\<lparr>idempotency := z2\<rparr>) = footprint e ps s t"
  "POperations \<in> ps \<Longrightarrow> footprint e ps s (t\<lparr>steps := z3\<rparr>) = footprint e ps s t"
  "POperations \<in> ps \<Longrightarrow> footprint e ps s (t\<lparr>stepTraces := z4\<rparr>) = footprint e ps s t"
  "POperations \<in> ps \<Longrightarrow> footprint e ps s (t\<lparr>compensationSteps := z5\<rparr>) = footprint e ps s t"
  "POperations \<in> ps \<Longrightarrow> footprint e ps s (t\<lparr>evidence := z6\<rparr>) = footprint e ps s t"
  "POperations \<in> ps \<Longrightarrow> footprint e ps s (t\<lparr>evidencePayloads := z7\<rparr>) = footprint e ps s t"
  "POperations \<in> ps \<Longrightarrow> footprint e ps s (t\<lparr>operationRequestPayloads := z8\<rparr>) = footprint e ps s t"
  "POperations \<in> ps \<Longrightarrow> footprint e ps s (t\<lparr>recoveryCheckpoints := z9\<rparr>) = footprint e ps s t"
  unfolding footprint_def by (simp_all add: audit_extends_def) (metis same_part_upd)+

text \<open>A call followed by a continuation on its result.\<close>

lemma footprint_bind:
  assumes "footprint e ps s (snd c)" and "\<And>x s'. footprint e ps s' (snd (f x s'))" and "\<And>x s'. footprint e ps s' (snd (g x s'))"
  shows "footprint e ps s (snd (case c of (Inl x, s') \<Rightarrow> f x s' | (Inr y, s') \<Rightarrow> g y s'))"
  using assms footprint_trans by (cases c) (auto split: sum.split)

section \<open>The calls of the operation authority\<close>

lemma footprint_saveOperation [writes]:
  "POperations \<in> ps \<Longrightarrow> footprint e ps s t \<Longrightarrow> footprint e ps s (saveOperation e k i op x y m z t)"
  "POperations \<in> ps \<Longrightarrow> footprint e ps s t \<Longrightarrow> footprint e ps s (saveOperation (later n e) k i op x y m z t)"
  by (simp_all add: saveOperation_def writes)

lemma footprint_saveCompensationStep [writes]:
  "POperations \<in> ps \<Longrightarrow> footprint e ps s t \<Longrightarrow> footprint e ps s (saveCompensationStep e k key i step op x y m t)"
  by (simp add: saveCompensationStep_def Let_def writes)

lemma createOperationLocked_writes:
  "footprint e {POperations} s (snd (createOperationLocked e r key actor requestID s))"
  by (simp add: createOperationLocked_def Let_def writes split: sum.split option.split)

lemma transitionOperationLocked_writes:
  "footprint e {POperations} s (snd (transitionOperationLocked e i expected to lastError actor s))"
  by (simp add: transitionOperationLocked_def Let_def writes split: option.split)

lemma requeueDueRetry_writes: "footprint e {POperations} s (snd (requeueDueRetry e i op worker at s))"
  by (simp add: requeueDueRetry_def Let_def writes)

lemma transitionOwnerOperationLocked_writes:
  "footprint e {POperations} s (snd (transitionOwnerOperationLocked e k op to actor event payload s))"
  by (simp add: transitionOwnerOperationLocked_def Let_def writes)

lemma transitionAll_writes: "footprint e {POperations} s (snd (transitionAll e k op path actor s))"
proof (induction path arbitrary: k op s)
  case (Cons to path)
  then show ?case
    by (simp only: transitionAll.simps)
      (intro footprint_bind footprint_later [OF transitionOperationLocked_writes]; simp add: writes)
qed (simp add: writes)

lemma ownerTransitions_writes: "footprint e {POperations} s (snd (ownerTransitions e k op path actor s))"
proof (induction path arbitrary: k op s)
  case (Cons x path)
  then show ?case
    by (cases x) (simp only: ownerTransitions.simps,
      intro footprint_bind transitionOwnerOperationLocked_writes; simp add: writes)
qed (simp add: writes)

lemma createWithPayload_writes:
  "footprint e {POperations} s (snd (createWithPayload e r key actor requestID mediaType payload path extra s))"
proof -
  obtain res s1 where c: "createOperationLocked e r key actor requestID s = (res, s1)" by force
  then have s1: "footprint e {POperations} s s1" by (metis createOperationLocked_writes snd_conv)
  show ?thesis
  proof (cases res)
    case (Inr x)
    obtain op replay where x: "x = (op, replay)" by force
    obtain t s2 where t: "transitionAll e 3 op path actor s1 = (t, s2)" by force
    then have "footprint e {POperations} s s2" using s1 footprint_trans by (metis transitionAll_writes snd_conv)
    then show ?thesis
      using c Inr x t s1 by (cases t) (simp_all add: createWithPayload_def Let_def writes split: option.split)
  qed (use c s1 in \<open>simp add: createWithPayload_def\<close>)
qed

lemma commitCompletion_writes:
  "footprint e {POperations} s (snd (commitCompletion e i op ein found digest payload fence now actor s))"
  by (simp add: commitCompletion_def Let_def writes split: option.split)

lemma CreateOperation_writes: "footprint e {POperations} s (snd (CreateOperation e r key actor requestID s))"
  by (simp add: CreateOperation_def createOperationLocked_writes)

lemma TransitionOperation_writes: "footprint e {POperations} s (snd (TransitionOperation e i expected to lastError actor s))"
  by (simp add: TransitionOperation_def transitionOperationLocked_writes)

lemma ClaimOperation_writes: "footprint e {POperations} s (snd (ClaimOperation e i worker ttl at s))"
  unfolding ClaimOperation_def Let_def
  by (simp add: writes split: option.split) (auto intro!: footprint_bind requeueDueRetry_writes simp: writes)

lemma RenewOperationLease_writes: "footprint e {POperations} s (snd (RenewOperationLease e i worker fence ttl at s))"
  by (simp add: RenewOperationLease_def Let_def writes split: option.split sum.split prod.split)

lemma ReleaseOperationLease_writes: "footprint e {POperations} s (snd (ReleaseOperationLease e i worker fence s))"
  by (simp add: ReleaseOperationLease_def Let_def writes split: option.split sum.split prod.split)

lemma AppendOperationStep_writes: "footprint e {POperations} s (snd (AppendOperationStep e step actor s))"
  by (simp add: AppendOperationStep_def Let_def writes split: option.split sum.split prod.split)

lemma StartOperationAttempt_writes: "footprint e {POperations} s (snd (StartOperationAttempt e i expected worker fence actor s))"
  by (simp add: StartOperationAttempt_def Let_def writes split: option.split sum.split prod.split)

lemma BeginOperationVerification_writes: "footprint e {POperations} s (snd (BeginOperationVerification e i expected worker fence actor s))"
  by (simp add: BeginOperationVerification_def Let_def writes split: option.split sum.split prod.split)

lemma ReportOperationFailure_writes: "footprint e {POperations} s (snd (ReportOperationFailure e i expected worker fence report actor s))"
  by (simp add: ReportOperationFailure_def Let_def writes split: option.split sum.split prod.split)

lemma CompleteOperation_writes: "footprint e {POperations} s (snd (CompleteOperation e i expected worker fence actor s))"
  by (simp add: CompleteOperation_def Let_def writes split: option.split sum.split prod.split)

lemma RequestOperationCancellation_writes: "footprint e {POperations} s (snd (RequestOperationCancellation e i expected actor reason s))"
  by (simp add: RequestOperationCancellation_def Let_def writes split: option.split sum.split prod.split)

lemma AcknowledgeOperationCancellation_writes: "footprint e {POperations} s (snd (AcknowledgeOperationCancellation e i expected worker fence actor s))"
  by (simp add: AcknowledgeOperationCancellation_def Let_def writes split: option.split sum.split prod.split)

lemma CreateRecoveryCheckpoint_writes: "footprint e {POperations} s (snd (CreateRecoveryCheckpoint e v actor s))"
  by (simp add: CreateRecoveryCheckpoint_def Let_def writes split: option.split sum.split prod.split)

lemma RevokeRecoveryCheckpoint_writes: "footprint e {POperations} s (snd (RevokeRecoveryCheckpoint e i expected actor s))"
  by (simp add: RevokeRecoveryCheckpoint_def Let_def writes split: option.split sum.split prod.split)

lemma ResolveUnknownOperationOutcome_writes: "footprint e {POperations} s (snd (ResolveUnknownOperationOutcome e i expected resolution d actor s))"
  by (simp add: ResolveUnknownOperationOutcome_def Let_def writes split: option.split sum.split prod.split)

lemma cancelOwnerDestructiveOperationLocked_writes: "footprint e {POperations} s (snd (cancelOwnerDestructiveOperationLocked e operationID actor reason s))"
  unfolding cancelOwnerDestructiveOperationLocked_def Let_def
  by (auto simp: writes split: option.split sum.split intro!: footprint_bind transitionOwnerOperationLocked_writes)

lemma createOwnerDestructiveOperationLocked_writes: "footprint e {POperations} s (snd (createOwnerDestructiveOperationLocked e p c k ow r d rc a rd w s))"
  unfolding createOwnerDestructiveOperationLocked_def Let_def
  by (auto simp: writes simp del: ownerTransitions.simps split: option.split sum.split
      intro!: footprint_trans [OF _ ownerTransitions_writes])

lemma approveOwnerDestructiveOperationLocked_writes: "footprint e {POperations} s (snd (approveOwnerDestructiveOperationLocked e i p c a s))"
  by (simp add: approveOwnerDestructiveOperationLocked_def Let_def writes ownerTransitions_writes
      del: ownerTransitions.simps split: option.split sum.split)

lemma startOwnerDestructiveOperationLocked_writes: "footprint e {POperations} s (snd (startOwnerDestructiveOperationLocked e i p c a s))"
  by (simp add: startOwnerDestructiveOperationLocked_def Let_def writes split: option.split sum.split prod.split)

lemma finishOwnerDestructiveOperationLocked_writes: "footprint e {POperations} s (snd (finishOwnerDestructiveOperationLocked e i success le a s))"
  by (simp add: finishOwnerDestructiveOperationLocked_def Let_def writes split: option.split sum.split prod.split)

lemma CreateOperationAwaitingApprovalWithPayload_writes: "footprint e {POperations} s (snd (CreateOperationAwaitingApprovalWithPayload e r key actor requestID mediaType payload s))"
  by (simp add: CreateOperationAwaitingApprovalWithPayload_def createWithPayload_writes writes split: sum.split)

lemma CreateOperationQueuedWithPayload_writes: "footprint e {POperations} s (snd (CreateOperationQueuedWithPayload e r key actor requestID mediaType payload s))"
  by (simp add: CreateOperationQueuedWithPayload_def createWithPayload_writes writes split: sum.split)

lemma CreateExclusiveOperationAwaitingApprovalWithPayload_writes: "footprint e {POperations} s (snd (CreateExclusiveOperationAwaitingApprovalWithPayload e r key actor requestID mediaType payload s))"
  unfolding CreateExclusiveOperationAwaitingApprovalWithPayload_def Let_def
  by (auto simp: writes split: option.split sum.split intro!: footprint_bind createWithPayload_writes)

lemma ApproveOperationAndQueue_writes: "footprint e {POperations} s (snd (ApproveOperationAndQueue e i expected actor s))"
  by (simp add: ApproveOperationAndQueue_def Let_def writes split: option.split sum.split prod.split)

lemma SetOperationCompensationPlan_writes: "footprint e {POperations} s (snd (SetOperationCompensationPlan e i expected plan actor s))"
  by (simp add: SetOperationCompensationPlan_def Let_def writes split: option.split sum.split prod.split list.split)

lemma RecordOperationForwardStepCompleted_writes: "footprint e {POperations} s (snd (RecordOperationForwardStepCompleted e i stepKey expected worker fence actor s))"
  by (simp add: RecordOperationForwardStepCompleted_def Let_def writes split: option.split sum.split prod.split list.split)

lemma BeginOperationCompensation_writes: "footprint e {POperations} s (snd (BeginOperationCompensation e i expected actor s))"
  by (simp add: BeginOperationCompensation_def Let_def writes split: option.split sum.split prod.split list.split)

lemma ClaimNextOperationCompensationStep_writes: "footprint e {POperations} s (snd (ClaimNextOperationCompensationStep e i worker fence actor s))"
  by (simp add: ClaimNextOperationCompensationStep_def Let_def writes split: option.split sum.split prod.split list.split)

lemma CompleteOperationCompensationStep_writes: "footprint e {POperations} s (snd (CompleteOperationCompensationStep e i stepKey worker fence d actor s))"
  by (simp add: CompleteOperationCompensationStep_def Let_def writes split: option.split sum.split prod.split list.split)

lemma ReportOperationCompensationStepFailure_writes: "footprint e {POperations} s (snd (ReportOperationCompensationStepFailure e i stepKey worker fence failure actor s))"
  by (simp add: ReportOperationCompensationStepFailure_def Let_def writes split: option.split sum.split prod.split list.split)

lemma AppendOperationStepTrace_writes: "footprint e {POperations} s (snd (AppendOperationStepTrace e tin worker fence actor s))"
  by (simp add: AppendOperationStepTrace_def Let_def writes split: option.split sum.split prod.split)

lemma AppendOperationEvidencePayload_writes: "footprint e {POperations} s (snd (AppendOperationEvidencePayload e ein payload worker fence actor s))"
  by (simp add: AppendOperationEvidencePayload_def Let_def writes split: option.split sum.split prod.split)

lemma AppendEvidence_writes: "footprint e {POperations} s (snd (AppendEvidence e v actor s))"
  by (simp add: AppendEvidence_def Let_def writes split: option.split sum.split prod.split)

lemma CompleteOperationWithEvidencePayload_writes: "footprint e {POperations} s (snd (CompleteOperationWithEvidencePayload e i expected ein payload worker fence actor s))"
  by (simp add: CompleteOperationWithEvidencePayload_def Let_def commitCompletion_writes writes split: option.split sum.split prod.split)

lemma ResolveUnknownOperationOutcomeWithEvidence_writes: "footprint e {POperations} s (snd (ResolveUnknownOperationOutcomeWithEvidence e i expected resolution ein payload actor s))"
  by (simp add: ResolveUnknownOperationOutcomeWithEvidence_def Let_def writes split: option.split sum.split prod.split)

lemmas operation_writes =
  CreateOperation_writes
  TransitionOperation_writes
  ClaimOperation_writes
  RenewOperationLease_writes
  ReleaseOperationLease_writes
  AppendOperationStep_writes
  StartOperationAttempt_writes
  BeginOperationVerification_writes
  ReportOperationFailure_writes
  CompleteOperation_writes
  RequestOperationCancellation_writes
  AcknowledgeOperationCancellation_writes
  CreateRecoveryCheckpoint_writes
  RevokeRecoveryCheckpoint_writes
  ResolveUnknownOperationOutcome_writes
  cancelOwnerDestructiveOperationLocked_writes
  createOwnerDestructiveOperationLocked_writes
  approveOwnerDestructiveOperationLocked_writes
  startOwnerDestructiveOperationLocked_writes
  finishOwnerDestructiveOperationLocked_writes
  CreateOperationAwaitingApprovalWithPayload_writes
  CreateOperationQueuedWithPayload_writes
  CreateExclusiveOperationAwaitingApprovalWithPayload_writes
  ApproveOperationAndQueue_writes
  SetOperationCompensationPlan_writes
  RecordOperationForwardStepCompleted_writes
  BeginOperationCompensation_writes
  ClaimNextOperationCompensationStep_writes
  CompleteOperationCompensationStep_writes
  ReportOperationCompensationStepFailure_writes
  AppendOperationStepTrace_writes
  AppendOperationEvidencePayload_writes
  AppendEvidence_writes
  CompleteOperationWithEvidencePayload_writes
  ResolveUnknownOperationOutcomeWithEvidence_writes

lemma exec_footprint: "footprint e {POperations} s (snd (exec e c s))"
  by (cases c) (simp_all only: exec.simps outcome_simps split_beta operation_writes)

section \<open>The calls of the other components\<close>

lemma grantMembership_writes [writes]:
  "PTenancy \<in> ps \<Longrightarrow> footprint e ps s t \<Longrightarrow> footprint e ps s (grantMembership e k i m actor t)"
  by (simp add: grantMembership_def Let_def writes)

lemma CreateOrganization_writes: "footprint e {PTenancy} s (snd (CreateOrganization e org actor s))"
  by (simp add: CreateOrganization_def Let_def writes split: option.split)

lemma UpdateOrganization_writes: "footprint e {PTenancy} s (snd (UpdateOrganization e i expected displayName name actor s))"
  by (simp add: UpdateOrganization_def Let_def writes split: option.split)

lemma CreateProject_writes: "footprint e {PTenancy} s (snd (CreateProject e p actor s))"
  by (simp add: CreateProject_def Let_def writes split: option.split)

lemma UpsertOrganizationMembership_writes: "footprint e {PTenancy} s (snd (UpsertOrganizationMembership e m expected actor s))"
  by (simp add: UpsertOrganizationMembership_def Let_def writes split: option.split prod.split)

lemma RevokeOrganizationMembership_writes: "footprint e {PTenancy} s (snd (RevokeOrganizationMembership e o1 sub expected actor s))"
  by (simp add: RevokeOrganizationMembership_def Let_def writes split: option.split prod.split)

lemmas tenancy_writes =
  CreateOrganization_writes UpdateOrganization_writes CreateProject_writes UpsertOrganizationMembership_writes
  RevokeOrganizationMembership_writes

lemma CreateOIDCGroupMapping_writes: "footprint e {PMappings} s (snd (CreateOIDCGroupMapping e v actor s))"
  by (simp add: CreateOIDCGroupMapping_def Let_def writes split: sum.split)

lemma RevokeOIDCGroupMapping_writes: "footprint e {PMappings} s (snd (RevokeOIDCGroupMapping e i expected actor s))"
  by (simp add: RevokeOIDCGroupMapping_def Let_def writes split: option.split)

lemma AppendSecurityAudit_writes: "footprint e {PSecurity} s (snd (AppendSecurityAudit e input s))"
  by (simp add: AppendSecurityAudit_def Let_def writes split: sum.split)

lemma CreateServiceAccount_writes: "footprint e {PAccounts} s (snd (CreateServiceAccount e account actor s))"
  by (simp add: CreateServiceAccount_def Let_def writes split: option.split)

lemma revokeTokens_writes: "footprint e {PAccounts} s t \<Longrightarrow> footprint e {PAccounts} s (snd (revokeTokens e i actor now k ts t))"
  by (induction e i actor now k ts t rule: revokeTokens.induct) (auto simp: Let_def writes)

lemma RevokeServiceAccount_writes: "footprint e {PAccounts} s (snd (RevokeServiceAccount e i expected actor s))"
  by (simp add: RevokeServiceAccount_def Let_def case_prod_beta writes revokeTokens_writes split: option.split)

lemma CreateAPIToken_writes: "footprint e {PAccounts} s (snd (CreateAPIToken e token actor s))"
  by (simp add: CreateAPIToken_def Let_def writes split: option.split sum.split)

lemma RevokeAPIToken_writes: "footprint e {PAccounts} s (snd (RevokeAPIToken e i expected actor s))"
  by (simp add: RevokeAPIToken_def Let_def writes split: option.split)

lemma RotateAPIToken_writes: "footprint e {PAccounts} s (snd (RotateAPIToken e i expected replacement actor s))"
  by (simp add: RotateAPIToken_def Let_def writes split: option.split sum.split)

lemmas account_writes =
  CreateServiceAccount_writes RevokeServiceAccount_writes CreateAPIToken_writes RevokeAPIToken_writes RotateAPIToken_writes

lemma CreateMCPTrustedClient_writes: "footprint e {PDelegation} s (snd (CreateMCPTrustedClient e v actor s))"
  by (simp add: CreateMCPTrustedClient_def Let_def writes split: sum.split)

lemma RevokeMCPTrustedClient_writes: "footprint e {PDelegation} s (snd (RevokeMCPTrustedClient e i expected actor s))"
  by (simp add: RevokeMCPTrustedClient_def Let_def writes split: option.split)

lemma CreateMCPDelegationGrant_writes: "footprint e {PDelegation} s (snd (CreateMCPDelegationGrant e g actor s))"
  by (simp add: CreateMCPDelegationGrant_def Let_def writes split: sum.split)

lemma RevokeMCPDelegationGrant_writes: "footprint e {PDelegation} s (snd (RevokeMCPDelegationGrant e i expected actor s))"
  by (simp add: RevokeMCPDelegationGrant_def Let_def writes split: option.split)

lemmas delegation_writes =
  CreateMCPTrustedClient_writes RevokeMCPTrustedClient_writes CreateMCPDelegationGrant_writes RevokeMCPDelegationGrant_writes

lemma CreateCatalogTrustKey_writes: "footprint e {PCatalog} s (snd (CreateCatalogTrustKey e key actor s))"
  by (simp add: CreateCatalogTrustKey_def Let_def writes split: option.split sum.split)

lemma RevokeCatalogTrustKey_writes: "footprint e {PCatalog} s (snd (RevokeCatalogTrustKey e i expected actor s))"
  by (simp add: RevokeCatalogTrustKey_def Let_def writes split: option.split)

lemma commitCatalog_writes [writes]:
  "PCatalog \<in> ps \<Longrightarrow> footprint e ps s t \<Longrightarrow> footprint e ps s (commitCatalogRevisionLocked e k v actor t)"
  "PCatalog \<in> ps \<Longrightarrow> footprint e ps s t \<Longrightarrow> footprint e ps s (commitCatalogReleaseLocked e k r actor t)"
  "PCatalog \<in> ps \<Longrightarrow> footprint e ps s t \<Longrightarrow> footprint e ps s (commitCatalogDraftUpdateLocked e k r actor t)"
  "PCatalog \<in> ps \<Longrightarrow> footprint e ps s t \<Longrightarrow> footprint e ps s (saveCatalogRelease e i r actor action metadata t)"
  by (simp_all add: commitCatalogRevisionLocked_def commitCatalogReleaseLocked_def commitCatalogDraftUpdateLocked_def
      saveCatalogRelease_def Let_def writes)

lemma CreateCatalogRevision_writes: "footprint e {PCatalog} s (snd (CreateCatalogRevision e revision actor s))"
  by (simp add: CreateCatalogRevision_def Let_def writes split: sum.split prod.split)

lemma CreateCatalogRelease_writes: "footprint e {PCatalog} s (snd (CreateCatalogRelease e release actor s))"
  by (simp add: CreateCatalogRelease_def Let_def writes split: sum.split option.split)

lemma CreateCatalogReleaseWithRevision_writes:
  "footprint e {PCatalog} s (snd (CreateCatalogReleaseWithRevision e revision release actor s))"
  by (simp add: CreateCatalogReleaseWithRevision_def Let_def writes split: sum.split prod.split option.split)

lemma UpdateCatalogReleaseDraft_writes:
  "footprint e {PCatalog} s (snd (UpdateCatalogReleaseDraft e i expected revisionID manifestDigest actor s))"
  by (simp add: UpdateCatalogReleaseDraft_def Let_def writes split: sum.split option.split)

lemma UpdateCatalogReleaseDraftWithRevision_writes:
  "footprint e {PCatalog} s (snd (UpdateCatalogReleaseDraftWithRevision e i expected revision actor s))"
  by (simp add: UpdateCatalogReleaseDraftWithRevision_def Let_def writes split: sum.split prod.split option.split)

lemma SubmitCatalogReleaseReview_writes:
  "footprint e {PCatalog} s (snd (SubmitCatalogReleaseReview e i expected keyID fingerprint signature actor s))"
  by (simp add: SubmitCatalogReleaseReview_def Let_def writes split: sum.split option.split)

lemma TransitionCatalogRelease_writes: "footprint e {PCatalog} s (snd (TransitionCatalogRelease e i expected to actor s))"
  by (simp add: TransitionCatalogRelease_def Let_def writes split: sum.split option.split)

lemmas catalog_writes =
  CreateCatalogTrustKey_writes RevokeCatalogTrustKey_writes CreateCatalogRevision_writes CreateCatalogRelease_writes
  CreateCatalogReleaseWithRevision_writes UpdateCatalogReleaseDraft_writes UpdateCatalogReleaseDraftWithRevision_writes
  SubmitCatalogReleaseReview_writes TransitionCatalogRelease_writes

lemma CreateBlueprintOverlay_writes: "footprint e {POverlays} s (snd (CreateBlueprintOverlay e overlay actor s))"
  by (simp add: CreateBlueprintOverlay_def Let_def writes split: sum.split option.split)

lemma commitBlueprint_writes [writes]:
  "PBlueprints \<in> ps \<Longrightarrow> footprint e ps s t \<Longrightarrow> footprint e ps s (commitBlueprintRevisionLocked e k v actor t)"
  "PBlueprints \<in> ps \<Longrightarrow> footprint e ps s t \<Longrightarrow> footprint e ps s (commitBlueprintReleaseLocked e k r actor t)"
  "PBlueprints \<in> ps \<Longrightarrow> footprint e ps s t \<Longrightarrow> footprint e ps s (commitBlueprintDraftUpdateLocked e k r actor t)"
  by (simp_all add: commitBlueprintRevisionLocked_def commitBlueprintReleaseLocked_def commitBlueprintDraftUpdateLocked_def
      Let_def writes)

lemma CreateBlueprintRevision_writes: "footprint e {PBlueprints} s (snd (CreateBlueprintRevision e revision actor s))"
  by (simp add: CreateBlueprintRevision_def Let_def writes split: sum.split prod.split)

lemma CreateBlueprintRelease_writes: "footprint e {PBlueprints} s (snd (CreateBlueprintRelease e release actor s))"
  by (simp add: CreateBlueprintRelease_def Let_def writes split: sum.split option.split)

lemma CreateBlueprintReleaseWithRevision_writes:
  "footprint e {PBlueprints} s (snd (CreateBlueprintReleaseWithRevision e revision release actor s))"
  by (simp add: CreateBlueprintReleaseWithRevision_def Let_def writes split: sum.split prod.split)

lemma UpdateBlueprintReleaseDraft_writes:
  "footprint e {PBlueprints} s (snd (UpdateBlueprintReleaseDraft e i expected revisionID bd cd ready plan ids actor s))"
  by (simp add: UpdateBlueprintReleaseDraft_def Let_def writes split: sum.split option.split)

lemma UpdateBlueprintReleaseDraftWithRevision_writes:
  "footprint e {PBlueprints} s (snd (UpdateBlueprintReleaseDraftWithRevision e i expected revision ready plan ids actor s))"
  by (simp add: UpdateBlueprintReleaseDraftWithRevision_def Let_def writes split: sum.split prod.split option.split)

lemma TransitionBlueprintRelease_writes: "footprint e {PBlueprints} s (snd (TransitionBlueprintRelease e i expected to actor s))"
  by (simp add: TransitionBlueprintRelease_def Let_def writes split: sum.split option.split)

lemma CreateAssignment_writes: "footprint e {PBlueprints} s (snd (CreateAssignment e a actor s))"
  by (simp add: CreateAssignment_def Let_def writes split: option.split)

lemma UpdateAssignment_writes: "footprint e {PBlueprints} s (snd (UpdateAssignment e i expected revisionID generation actor s))"
  by (simp add: UpdateAssignment_def Let_def writes split: option.split)

lemmas blueprint_writes =
  CreateBlueprintRevision_writes CreateBlueprintRelease_writes CreateBlueprintReleaseWithRevision_writes
  UpdateBlueprintReleaseDraft_writes UpdateBlueprintReleaseDraftWithRevision_writes TransitionBlueprintRelease_writes
  CreateAssignment_writes UpdateAssignment_writes

end
