(* ===== verification/CatalogTrust.thy ===== *)
theory CatalogTrust
  imports Catalog
begin

text \<open>
  What the catalog calls keep: the invariant of keys, revisions and releases, the history of a
  release, and the theorems on signed and frozen publications.
\<close>

section \<open>The invariant\<close>

text \<open>SHA-256, JSON encoding and signature verification are the same functions in every call.\<close>

definition same_crypto :: "env \<Rightarrow> env \<Rightarrow> bool" where
  "same_crypto e0 e = (sha256hex e = sha256hex e0 \<and> marshal e = marshal e0 \<and> ed25519_Verify e = ed25519_Verify e0)"

lemma same_crypto_refl [simp]: "same_crypto e e"
  by (simp add: same_crypto_def)

definition signed :: "env \<Rightarrow> CatalogTrustKey table \<Rightarrow> CatalogRelease \<Rightarrow> bool" where
  "signed e keys r = (\<exists>key raw sig. get keys (ctl_SigningKeyID r) = Some key \<and>
     b64_decode (TrimSpace (ctk_PublicKey key)) = Some raw \<and> length raw = 32 \<and>
     TrimSpace (ctl_SigningKeyFingerprint r) = ''sha256:'' @ sha256hex e raw \<and>
     (ctl_Visibility r = CatalogVisibilityPlatform \<longrightarrow> TrimSpace (ctk_OrganizationID key) = '''') \<and>
     (ctl_Visibility r = CatalogVisibilityPrivate \<longrightarrow>
        TrimSpace (ctk_OrganizationID key) \<in> {'''', TrimSpace (ctl_OrganizationID r)}) \<and>
     b64_decode (TrimSpace (ctl_Signature r)) = Some sig \<and> length sig = 64 \<and>
     ed25519_Verify e raw (CatalogSignaturePayload e r) sig)"

definition locked :: "CatalogLifecycleState \<Rightarrow> bool" where
  "locked st = (st \<in> {CatalogPublished, CatalogDeprecated, CatalogRevoked})"

definition points_to :: "CatalogRevision table \<Rightarrow> CatalogRelease \<Rightarrow> bool" where
  "points_to revs r = (\<exists>v. get revs (ctl_CurrentRevisionID r) = Some v \<and>
     ctr_OrganizationID v = ctl_OrganizationID r \<and> ctr_CatalogName v = ctl_CatalogName r \<and>
     ctr_CatalogVersion v = ctl_CatalogVersion r \<and> ctr_ManifestDigest v = ctl_ManifestDigest r)"

definition release_ok :: "env \<Rightarrow> CatalogTrustKey table \<Rightarrow> CatalogRevision table \<Rightarrow> CatalogRelease \<Rightarrow> bool" where
  "release_ok e keys revs r = (points_to revs r \<and> (locked (ctl_State r) \<longrightarrow> signed e keys r))"

definition release_name :: "CatalogRelease \<Rightarrow> string \<times> string \<times> string \<times> CatalogChannel" where
  "release_name r = (ctl_OrganizationID r, ctl_CatalogName r, ctl_CatalogVersion r, ctl_Channel r)"

definition releases_ok ::
  "env \<Rightarrow> CatalogTrustKey table \<Rightarrow> CatalogRevision table \<Rightarrow> CatalogRelease table \<Rightarrow> bool" where
  "releases_ok e keys revs t = (well_keyed t \<and> unique_by release_name t \<and>
     (\<forall>i r. get t i = Some r \<longrightarrow> ID r = i \<and> release_ok e keys revs r))"

definition revisions_ok :: "env \<Rightarrow> CatalogRevision table \<Rightarrow> bool" where
  "revisions_ok e t = (well_keyed t \<and> (\<forall>i v. get t i = Some v \<longrightarrow> ID v = i \<and> json_Valid (ctr_Payload v) \<and>
     ctr_ManifestDigest v = ''sha256:'' @ sha256hex e (ctr_Payload v)))"

definition keys_ok :: "CatalogTrustKey table \<Rightarrow> bool" where
  "keys_ok t = (\<forall>i key. get t i = Some key \<longrightarrow> ID key = i)"

definition catalog_ok :: "env \<Rightarrow> MemoryStore \<Rightarrow> bool" where
  "catalog_ok e s = (keys_ok (catalogTrustKeys s) \<and> revisions_ok e (catalogRevisions s) \<and>
     releases_ok e (catalogTrustKeys s) (catalogRevisions s) (catalogReleases s))"

definition fresh_catalog_ids :: "env \<Rightarrow> MemoryStore \<Rightarrow> bool" where
  "fresh_catalog_ids e s = (\<forall>k. get (catalogTrustKeys s) (newid e k ''ctk'') = None \<and>
     get (catalogRevisions s) (newid e k ''ctr'') = None \<and> get (catalogReleases s) (newid e k ''ctl'') = None)"

text \<open>The tables only grow, and keys keep what a signature depends on.\<close>

lemma signed_keys:
  assumes "signed e keys r" and "\<And>i key. get keys i = Some key \<Longrightarrow>
    \<exists>key'. get keys' i = Some key' \<and> ctk_PublicKey key' = ctk_PublicKey key \<and> ctk_OrganizationID key' = ctk_OrganizationID key"
  shows "signed e keys' r"
  using assms unfolding signed_def by metis

lemma releases_ok_more:
  assumes "releases_ok e keys revs t"
    and "\<And>i key. get keys i = Some key \<Longrightarrow>
      \<exists>key'. get keys' i = Some key' \<and> ctk_PublicKey key' = ctk_PublicKey key \<and> ctk_OrganizationID key' = ctk_OrganizationID key"
    and "\<And>i v. get revs i = Some v \<Longrightarrow> get revs' i = Some v"
  shows "releases_ok e keys' revs' t"
proof -
  have "points_to revs r \<Longrightarrow> points_to revs' r" for r using assms(3) by (auto simp: points_to_def)
  moreover have "signed e keys r \<Longrightarrow> signed e keys' r" for r using signed_keys assms(2) by blast
  ultimately show ?thesis using assms(1) by (simp add: releases_ok_def release_ok_def)
qed

lemma more_keys:
  assumes "releases_ok e keys revs t" and "get keys i = None"
  shows "releases_ok e (put i key keys) revs t"
  using assms by (elim releases_ok_more) (auto split: if_splits)

lemma revoked_key:
  assumes "releases_ok e keys revs t" and "get keys i = Some key"
    and "ctk_PublicKey key' = ctk_PublicKey key" "ctk_OrganizationID key' = ctk_OrganizationID key"
  shows "releases_ok e (put i key' keys) revs t"
  using assms by (elim releases_ok_more) (auto split: if_splits)

lemma more_revisions:
  assumes "releases_ok e keys revs t" and "get revs i = None"
  shows "releases_ok e keys (put i v revs) t"
  using assms by (elim releases_ok_more) auto

lemma releases_ok_put:
  assumes "releases_ok e keys revs t" and "ID r = i" and "release_ok e keys revs r"
    and "\<And>k w. get t k = Some w \<Longrightarrow> k \<noteq> i \<Longrightarrow> release_name w \<noteq> release_name r"
  shows "releases_ok e keys revs (put i r t)"
  using assms by (auto simp: releases_ok_def intro!: unique_by_put)

lemma releases_ok_update:
  assumes "releases_ok e keys revs t" and "get t i = Some old" and "ID r = ID old"
    and "release_name r = release_name old" and "release_ok e keys revs r"
  shows "releases_ok e keys revs (put i r t)"
proof (rule releases_ok_put [OF assms(1)])
  show "ID r = i" using assms(1-3) by (simp add: releases_ok_def)
  fix k w assume "get t k = Some w" "k \<noteq> i"
  then show "release_name w \<noteq> release_name r" using assms(1,2,4) by (auto simp: releases_ok_def dest: unique_by_D)
qed (rule assms(5))

lemma Verify_signed:
  assumes "VerifyCatalogReleaseSignature e r key = Inr u" and "get keys (ctl_SigningKeyID r) = Some key" and "same_crypto e0 e"
  shows "signed e0 keys r"
  using assms
  by (auto simp: signed_def VerifyCatalogReleaseSignature_def CatalogKeyFingerprint_def CatalogSignaturePayload_def
      same_crypto_def split: if_splits option.splits sum.splits)

section \<open>Every call keeps it\<close>

lemma CreateCatalogTrustKey_ok:
  assumes "catalog_ok e0 s" and "fresh_catalog_ids e s"
  shows "catalog_ok e0 (snd (CreateCatalogTrustKey e key actor s))"
  using assms
  by (auto simp: CreateCatalogTrustKey_def Let_def catalog_ok_def keys_ok_def fresh_catalog_ids_def intro!: more_keys
      split: sum.split)

lemma RevokeCatalogTrustKey_ok:
  assumes "catalog_ok e0 s"
  shows "catalog_ok e0 (snd (RevokeCatalogTrustKey e i expected actor s))"
proof (cases "get (catalogTrustKeys s) i")
  case (Some key)
  then show ?thesis
    using assms revoked_key [OF _ Some]
    by (simp add: RevokeCatalogTrustKey_def Let_def catalog_ok_def keys_ok_def touch_def)
qed (use assms in \<open>simp add: RevokeCatalogTrustKey_def\<close>)

lemma prepareCatalogRevision_cases:
  assumes "prepareCatalogRevisionLocked e revision s = Inr (v, existing)" and "catalog_ok e0 s" and "fresh_catalog_ids e s"
    and "same_crypto e0 e"
  shows "existing \<and> get (catalogRevisions s) (ID v) = Some v \<or>
    \<not> existing \<and> get (catalogRevisions s) (ID v) = None \<and> json_Valid (ctr_Payload v) \<and>
      ctr_ManifestDigest v = ''sha256:'' @ sha256hex e0 (ctr_Payload v)"
proof -
  have "get (catalogRevisions s) (ID w) = Some w" if "w \<in> set (vals (catalogRevisions s))" for w
    using that assms(2) vals_iff by (fastforce simp: catalog_ok_def revisions_ok_def)
  then show ?thesis
    using assms
    by (auto simp: prepareCatalogRevisionLocked_def Let_def fresh_catalog_ids_def digestPayload_def same_crypto_def find_Some_iff stamp_def
        split: if_splits option.splits)
qed

lemma commitCatalogRevision_tables [simp]:
  "catalogTrustKeys (commitCatalogRevisionLocked e k v actor s) = catalogTrustKeys s"
  "catalogRevisions (commitCatalogRevisionLocked e k v actor s) = put (ID v) v (catalogRevisions s)"
  "catalogReleases (commitCatalogRevisionLocked e k v actor s) = catalogReleases s"
  by (simp_all add: commitCatalogRevisionLocked_def Let_def)

lemma commitCatalogRelease_tables [simp]:
  "catalogTrustKeys (commitCatalogReleaseLocked e k r actor s) = catalogTrustKeys s"
  "catalogRevisions (commitCatalogReleaseLocked e k r actor s) = catalogRevisions s"
  "catalogReleases (commitCatalogReleaseLocked e k r actor s) = put (ID r) r (catalogReleases s)"
  by (simp_all add: commitCatalogReleaseLocked_def Let_def)

lemma commitCatalogDraftUpdate_tables [simp]:
  "catalogTrustKeys (commitCatalogDraftUpdateLocked e k r actor s) = catalogTrustKeys s"
  "catalogRevisions (commitCatalogDraftUpdateLocked e k r actor s) = catalogRevisions s"
  "catalogReleases (commitCatalogDraftUpdateLocked e k r actor s) = put (ID r) r (catalogReleases s)"
  by (simp_all add: commitCatalogDraftUpdateLocked_def Let_def)

lemma saveCatalogRelease_tables [simp]:
  "catalogTrustKeys (saveCatalogRelease e i r actor action m s) = catalogTrustKeys s"
  "catalogRevisions (saveCatalogRelease e i r actor action m s) = catalogRevisions s"
  "catalogReleases (saveCatalogRelease e i r actor action m s) = put i r (catalogReleases s)"
  by (simp_all add: saveCatalogRelease_def Let_def)

lemma commitCatalogRevision_ok:
  assumes "catalog_ok e0 s" and "get (catalogRevisions s) (ID v) = None" and "json_Valid (ctr_Payload v)"
    and "ctr_ManifestDigest v = ''sha256:'' @ sha256hex e0 (ctr_Payload v)"
  shows "catalog_ok e0 (commitCatalogRevisionLocked e k v actor s)"
  using assms more_revisions by (simp add: catalog_ok_def revisions_ok_def)

text \<open>The store after an optional commit, and the revision in it.\<close>

lemma revision_stored:
  fixes k :: nat and actor :: string
  assumes "prepareCatalogRevisionLocked e revision s = Inr (v, existing)" and "catalog_ok e0 s" and "fresh_catalog_ids e s"
    and "same_crypto e0 e"
  defines "s' \<equiv> if \<not> existing then commitCatalogRevisionLocked e k v actor s else s"
  shows "catalog_ok e0 s'" and "get (catalogRevisions s') (ID v) = Some v" and "catalogReleases s' = catalogReleases s"
  using prepareCatalogRevision_cases [OF assms(1-4)] assms(2) commitCatalogRevision_ok unfolding s'_def by auto

lemma CreateCatalogRevision_ok:
  assumes "catalog_ok e0 s" and "fresh_catalog_ids e s" and "same_crypto e0 e"
  shows "catalog_ok e0 (snd (CreateCatalogRevision e revision actor s))"
proof (cases "prepareCatalogRevisionLocked e revision s")
  case (Inr x)
  obtain v existing where "x = (v, existing)" by (cases x)
  then show ?thesis
    using revision_stored(1) [OF Inr [unfolded \<open>x = _\<close>] assms, of 1 actor] Inr by (simp add: CreateCatalogRevision_def)
qed (use assms in \<open>simp add: CreateCatalogRevision_def\<close>)

lemma prepareCatalogRelease_new:
  assumes "prepareCatalogReleaseLocked e k release revision actor s = Inr r"
  shows "ID r = newid e k ''ctl''" and "ctl_State r = CatalogDraft"
    and "ctl_CurrentRevisionID r = ctl_CurrentRevisionID release"
    and "ctr_OrganizationID revision = ctl_OrganizationID r" and "ctr_CatalogName revision = ctl_CatalogName r"
    and "ctr_CatalogVersion revision = ctl_CatalogVersion r" and "ctr_ManifestDigest revision = ctl_ManifestDigest r"
    and "w \<in> set (vals (catalogReleases s)) \<Longrightarrow> release_name w \<noteq> release_name r"
proof -
  define rel where "rel = release\<lparr>ctl_OrganizationID := TrimSpace (ctl_OrganizationID release),
    ctl_CatalogName := normalizeName (ctl_CatalogName release), ctl_CatalogVersion := TrimSpace (ctl_CatalogVersion release),
    ctl_SourceReleaseID := TrimSpace (ctl_SourceReleaseID release)\<rparr>"
  have "r = unsigned ((stamp (newid e k ''ctl'') (nowUTC e k) rel)\<lparr>ctl_State := CatalogDraft, ctl_RequestedBy := TrimSpace actor\<rparr>)"
    using assms unfolding prepareCatalogReleaseLocked_def Let_def rel_def by (auto simp: guard_Inr split: if_split_asm)
  moreover have "ctr_OrganizationID revision = ctl_OrganizationID rel" "ctr_CatalogName revision = ctl_CatalogName rel"
    "ctr_CatalogVersion revision = ctl_CatalogVersion rel" "ctr_ManifestDigest revision = ctl_ManifestDigest rel"
    "\<not> list_ex (\<lambda>x. ctl_OrganizationID x = ctl_OrganizationID rel \<and> ctl_CatalogName x = ctl_CatalogName rel \<and>
      ctl_CatalogVersion x = ctl_CatalogVersion rel \<and> ctl_Channel x = ctl_Channel rel) (vals (catalogReleases s))"
    using assms unfolding prepareCatalogReleaseLocked_def Let_def rel_def by (simp_all add: guard_Inr)
  ultimately show "ID r = newid e k ''ctl''" "ctl_State r = CatalogDraft"
    "ctl_CurrentRevisionID r = ctl_CurrentRevisionID release"
    "ctr_OrganizationID revision = ctl_OrganizationID r" "ctr_CatalogName revision = ctl_CatalogName r"
    "ctr_CatalogVersion revision = ctl_CatalogVersion r" "ctr_ManifestDigest revision = ctl_ManifestDigest r"
    "w \<in> set (vals (catalogReleases s)) \<Longrightarrow> release_name w \<noteq> release_name r"
    by (auto simp: unsigned_def stamp_def release_name_def list_ex_iff rel_def)
qed

lemma commitCatalogRelease_ok:
  assumes "catalog_ok e0 s" and "prepareCatalogReleaseLocked e k release revision actor s1 = Inr r"
    and "catalogReleases s = catalogReleases s1"
    and "get (catalogRevisions s) (ctl_CurrentRevisionID release) = Some revision"
  shows "catalog_ok e0 (commitCatalogReleaseLocked e j r actor s)"
proof -
  note p = prepareCatalogRelease_new [OF assms(2)]
  have "release_ok e0 (catalogTrustKeys s) (catalogRevisions s) r"
    using p assms(4) by (auto simp: release_ok_def points_to_def locked_def)
  moreover have "release_name w \<noteq> release_name r" if "get (catalogReleases s) i = Some w" for i w
    using p(8) get_vals [OF that] assms(3) by simp
  ultimately show ?thesis
    using assms(1) by (auto simp: catalog_ok_def intro!: releases_ok_put)
qed

lemma CreateCatalogRelease_ok:
  assumes "catalog_ok e0 s"
  shows "catalog_ok e0 (snd (CreateCatalogRelease e release actor s))"
proof (cases "get (catalogRevisions s) (ctl_CurrentRevisionID release)")
  case (Some revision)
  then show ?thesis
    using assms commitCatalogRelease_ok [OF assms _ refl Some]
    by (auto simp: CreateCatalogRelease_def split: sum.split)
qed (use assms in \<open>simp add: CreateCatalogRelease_def\<close>)

lemma CreateCatalogReleaseWithRevision_ok:
  assumes "catalog_ok e0 s" and "fresh_catalog_ids e s" and "same_crypto e0 e"
  shows "catalog_ok e0 (snd (CreateCatalogReleaseWithRevision e revision release actor s))"
proof (cases "prepareCatalogRevisionLocked e revision s")
  case (Inr x)
  obtain v existing where x: "x = (v, existing)" by (cases x)
  note st = revision_stored [OF Inr [unfolded x] assms, of 2 actor]
  show ?thesis
    using Inr x assms(1) commitCatalogRelease_ok [OF st(1) _ st(3)] st(2)
    by (auto simp: CreateCatalogReleaseWithRevision_def Let_def simp del: commitCatalogRevision_tables split: sum.split)
qed (use assms in \<open>simp add: CreateCatalogReleaseWithRevision_def\<close>)

lemma prepareCatalogDraftUpdate_new:
  assumes "prepareCatalogDraftUpdateLocked e k i expected revision s = Inr r"
  shows "\<exists>old. get (catalogReleases s) i = Some old \<and> ctl_State old = CatalogDraft \<and>
    ctr_OrganizationID revision = ctl_OrganizationID old \<and> ctr_CatalogName revision = ctl_CatalogName old \<and>
    ctr_CatalogVersion revision = ctl_CatalogVersion old \<and>
    r = touch (nowUTC e k) (unsigned (old\<lparr>ctl_CurrentRevisionID := ID revision, ctl_ManifestDigest := ctr_ManifestDigest revision\<rparr>))"
  using assms by (auto simp: prepareCatalogDraftUpdateLocked_def guard_Inr)

lemma commitCatalogDraftUpdate_ok:
  assumes "catalog_ok e0 s" and "prepareCatalogDraftUpdateLocked e k i expected revision s1 = Inr r"
    and "catalogReleases s = catalogReleases s1" and "get (catalogRevisions s) (ID revision) = Some revision"
  shows "catalog_ok e0 (commitCatalogDraftUpdateLocked e j r actor s)"
proof -
  obtain old where old: "get (catalogReleases s) i = Some old" "ctl_State old = CatalogDraft"
    "ctr_OrganizationID revision = ctl_OrganizationID old" "ctr_CatalogName revision = ctl_CatalogName old"
    "ctr_CatalogVersion revision = ctl_CatalogVersion old"
    and r: "r = touch (nowUTC e k) (unsigned (old\<lparr>ctl_CurrentRevisionID := ID revision, ctl_ManifestDigest := ctr_ManifestDigest revision\<rparr>))"
    using prepareCatalogDraftUpdate_new [OF assms(2)] assms(3) by auto
  have i: "ID old = i" using assms(1) old(1) by (simp add: catalog_ok_def releases_ok_def)
  have "releases_ok e0 (catalogTrustKeys s) (catalogRevisions s) (put i r (catalogReleases s))"
    using assms(1,4) old r
    by (intro releases_ok_update [OF _ old(1)])
      (auto simp: catalog_ok_def release_name_def release_ok_def points_to_def locked_def touch_def unsigned_def)
  moreover have "ID r = i" using r i by (simp add: unsigned_def)
  ultimately show ?thesis using assms(1) by (simp add: catalog_ok_def)
qed

lemma UpdateCatalogReleaseDraft_ok:
  assumes "catalog_ok e0 s"
  shows "catalog_ok e0 (snd (UpdateCatalogReleaseDraft e i expected revisionID manifestDigest actor s))"
proof (cases "get (catalogRevisions s) revisionID")
  case (Some revision)
  then have "get (catalogRevisions s) (ID revision) = Some revision"
    using assms by (simp add: catalog_ok_def revisions_ok_def)
  then show ?thesis
    using Some assms commitCatalogDraftUpdate_ok [OF assms _ refl]
    by (auto simp: UpdateCatalogReleaseDraft_def split: sum.split)
qed (use assms in \<open>simp add: UpdateCatalogReleaseDraft_def\<close>)

lemma UpdateCatalogReleaseDraftWithRevision_ok:
  assumes "catalog_ok e0 s" and "fresh_catalog_ids e s" and "same_crypto e0 e"
  shows "catalog_ok e0 (snd (UpdateCatalogReleaseDraftWithRevision e i expected revision actor s))"
proof (cases "prepareCatalogRevisionLocked e revision s")
  case (Inr x)
  obtain v existing where x: "x = (v, existing)" by (cases x)
  note st = revision_stored [OF Inr [unfolded x] assms, of 2 actor]
  show ?thesis
    using Inr x assms(1) commitCatalogDraftUpdate_ok [OF st(1) _ st(3,2)]
    by (auto simp: UpdateCatalogReleaseDraftWithRevision_def Let_def simp del: commitCatalogRevision_tables
        split: option.split sum.split)
qed (use assms in \<open>simp add: UpdateCatalogReleaseDraftWithRevision_def split: option.split\<close>)

lemma SubmitCatalogReleaseReview_ok:
  assumes "catalog_ok e0 s"
  shows "catalog_ok e0 (snd (SubmitCatalogReleaseReview e i expected keyID fingerprint signature actor s))"
proof (cases "get (catalogReleases s) i")
  case (Some old)
  have "release_ok e0 (catalogTrustKeys s) (catalogRevisions s) old"
    using assms Some by (simp add: catalog_ok_def releases_ok_def)
  then show ?thesis
    using Some assms
    by (auto simp: SubmitCatalogReleaseReview_def Let_def catalog_ok_def release_name_def release_ok_def points_to_def
        locked_def touch_def intro!: releases_ok_update [OF _ Some] split: option.split sum.split)
qed (use assms in \<open>simp add: SubmitCatalogReleaseReview_def\<close>)

lemma signed_upd [simp]:
  "signed e keys (r\<lparr>ctl_State := st\<rparr>) = signed e keys r" "signed e keys (r\<lparr>Revision := n\<rparr>) = signed e keys r"
  "signed e keys (r\<lparr>UpdatedAt := t\<rparr>) = signed e keys r" "signed e keys (r\<lparr>ctl_PublishedBy := a\<rparr>) = signed e keys r"
  "signed e keys (r\<lparr>ctl_PublishedAt := o1\<rparr>) = signed e keys r" "signed e keys (r\<lparr>ctl_DeprecatedBy := a\<rparr>) = signed e keys r"
  "signed e keys (r\<lparr>ctl_DeprecatedAt := o1\<rparr>) = signed e keys r" "signed e keys (r\<lparr>ctl_RevokedBy := a\<rparr>) = signed e keys r"
  "signed e keys (r\<lparr>ctl_RevokedAt := o1\<rparr>) = signed e keys r"
  by (simp_all add: signed_def CatalogSignaturePayload_def)

lemma transitioned_ok:
  assumes "release_ok e0 keys revs old" and "validCatalogTransition (ctl_State old) to"
    and "to = CatalogPublished \<longrightarrow> signed e0 keys old"
  shows "release_ok e0 keys revs (transitionedRelease to actor now old)"
  using assms
  by (cases "ctl_State old")
    (auto simp: transitionedRelease_def Let_def release_ok_def points_to_def locked_def touch_def unsigned_def)

lemma TransitionCatalogRelease_ok:
  assumes "catalog_ok e0 s" and "same_crypto e0 e"
  shows "catalog_ok e0 (snd (TransitionCatalogRelease e i expected to actor s))"
proof (cases "get (catalogReleases s) i")
  case (Some old)
  have "release_ok e0 (catalogTrustKeys s) (catalogRevisions s) old"
    using assms Some by (simp add: catalog_ok_def releases_ok_def)
  moreover have "ID (transitionedRelease to actor now old) = ID old"
    "release_name (transitionedRelease to actor now old) = release_name old" for now
    by (simp_all add: transitionedRelease_def Let_def unsigned_def release_name_def touch_def)
  ultimately show ?thesis
    using Some assms Verify_signed [OF _ _ assms(2), of old]
    by (auto simp: TransitionCatalogRelease_def Let_def catalog_ok_def
        intro!: releases_ok_update [OF _ Some] transitioned_ok split: option.split sum.split)
qed (use assms in \<open>simp add: TransitionCatalogRelease_def\<close>)

section \<open>The history of a release\<close>

definition release_identity :: "CatalogRelease \<Rightarrow> string \<times> int \<times> string \<times> string \<times> string \<times> CatalogVisibility \<times> CatalogChannel \<times> string" where
  "release_identity r = (ID r, CreatedAt r, ctl_OrganizationID r, ctl_CatalogName r, ctl_CatalogVersion r,
     ctl_Visibility r, ctl_Channel r, ctl_SourceReleaseID r)"

definition release_content :: "CatalogRelease \<Rightarrow> string \<times> string \<times> string \<times> string \<times> string \<times> string \<times> int option" where
  "release_content r = (ctl_CurrentRevisionID r, ctl_ManifestDigest r, ctl_SigningKeyID r, ctl_SigningKeyFingerprint r,
     ctl_Signature r, ctl_PublishedBy r, ctl_PublishedAt r)"

fun lifecycle_rank :: "CatalogLifecycleState \<Rightarrow> nat" where
  "lifecycle_rank CatalogPublished = 1"
| "lifecycle_rank CatalogDeprecated = 2"
| "lifecycle_rank CatalogRevoked = 3"
| "lifecycle_rank st = 0"

lemma locked_rank: "locked st \<longleftrightarrow> 0 < lifecycle_rank st"
  by (cases st) (simp_all add: locked_def)

definition release_evolves :: "CatalogRelease \<Rightarrow> CatalogRelease \<Rightarrow> bool" where
  "release_evolves r r' = (release_identity r' = release_identity r \<and> Revision r \<le> Revision r' \<and>
     (Revision r' = Revision r \<longrightarrow> r' = r) \<and>
     (locked (ctl_State r) \<longrightarrow> release_content r' = release_content r \<and>
        lifecycle_rank (ctl_State r) \<le> lifecycle_rank (ctl_State r')))"

lemma release_evolves_refl [simp]: "release_evolves r r"
  by (simp add: release_evolves_def)

lemma release_evolves_trans: "release_evolves r r' \<Longrightarrow> release_evolves r' r'' \<Longrightarrow> release_evolves r r''"
  by (auto simp: release_evolves_def locked_rank)

abbreviation release_write :: "MemoryStore \<Rightarrow> MemoryStore \<Rightarrow> bool" where
  "release_write s s' \<equiv> one_write release_evolves (catalogReleases s) (catalogReleases s')"

lemma key_calls_releases [simp]:
  "catalogReleases (snd (CreateCatalogTrustKey e key actor s)) = catalogReleases s"
  "catalogReleases (snd (RevokeCatalogTrustKey e i expected actor s)) = catalogReleases s"
  "catalogReleases (snd (CreateCatalogRevision e revision actor s)) = catalogReleases s"
  by (simp_all add: CreateCatalogTrustKey_def RevokeCatalogTrustKey_def CreateCatalogRevision_def Let_def
      split: option.split sum.split prod.split)

lemma create_release_write:
  assumes "fresh_catalog_ids e s"
  shows "release_write s (snd (CreateCatalogRelease e release actor s))"
    and "release_write s (snd (CreateCatalogReleaseWithRevision e revision release actor s))"
  using assms prepareCatalogRelease_new(1)
  by (auto simp: CreateCatalogRelease_def CreateCatalogReleaseWithRevision_def Let_def fresh_catalog_ids_def
      intro!: one_write_new split: option.split sum.split prod.split)

lemma draft_update_evolves:
  assumes "prepareCatalogDraftUpdateLocked e k i expected revision s = Inr r" and "catalog_ok e0 s"
  shows "one_write release_evolves (catalogReleases s) (put (ID r) r (catalogReleases s))"
proof -
  obtain old where old: "get (catalogReleases s) i = Some old" "ctl_State old = CatalogDraft"
    and r: "r = touch (nowUTC e k) (unsigned (old\<lparr>ctl_CurrentRevisionID := ID revision, ctl_ManifestDigest := ctr_ManifestDigest revision\<rparr>))"
    using prepareCatalogDraftUpdate_new [OF assms(1)] by auto
  have "ID old = i" using assms(2) old(1) by (simp add: catalog_ok_def releases_ok_def)
  then show ?thesis
    using old r by (intro one_write_old [of _ _ old]) (simp_all add: release_evolves_def release_identity_def locked_def unsigned_def touch_def)
qed

lemma update_release_write:
  assumes "catalog_ok e0 s"
  shows "release_write s (snd (UpdateCatalogReleaseDraft e i expected revisionID manifestDigest actor s))"
    and "release_write s (snd (UpdateCatalogReleaseDraftWithRevision e i expected revision actor s))"
  using draft_update_evolves [OF _ assms]
  by (auto simp: UpdateCatalogReleaseDraft_def UpdateCatalogReleaseDraftWithRevision_def Let_def
      split: option.split sum.split prod.split)

lemma submit_release_write:
  "release_write s (snd (SubmitCatalogReleaseReview e i expected keyID fingerprint signature actor s))"
  by (auto simp: SubmitCatalogReleaseReview_def Let_def release_evolves_def release_identity_def locked_def touch_def
      intro!: one_write_old split: option.split sum.split)

lemma transitioned_evolves:
  assumes "validCatalogTransition (ctl_State old) to"
  shows "release_evolves old (transitionedRelease to actor now old)"
  using assms
  by (cases "ctl_State old")
    (auto simp: transitionedRelease_def Let_def release_evolves_def release_identity_def release_content_def locked_def
      touch_def unsigned_def)

lemma transition_release_write:
  "release_write s (snd (TransitionCatalogRelease e i expected to actor s))"
  by (auto simp: TransitionCatalogRelease_def Let_def intro!: one_write_old transitioned_evolves split: option.split sum.split)

section \<open>Runs\<close>

text \<open>One of the calls that write the catalog tables, or any other call, which leaves them alone.\<close>

inductive catalog_step :: "env \<Rightarrow> MemoryStore \<Rightarrow> MemoryStore \<Rightarrow> bool" for e0 where
  create_key: "fresh_catalog_ids e s \<Longrightarrow> catalog_step e0 s (snd (CreateCatalogTrustKey e key actor s))"
| revoke_key: "catalog_step e0 s (snd (RevokeCatalogTrustKey e i expected actor s))"
| create_revision: "same_crypto e0 e \<Longrightarrow> fresh_catalog_ids e s \<Longrightarrow>
    catalog_step e0 s (snd (CreateCatalogRevision e revision actor s))"
| create_release: "fresh_catalog_ids e s \<Longrightarrow> catalog_step e0 s (snd (CreateCatalogRelease e release actor s))"
| create_both: "same_crypto e0 e \<Longrightarrow> fresh_catalog_ids e s \<Longrightarrow>
    catalog_step e0 s (snd (CreateCatalogReleaseWithRevision e revision release actor s))"
| update: "catalog_step e0 s (snd (UpdateCatalogReleaseDraft e i expected revisionID manifestDigest actor s))"
| update_both: "same_crypto e0 e \<Longrightarrow> fresh_catalog_ids e s \<Longrightarrow>
    catalog_step e0 s (snd (UpdateCatalogReleaseDraftWithRevision e i expected revision actor s))"
| submit: "catalog_step e0 s (snd (SubmitCatalogReleaseReview e i expected keyID fingerprint signature actor s))"
| transition: "same_crypto e0 e \<Longrightarrow> catalog_step e0 s (snd (TransitionCatalogRelease e i expected to actor s))"
| other: "catalogTrustKeys s' = catalogTrustKeys s \<Longrightarrow> catalogRevisions s' = catalogRevisions s \<Longrightarrow>
    catalogReleases s' = catalogReleases s \<Longrightarrow> catalog_step e0 s s'"

lemma catalog_step_ok: "catalog_step e0 s s' \<Longrightarrow> catalog_ok e0 s \<Longrightarrow> catalog_ok e0 s'"
  by (induction rule: catalog_step.induct)
    (simp_all add: CreateCatalogTrustKey_ok RevokeCatalogTrustKey_ok CreateCatalogRevision_ok CreateCatalogRelease_ok
      CreateCatalogReleaseWithRevision_ok UpdateCatalogReleaseDraft_ok UpdateCatalogReleaseDraftWithRevision_ok
      SubmitCatalogReleaseReview_ok TransitionCatalogRelease_ok, simp add: catalog_ok_def)

lemma catalog_step_write: "catalog_step e0 s s' \<Longrightarrow> catalog_ok e0 s \<Longrightarrow> release_write s s'"
  by (induction rule: catalog_step.induct)
    (simp_all add: create_release_write update_release_write submit_release_write transition_release_write)

interpretation cat: resource_history "catalog_step e0" "catalog_ok e0" catalogReleases release_evolves for e0
  by unfold_locales
    (blast intro: catalog_step_ok one_writeD [OF catalog_step_write] release_evolves_refl release_evolves_trans)+

lemma catalog_ok_init: "catalog_ok e0 NewMemoryStoreWith"
  by (simp add: catalog_ok_def keys_ok_def revisions_ok_def releases_ok_def NewMemoryStoreWith_def)

section \<open>Theorems\<close>

text \<open>
  C24: What is published was signed. In every store the calls can lead to, a catalog release that is
  published, deprecated or revoked names a stored revision whose JSON payload has exactly the
  manifest digest of the release, and carries a signature that verifies - under an Ed25519 key of
  the trust store, allowed for the release's organization - over the release's own identity and
  that digest.
\<close>
theorem published_catalog_is_signed:
  assumes "(catalog_step e)\<^sup>*\<^sup>* NewMemoryStoreWith s" and "get (catalogReleases s) i = Some r"
    and "ctl_State r \<in> {CatalogPublished, CatalogDeprecated, CatalogRevoked}"
  shows "\<exists>v key raw sig. get (catalogRevisions s) (ctl_CurrentRevisionID r) = Some v \<and> json_Valid (ctr_Payload v) \<and>
    ctl_ManifestDigest r = ''sha256:'' @ sha256hex e (ctr_Payload v) \<and>
    get (catalogTrustKeys s) (ctl_SigningKeyID r) = Some key \<and>
    b64_decode (TrimSpace (ctk_PublicKey key)) = Some raw \<and> length raw = 32 \<and>
    (ctl_Visibility r = CatalogVisibilityPlatform \<longrightarrow> TrimSpace (ctk_OrganizationID key) = '''') \<and>
    (ctl_Visibility r = CatalogVisibilityPrivate \<longrightarrow>
       TrimSpace (ctk_OrganizationID key) \<in> {'''', TrimSpace (ctl_OrganizationID r)}) \<and>
    b64_decode (TrimSpace (ctl_Signature r)) = Some sig \<and> length sig = 64 \<and>
    ed25519_Verify e raw (CatalogSignaturePayload e r) sig"
proof -
  have ok: "catalog_ok e s" using cat.inv_runs [OF assms(1) catalog_ok_init] .
  then have "points_to (catalogRevisions s) r" "signed e (catalogTrustKeys s) r"
    using assms(2,3) by (auto simp: catalog_ok_def releases_ok_def release_ok_def locked_def)
  then show ?thesis
    using ok unfolding points_to_def signed_def catalog_ok_def revisions_ok_def by fastforce
qed

text \<open>
  C25: Publication freezes. From the moment a release is published, no sequence of calls changes its
  identity, the revision and manifest it names, its signature or who published it when; its state
  only moves on from published to deprecated to revoked, and equal revision numbers mean equal
  records.
\<close>
theorem published_catalog_is_frozen:
  assumes "(catalog_step e)\<^sup>*\<^sup>* NewMemoryStoreWith s" and "(catalog_step e)\<^sup>*\<^sup>* s s'"
    and "get (catalogReleases s) i = Some r" and "ctl_State r \<in> {CatalogPublished, CatalogDeprecated, CatalogRevoked}"
  shows "\<exists>r'. get (catalogReleases s') i = Some r' \<and> release_identity r' = release_identity r \<and>
    release_content r' = release_content r \<and> lifecycle_rank (ctl_State r) \<le> lifecycle_rank (ctl_State r') \<and>
    Revision r \<le> Revision r' \<and> (Revision r' = Revision r \<longrightarrow> r' = r)"
  using cat.history [OF assms(2) cat.inv_runs [OF assms(1) catalog_ok_init] assms(3)] assms(4)
  by (auto simp: release_evolves_def locked_def)

text \<open>
  A promoted release can leave its source behind. Creating a release from a source demands that
  both have the same manifest; but while it is a draft, pointing it to another revision of the same
  catalog version succeeds, keeps the link to the source, and leaves a manifest that differs from
  the one the source was published with.
\<close>
lemma draft_update_breaks_promotion:
  assumes "(catalog_step e0)\<^sup>*\<^sup>* NewMemoryStoreWith s" and "get (catalogReleases s) i = Some r" and "ctl_State r = CatalogDraft"
    and "get (catalogReleases s) (ctl_SourceReleaseID r) = Some source" and "ctl_ManifestDigest source = ctl_ManifestDigest r"
    and "get (catalogRevisions s) j = Some v" and "ctr_OrganizationID v = ctl_OrganizationID r"
    and "ctr_CatalogName v = ctl_CatalogName r" and "ctr_CatalogVersion v = ctl_CatalogVersion r"
    and "ctr_ManifestDigest v \<noteq> ctl_ManifestDigest r" and "ctl_SourceReleaseID r \<noteq> i"
  shows "\<exists>r' s'. UpdateCatalogReleaseDraft e i (Revision r) j (ctr_ManifestDigest v) actor s = (Inr r', s') \<and>
    get (catalogReleases s') i = Some r' \<and> ctl_SourceReleaseID r' = ctl_SourceReleaseID r \<and>
    get (catalogReleases s') (ctl_SourceReleaseID r') = Some source \<and> ctl_ManifestDigest source \<noteq> ctl_ManifestDigest r'"
proof -
  have "ID r = i"
    using cat.inv_runs [OF assms(1) catalog_ok_init] assms(2) by (simp add: catalog_ok_def releases_ok_def)
  then show ?thesis
    using assms(2-11) by (simp add: UpdateCatalogReleaseDraft_def prepareCatalogDraftUpdateLocked_def unsigned_def touch_def)
qed

section \<open>A concrete catalog\<close>

definition cat_env :: "nat \<Rightarrow> env" where
  "cat_env n = \<lparr>clock = (\<lambda>k. int n * Second), newid = (\<lambda>k p. p @ replicate (Suc n) (CHR ''x'')),
     sha256hex = (\<lambda>raw. replicate 62 (CHR ''0'') @ itoa (10 + int (length raw))), marshal = (\<lambda>v. ''{}''),
     ed25519_Verify = (\<lambda>key m sig. length key = 32 \<and> length sig = 64)\<rparr>"

definition cat_key :: CatalogTrustKey where
  "cat_key = \<lparr>ID = '''', Revision = 0, CreatedAt = 0, UpdatedAt = 0, ctk_OrganizationID = '''', ctk_Name = ''root'',
     ctk_Algorithm = '''', ctk_PublicKey = replicate 43 (CHR ''A'') @ ''='', ctk_Fingerprint = '''',
     ctk_State = CatalogTrustKeyActive, ctk_CreatedBy = '''', ctk_RevokedBy = '''', ctk_RevokedAt = None\<rparr>"

definition cat_revision :: "string \<Rightarrow> CatalogRevision" where
  "cat_revision payload = \<lparr>ID = '''', Revision = 0, CreatedAt = 0, UpdatedAt = 0, ctr_OrganizationID = '''',
     ctr_CatalogName = ''base'', ctr_CatalogVersion = ''1.0'', ctr_ManifestDigest = digestPayload (cat_env 0) payload,
     ctr_Payload = payload\<rparr>"

definition cat_release :: "CatalogChannel \<Rightarrow> string \<Rightarrow> CatalogRelease" where
  "cat_release channel source = \<lparr>ID = '''', Revision = 0, CreatedAt = 0, UpdatedAt = 0, ctl_OrganizationID = '''',
     ctl_CatalogName = '''', ctl_CatalogVersion = '''', ctl_Visibility = CatalogVisibilityPlatform, ctl_Channel = channel,
     ctl_State = CatalogDraft, ctl_CurrentRevisionID = '''', ctl_ManifestDigest = '''', ctl_SourceReleaseID = source,
     ctl_SigningKeyID = '''', ctl_SigningKeyFingerprint = '''', ctl_Signature = '''', ctl_RequestedBy = '''',
     ctl_ReviewRequestedAt = None, ctl_PublishedBy = '''', ctl_PublishedAt = None, ctl_DeprecatedBy = '''',
     ctl_DeprecatedAt = None, ctl_RevokedBy = '''', ctl_RevokedAt = None\<rparr>"

text \<open>A key, a release with its revision, its signed review and its publication.\<close>

definition cat_create :: "nat \<Rightarrow> CatalogChannel \<Rightarrow> string \<Rightarrow> MemoryStore \<Rightarrow> MemoryStore" where
  "cat_create n channel source s =
     snd (CreateCatalogReleaseWithRevision (cat_env n) (cat_revision ''{}'') (cat_release channel source) ''alice'' s)"

definition cat_s1 :: MemoryStore where
  "cat_s1 = snd (CreateCatalogTrustKey (cat_env 0) cat_key ''alice'' NewMemoryStoreWith)"

definition cat_publish :: "MemoryStore \<Rightarrow> MemoryStore" where
  "cat_publish s = snd (TransitionCatalogRelease (cat_env 3) ''ctlxx'' 2 CatalogPublished ''bob''
     (snd (SubmitCatalogReleaseReview (cat_env 2) ''ctlxx'' 1 ''ctkx'' (digestPayload (cat_env 0) (replicate 32 (CHR 0x00)))
        (replicate 86 (CHR ''A'') @ ''=='') ''alice'' s)))"

definition cat_published :: MemoryStore where
  "cat_published = cat_publish (cat_create 1 CatalogChannelCandidate '''' cat_s1)"

text \<open>Its promotion to the next channel, and another revision of the same version.\<close>

definition cat_promote :: "MemoryStore \<Rightarrow> MemoryStore" where
  "cat_promote s = cat_create 4 CatalogChannelRender ''ctlxx'' s"

definition cat_promoted :: MemoryStore where
  "cat_promoted = snd (CreateCatalogRevision (cat_env 5) (cat_revision ''[1]'') ''alice'' (cat_promote cat_published))"

definition cat_free :: "nat \<Rightarrow> MemoryStore \<Rightarrow> bool" where
  "cat_free n s = (let x = replicate (Suc n) (CHR ''x'') in get (catalogTrustKeys s) (''ctk'' @ x) = None \<and>
     get (catalogRevisions s) (''ctr'' @ x) = None \<and> get (catalogReleases s) (''ctl'' @ x) = None)"

definition cat_check :: bool where
  "cat_check =
     (let s1 = cat_s1; s2 = cat_publish (cat_create 1 CatalogChannelCandidate '''' s1); s3 = cat_promote s2;
          s4 = snd (CreateCatalogRevision (cat_env 5) (cat_revision ''[1]'') ''alice'' s3) in
      cat_free 1 s1 \<and> cat_free 4 s2 \<and> cat_free 5 s3 \<and>
      (case (get (catalogReleases s2) ''ctlxx'', get (catalogReleases s4) ''ctlxx'', get (catalogReleases s4) ''ctlxxxxx'',
             get (catalogRevisions s4) ''ctrxxxxxx'') of
         (Some r2, Some source, Some r, Some v) \<Rightarrow>
           ctl_State r2 = CatalogPublished \<and> ctl_State r = CatalogDraft \<and> ctl_SourceReleaseID r = ''ctlxx'' \<and>
           ctl_ManifestDigest source = ctl_ManifestDigest r \<and> ctr_OrganizationID v = ctl_OrganizationID r \<and>
           ctr_CatalogName v = ctl_CatalogName r \<and> ctr_CatalogVersion v = ctl_CatalogVersion r \<and>
           ctr_ManifestDigest v \<noteq> ctl_ManifestDigest r
       | _ \<Rightarrow> False))"

lemma cat_eval: cat_check
  by code_simp

lemma cat_env_simps [simp]: "same_crypto (cat_env 0) (cat_env n)" "newid (cat_env n) k p = p @ replicate (Suc n) (CHR ''x'')"
  by (simp_all add: same_crypto_def cat_env_def)

lemma cat_fresh: "cat_free n s \<Longrightarrow> fresh_catalog_ids (cat_env n) s"
  by (simp add: fresh_catalog_ids_def cat_free_def Let_def)

lemma cat_facts:
  "cat_free 1 cat_s1" "cat_free 4 cat_published" "cat_free 5 (cat_promote cat_published)"
  "\<exists>r. get (catalogReleases cat_published) ''ctlxx'' = Some r \<and> ctl_State r = CatalogPublished"
  "\<exists>source r v. get (catalogReleases cat_promoted) ''ctlxx'' = Some source \<and>
     get (catalogReleases cat_promoted) ''ctlxxxxx'' = Some r \<and> get (catalogRevisions cat_promoted) ''ctrxxxxxx'' = Some v \<and>
     ctl_State r = CatalogDraft \<and> ctl_SourceReleaseID r = ''ctlxx'' \<and> ctl_ManifestDigest source = ctl_ManifestDigest r \<and>
     ctr_OrganizationID v = ctl_OrganizationID r \<and> ctr_CatalogName v = ctl_CatalogName r \<and>
     ctr_CatalogVersion v = ctl_CatalogVersion r \<and> ctr_ManifestDigest v \<noteq> ctl_ManifestDigest r"
  using cat_eval unfolding cat_check_def Let_def cat_published_def [symmetric] cat_promoted_def [symmetric]
  by (auto split: option.split_asm)

lemma cat_published_runs: "(catalog_step (cat_env 0))\<^sup>*\<^sup>* NewMemoryStoreWith cat_published"
proof -
  have "catalog_step (cat_env 0) NewMemoryStoreWith cat_s1" unfolding cat_s1_def
    by (rule catalog_step.create_key) (simp add: fresh_catalog_ids_def NewMemoryStoreWith_def)
  moreover have "catalog_step (cat_env 0) cat_s1 (cat_create 1 CatalogChannelCandidate '''' cat_s1)" unfolding cat_create_def
    by (intro catalog_step.create_both cat_fresh cat_facts(1)) simp
  ultimately show ?thesis
    unfolding cat_published_def cat_publish_def
    by (meson cat_env_simps(1) catalog_step.submit catalog_step.transition rtranclp.rtrancl_into_rtrancl rtranclp.rtrancl_refl)
qed

lemma cat_promoted_runs: "(catalog_step (cat_env 0))\<^sup>*\<^sup>* NewMemoryStoreWith cat_promoted"
proof -
  have "catalog_step (cat_env 0) cat_published (cat_promote cat_published)" unfolding cat_promote_def cat_create_def
    by (intro catalog_step.create_both cat_fresh cat_facts(2)) simp
  moreover have "catalog_step (cat_env 0) (cat_promote cat_published) cat_promoted" unfolding cat_promoted_def
    by (intro catalog_step.create_revision cat_fresh cat_facts(3)) simp
  ultimately show ?thesis using cat_published_runs by (meson rtranclp.rtrancl_into_rtrancl)
qed

theorem published_catalog_is_signed_witness:
  "\<exists>r v. get (catalogReleases cat_published) ''ctlxx'' = Some r \<and> ctl_State r = CatalogPublished \<and>
     get (catalogRevisions cat_published) (ctl_CurrentRevisionID r) = Some v \<and>
     ctl_ManifestDigest r = ''sha256:'' @ sha256hex (cat_env 0) (ctr_Payload v)"
proof -
  obtain r where r: "get (catalogReleases cat_published) ''ctlxx'' = Some r" "ctl_State r = CatalogPublished"
    using cat_facts(4) by blast
  then show ?thesis using published_catalog_is_signed [OF cat_published_runs r(1)] by auto
qed

theorem published_catalog_is_frozen_witness:
  "\<exists>r r'. get (catalogReleases cat_published) ''ctlxx'' = Some r \<and>
     get (catalogReleases (cat_promote cat_published)) ''ctlxx'' = Some r' \<and> release_content r' = release_content r"
proof -
  obtain r where r: "get (catalogReleases cat_published) ''ctlxx'' = Some r" "ctl_State r = CatalogPublished"
    using cat_facts(4) by blast
  have "(catalog_step (cat_env 0))\<^sup>*\<^sup>* cat_published (cat_promote cat_published)" unfolding cat_promote_def cat_create_def
    by (intro r_into_rtranclp catalog_step.create_both cat_fresh cat_facts(2)) simp
  then show ?thesis using published_catalog_is_frozen [OF cat_published_runs _ r(1)] r by auto
qed

lemma draft_update_breaks_promotion_instance:
  "\<exists>(r::CatalogRelease) r' (v::CatalogRevision) s' source. UpdateCatalogReleaseDraft (cat_env 6) ''ctlxxxxx'' (Revision r) ''ctrxxxxxx'' (ctr_ManifestDigest v) ''alice'' cat_promoted
     = (Inr r', s') \<and> get (catalogReleases s') (ctl_SourceReleaseID r') = Some source \<and> ctl_ManifestDigest source \<noteq> ctl_ManifestDigest r'"
proof -
  obtain source r v where p: "get (catalogReleases cat_promoted) ''ctlxx'' = Some source"
     "get (catalogReleases cat_promoted) ''ctlxxxxx'' = Some r" "get (catalogRevisions cat_promoted) ''ctrxxxxxx'' = Some v"
     "ctl_State r = CatalogDraft" "ctl_SourceReleaseID r = ''ctlxx''" "ctl_ManifestDigest source = ctl_ManifestDigest r"
     "ctr_OrganizationID v = ctl_OrganizationID r" "ctr_CatalogName v = ctl_CatalogName r"
     "ctr_CatalogVersion v = ctl_CatalogVersion r" "ctr_ManifestDigest v \<noteq> ctl_ManifestDigest r"
    using cat_facts(5) by blast
  have "get (catalogReleases cat_promoted) (ctl_SourceReleaseID r) = Some source" "ctl_SourceReleaseID r \<noteq> ''ctlxxxxx''"
    using p(1,5) by simp_all
  from draft_update_breaks_promotion [OF cat_promoted_runs p(2,4) this(1) p(6,3,7-10) this(2), of "cat_env 6" "''alice''"]
  show ?thesis by blast
qed

end
