(* ===== verification/BlueprintLifecycle.thy ===== *)
theory BlueprintLifecycle
  imports Blueprints CatalogTrust
begin

text \<open>
  What the blueprint calls keep: revisions are addressed by their digests and never change, releases
  name a stored revision and a signed catalog, the upgrade graph has no cycle, publication freezes a
  release, and the generation of an assignment only grows.
\<close>

section \<open>Acyclic graphs\<close>

text \<open>Edges into a node without outgoing edges close no cycle.\<close>

lemma acyclic_into_sink:
  assumes "acyclic r" and "\<And>x. (i, x) \<notin> r" and "i \<notin> N"
  shows "acyclic (r \<union> N \<times> {i})"
proof -
  have "x \<noteq> i \<and> (y = i \<or> (x, y) \<in> r\<^sup>+)" if "(x, y) \<in> (r \<union> N \<times> {i})\<^sup>+" for x y
    using that
  proof (induction rule: trancl_induct)
    case (base y)
    then show ?case using assms(2,3) by auto
  next
    case (step y z)
    then have "y \<noteq> i" using assms(2,3) by auto
    then show ?case using step by (auto intro: trancl_into_trancl)
  qed
  then show ?thesis using assms(1) by (auto simp: acyclic_def)
qed

section \<open>The invariant\<close>

definition bp_locked :: "BlueprintLifecycleState \<Rightarrow> bool" where
  "bp_locked st = (st \<in> {BlueprintPublished, BlueprintDeprecated, BlueprintRevoked})"

definition revision_key :: "BlueprintRevision \<Rightarrow> string \<times> string \<times> string \<times> string \<times> string \<times> string" where
  "revision_key v = (bpr_ProjectID v, bpr_BlueprintDigest v, bpr_CatalogDigest v, bpr_BaseBlueprintDigest v,
     bpr_OverlayDigest v, bpr_OwnershipDigest v)"

definition bp_revisions_ok :: "BlueprintRevision table \<Rightarrow> bool" where
  "bp_revisions_ok t = (well_keyed t \<and> unique_by revision_key t \<and> (\<forall>i v. get t i = Some v \<longrightarrow> ID v = i))"

definition bp_points :: "BlueprintRevision table \<Rightarrow> BlueprintRelease \<Rightarrow> bool" where
  "bp_points revs r = (\<exists>v. get revs (rel_CurrentRevisionID r) = Some v \<and> bpr_ProjectID v = rel_ProjectID r \<and>
     normalizeName (bpr_BlueprintName v) = rel_BlueprintName r \<and> bpr_BlueprintVersion v = rel_BlueprintVersion r \<and>
     bpr_BlueprintDigest v = rel_CurrentBlueprintDigest r \<and> bpr_CatalogDigest v = rel_CatalogDigest r)"

definition catalog_backs :: "CatalogRelease table \<Rightarrow> BlueprintRelease \<Rightarrow> bool" where
  "catalog_backs cats r = (TrimSpace (rel_CatalogReleaseID r) \<noteq> '''' \<longrightarrow>
     (\<exists>c. get cats (rel_CatalogReleaseID r) = Some c \<and> locked (ctl_State c) \<and> ctl_ManifestDigest c = rel_CatalogDigest r))"

definition sources_ok :: "BlueprintRelease table \<Rightarrow> string \<Rightarrow> BlueprintRelease \<Rightarrow> bool" where
  "sources_ok t i r = (\<forall>j \<in> set (rel_UpgradeFromIDs r). j \<noteq> i \<and> (\<exists>source. get t j = Some source \<and>
     bp_locked (rel_State source) \<and> rel_ProjectID source = rel_ProjectID r \<and> rel_BlueprintName source = rel_BlueprintName r))"

definition upgrade_edges :: "BlueprintRelease table \<Rightarrow> (string \<times> string) set" where
  "upgrade_edges t = {(j, i). \<exists>r. get t i = Some r \<and> j \<in> set (rel_UpgradeFromIDs r)}"

definition bp_name :: "BlueprintRelease \<Rightarrow> string \<times> string \<times> string" where
  "bp_name r = (rel_ProjectID r, rel_BlueprintName r, rel_BlueprintVersion r)"

definition bp_release_ok :: "CatalogRelease table \<Rightarrow> BlueprintRevision table \<Rightarrow> BlueprintRelease \<Rightarrow> bool" where
  "bp_release_ok cats revs r = (normalizeName (rel_BlueprintName r) = rel_BlueprintName r \<and> bp_points revs r \<and>
     (bp_locked (rel_State r) \<longrightarrow> catalog_backs cats r))"

definition bp_releases_ok :: "CatalogRelease table \<Rightarrow> BlueprintRevision table \<Rightarrow> BlueprintRelease table \<Rightarrow> bool" where
  "bp_releases_ok cats revs t = (well_keyed t \<and> unique_by bp_name t \<and> acyclic (upgrade_edges t) \<and>
     (\<forall>i r. get t i = Some r \<longrightarrow> ID r = i \<and> sources_ok t i r \<and> bp_release_ok cats revs r))"

definition assignment_key :: "Assignment \<Rightarrow> string \<times> string" where
  "assignment_key a = (asg_ProjectID a, asg_TargetRef a)"

definition assignments_ok :: "BlueprintRevision table \<Rightarrow> Assignment table \<Rightarrow> bool" where
  "assignments_ok revs t = (well_keyed t \<and> unique_by assignment_key t \<and>
     (\<forall>i a. get t i = Some a \<longrightarrow> ID a = i \<and> get revs (asg_BlueprintRevisionID a) \<noteq> None \<and> 1 \<le> asg_DesiredGeneration a))"

definition blueprint_ok :: "env \<Rightarrow> MemoryStore \<Rightarrow> bool" where
  "blueprint_ok e s = (catalog_ok e s \<and> bp_revisions_ok (revisions s) \<and>
     bp_releases_ok (catalogReleases s) (revisions s) (blueprintReleases s) \<and> assignments_ok (revisions s) (assignments s))"

definition fresh_blueprint_ids :: "env \<Rightarrow> MemoryStore \<Rightarrow> bool" where
  "fresh_blueprint_ids e s = (\<forall>k. get (revisions s) (newid e k ''bpr'') = None \<and>
     get (blueprintReleases s) (newid e k ''bpl'') = None \<and> get (assignments s) (newid e k ''asn'') = None)"

section \<open>Writing one release\<close>

lemma bp_no_edge_from_open:
  assumes "bp_releases_ok cats revs t" and "\<And>old. get t i = Some old \<Longrightarrow> \<not> bp_locked (rel_State old)"
  shows "(i, x) \<notin> upgrade_edges t"
proof
  assume "(i, x) \<in> upgrade_edges t"
  then obtain r where "get t x = Some r" "i \<in> set (rel_UpgradeFromIDs r)" by (auto simp: upgrade_edges_def)
  then obtain source where "get t i = Some source" "bp_locked (rel_State source)"
    using assms(1) unfolding bp_releases_ok_def sources_ok_def by blast
  then show False using assms(2) by blast
qed

lemma upgrade_edges_put:
  "upgrade_edges (put i r t) \<subseteq> upgrade_edges t \<union> set (rel_UpgradeFromIDs r) \<times> {i}"
  by (auto simp: upgrade_edges_def split: if_splits)

lemma acyclic_open_write:
  assumes "bp_releases_ok cats revs t" and "\<And>old. get t i = Some old \<Longrightarrow> \<not> bp_locked (rel_State old)"
    and "i \<notin> set (rel_UpgradeFromIDs r)"
  shows "acyclic (upgrade_edges (put i r t))"
proof (rule acyclic_subset [OF _ upgrade_edges_put])
  show "acyclic (upgrade_edges t \<union> set (rel_UpgradeFromIDs r) \<times> {i})"
    using assms(1,3) bp_no_edge_from_open [OF assms(1,2)] by (intro acyclic_into_sink) (auto simp: bp_releases_ok_def)
qed

lemma acyclic_same_sources:
  assumes "bp_releases_ok cats revs t" and "get t i = Some old" and "rel_UpgradeFromIDs r = rel_UpgradeFromIDs old"
  shows "acyclic (upgrade_edges (put i r t))"
proof (rule acyclic_subset)
  show "acyclic (upgrade_edges t)" using assms(1) by (simp add: bp_releases_ok_def)
  show "upgrade_edges (put i r t) \<subseteq> upgrade_edges t" using assms(2,3) by (auto simp: upgrade_edges_def split: if_splits)
qed

lemma sources_ok_put:
  assumes "sources_ok t k w" and "\<And>old. get t i = Some old \<Longrightarrow>
    (bp_locked (rel_State old) \<longrightarrow> bp_locked (rel_State r)) \<and> rel_ProjectID r = rel_ProjectID old \<and> rel_BlueprintName r = rel_BlueprintName old"
  shows "sources_ok (put i r t) k w"
  using assms unfolding sources_ok_def by (metis get_put option.inject)

lemma bp_releases_ok_put:
  assumes "bp_releases_ok cats revs t" and "ID r = i" and "bp_release_ok cats revs r" and "sources_ok t i r"
    and "\<And>k w. get t k = Some w \<Longrightarrow> k \<noteq> i \<Longrightarrow> bp_name w \<noteq> bp_name r"
    and "\<And>old. get t i = Some old \<Longrightarrow> (bp_locked (rel_State old) \<longrightarrow> bp_locked (rel_State r)) \<and> bp_name r = bp_name old"
    and "acyclic (upgrade_edges (put i r t))"
  shows "bp_releases_ok cats revs (put i r t)"
proof -
  have "sources_ok (put i r t) k w" if "sources_ok t k w" for k w
    using sources_ok_put [OF that, of i r] assms(6) by (simp add: bp_name_def)
  then show ?thesis
    using assms by (auto simp: bp_releases_ok_def intro!: unique_by_put)
qed

text \<open>The two ways a stored release changes: a new draft of its content, or a transition.\<close>

lemma bp_releases_ok_update:
  assumes "bp_releases_ok cats revs t" and "get t i = Some old" and "ID r = ID old" and "bp_name r = bp_name old"
    and "bp_locked (rel_State old) \<longrightarrow> bp_locked (rel_State r)" and "bp_release_ok cats revs r" and "sources_ok t i r"
    and "rel_UpgradeFromIDs r = rel_UpgradeFromIDs old \<or> \<not> bp_locked (rel_State old)"
  shows "bp_releases_ok cats revs (put i r t)"
proof (rule bp_releases_ok_put [OF assms(1)])
  show "acyclic (upgrade_edges (put i r t))"
  proof (cases "rel_UpgradeFromIDs r = rel_UpgradeFromIDs old")
    case True
    then show ?thesis using acyclic_same_sources assms(1,2) by blast
  next
    case False
    then show ?thesis using assms(2,7,8) by (intro acyclic_open_write [OF assms(1)]) (auto simp: sources_ok_def)
  qed
  show "ID r = i" using assms(1-3) by (simp add: bp_releases_ok_def)
  fix k w assume "get t k = Some w" "k \<noteq> i"
  then show "bp_name w \<noteq> bp_name r" using assms(1,2,4) by (auto simp: bp_releases_ok_def dest: unique_by_D)
qed (use assms in auto)

lemma bp_releases_ok_more:
  assumes "bp_releases_ok cats revs t"
    and "\<And>i v. get revs i = Some v \<Longrightarrow> get revs' i = Some v"
    and "\<And>i c. get cats i = Some c \<Longrightarrow> locked (ctl_State c) \<Longrightarrow>
      \<exists>c'. get cats' i = Some c' \<and> locked (ctl_State c') \<and> ctl_ManifestDigest c' = ctl_ManifestDigest c"
  shows "bp_releases_ok cats' revs' t"
proof -
  have "bp_points revs' r" if "bp_points revs r" for r using that assms(2) by (auto simp: bp_points_def)
  moreover have "catalog_backs cats' r" if "catalog_backs cats r" for r
    using that assms(3) unfolding catalog_backs_def by metis
  ultimately show ?thesis using assms(1) by (simp add: bp_releases_ok_def bp_release_ok_def)
qed

section \<open>Every call keeps it\<close>

lemma commitBlueprint_tables [simp]:
  "revisions (commitBlueprintRevisionLocked e k v actor s) = put (ID v) v (revisions s)"
  "blueprintReleases (commitBlueprintRevisionLocked e k v actor s) = blueprintReleases s"
  "assignments (commitBlueprintRevisionLocked e k v actor s) = assignments s"
  "revisions (commitBlueprintReleaseLocked e k r actor s) = revisions s"
  "blueprintReleases (commitBlueprintReleaseLocked e k r actor s) = put (ID r) r (blueprintReleases s)"
  "assignments (commitBlueprintReleaseLocked e k r actor s) = assignments s"
  "revisions (commitBlueprintDraftUpdateLocked e k r actor s) = revisions s"
  "blueprintReleases (commitBlueprintDraftUpdateLocked e k r actor s) = put (ID r) r (blueprintReleases s)"
  "assignments (commitBlueprintDraftUpdateLocked e k r actor s) = assignments s"
  by (simp_all add: commitBlueprintRevisionLocked_def commitBlueprintReleaseLocked_def commitBlueprintDraftUpdateLocked_def Let_def)

lemma commitBlueprint_catalog [simp]:
  "catalogTrustKeys (commitBlueprintRevisionLocked e k v actor s) = catalogTrustKeys s"
  "catalogRevisions (commitBlueprintRevisionLocked e k v actor s) = catalogRevisions s"
  "catalogReleases (commitBlueprintRevisionLocked e k v actor s) = catalogReleases s"
  "catalogTrustKeys (commitBlueprintReleaseLocked e k r actor s) = catalogTrustKeys s"
  "catalogRevisions (commitBlueprintReleaseLocked e k r actor s) = catalogRevisions s"
  "catalogReleases (commitBlueprintReleaseLocked e k r actor s) = catalogReleases s"
  "catalogTrustKeys (commitBlueprintDraftUpdateLocked e k r actor s) = catalogTrustKeys s"
  "catalogRevisions (commitBlueprintDraftUpdateLocked e k r actor s) = catalogRevisions s"
  "catalogReleases (commitBlueprintDraftUpdateLocked e k r actor s) = catalogReleases s"
  by (simp_all add: commitBlueprintRevisionLocked_def commitBlueprintReleaseLocked_def commitBlueprintDraftUpdateLocked_def Let_def)

lemma catalog_ok_cong:
  "catalogTrustKeys s' = catalogTrustKeys s \<Longrightarrow> catalogRevisions s' = catalogRevisions s \<Longrightarrow>
   catalogReleases s' = catalogReleases s \<Longrightarrow> catalog_ok e s' = catalog_ok e s"
  by (simp add: catalog_ok_def)

text \<open>Preparing a revision finds the one with the same digests, or makes a new one.\<close>

lemma prepareBlueprintRevision_cases:
  assumes "prepareBlueprintRevisionLocked e revision s = Inr (v, existing)" and "blueprint_ok e0 s" and "fresh_blueprint_ids e s"
  shows "existing \<and> get (revisions s) (ID v) = Some v \<or>
    \<not> existing \<and> get (revisions s) (ID v) = None \<and> (\<forall>i w. get (revisions s) i = Some w \<longrightarrow> revision_key w \<noteq> revision_key v)"
proof -
  have wk: "get (revisions s) (ID w) = Some w" if "w \<in> set (vals (revisions s))" for w
    using that assms(2) vals_iff by (fastforce simp: blueprint_ok_def bp_revisions_ok_def)
  define r where "r = NormalizeBlueprintRevisionResolution revision"
  have "(case find (\<lambda>x. same_revision x r) (vals (revisions s)) of
      Some x \<Rightarrow> Inr (x, True) | None \<Rightarrow> Inr (stamp (newid e 0 ''bpr'') (nowUTC e 0) r, False)) = (Inr (v, existing) :: (BlueprintRevision \<times> bool) res)"
    using assms(1) unfolding prepareBlueprintRevisionLocked_def Let_def r_def by (simp add: guard_Inr)
  then show ?thesis
    using wk assms(3) get_vals [of "revisions s"]
    by (auto simp: find_Some_iff find_None_iff same_revision_def revision_key_def stamp_def fresh_blueprint_ids_def
        split: option.split_asm)
qed

lemma prepareBlueprintRevision_key:
  assumes "prepareBlueprintRevisionLocked e r s = Inr (v, existing)"
  shows "revision_key v = revision_key (NormalizeBlueprintRevisionResolution r)"
  using assms unfolding prepareBlueprintRevisionLocked_def Let_def
  by (auto simp: guard_Inr find_Some_iff same_revision_def revision_key_def stamp_def split: option.split_asm)

lemma more_bp_revisions:
  assumes "blueprint_ok e0 s" and "get (revisions s) (ID v) = None"
    and "\<forall>i w. get (revisions s) i = Some w \<longrightarrow> revision_key w \<noteq> revision_key v"
  shows "blueprint_ok e0 (commitBlueprintRevisionLocked e k v actor s)"
proof -
  have "bp_releases_ok (catalogReleases s) (put (ID v) v (revisions s)) (blueprintReleases s)"
    using assms(1,2) by (auto simp: blueprint_ok_def elim!: bp_releases_ok_more)
  moreover have "bp_revisions_ok (put (ID v) v (revisions s))"
    using assms by (auto simp: blueprint_ok_def bp_revisions_ok_def intro!: unique_by_put)
  moreover have "assignments_ok (put (ID v) v (revisions s)) (assignments s)"
    using assms(1) by (auto simp: blueprint_ok_def assignments_ok_def)
  ultimately show ?thesis using assms(1) by (simp add: blueprint_ok_def catalog_ok_def)
qed

lemma bp_revision_stored:
  fixes k :: nat and actor :: string
  assumes "prepareBlueprintRevisionLocked e revision s = Inr (v, existing)" and "blueprint_ok e0 s" and "fresh_blueprint_ids e s"
  defines "s' \<equiv> if \<not> existing then commitBlueprintRevisionLocked e k v actor s else s"
  shows "blueprint_ok e0 s'" and "get (revisions s') (ID v) = Some v" and "blueprintReleases s' = blueprintReleases s"
    and "\<And>i w. get (revisions s) i = Some w \<Longrightarrow> get (revisions s') i = Some w"
  using prepareBlueprintRevision_cases [OF assms(1-3)] assms(2) more_bp_revisions unfolding s'_def by auto

lemma CreateBlueprintRevision_prepared:
  assumes "CreateBlueprintRevision e r actor s = (Inr v, s')"
  obtains existing where "prepareBlueprintRevisionLocked e r s = Inr (v, existing)"
    and "s' = (if \<not> existing then commitBlueprintRevisionLocked e 1 v actor s else s)"
proof (cases "prepareBlueprintRevisionLocked e r s")
  case (Inr x)
  obtain w existing where "x = (w, existing)" by (cases x)
  then show thesis using that [of existing] assms Inr by (auto simp: CreateBlueprintRevision_def)
qed (use assms in \<open>simp add: CreateBlueprintRevision_def\<close>)

lemma CreateBlueprintRevision_ok:
  assumes "blueprint_ok e0 s" and "fresh_blueprint_ids e s"
  shows "blueprint_ok e0 (snd (CreateBlueprintRevision e revision actor s))"
proof (cases "prepareBlueprintRevisionLocked e revision s")
  case (Inr x)
  obtain v existing where "x = (v, existing)" by (cases x)
  then show ?thesis
    using bp_revision_stored(1) [OF Inr [unfolded \<open>x = _\<close>] assms, where k = 1 and actor = actor] Inr by (simp add: CreateBlueprintRevision_def)
qed (use assms in \<open>simp add: CreateBlueprintRevision_def\<close>)

lemma createSources_ok:
  assumes "createSources s release seen ids = Inr u" and "j \<in> set ids"
  shows "\<exists>source. get (blueprintReleases s) j = Some source \<and> publishable (rel_State source) \<and>
    rel_ProjectID source = rel_ProjectID release \<and> normalizeName (rel_BlueprintName source) = normalizeName (rel_BlueprintName release)"
  using assms by (induction s release seen ids rule: createSources.induct) (auto simp: guard_Inr)

lemma updateSources_ok:
  assumes "updateSources s i current seen ids = Inr u" and "j \<in> set ids"
  shows "j \<noteq> i \<and> (\<exists>source. get (blueprintReleases s) j = Some source \<and> publishable (rel_State source) \<and>
    rel_ProjectID source = rel_ProjectID current \<and> rel_BlueprintName source = rel_BlueprintName current)"
  using assms by (induction s i current seen ids rule: updateSources.induct) (auto simp: guard_Inr)

lemma publishable_locked: "publishable st \<Longrightarrow> bp_locked st"
  by (auto simp: publishable_def bp_locked_def)

text \<open>A new release is a draft of the given content under a fresh name.\<close>

lemma prepareBlueprintRelease_new:
  assumes "prepareBlueprintReleaseLocked e k release revision actor s = Inr r"
  shows "r = (stamp (newid e k ''bpl'') (nowUTC e k) release)\<lparr>rel_State := BlueprintDraft,
      rel_BlueprintName := normalizeName (rel_BlueprintName release), rel_RequestedBy := TrimSpace actor,
      rel_UpgradeFromIDs := sort (rel_UpgradeFromIDs release)\<rparr>"
    and "bpr_ProjectID revision = rel_ProjectID release" and "bpr_BlueprintName revision = rel_BlueprintName release"
    and "bpr_BlueprintVersion revision = rel_BlueprintVersion release"
    and "bpr_BlueprintDigest revision = rel_CurrentBlueprintDigest release" and "bpr_CatalogDigest revision = rel_CatalogDigest release"
    and "createSources s release [] (rel_UpgradeFromIDs release) = Inr ()"
    and "w \<in> set (vals (blueprintReleases s)) \<Longrightarrow>
      \<not> (rel_ProjectID w = rel_ProjectID release \<and> normalizeName (rel_BlueprintName w) = normalizeName (rel_BlueprintName release) \<and>
         rel_BlueprintVersion w = rel_BlueprintVersion release)"
  using assms unfolding prepareBlueprintReleaseLocked_def by (simp_all add: guard_Inr list_ex_iff)

lemma sources_ok_new:
  assumes "bp_releases_ok cats revs (blueprintReleases s)" and "get (blueprintReleases s) (ID r) = None"
    and "createSources s release [] ids = Inr ()" and "set (rel_UpgradeFromIDs r) = set ids"
    and "rel_ProjectID r = rel_ProjectID release" and "rel_BlueprintName r = normalizeName (rel_BlueprintName release)"
  shows "sources_ok (blueprintReleases s) (ID r) r"
  unfolding sources_ok_def
proof
  fix j assume "j \<in> set (rel_UpgradeFromIDs r)"
  then obtain source where "get (blueprintReleases s) j = Some source" "publishable (rel_State source)"
    "rel_ProjectID source = rel_ProjectID release" "normalizeName (rel_BlueprintName source) = normalizeName (rel_BlueprintName release)"
    using createSources_ok [OF assms(3)] assms(4) by blast
  moreover from this have "normalizeName (rel_BlueprintName source) = rel_BlueprintName source"
    using assms(1) by (auto simp: bp_releases_ok_def bp_release_ok_def)
  ultimately show "j \<noteq> ID r \<and> (\<exists>source. get (blueprintReleases s) j = Some source \<and> bp_locked (rel_State source) \<and>
      rel_ProjectID source = rel_ProjectID r \<and> rel_BlueprintName source = rel_BlueprintName r)"
    using assms(2,5,6) publishable_locked by auto
qed

lemma commitBlueprintRelease_ok:
  assumes "blueprint_ok e0 s" and "prepareBlueprintReleaseLocked e k release revision actor s1 = Inr r"
    and "blueprintReleases s = blueprintReleases s1" and "get (blueprintReleases s) (newid e k ''bpl'') = None"
    and "get (revisions s) (rel_CurrentRevisionID release) = Some revision"
  shows "blueprint_ok e0 (commitBlueprintReleaseLocked e j r actor s)"
proof -
  note p = prepareBlueprintRelease_new [OF assms(2)]
  have ok: "bp_releases_ok (catalogReleases s) (revisions s) (blueprintReleases s)" using assms(1) by (simp add: blueprint_ok_def)
  have new: "get (blueprintReleases s) (ID r) = None" using assms(4) p(1) by simp
  have src: "sources_ok (blueprintReleases s) (ID r) r"
    using ok new p(1,7) assms(3) by (intro sources_ok_new [of _ _ s1 _ release, folded assms(3)]) (auto simp: stamp_def)
  have "bp_release_ok (catalogReleases s) (revisions s) r"
    using p(1-6) assms(5) by (simp add: bp_release_ok_def bp_points_def bp_locked_def stamp_def)
  moreover have "bp_name w \<noteq> bp_name r" if "get (blueprintReleases s) i = Some w" for i w
  proof -
    have "normalizeName (rel_BlueprintName w) = rel_BlueprintName w"
      using ok that by (auto simp: bp_releases_ok_def bp_release_ok_def)
    then show ?thesis using p(1,8) get_vals [OF that] assms(3) by (auto simp: bp_name_def stamp_def)
  qed
  moreover have "acyclic (upgrade_edges (put (ID r) r (blueprintReleases s)))"
    using new src by (intro acyclic_open_write [OF ok]) (auto simp: sources_ok_def)
  ultimately have "bp_releases_ok (catalogReleases s) (revisions s) (put (ID r) r (blueprintReleases s))"
    using new by (intro bp_releases_ok_put [OF ok refl _ src]) auto
  then show ?thesis using assms(1) by (simp add: blueprint_ok_def catalog_ok_def)
qed

lemma CreateBlueprintRelease_ok:
  assumes "blueprint_ok e0 s" and "fresh_blueprint_ids e s"
  shows "blueprint_ok e0 (snd (CreateBlueprintRelease e release actor s))"
proof (cases "get (revisions s) (rel_CurrentRevisionID release)")
  case (Some revision)
  then show ?thesis
    using assms commitBlueprintRelease_ok [OF assms(1) _ refl _ Some]
    by (auto simp: CreateBlueprintRelease_def fresh_blueprint_ids_def split: sum.split)
qed (use assms in \<open>simp add: CreateBlueprintRelease_def\<close>)

lemma CreateBlueprintReleaseWithRevision_ok:
  assumes "blueprint_ok e0 s" and "fresh_blueprint_ids e s"
  shows "blueprint_ok e0 (snd (CreateBlueprintReleaseWithRevision e revision release actor s))"
proof (cases "prepareBlueprintRevisionLocked e revision s")
  case (Inr x)
  obtain v existing where x: "x = (v, existing)" by (cases x)
  note st = bp_revision_stored [OF Inr [unfolded x] assms, where k = 2 and actor = actor]
  show ?thesis
    using Inr x assms commitBlueprintRelease_ok [OF st(1) _ st(3)] st(2,3)
    by (auto simp: CreateBlueprintReleaseWithRevision_def Let_def fresh_blueprint_ids_def
        simp del: commitBlueprint_tables split: sum.split)
qed (use assms in \<open>simp add: CreateBlueprintReleaseWithRevision_def\<close>)

lemma prepareBlueprintDraftUpdate_new:
  assumes "prepareBlueprintDraftUpdateLocked e k i expected revision ready plan ids s = Inr r"
  shows "\<exists>old. get (blueprintReleases s) i = Some old \<and> rel_State old = BlueprintDraft \<and>
    bpr_ProjectID revision = rel_ProjectID old \<and> bpr_BlueprintName revision = rel_BlueprintName old \<and>
    bpr_BlueprintVersion revision = rel_BlueprintVersion old \<and> updateSources s i old [] ids = Inr () \<and>
    r = touch (nowUTC e k) (old\<lparr>rel_CurrentRevisionID := ID revision, rel_CurrentBlueprintDigest := bpr_BlueprintDigest revision,
      rel_CatalogDigest := bpr_CatalogDigest revision, rel_ExecutionReady := ready, rel_PlanStatus := TrimSpace plan,
      rel_UpgradeFromIDs := sort ids\<rparr>)"
  using assms by (auto simp: prepareBlueprintDraftUpdateLocked_def guard_Inr)

lemma commitBlueprintDraftUpdate_ok:
  assumes "blueprint_ok e0 s" and "prepareBlueprintDraftUpdateLocked e k i expected revision ready plan ids s1 = Inr r"
    and "blueprintReleases s = blueprintReleases s1" and "get (revisions s) (ID revision) = Some revision"
  shows "blueprint_ok e0 (commitBlueprintDraftUpdateLocked e j r actor s)"
proof -
  obtain old where old: "get (blueprintReleases s) i = Some old" "rel_State old = BlueprintDraft"
      "bpr_ProjectID revision = rel_ProjectID old" "bpr_BlueprintName revision = rel_BlueprintName old"
      "bpr_BlueprintVersion revision = rel_BlueprintVersion old"
    and us: "updateSources s1 i old [] ids = Inr ()"
    and r: "r = touch (nowUTC e k) (old\<lparr>rel_CurrentRevisionID := ID revision, rel_CurrentBlueprintDigest := bpr_BlueprintDigest revision,
      rel_CatalogDigest := bpr_CatalogDigest revision, rel_ExecutionReady := ready, rel_PlanStatus := TrimSpace plan,
      rel_UpgradeFromIDs := sort ids\<rparr>)"
    using prepareBlueprintDraftUpdate_new [OF assms(2)] assms(3) by auto
  have ok: "bp_releases_ok (catalogReleases s) (revisions s) (blueprintReleases s)" using assms(1) by (simp add: blueprint_ok_def)
  then have i: "ID old = i" "normalizeName (rel_BlueprintName old) = rel_BlueprintName old"
    using old(1) by (auto simp: bp_releases_ok_def bp_release_ok_def)
  have "sources_ok (blueprintReleases s) i r"
    using updateSources_ok [OF us] assms(3) r publishable_locked by (fastforce simp: sources_ok_def touch_def)
  then have "bp_releases_ok (catalogReleases s) (revisions s) (put i r (blueprintReleases s))"
    using old r i(2) assms(4)
    by (intro bp_releases_ok_update [OF ok old(1)])
      (simp_all add: bp_name_def bp_release_ok_def bp_points_def bp_locked_def touch_def)
  moreover have "ID r = i" using r i by simp
  ultimately show ?thesis using assms(1) by (simp add: blueprint_ok_def catalog_ok_def)
qed

lemma UpdateBlueprintReleaseDraft_ok:
  assumes "blueprint_ok e0 s"
  shows "blueprint_ok e0 (snd (UpdateBlueprintReleaseDraft e i expected revisionID bd cd ready plan ids actor s))"
proof (cases "get (revisions s) revisionID")
  case (Some revision)
  then have "get (revisions s) (ID revision) = Some revision"
    using assms by (simp add: blueprint_ok_def bp_revisions_ok_def)
  then show ?thesis
    using Some assms commitBlueprintDraftUpdate_ok [OF assms _ refl]
    by (auto simp: UpdateBlueprintReleaseDraft_def split: sum.split)
qed (use assms in \<open>simp add: UpdateBlueprintReleaseDraft_def\<close>)

lemma UpdateBlueprintReleaseDraftWithRevision_ok:
  assumes "blueprint_ok e0 s" and "fresh_blueprint_ids e s"
  shows "blueprint_ok e0 (snd (UpdateBlueprintReleaseDraftWithRevision e i expected revision ready plan ids actor s))"
proof (cases "prepareBlueprintRevisionLocked e revision s")
  case (Inr x)
  obtain v existing where x: "x = (v, existing)" by (cases x)
  note st = bp_revision_stored [OF Inr [unfolded x] assms, where k = 2 and actor = actor]
  show ?thesis
    using Inr x assms(1) commitBlueprintDraftUpdate_ok [OF st(1) _ st(3,2)]
    by (auto simp: UpdateBlueprintReleaseDraftWithRevision_def Let_def simp del: commitBlueprint_tables
        split: option.split sum.split)
qed (use assms in \<open>simp add: UpdateBlueprintReleaseDraftWithRevision_def split: option.split\<close>)

lemma publishCheck_backs:
  assumes "publishCheck e actor s r = Inr u"
  shows "catalog_backs (catalogReleases s) r"
  using assms
  by (auto simp: publishCheck_def publishCatalogLink_def catalog_backs_def catalog_carries_def locked_def guard_Inr
      split: if_split_asm)

lemma transitionedBlueprint_simps [simp]:
  "ID (transitionedBlueprint to actor now r) = ID r" "bp_name (transitionedBlueprint to actor now r) = bp_name r"
  "rel_State (transitionedBlueprint to actor now r) = to" "rel_BlueprintName (transitionedBlueprint to actor now r) = rel_BlueprintName r"
  "rel_UpgradeFromIDs (transitionedBlueprint to actor now r) = rel_UpgradeFromIDs r"
  "bp_points revs (transitionedBlueprint to actor now r) = bp_points revs r"
  "catalog_backs cats (transitionedBlueprint to actor now r) = catalog_backs cats r"
  "sources_ok t i (transitionedBlueprint to actor now r) = sources_ok t i r"
  by (simp_all add: transitionedBlueprint_def Let_def touch_def bp_name_def bp_points_def catalog_backs_def sources_ok_def)

lemma TransitionBlueprintRelease_ok:
  assumes "blueprint_ok e0 s"
  shows "blueprint_ok e0 (snd (TransitionBlueprintRelease e i expected to actor s))"
proof (cases "get (blueprintReleases s) i")
  case (Some old)
  have ok: "bp_releases_ok (catalogReleases s) (revisions s) (blueprintReleases s)" using assms by (simp add: blueprint_ok_def)
  then have old: "sources_ok (blueprintReleases s) i old" "bp_release_ok (catalogReleases s) (revisions s) old"
    using Some by (simp_all add: bp_releases_ok_def)
  show ?thesis
  proof (cases "validBlueprintTransition (rel_State old) to \<and> (to = BlueprintPublished \<longrightarrow> publishCheck e actor s old = Inr ())")
    case True
    then have lock: "bp_locked (rel_State old) \<longrightarrow> bp_locked to" "bp_locked to \<longrightarrow> bp_locked (rel_State old) \<or> to = BlueprintPublished"
      by (cases "rel_State old"; auto simp: bp_locked_def)+
    have "bp_release_ok (catalogReleases s) (revisions s) (transitionedBlueprint to actor now old)" for now
      using old(2) lock True publishCheck_backs by (auto simp: bp_release_ok_def)
    then have "bp_releases_ok (catalogReleases s) (revisions s) (put i (transitionedBlueprint to actor now old) (blueprintReleases s))" for now
      using old lock by (intro bp_releases_ok_update [OF ok Some]) simp_all
    then show ?thesis
      using assms Some True by (auto simp: TransitionBlueprintRelease_def Let_def blueprint_ok_def catalog_ok_def)
  next
    case False
    then show ?thesis
      using assms Some by (auto simp: TransitionBlueprintRelease_def split: sum.split)
  qed
qed (use assms in \<open>simp add: TransitionBlueprintRelease_def\<close>)

lemma CreateBlueprintOverlay_tables [simp]:
  "revisions (snd (CreateBlueprintOverlay e overlay actor s)) = revisions s"
  "blueprintReleases (snd (CreateBlueprintOverlay e overlay actor s)) = blueprintReleases s"
  "assignments (snd (CreateBlueprintOverlay e overlay actor s)) = assignments s"
  "catalogTrustKeys (snd (CreateBlueprintOverlay e overlay actor s)) = catalogTrustKeys s"
  "catalogRevisions (snd (CreateBlueprintOverlay e overlay actor s)) = catalogRevisions s"
  "catalogReleases (snd (CreateBlueprintOverlay e overlay actor s)) = catalogReleases s"
  by (simp_all add: CreateBlueprintOverlay_def Let_def split: sum.split)

lemma CreateAssignment_ok:
  assumes "blueprint_ok e0 s" and "fresh_blueprint_ids e s"
  shows "blueprint_ok e0 (snd (CreateAssignment e a actor s))"
proof -
  have "assignment_key w \<noteq> assignment_key a" if "get (assignments s) k = Some w"
    "\<not> list_ex (\<lambda>x. asg_ProjectID x = asg_ProjectID a \<and> asg_TargetRef x = asg_TargetRef a) (vals (assignments s))" for k w
    using that get_vals [OF that(1)] by (auto simp: assignment_key_def list_ex_iff)
  then show ?thesis
    using assms
    by (auto simp: CreateAssignment_def Let_def blueprint_ok_def catalog_ok_def assignments_ok_def fresh_blueprint_ids_def
        stamp_def assignment_key_def intro!: unique_by_put)
qed

lemma UpdateAssignment_ok:
  assumes "blueprint_ok e0 s"
  shows "blueprint_ok e0 (snd (UpdateAssignment e i expected revisionID generation actor s))"
proof (cases "get (assignments s) i")
  case (Some a)
  then have "1 \<le> asg_DesiredGeneration a" using assms by (auto simp: blueprint_ok_def assignments_ok_def)
  then have "1 \<le> generation" if "\<not> generation \<le> asg_DesiredGeneration a" using that by linarith
  then show ?thesis
    using Some assms
    by (auto simp: UpdateAssignment_def Let_def blueprint_ok_def catalog_ok_def assignments_ok_def touch_def
        assignment_key_def intro!: unique_by_same [OF _ Some])
qed (use assms in \<open>simp add: UpdateAssignment_def\<close>)

section \<open>Runs\<close>

definition same_blueprints :: "MemoryStore \<Rightarrow> MemoryStore \<Rightarrow> bool" where
  "same_blueprints s s' = (revisions s' = revisions s \<and> blueprintReleases s' = blueprintReleases s \<and> assignments s' = assignments s)"

text \<open>One of the blueprint calls, or a step of the catalog and of the rest of the store, which leaves the blueprint tables alone.\<close>

inductive blueprint_step :: "env \<Rightarrow> MemoryStore \<Rightarrow> MemoryStore \<Rightarrow> bool" for e0 where
  overlay: "blueprint_step e0 s (snd (CreateBlueprintOverlay e overlay actor s))"
| revision: "fresh_blueprint_ids e s \<Longrightarrow> blueprint_step e0 s (snd (CreateBlueprintRevision e revision actor s))"
| release: "fresh_blueprint_ids e s \<Longrightarrow> blueprint_step e0 s (snd (CreateBlueprintRelease e release actor s))"
| both: "fresh_blueprint_ids e s \<Longrightarrow>
    blueprint_step e0 s (snd (CreateBlueprintReleaseWithRevision e revision release actor s))"
| update: "blueprint_step e0 s (snd (UpdateBlueprintReleaseDraft e i expected revisionID bd cd ready plan ids actor s))"
| update_both: "fresh_blueprint_ids e s \<Longrightarrow>
    blueprint_step e0 s (snd (UpdateBlueprintReleaseDraftWithRevision e i expected revision ready plan ids actor s))"
| transition: "blueprint_step e0 s (snd (TransitionBlueprintRelease e i expected to actor s))"
| assign: "fresh_blueprint_ids e s \<Longrightarrow> blueprint_step e0 s (snd (CreateAssignment e a actor s))"
| reassign: "blueprint_step e0 s (snd (UpdateAssignment e i expected revisionID generation actor s))"
| catalog: "catalog_step e0 s s' \<Longrightarrow> same_blueprints s s' \<Longrightarrow> blueprint_step e0 s s'"

lemma blueprint_calls_catalog:
  "catalogTrustKeys (snd (CreateBlueprintRevision e revision actor s)) = catalogTrustKeys s \<and>
   catalogRevisions (snd (CreateBlueprintRevision e revision actor s)) = catalogRevisions s \<and>
   catalogReleases (snd (CreateBlueprintRevision e revision actor s)) = catalogReleases s"
  "catalogTrustKeys (snd (CreateBlueprintRelease e release actor s)) = catalogTrustKeys s \<and>
   catalogRevisions (snd (CreateBlueprintRelease e release actor s)) = catalogRevisions s \<and>
   catalogReleases (snd (CreateBlueprintRelease e release actor s)) = catalogReleases s"
  "catalogTrustKeys (snd (CreateBlueprintReleaseWithRevision e revision release actor s)) = catalogTrustKeys s \<and>
   catalogRevisions (snd (CreateBlueprintReleaseWithRevision e revision release actor s)) = catalogRevisions s \<and>
   catalogReleases (snd (CreateBlueprintReleaseWithRevision e revision release actor s)) = catalogReleases s"
  "catalogTrustKeys (snd (UpdateBlueprintReleaseDraft e i expected revisionID bd cd ready plan ids actor s)) = catalogTrustKeys s \<and>
   catalogRevisions (snd (UpdateBlueprintReleaseDraft e i expected revisionID bd cd ready plan ids actor s)) = catalogRevisions s \<and>
   catalogReleases (snd (UpdateBlueprintReleaseDraft e i expected revisionID bd cd ready plan ids actor s)) = catalogReleases s"
  "catalogTrustKeys (snd (UpdateBlueprintReleaseDraftWithRevision e i expected revision ready plan ids actor s)) = catalogTrustKeys s \<and>
   catalogRevisions (snd (UpdateBlueprintReleaseDraftWithRevision e i expected revision ready plan ids actor s)) = catalogRevisions s \<and>
   catalogReleases (snd (UpdateBlueprintReleaseDraftWithRevision e i expected revision ready plan ids actor s)) = catalogReleases s"
  "catalogTrustKeys (snd (TransitionBlueprintRelease e i expected to actor s)) = catalogTrustKeys s \<and>
   catalogRevisions (snd (TransitionBlueprintRelease e i expected to actor s)) = catalogRevisions s \<and>
   catalogReleases (snd (TransitionBlueprintRelease e i expected to actor s)) = catalogReleases s"
  "catalogTrustKeys (snd (CreateAssignment e a actor s)) = catalogTrustKeys s \<and>
   catalogRevisions (snd (CreateAssignment e a actor s)) = catalogRevisions s \<and>
   catalogReleases (snd (CreateAssignment e a actor s)) = catalogReleases s"
  "catalogTrustKeys (snd (UpdateAssignment e i expected revisionID generation actor s)) = catalogTrustKeys s \<and>
   catalogRevisions (snd (UpdateAssignment e i expected revisionID generation actor s)) = catalogRevisions s \<and>
   catalogReleases (snd (UpdateAssignment e i expected revisionID generation actor s)) = catalogReleases s"
  by (simp_all add: CreateBlueprintRevision_def CreateBlueprintRelease_def CreateBlueprintReleaseWithRevision_def
      UpdateBlueprintReleaseDraft_def UpdateBlueprintReleaseDraftWithRevision_def TransitionBlueprintRelease_def
      CreateAssignment_def UpdateAssignment_def Let_def split: option.split sum.split prod.split)

text \<open>To the catalog every blueprint call is one of the other calls.\<close>

lemma blueprint_catalog_step: "blueprint_step e0 s s' \<Longrightarrow> catalog_step e0 s s'"
  by (induction rule: blueprint_step.induct) (simp_all add: catalog_step.other blueprint_calls_catalog)

lemma locked_catalog_kept:
  assumes "catalog_step e0 s s'" and "catalog_ok e0 s" and "get (catalogReleases s) i = Some c" and "locked (ctl_State c)"
  shows "\<exists>c'. get (catalogReleases s') i = Some c' \<and> locked (ctl_State c') \<and> ctl_ManifestDigest c' = ctl_ManifestDigest c"
proof -
  obtain c' where "get (catalogReleases s') i = Some c'" "release_evolves c c'" using cat.evolves [OF assms(1-3)] by blast
  then show ?thesis using assms(4) by (auto simp: release_evolves_def release_content_def locked_rank)
qed

lemma blueprint_ok_catalog_step:
  assumes "catalog_step e0 s s'" and "same_blueprints s s'" and "blueprint_ok e0 s"
  shows "blueprint_ok e0 s'"
proof -
  have c: "catalog_ok e0 s" using assms(3) by (simp add: blueprint_ok_def)
  have "bp_releases_ok (catalogReleases s') (revisions s) (blueprintReleases s)"
    using assms(3) locked_catalog_kept [OF assms(1) c] by (auto simp: blueprint_ok_def elim!: bp_releases_ok_more)
  then show ?thesis
    using assms(2,3) catalog_step_ok [OF assms(1) c] by (simp add: blueprint_ok_def same_blueprints_def)
qed

lemma blueprint_step_ok: "blueprint_step e0 s s' \<Longrightarrow> blueprint_ok e0 s \<Longrightarrow> blueprint_ok e0 s'"
proof (induction rule: blueprint_step.induct)
  case (overlay s e overlay actor)
  then show ?case by (simp add: blueprint_ok_def catalog_ok_def)
qed (simp_all add: CreateBlueprintRevision_ok CreateBlueprintRelease_ok CreateBlueprintReleaseWithRevision_ok
    UpdateBlueprintReleaseDraft_ok UpdateBlueprintReleaseDraftWithRevision_ok TransitionBlueprintRelease_ok CreateAssignment_ok
    UpdateAssignment_ok blueprint_ok_catalog_step)

lemma blueprint_ok_init: "blueprint_ok e0 NewMemoryStoreWith"
  using catalog_ok_init [of e0]
  by (simp add: blueprint_ok_def bp_revisions_ok_def bp_releases_ok_def assignments_ok_def upgrade_edges_def acyclic_def
      NewMemoryStoreWith_def)

section \<open>Histories\<close>

definition bp_identity :: "BlueprintRelease \<Rightarrow> string \<times> int \<times> string \<times> string \<times> string \<times> string \<times> string" where
  "bp_identity r = (ID r, CreatedAt r, rel_ProjectID r, rel_BlueprintName r, rel_BlueprintVersion r, rel_CatalogReleaseID r,
     rel_SourceReleaseID r)"

definition bp_content ::
  "BlueprintRelease \<Rightarrow> string \<times> string \<times> string \<times> string list \<times> bool \<times> string \<times> string \<times> string \<times> int option" where
  "bp_content r = (rel_CurrentRevisionID r, rel_CurrentBlueprintDigest r, rel_CatalogDigest r, rel_UpgradeFromIDs r,
     rel_ExecutionReady r, rel_PlanStatus r, rel_RequestedBy r, rel_PublishedBy r, rel_PublishedAt r)"

fun bp_rank :: "BlueprintLifecycleState \<Rightarrow> nat" where
  "bp_rank BlueprintPublished = 1"
| "bp_rank BlueprintDeprecated = 2"
| "bp_rank BlueprintRevoked = 3"
| "bp_rank st = 0"

lemma bp_locked_rank: "bp_locked st \<longleftrightarrow> 0 < bp_rank st"
  by (cases st) (simp_all add: bp_locked_def)

definition bp_evolves :: "BlueprintRelease \<Rightarrow> BlueprintRelease \<Rightarrow> bool" where
  "bp_evolves r r' = (bp_identity r' = bp_identity r \<and> Revision r \<le> Revision r' \<and> (Revision r' = Revision r \<longrightarrow> r' = r) \<and>
     (bp_locked (rel_State r) \<longrightarrow> bp_content r' = bp_content r \<and> bp_rank (rel_State r) \<le> bp_rank (rel_State r')))"

lemma bp_evolves_refl [simp]: "bp_evolves r r"
  by (simp add: bp_evolves_def)

lemma bp_evolves_trans: "bp_evolves r r' \<Longrightarrow> bp_evolves r' r'' \<Longrightarrow> bp_evolves r r''"
  by (auto simp: bp_evolves_def bp_locked_rank)

definition assignment_evolves :: "Assignment \<Rightarrow> Assignment \<Rightarrow> bool" where
  "assignment_evolves a a' = (ID a' = ID a \<and> assignment_key a' = assignment_key a \<and> Revision a \<le> Revision a' \<and>
     asg_DesiredGeneration a' - asg_DesiredGeneration a \<ge> Revision a' - Revision a \<and>
     (asg_DesiredGeneration a' = asg_DesiredGeneration a \<longrightarrow> a' = a))"

lemma assignment_evolves_refl [simp]: "assignment_evolves a a"
  by (simp add: assignment_evolves_def)

lemma assignment_evolves_trans: "assignment_evolves a a' \<Longrightarrow> assignment_evolves a' a'' \<Longrightarrow> assignment_evolves a a''"
  by (auto simp: assignment_evolves_def)

lemma bp_draft_update_evolves:
  assumes "prepareBlueprintDraftUpdateLocked e k i expected revision ready plan ids s = Inr r" and "blueprint_ok e0 s"
  shows "one_write bp_evolves (blueprintReleases s) (put (ID r) r (blueprintReleases s))"
proof -
  obtain old where old: "get (blueprintReleases s) i = Some old" "rel_State old = BlueprintDraft"
    and r: "r = touch (nowUTC e k) (old\<lparr>rel_CurrentRevisionID := ID revision, rel_CurrentBlueprintDigest := bpr_BlueprintDigest revision,
      rel_CatalogDigest := bpr_CatalogDigest revision, rel_ExecutionReady := ready, rel_PlanStatus := TrimSpace plan,
      rel_UpgradeFromIDs := sort ids\<rparr>)"
    using prepareBlueprintDraftUpdate_new [OF assms(1)] by auto
  have "ID old = i" using assms(2) old(1) by (simp add: blueprint_ok_def bp_releases_ok_def)
  then show ?thesis
    using old r by (intro one_write_old [of _ _ old]) (simp_all add: bp_evolves_def bp_identity_def bp_locked_def touch_def)
qed

lemma bp_transition_evolves:
  assumes "validBlueprintTransition (rel_State old) to"
  shows "bp_evolves old (transitionedBlueprint to actor now old)"
  using assms
  by (cases "rel_State old")
    (auto simp: transitionedBlueprint_def Let_def bp_evolves_def bp_identity_def bp_content_def bp_locked_def touch_def)

lemma prepareBlueprintRelease_ID: "prepareBlueprintReleaseLocked e k release revision actor s = Inr r \<Longrightarrow> ID r = newid e k ''bpl''"
  by (drule prepareBlueprintRelease_new(1)) simp

lemma blueprint_step_releases:
  "blueprint_step e0 s s' \<Longrightarrow> blueprint_ok e0 s \<Longrightarrow> one_write bp_evolves (blueprintReleases s) (blueprintReleases s')"
proof (induction rule: blueprint_step.induct)
  case (transition s e i expected to actor)
  then show ?case
    by (auto simp: TransitionBlueprintRelease_def Let_def intro!: one_write_old bp_transition_evolves split: option.split sum.split)
qed (auto simp: same_blueprints_def CreateBlueprintRevision_def CreateBlueprintRelease_def CreateBlueprintReleaseWithRevision_def
    UpdateBlueprintReleaseDraft_def UpdateBlueprintReleaseDraftWithRevision_def CreateAssignment_def UpdateAssignment_def Let_def
    fresh_blueprint_ids_def prepareBlueprintRelease_ID bp_draft_update_evolves intro!: one_write_new split: option.split sum.split prod.split)

lemma blueprint_step_assignments:
  "blueprint_step e0 s s' \<Longrightarrow> blueprint_ok e0 s \<Longrightarrow> one_write assignment_evolves (assignments s) (assignments s')"
proof (induction rule: blueprint_step.induct)
  case (reassign s e i expected revisionID generation actor)
  then show ?case
    by (auto simp: UpdateAssignment_def Let_def assignment_evolves_def assignment_key_def touch_def intro!: one_write_old split: option.split)
qed (auto simp: same_blueprints_def CreateBlueprintRevision_def CreateBlueprintRelease_def CreateBlueprintReleaseWithRevision_def
    UpdateBlueprintReleaseDraft_def UpdateBlueprintReleaseDraftWithRevision_def TransitionBlueprintRelease_def CreateAssignment_def Let_def
    fresh_blueprint_ids_def intro!: one_write_new split: option.split sum.split prod.split)

text \<open>Revisions are only ever added.\<close>

lemma blueprint_step_revisions:
  assumes "blueprint_step e0 s s'" and "blueprint_ok e0 s" and "get (revisions s) i = Some v"
  shows "get (revisions s') i = Some v"
proof -
  have new: "i \<noteq> ID w" if "prepareBlueprintRevisionLocked e r s = Inr (w, False)" "fresh_blueprint_ids e s" for e r w
    using prepareBlueprintRevision_cases [OF that(1) assms(2) that(2)] assms(3) by auto
  show ?thesis
    using assms new
    by (cases rule: blueprint_step.cases)
      (auto simp: same_blueprints_def CreateBlueprintRevision_def CreateBlueprintRelease_def CreateBlueprintReleaseWithRevision_def
        UpdateBlueprintReleaseDraft_def UpdateBlueprintReleaseDraftWithRevision_def TransitionBlueprintRelease_def CreateAssignment_def
        UpdateAssignment_def Let_def split: option.split sum.split prod.split)
qed

interpretation bpl: resource_history "blueprint_step e0" "blueprint_ok e0" blueprintReleases bp_evolves for e0
  by unfold_locales
    (blast intro: blueprint_step_ok one_writeD [OF blueprint_step_releases] bp_evolves_refl bp_evolves_trans)+

interpretation bpr: resource_history "blueprint_step e0" "blueprint_ok e0" revisions "(=)" for e0
  by unfold_locales (auto dest: blueprint_step_ok blueprint_step_revisions)

interpretation asn: resource_history "blueprint_step e0" "blueprint_ok e0" assignments assignment_evolves for e0
  by unfold_locales
    (blast intro: blueprint_step_ok one_writeD [OF blueprint_step_assignments] assignment_evolves_refl assignment_evolves_trans)+

section \<open>Theorems\<close>

text \<open>
  C28: Publication freezes a blueprint. From the moment a blueprint release is published, no sequence of
  blueprint and catalog calls changes its identity, the revision and digests it names, its upgrade
  sources, its plan status or who requested and published it; its state only moves on from published to
  deprecated to revoked, and the revision it names stays stored unchanged.
\<close>
theorem published_blueprint_is_frozen:
  assumes "(blueprint_step e)\<^sup>*\<^sup>* NewMemoryStoreWith s" and "(blueprint_step e)\<^sup>*\<^sup>* s s'"
    and "get (blueprintReleases s) i = Some r" and "rel_State r \<in> {BlueprintPublished, BlueprintDeprecated, BlueprintRevoked}"
  shows "\<exists>r' v. get (blueprintReleases s') i = Some r' \<and> bp_identity r' = bp_identity r \<and> bp_content r' = bp_content r \<and>
    bp_rank (rel_State r) \<le> bp_rank (rel_State r') \<and>
    get (revisions s) (rel_CurrentRevisionID r) = Some v \<and> get (revisions s') (rel_CurrentRevisionID r) = Some v"
proof -
  have ok: "blueprint_ok e s" using bpl.inv_runs [OF assms(1) blueprint_ok_init] .
  then obtain v where v: "get (revisions s) (rel_CurrentRevisionID r) = Some v"
    using assms(3) by (auto simp: blueprint_ok_def bp_releases_ok_def bp_release_ok_def bp_points_def)
  show ?thesis
    using bpl.history [OF assms(2) ok assms(3)] bpr.history [OF assms(2) ok v] v assms(4)
    by (auto simp: bp_evolves_def bp_locked_def)
qed

text \<open>
  C29: What a published blueprint is made of. In every store the blueprint and catalog calls can lead
  to, a published, deprecated or revoked blueprint release names a stored revision of its own project
  and version with exactly the digests of the release; and when it is linked to a catalog release, that
  one is published or later, carries a verified signature, and the digest the blueprint was built
  against is the SHA-256 of the stored catalog payload.
\<close>
theorem published_blueprint_is_backed:
  assumes "(blueprint_step e)\<^sup>*\<^sup>* NewMemoryStoreWith s" and "get (blueprintReleases s) i = Some r"
    and "rel_State r \<in> {BlueprintPublished, BlueprintDeprecated, BlueprintRevoked}"
  shows "(\<exists>v. get (revisions s) (rel_CurrentRevisionID r) = Some v \<and> bpr_ProjectID v = rel_ProjectID r \<and>
      bpr_BlueprintVersion v = rel_BlueprintVersion r \<and> bpr_BlueprintDigest v = rel_CurrentBlueprintDigest r \<and>
      bpr_CatalogDigest v = rel_CatalogDigest r) \<and>
    (TrimSpace (rel_CatalogReleaseID r) = '''' \<or>
     (\<exists>c w. get (catalogReleases s) (rel_CatalogReleaseID r) = Some c \<and> signed e (catalogTrustKeys s) c \<and>
        ctl_State c \<in> {CatalogPublished, CatalogDeprecated, CatalogRevoked} \<and>
        get (catalogRevisions s) (ctl_CurrentRevisionID c) = Some w \<and>
        rel_CatalogDigest r = ''sha256:'' @ sha256hex e (ctr_Payload w)))"
proof -
  have ok: "blueprint_ok e s" using bpl.inv_runs [OF assms(1) blueprint_ok_init] .
  then have r: "bp_points (revisions s) r" "catalog_backs (catalogReleases s) r"
    using assms(2,3) by (auto simp: blueprint_ok_def bp_releases_ok_def bp_release_ok_def bp_locked_def)
  have "signed e (catalogTrustKeys s) c \<and> (\<exists>w. get (catalogRevisions s) (ctl_CurrentRevisionID c) = Some w \<and>
      ctl_ManifestDigest c = ''sha256:'' @ sha256hex e (ctr_Payload w))"
    if "get (catalogReleases s) j = Some c" "locked (ctl_State c)" for j c
    using that ok by (fastforce simp: blueprint_ok_def catalog_ok_def releases_ok_def release_ok_def points_to_def revisions_ok_def)
  then have "TrimSpace (rel_CatalogReleaseID r) = '''' \<or>
     (\<exists>c w. get (catalogReleases s) (rel_CatalogReleaseID r) = Some c \<and> signed e (catalogTrustKeys s) c \<and> locked (ctl_State c) \<and>
        get (catalogRevisions s) (ctl_CurrentRevisionID c) = Some w \<and> rel_CatalogDigest r = ''sha256:'' @ sha256hex e (ctr_Payload w))"
    using r(2) unfolding catalog_backs_def by metis
  then show ?thesis using r(1) by (auto simp: bp_points_def locked_def)
qed

text \<open>
  C30: Upgrades never run in a circle. In every store the calls can lead to, the graph whose edges
  lead from a blueprint release to the releases it is an upgrade source of has no cycle, and every
  upgrade source is a release of the same project and blueprint that has been published.
\<close>
theorem upgrade_graph_is_acyclic:
  assumes "(blueprint_step e)\<^sup>*\<^sup>* NewMemoryStoreWith s"
  shows "acyclic {(j, i). \<exists>r. get (blueprintReleases s) i = Some r \<and> j \<in> set (rel_UpgradeFromIDs r)} \<and>
    (\<forall>i r j. get (blueprintReleases s) i = Some r \<and> j \<in> set (rel_UpgradeFromIDs r) \<longrightarrow>
       (\<exists>source. get (blueprintReleases s) j = Some source \<and> rel_ProjectID source = rel_ProjectID r \<and>
          rel_BlueprintName source = rel_BlueprintName r \<and>
          rel_State source \<in> {BlueprintPublished, BlueprintDeprecated, BlueprintRevoked}))"
proof -
  have "bp_releases_ok (catalogReleases s) (revisions s) (blueprintReleases s)"
    using bpl.inv_runs [OF assms blueprint_ok_init] by (simp add: blueprint_ok_def)
  then show ?thesis by (fastforce simp: bp_releases_ok_def upgrade_edges_def sources_ok_def bp_locked_def)
qed


text \<open>
  Assignments only move forward. In every store the calls can lead to, a project has at most one
  assignment per target and it names a stored revision; along every run an assignment keeps its project
  and target, its desired generation grows at least by one with every change, and an unchanged
  generation means an unchanged record.
\<close>
lemma assignments_move_forward:
  assumes "(blueprint_step e)\<^sup>*\<^sup>* NewMemoryStoreWith s" and "(blueprint_step e)\<^sup>*\<^sup>* s s'" and "get (assignments s) i = Some a"
  shows "\<exists>a'. get (assignments s') i = Some a' \<and> assignment_key a' = assignment_key a \<and>
    0 \<le> Revision a' - Revision a \<and> Revision a' - Revision a \<le> asg_DesiredGeneration a' - asg_DesiredGeneration a \<and>
    (asg_DesiredGeneration a' = asg_DesiredGeneration a \<longrightarrow> a' = a) \<and>
    get (revisions s') (asg_BlueprintRevisionID a') \<noteq> None \<and>
    (\<forall>j b. get (assignments s') j = Some b \<and> assignment_key b = assignment_key a \<longrightarrow> j = i)"
proof -
  have ok: "blueprint_ok e s" using bpl.inv_runs [OF assms(1) blueprint_ok_init] .
  have ok': "assignments_ok (revisions s') (assignments s')" using bpl.inv_runs [OF assms(2) ok] by (simp add: blueprint_ok_def)
  obtain a' where a': "get (assignments s') i = Some a'" "assignment_evolves a a'" using asn.history [OF assms(2) ok assms(3)] by blast
  have u: "unique_by assignment_key (assignments s')" using ok' by (simp add: assignments_ok_def)
  have "\<forall>j b. get (assignments s') j = Some b \<and> assignment_key b = assignment_key a \<longrightarrow> j = i"
    using unique_by_D [OF u _ a'(1)] a'(2) unfolding assignment_evolves_def by metis
  moreover have "get (revisions s') (asg_BlueprintRevisionID a') \<noteq> None"
    using ok' a'(1) unfolding assignments_ok_def by blast
  moreover have "assignment_key a' = assignment_key a" "0 \<le> Revision a' - Revision a"
    "Revision a' - Revision a \<le> asg_DesiredGeneration a' - asg_DesiredGeneration a"
    "asg_DesiredGeneration a' = asg_DesiredGeneration a \<longrightarrow> a' = a"
    using a'(2) unfolding assignment_evolves_def by simp_all
  ultimately show ?thesis using a'(1) by blast
qed

text \<open>
  A padded catalog link is a dead end. Creating a blueprint release looks its catalog release up
  under the trimmed identifier but stores the identifier as given, and publishing looks up the stored
  one. So a release that was accepted with an identifier that is no key of the catalog is never
  published, whatever calls follow.
\<close>
lemma padded_catalog_link_cannot_publish:
  assumes "(blueprint_step e)\<^sup>*\<^sup>* NewMemoryStoreWith s" and "fresh_blueprint_ids e1 s"
    and "CreateBlueprintRelease e1 release actor s = (Inr r, s1)" and "(blueprint_step e)\<^sup>*\<^sup>* s1 s2"
    and "TrimSpace (rel_CatalogReleaseID release) \<noteq> ''''" and "get (catalogReleases s2) (rel_CatalogReleaseID release) = None"
  shows "\<exists>r'. get (blueprintReleases s2) (ID r) = Some r' \<and>
    rel_State r' \<notin> {BlueprintPublished, BlueprintDeprecated, BlueprintRevoked}"
proof -
  have ok: "blueprint_ok e s" using bpl.inv_runs [OF assms(1) blueprint_ok_init] .
  have ok1: "blueprint_ok e s1" using CreateBlueprintRelease_ok [OF ok assms(2)] assms(3) by (metis snd_conv)
  obtain revision where p: "prepareBlueprintReleaseLocked e1 0 release revision actor s = Inr r"
    and "s1 = commitBlueprintReleaseLocked e1 1 r actor s"
    using assms(3) by (auto simp: CreateBlueprintRelease_def split: option.split_asm sum.split_asm)
  then have "get (blueprintReleases s1) (ID r) = Some r" by simp
  then obtain r' where r': "get (blueprintReleases s2) (ID r) = Some r'" "bp_evolves r r'" using bpl.history [OF assms(4) ok1] by blast
  have "rel_CatalogReleaseID r = rel_CatalogReleaseID release"
    using prepareBlueprintRelease_new(1) [OF p] by (simp add: stamp_def)
  then have "\<not> catalog_backs (catalogReleases s2) r'"
    using r'(2) assms(5,6) by (simp add: catalog_backs_def bp_evolves_def bp_identity_def)
  then have "\<not> bp_locked (rel_State r')"
    using bpl.inv_runs [OF assms(4) ok1] r'(1) by (auto simp: blueprint_ok_def bp_releases_ok_def bp_release_ok_def)
  then show ?thesis using r'(1) by (simp add: bp_locked_def)
qed

text \<open>
  An assignment can cross projects. Assigning a target of one project to a stored blueprint
  revision of a different project succeeds and is stored.
\<close>
lemma assignment_crosses_projects:
  assumes "get (projects s) (asg_ProjectID a) \<noteq> None" and "get (revisions s) (asg_BlueprintRevisionID a) = Some v"
    and "TrimSpace (asg_TargetRef a) \<noteq> ''''" and "\<forall>b \<in> set (vals (assignments s)). assignment_key b \<noteq> assignment_key a"
    and "bpr_ProjectID v \<noteq> asg_ProjectID a"
  shows "\<exists>a' s'. CreateAssignment e a actor s = (Inr a', s') \<and> get (assignments s') (ID a') = Some a' \<and>
    asg_ProjectID a' = asg_ProjectID a \<and> get (revisions s') (asg_BlueprintRevisionID a') = Some v \<and>
    bpr_ProjectID v \<noteq> asg_ProjectID a'"
proof -
  have "\<not> list_ex (\<lambda>x. asg_ProjectID x = asg_ProjectID a \<and> asg_TargetRef x = asg_TargetRef a) (vals (assignments s))"
    using assms(4) by (auto simp: list_ex_iff assignment_key_def)
  then show ?thesis using assms by (simp add: CreateAssignment_def Let_def stamp_def)
qed

section \<open>A concrete blueprint\<close>

lemma catalog_calls_blueprints:
  "same_blueprints s (snd (CreateCatalogTrustKey e key actor s))"
  "same_blueprints s (snd (RevokeCatalogTrustKey e i expected actor s))"
  "same_blueprints s (snd (CreateCatalogRevision e revision actor s))"
  "same_blueprints s (snd (CreateCatalogReleaseWithRevision e revision release actor s))"
  "same_blueprints s (snd (SubmitCatalogReleaseReview e i expected keyID fingerprint signature actor s))"
  "same_blueprints s (snd (TransitionCatalogRelease e i expected to actor s))"
  by (simp_all add: same_blueprints_def CreateCatalogTrustKey_def RevokeCatalogTrustKey_def CreateCatalogRevision_def
      CreateCatalogReleaseWithRevision_def SubmitCatalogReleaseReview_def TransitionCatalogRelease_def
      commitCatalogRevisionLocked_def commitCatalogReleaseLocked_def saveCatalogRelease_def Let_def
      split: option.split sum.split prod.split)

definition bp_project :: "string \<Rightarrow> Project" where
  "bp_project i = \<lparr>ID = i, Revision = 1, CreatedAt = 0, UpdatedAt = 0, prj_OrganizationID = ''org'', prj_Name = i, prj_DisplayName = i\<rparr>"

definition bp_revision :: "string \<Rightarrow> BlueprintRevision" where
  "bp_revision version = \<lparr>ID = '''', Revision = 0, CreatedAt = 0, UpdatedAt = 0, bpr_ProjectID = ''p1'', bpr_BlueprintName = ''Edge'',
     bpr_BlueprintVersion = version, bpr_BlueprintDigest = ''sha256:'' @ version, bpr_CatalogDigest = digestPayload (cat_env 0) ''{}'',
     bpr_BaseBlueprintDigest = '''', bpr_OverlayDigest = '''', bpr_OwnershipDigest = '''', bpr_ProviderOverlayID = '''',
     bpr_EnvironmentOverlayID = '''', bpr_BasePayload = '''', bpr_ResolutionPayload = ''{}'', bpr_Payload = ''{}''\<rparr>"

definition bp_release :: "string \<Rightarrow> string list \<Rightarrow> BlueprintRelease" where
  "bp_release link upgrades = \<lparr>ID = '''', Revision = 0, CreatedAt = 0, UpdatedAt = 0, rel_ProjectID = ''p1'', rel_BlueprintName = ''Edge'',
     rel_BlueprintVersion = ''3'', rel_State = BlueprintDraft, rel_CurrentRevisionID = ''bprxxxxxxxxxxxx'',
     rel_CurrentBlueprintDigest = ''sha256:3'', rel_CatalogDigest = digestPayload (cat_env 0) ''{}'', rel_CatalogReleaseID = link,
     rel_SourceReleaseID = '''', rel_UpgradeFromIDs = upgrades, rel_ExecutionReady = True, rel_PlanStatus = '''',
     rel_RequestedBy = '''', rel_ReviewRequestedAt = None, rel_PublishedBy = '''', rel_PublishedAt = None,
     rel_DeprecatedBy = '''', rel_DeprecatedAt = None, rel_RevokedBy = '''', rel_RevokedAt = None\<rparr>"

text \<open>
  A release of version 1 linked to the published catalog and published itself, a release of version 2
  that upgrades it, an assignment, a revision of version 3, and a release of that with a padded link.
\<close>

definition bp_projects :: "MemoryStore \<Rightarrow> MemoryStore" where
  "bp_projects s = s\<lparr>projects := [(''p1'', bp_project ''p1''), (''p2'', bp_project ''p2'')]\<rparr>"

definition bp_first :: "MemoryStore \<Rightarrow> MemoryStore" where
  "bp_first s = snd (CreateBlueprintReleaseWithRevision (cat_env 6) (bp_revision ''1'') (bp_release ''ctlxx'' []) ''alice'' s)"

definition bp_publish :: "MemoryStore \<Rightarrow> MemoryStore" where
  "bp_publish s = snd (TransitionBlueprintRelease (cat_env 8) ''bplxxxxxxx'' 2 BlueprintPublished ''bob''
     (snd (TransitionBlueprintRelease (cat_env 7) ''bplxxxxxxx'' 1 BlueprintReview ''alice'' s)))"

definition bp_second :: "MemoryStore \<Rightarrow> MemoryStore" where
  "bp_second s = snd (CreateBlueprintReleaseWithRevision (cat_env 9) (bp_revision ''2'') (bp_release '''' [''bplxxxxxxx'']) ''alice'' s)"

definition bp_assignment :: "string \<Rightarrow> Assignment" where
  "bp_assignment p = \<lparr>ID = '''', Revision = 0, CreatedAt = 0, UpdatedAt = 0, asg_ProjectID = p, asg_TargetRef = ''cluster/a'',
     asg_BlueprintRevisionID = ''bprxxxxxxx'', asg_DesiredGeneration = 0, asg_ObservedGeneration = 0\<rparr>"

definition bp_assign :: "MemoryStore \<Rightarrow> MemoryStore" where
  "bp_assign s = snd (CreateAssignment (cat_env 10) (bp_assignment ''p1'') ''alice'' s)"

definition bp_reassign :: "MemoryStore \<Rightarrow> MemoryStore" where
  "bp_reassign s = snd (UpdateAssignment (cat_env 11) ''asnxxxxxxxxxxx'' 1 ''bprxxxxxxxxxx'' 5 ''alice'' s)"

definition bp_third :: "MemoryStore \<Rightarrow> BlueprintRevision call" where
  "bp_third s = CreateBlueprintRevision (cat_env 11) (bp_revision ''3'') ''alice'' s"

definition bp_padded :: "MemoryStore \<Rightarrow> BlueprintRelease call" where
  "bp_padded s = CreateBlueprintRelease (cat_env 12) (bp_release '' ctlxx'' []) ''alice'' s"

definition bp_again :: "MemoryStore \<Rightarrow> BlueprintRevision call" where
  "bp_again s = CreateBlueprintRevision (cat_env 13) ((bp_revision ''3'')\<lparr>bpr_Payload := ''[1]''\<rparr>) ''bob'' s"

definition bp_free :: "nat \<Rightarrow> MemoryStore \<Rightarrow> bool" where
  "bp_free n s = (let x = replicate (Suc n) (CHR ''x'') in get (revisions s) (''bpr'' @ x) = None \<and>
     get (blueprintReleases s) (''bpl'' @ x) = None \<and> get (assignments s) (''asn'' @ x) = None)"

definition bp_check :: bool where
  "bp_check =
     (let t0 = bp_projects cat_published; t1 = bp_first t0; t2 = bp_publish t1; t3 = bp_second t2; t4 = bp_assign t3;
          t5 = bp_reassign t4; (third, t6) = bp_third t5; (padded, t7) = bp_padded t6 in
      bp_free 6 t0 \<and> bp_free 9 t2 \<and> bp_free 10 t3 \<and> bp_free 11 t5 \<and> bp_free 12 t6 \<and> bp_free 13 t6 \<and>
      get (projects t5) ''p2'' \<noteq> None \<and> map asg_ProjectID (vals (assignments t5)) = [''p1''] \<and>
      get (catalogReleases t7) '' ctlxx'' = None \<and> \<not> isl (fst (bp_again t6)) \<and>
      (case (get (blueprintReleases t2) ''bplxxxxxxx'', get (blueprintReleases t5) ''bplxxxxxxxxxx'',
             get (assignments t4) ''asnxxxxxxxxxxx'', get (assignments t5) ''asnxxxxxxxxxxx'', third, padded) of
         (Some r1, Some r2, Some a, Some a', Inr v, Inr r3) \<Rightarrow>
           rel_State r1 = BlueprintPublished \<and> rel_CatalogReleaseID r1 = ''ctlxx'' \<and> rel_UpgradeFromIDs r2 = [''bplxxxxxxx''] \<and>
           asg_DesiredGeneration a = 1 \<and> asg_DesiredGeneration a' = 5 \<and> isl third = False \<and> ID r3 = ''bplxxxxxxxxxxxxx''
       | _ \<Rightarrow> False) \<and>
      (case get (revisions t5) ''bprxxxxxxx'' of Some v \<Rightarrow> bpr_ProjectID v = ''p1'' | None \<Rightarrow> False))"

lemma bp_eval: bp_check
  by code_simp

abbreviation "bp_t0 \<equiv> bp_projects cat_published"
abbreviation "bp_t2 \<equiv> bp_publish (bp_first bp_t0)"
abbreviation "bp_t3 \<equiv> bp_second bp_t2"
abbreviation "bp_t4 \<equiv> bp_assign bp_t3"
abbreviation "bp_t5 \<equiv> bp_reassign bp_t4"
abbreviation "bp_t6 \<equiv> snd (bp_third bp_t5)"
abbreviation "bp_t7 \<equiv> snd (bp_padded bp_t6)"

lemma bp_facts:
  "bp_free 6 bp_t0" "bp_free 9 bp_t2" "bp_free 10 bp_t3" "bp_free 11 bp_t5" "bp_free 12 bp_t6" "bp_free 13 bp_t6"
  "get (projects bp_t5) ''p2'' \<noteq> None" "map asg_ProjectID (vals (assignments bp_t5)) = [''p1'']"
  "get (catalogReleases bp_t7) '' ctlxx'' = None"
  "\<exists>r. get (blueprintReleases bp_t2) ''bplxxxxxxx'' = Some r \<and> rel_State r = BlueprintPublished \<and> rel_CatalogReleaseID r = ''ctlxx''"
  "\<exists>r. get (blueprintReleases bp_t5) ''bplxxxxxxxxxx'' = Some r \<and> rel_UpgradeFromIDs r = [''bplxxxxxxx'']"
  "\<exists>a. get (assignments bp_t4) ''asnxxxxxxxxxxx'' = Some a \<and> asg_DesiredGeneration a = 1"
  "\<exists>v. fst (bp_third bp_t5) = Inr v" "\<exists>r. fst (bp_padded bp_t6) = Inr r \<and> ID r = ''bplxxxxxxxxxxxxx''"
  "\<exists>v. get (revisions bp_t5) ''bprxxxxxxx'' = Some v \<and> bpr_ProjectID v = ''p1''"
  "\<not> isl (fst (bp_again bp_t6))"
  using bp_eval unfolding bp_check_def Let_def case_prod_beta
  by (auto split: option.split_asm sum.split_asm)

lemma bp_fresh: "bp_free n s \<Longrightarrow> fresh_blueprint_ids (cat_env n) s"
  by (simp add: fresh_blueprint_ids_def bp_free_def Let_def)

lemma bp_run_t0: "(blueprint_step (cat_env 0))\<^sup>*\<^sup>* NewMemoryStoreWith bp_t0"
proof -
  have "blueprint_step (cat_env 0) NewMemoryStoreWith cat_s1" unfolding cat_s1_def
    by (intro blueprint_step.catalog catalog_step.create_key catalog_calls_blueprints)
      (simp add: fresh_catalog_ids_def NewMemoryStoreWith_def)
  moreover have "blueprint_step (cat_env 0) cat_s1 (cat_create 1 CatalogChannelCandidate '''' cat_s1)" unfolding cat_create_def
    by (intro blueprint_step.catalog catalog_step.create_both catalog_calls_blueprints cat_fresh cat_facts(1)) simp
  moreover have "(blueprint_step (cat_env 0))\<^sup>*\<^sup>* s (cat_publish s)" for s
  proof -
    have "blueprint_step (cat_env 0) t (snd (SubmitCatalogReleaseReview e i n k f g a t))" for t e i n k f g a
      by (intro blueprint_step.catalog catalog_step.submit catalog_calls_blueprints)
    moreover have "blueprint_step (cat_env 0) t (snd (TransitionCatalogRelease (cat_env m) i n to a t))" for t m i n to a
      by (intro blueprint_step.catalog catalog_step.transition catalog_calls_blueprints) simp
    ultimately show ?thesis unfolding cat_publish_def by (meson rtranclp.rtrancl_into_rtrancl rtranclp.rtrancl_refl)
  qed
  moreover have "blueprint_step (cat_env 0) s (bp_projects s)" for s
    by (intro blueprint_step.catalog catalog_step.other) (simp_all add: bp_projects_def same_blueprints_def)
  ultimately show ?thesis
    unfolding cat_published_def by (meson converse_rtranclp_into_rtranclp rtranclp.rtrancl_into_rtrancl)
qed

lemma bp_runs:
  "(blueprint_step (cat_env 0))\<^sup>*\<^sup>* bp_t0 bp_t2" "(blueprint_step (cat_env 0))\<^sup>*\<^sup>* bp_t2 bp_t4"
  "(blueprint_step (cat_env 0))\<^sup>*\<^sup>* bp_t4 bp_t5" "(blueprint_step (cat_env 0))\<^sup>*\<^sup>* bp_t5 bp_t6"
proof -
  have "(blueprint_step (cat_env 0))\<^sup>*\<^sup>* s (bp_publish s)" for s
    unfolding bp_publish_def by (meson blueprint_step.transition rtranclp.rtrancl_into_rtrancl rtranclp.rtrancl_refl)
  moreover have "blueprint_step (cat_env 0) bp_t0 (bp_first bp_t0)" unfolding bp_first_def
    by (intro blueprint_step.both bp_fresh bp_facts)
  ultimately show "(blueprint_step (cat_env 0))\<^sup>*\<^sup>* bp_t0 bp_t2" by (meson converse_rtranclp_into_rtranclp)
  have "blueprint_step (cat_env 0) bp_t2 bp_t3" unfolding bp_second_def by (intro blueprint_step.both bp_fresh bp_facts)
  moreover have "blueprint_step (cat_env 0) bp_t3 bp_t4" unfolding bp_assign_def by (intro blueprint_step.assign bp_fresh bp_facts)
  ultimately show "(blueprint_step (cat_env 0))\<^sup>*\<^sup>* bp_t2 bp_t4" by (meson converse_rtranclp_into_rtranclp r_into_rtranclp)
  show "(blueprint_step (cat_env 0))\<^sup>*\<^sup>* bp_t4 bp_t5" unfolding bp_reassign_def by (intro r_into_rtranclp blueprint_step.reassign)
  show "(blueprint_step (cat_env 0))\<^sup>*\<^sup>* bp_t5 bp_t6" unfolding bp_third_def
    by (intro r_into_rtranclp blueprint_step.revision bp_fresh bp_facts)
qed

lemmas bp_run_t2 = rtranclp_trans [OF bp_run_t0 bp_runs(1)]
lemmas bp_run_t4 = rtranclp_trans [OF bp_run_t2 bp_runs(2)]
lemmas bp_run_t5 = rtranclp_trans [OF bp_run_t4 bp_runs(3)]
lemmas bp_run_t6 = rtranclp_trans [OF bp_run_t5 bp_runs(4)]

theorem published_blueprint_is_frozen_witness:
  "\<exists>r r'. get (blueprintReleases bp_t2) ''bplxxxxxxx'' = Some r \<and> get (blueprintReleases bp_t4) ''bplxxxxxxx'' = Some r' \<and>
     bp_content r' = bp_content r"
proof -
  obtain r where r: "get (blueprintReleases bp_t2) ''bplxxxxxxx'' = Some r" "rel_State r = BlueprintPublished" using bp_facts(10) by blast
  then show ?thesis using published_blueprint_is_frozen [OF bp_run_t2 bp_runs(2) r(1)] by auto
qed

theorem published_blueprint_is_backed_witness:
  "\<exists>r c w. get (blueprintReleases bp_t2) ''bplxxxxxxx'' = Some r \<and> get (catalogReleases bp_t2) ''ctlxx'' = Some c \<and>
     get (catalogRevisions bp_t2) (ctl_CurrentRevisionID c) = Some w \<and> rel_CatalogDigest r = ''sha256:'' @ sha256hex (cat_env 0) (ctr_Payload w)"
proof -
  obtain r where r: "get (blueprintReleases bp_t2) ''bplxxxxxxx'' = Some r" "rel_State r = BlueprintPublished"
    and link: "rel_CatalogReleaseID r = ''ctlxx''" using bp_facts(10) by blast
  have "TrimSpace ''ctlxx'' \<noteq> ''''" by code_simp
  then show ?thesis using published_blueprint_is_backed [OF bp_run_t2 r(1)] r link by auto
qed

theorem upgrade_graph_is_acyclic_witness:
  "\<exists>r source. get (blueprintReleases bp_t5) ''bplxxxxxxxxxx'' = Some r \<and> rel_UpgradeFromIDs r = [''bplxxxxxxx''] \<and>
     get (blueprintReleases bp_t5) ''bplxxxxxxx'' = Some source \<and>
     rel_State source \<in> {BlueprintPublished, BlueprintDeprecated, BlueprintRevoked}"
proof -
  obtain r where "get (blueprintReleases bp_t5) ''bplxxxxxxxxxx'' = Some r" "rel_UpgradeFromIDs r = [''bplxxxxxxx'']" using bp_facts(11) by blast
  moreover from this obtain source where "get (blueprintReleases bp_t5) ''bplxxxxxxx'' = Some source"
    "rel_State source \<in> {BlueprintPublished, BlueprintDeprecated, BlueprintRevoked}"
    using conjunct2 [OF upgrade_graph_is_acyclic [OF bp_run_t5], rule_format, of "''bplxxxxxxxxxx''" r "''bplxxxxxxx''"] by auto
  ultimately show ?thesis by blast
qed


lemma assignments_move_forward_instance:
  "\<exists>a a'. get (assignments bp_t4) ''asnxxxxxxxxxxx'' = Some a \<and> get (assignments bp_t5) ''asnxxxxxxxxxxx'' = Some a' \<and>
     Revision a' - Revision a \<le> asg_DesiredGeneration a' - asg_DesiredGeneration a"
proof -
  obtain a where a: "get (assignments bp_t4) ''asnxxxxxxxxxxx'' = Some a" using bp_facts(12) by blast
  then show ?thesis using assignments_move_forward [OF bp_run_t4 bp_runs(3) a] by blast
qed

lemma padded_catalog_link_cannot_publish_instance:
  "\<exists>r. get (blueprintReleases bp_t7) ''bplxxxxxxxxxxxxx'' = Some r \<and>
     rel_State r \<notin> {BlueprintPublished, BlueprintDeprecated, BlueprintRevoked}"
proof -
  obtain r where r: "bp_padded bp_t6 = (Inr r, bp_t7)" "ID r = ''bplxxxxxxxxxxxxx''" using bp_facts(14) by (metis prod.collapse)
  have link: "rel_CatalogReleaseID (bp_release '' ctlxx'' []) = '' ctlxx''" by (simp add: bp_release_def)
  have "TrimSpace '' ctlxx'' \<noteq> ''''" by code_simp
  then show ?thesis
    using padded_catalog_link_cannot_publish [OF bp_run_t6 bp_fresh [OF bp_facts(5)] r(1) [unfolded bp_padded_def] rtranclp.rtrancl_refl]
      bp_facts(9) r(2) link by (simp add: bp_padded_def)
qed

lemma assignment_crosses_projects_instance:
  "\<exists>a v s'. CreateAssignment (cat_env 13) (bp_assignment ''p2'') ''alice'' bp_t5 = (Inr a, s') \<and>
     get (revisions s') (asg_BlueprintRevisionID a) = Some v \<and> bpr_ProjectID v \<noteq> asg_ProjectID a"
proof -
  obtain v where v: "get (revisions bp_t5) (asg_BlueprintRevisionID (bp_assignment ''p2'')) = Some v" "bpr_ProjectID v = ''p1''"
    using bp_facts(15) by (auto simp: bp_assignment_def)
  have "TrimSpace ''cluster/a'' \<noteq> ''''" by code_simp
  then have target: "TrimSpace (asg_TargetRef (bp_assignment ''p2'')) \<noteq> ''''" by (simp add: bp_assignment_def)
  have p2: "asg_ProjectID (bp_assignment ''p2'') = ''p2''" by (simp add: bp_assignment_def)
  have "asg_ProjectID b = ''p1''" if "b \<in> set (vals (assignments bp_t5))" for b
    using arg_cong [OF bp_facts(8), of set] that by auto
  then have keys: "\<forall>b \<in> set (vals (assignments bp_t5)). assignment_key b \<noteq> assignment_key (bp_assignment ''p2'')"
    by (auto simp: assignment_key_def p2)
  from assignment_crosses_projects [OF _ v(1) target keys, of "cat_env 13" "''alice''"] show ?thesis
    using bp_facts(7) v(2) p2 by auto
qed

end
