(* ===== verification/Overlays.thy ===== *)
theory Overlays
  imports Blueprints CatalogTrust
begin

text \<open>
  What the overlay calls keep: every stored overlay is in normal form, its digest is a function of its
  content alone, and it never changes.
\<close>

section \<open>Normal form of the changes\<close>

definition trim_change :: "BlueprintOverlayChange \<Rightarrow> BlueprintOverlayChange" where
  "trim_change c = c\<lparr>ovc_Path := TrimSpace (ovc_Path c)\<rparr>"

definition change_ok :: "BlueprintOverlayChange \<Rightarrow> bool" where
  "change_ok c = (HasPrefix (ovc_Path c) ''/spec/'' \<and> \<not> HasPrefix (ovc_Path c) ''/spec/fieldOwnership'' \<and>
     ovc_Value c \<noteq> [] \<and> json_Valid (ovc_Value c) \<and> \<not> sensitive_path (ovc_Path c))"

lemma trim_change_idem [simp]: "trim_change (trim_change c) = trim_change c"
  by (simp add: trim_change_def)

lemma normalizeChanges_iff:
  "normalizeChanges seen cs = Inr cs' \<longleftrightarrow> cs' = map trim_change cs \<and> list_all change_ok cs' \<and>
     distinct (map ovc_Path cs') \<and> (\<forall>c \<in> set cs'. ovc_Path c \<notin> set seen)"
proof (induction cs arbitrary: seen cs')
  case (Cons c cs)
  define p where "p = TrimSpace (ovc_Path c)"
  show ?case
  proof (cases "change_ok (trim_change c) \<and> p \<notin> set seen")
    case True
    then have eq: "normalizeChanges seen (c # cs) =
        (case normalizeChanges (p # seen) cs of Inl x \<Rightarrow> Inl x | Inr cs \<Rightarrow> Inr (trim_change c # cs))"
      by (simp add: change_ok_def trim_change_def p_def Let_def split: sum.split)
    have "ovc_Path (trim_change c) = p" by (simp add: trim_change_def p_def)
    moreover have "(\<forall>d \<in> set ds. ovc_Path d \<notin> set (p # seen)) \<longleftrightarrow> p \<notin> ovc_Path ` set ds \<and> (\<forall>d \<in> set ds. ovc_Path d \<notin> set seen)" for ds
      by (auto simp: image_iff)
    ultimately show ?thesis
      using True unfolding eq guard_Inr Cons.IH
      by (cases "cs' = trim_change c # map trim_change cs") (simp_all del: normalizeChanges.simps, blast)
  next
    case False
    then have "normalizeChanges seen (c # cs) = Inl ErrValidation"
      by (auto simp: change_ok_def trim_change_def p_def Let_def)
    then show ?thesis using False by (auto simp: trim_change_def p_def)
  qed
qed auto

definition overlay_head_ok :: "BlueprintOverlay \<Rightarrow> bool" where
  "overlay_head_ok v = (bov_ProjectID v \<noteq> '''' \<and> overlayName (bov_Name v) \<and> length (bov_Name v) \<le> 63 \<and>
     overlaySemver (bov_Version v) \<and> overlayName (bov_ScopeKey v) \<and> length (bov_ScopeKey v) \<le> 63 \<and>
     bov_Scope v \<in> {BlueprintOverlayProvider, BlueprintOverlayEnvironment})"

definition trim_overlay :: "BlueprintOverlay \<Rightarrow> BlueprintOverlay" where
  "trim_overlay v = v\<lparr>bov_ProjectID := TrimSpace (bov_ProjectID v), bov_Name := ToLower (TrimSpace (bov_Name v)),
     bov_Version := TrimSpace (bov_Version v), bov_ScopeKey := ToLower (TrimSpace (bov_ScopeKey v))\<rparr>"

definition overlay_digest :: "env \<Rightarrow> BlueprintOverlay \<Rightarrow> string" where
  "overlay_digest e v = sha256_digest e (marshal e (VOverlayMaterial (bov_ProjectID v) (bov_Name v) (bov_Version v) (bov_Scope v)
     (bov_ScopeKey v) (bov_Changes v)))"

lemma NormalizeBlueprintOverlay_iff:
  "NormalizeBlueprintOverlay e v = Inr w \<longleftrightarrow> overlay_head_ok (trim_overlay v) \<and>
     bov_Changes v \<noteq> [] \<and> length (bov_Changes v) \<le> 128 \<and> list_all change_ok (map trim_change (bov_Changes v)) \<and>
     distinct (map ovc_Path (map trim_change (bov_Changes v))) \<and>
     (let n = (trim_overlay v)\<lparr>bov_Changes := sort_by (less_on ovc_Path) (map trim_change (bov_Changes v))\<rparr>
      in w = n\<lparr>bov_Digest := overlay_digest e n\<rparr>)"
proof (cases "normalizeChanges [] (bov_Changes v)")
  case (Inl x)
  have "\<not> (list_all change_ok (map trim_change (bov_Changes v)) \<and> distinct (map ovc_Path (map trim_change (bov_Changes v))))"
    using normalizeChanges_iff [of "[]" "bov_Changes v" "map trim_change (bov_Changes v)"] Inl by simp
  then show ?thesis using Inl by (auto simp: NormalizeBlueprintOverlay_def Let_def)
next
  case (Inr cs)
  then have "cs = map trim_change (bov_Changes v)" "list_all change_ok cs" "distinct (map ovc_Path cs)"
    using normalizeChanges_iff by blast+
  then show ?thesis
    using Inr by (auto simp: NormalizeBlueprintOverlay_def Let_def overlay_head_ok_def trim_overlay_def overlay_digest_def)
qed

lemma trim_overlay_idem [simp]: "trim_overlay (trim_overlay v) = trim_overlay v"
  by (simp add: trim_overlay_def TrimSpace_lower)

lemma normal_is_fixed:
  assumes "NormalizeBlueprintOverlay e v = Inr w"
  shows "NormalizeBlueprintOverlay e w = Inr w"
proof -
  define n where "n = (trim_overlay v)\<lparr>bov_Changes := sort_by (less_on ovc_Path) (map trim_change (bov_Changes v))\<rparr>"
  have v: "overlay_head_ok (trim_overlay v)" "bov_Changes v \<noteq> []" "length (bov_Changes v) \<le> 128"
    "list_all change_ok (map trim_change (bov_Changes v))" "distinct (map ovc_Path (map trim_change (bov_Changes v)))"
    and w: "w = n\<lparr>bov_Digest := overlay_digest e n\<rparr>"
    using assms unfolding NormalizeBlueprintOverlay_iff Let_def n_def by simp_all
  have cs: "bov_Changes w = sort_by (less_on ovc_Path) (map trim_change (bov_Changes v))" by (simp add: w n_def)
  have "set (bov_Changes w) = set (map trim_change (bov_Changes v))" by (simp add: cs)
  then have trimmed: "map trim_change (bov_Changes w) = bov_Changes w" by (intro map_idI) auto
  have d: "distinct (map ovc_Path (bov_Changes w))" using v(5) by (simp add: cs)
  have "sort_by (less_on ovc_Path) (bov_Changes w) = bov_Changes w"
    using d by (intro sort_by_sorted) (simp_all add: cs sorted_key_order)
  moreover have "trim_overlay w = w"
    by (simp add: w n_def trim_overlay_def TrimSpace_lower)
  moreover have "overlay_head_ok w" using v(1) by (simp add: w n_def overlay_head_ok_def)
  moreover have "list_all change_ok (bov_Changes w)" using v(4) by (simp add: cs list_all_iff)
  moreover have "length (bov_Changes w) = length (bov_Changes v)" by (simp add: cs)
  then have "bov_Changes w \<noteq> []" "length (bov_Changes w) \<le> 128" using v(2,3) by auto
  moreover have "w\<lparr>bov_Changes := bov_Changes w\<rparr> = w" "w\<lparr>bov_Digest := overlay_digest e w\<rparr> = w"
    by (simp_all add: w overlay_digest_def)
  ultimately show ?thesis
    using d unfolding NormalizeBlueprintOverlay_iff Let_def trimmed by simp
qed

section \<open>Stored overlays\<close>

definition overlay_wf :: "env \<Rightarrow> BlueprintOverlay \<Rightarrow> bool" where
  "overlay_wf e v = (overlay_head_ok v \<and> 0 < length (bov_Changes v) \<and> length (bov_Changes v) \<le> 128 \<and>
     list_all change_ok (bov_Changes v) \<and> sorted (map ovc_Path (bov_Changes v)) \<and> distinct (map ovc_Path (bov_Changes v)) \<and>
     bov_Digest v = overlay_digest e v)"

lemma overlay_wf_meta [simp]:
  "overlay_wf e (stamp i t v) = overlay_wf e v" "overlay_wf e (v\<lparr>bov_CreatedBy := a\<rparr>) = overlay_wf e v"
  by (simp_all add: overlay_wf_def overlay_head_ok_def overlay_digest_def stamp_def)

lemma Normalize_wf:
  assumes "NormalizeBlueprintOverlay e v = Inr w"
  shows "overlay_wf e w"
  using assms unfolding NormalizeBlueprintOverlay_iff Let_def
  by (auto simp: overlay_wf_def overlay_head_ok_def overlay_digest_def list_all_iff sorted_key_order)

definition overlay_name :: "BlueprintOverlay \<Rightarrow> string \<times> string \<times> string" where
  "overlay_name v = (bov_ProjectID v, bov_Name v, bov_Version v)"

definition overlays_ok :: "env \<Rightarrow> MemoryStore \<Rightarrow> bool" where
  "overlays_ok e s = (well_keyed (blueprintOverlays s) \<and> unique_by overlay_name (blueprintOverlays s) \<and>
     (\<forall>i v. get (blueprintOverlays s) i = Some v \<longrightarrow> ID v = i \<and> overlay_wf e v))"

inductive overlay_step :: "env \<Rightarrow> MemoryStore \<Rightarrow> MemoryStore \<Rightarrow> bool" for e0 where
  create: "same_crypto e0 e \<Longrightarrow> (\<And>k. get (blueprintOverlays s) (newid e k ''bpo'') = None) \<Longrightarrow>
    overlay_step e0 s (snd (CreateBlueprintOverlay e overlay actor s))"
| other: "blueprintOverlays s' = blueprintOverlays s \<Longrightarrow> overlay_step e0 s s'"

lemma same_crypto_wf: "same_crypto e0 e \<Longrightarrow> overlay_wf e v = overlay_wf e0 v"
  by (simp add: same_crypto_def overlay_wf_def overlay_digest_def sha256_digest_def)

lemma CreateBlueprintOverlay_put:
  obtains (same) "snd (CreateBlueprintOverlay e overlay actor s) = s"
  | (new) v where "NormalizeBlueprintOverlay e overlay = Inr v"
      and "\<And>w. w \<in> set (vals (blueprintOverlays s)) \<Longrightarrow> overlay_name w \<noteq> overlay_name v"
      and "blueprintOverlays (snd (CreateBlueprintOverlay e overlay actor s)) =
        put (newid e 0 ''bpo'') ((stamp (newid e 0 ''bpo'') (nowUTC e 0) v)\<lparr>bov_CreatedBy := TrimSpace actor\<rparr>) (blueprintOverlays s)"
proof (cases "NormalizeBlueprintOverlay e overlay")
  case (Inr v)
  define dup where "dup = list_ex (\<lambda>w. bov_ProjectID w = bov_ProjectID v \<and> bov_Name w = bov_Name v \<and>
    bov_Version w = bov_Version v) (vals (blueprintOverlays s))"
  show thesis
  proof (cases "get (projects s) (bov_ProjectID overlay) = None \<or> dup")
    case True
    then show thesis using Inr by (intro same) (auto simp: CreateBlueprintOverlay_def dup_def)
  next
    case False
    then have "\<And>w. w \<in> set (vals (blueprintOverlays s)) \<Longrightarrow> overlay_name w \<noteq> overlay_name v"
      by (auto simp: dup_def list_ex_iff overlay_name_def)
    then show thesis using Inr False by (intro new [OF Inr]) (auto simp: CreateBlueprintOverlay_def Let_def dup_def)
  qed
qed (use same in \<open>simp add: CreateBlueprintOverlay_def split: if_split_asm\<close>)

lemma overlay_step_ok:
  assumes "overlay_step e0 s s'" and "overlays_ok e0 s"
  shows "overlays_ok e0 s' \<and> (get (blueprintOverlays s) i = Some v \<longrightarrow> get (blueprintOverlays s') i = Some v)"
  using assms(1)
proof cases
  case (create e overlay actor)
  show ?thesis
  proof (cases rule: CreateBlueprintOverlay_put [of e overlay actor s])
    case same
    then show ?thesis using create assms(2) by simp
  next
    case (new w)
    define w' where "w' = (stamp (newid e 0 ''bpo'') (nowUTC e 0) w)\<lparr>bov_CreatedBy := TrimSpace actor\<rparr>"
    have s': "blueprintOverlays s' = put (newid e 0 ''bpo'') w' (blueprintOverlays s)" using create(1) new(3) by (simp add: w'_def)
    have w': "ID w' = newid e 0 ''bpo''" "overlay_name w' = overlay_name w" by (simp_all add: w'_def overlay_name_def stamp_def)
    have wf: "overlay_wf e0 w'" using Normalize_wf [OF new(1)] same_crypto_wf [OF create(2)] by (simp add: w'_def)
    have "unique_by overlay_name (put (newid e 0 ''bpo'') w' (blueprintOverlays s))"
      using assms(2) new(2) w'(2) get_vals [of "blueprintOverlays s"] by (intro unique_by_put) (auto simp: overlays_ok_def)
    then show ?thesis using assms(2) create(3) w'(1) wf by (auto simp: overlays_ok_def s')
  qed
qed (use assms(2) in \<open>simp add: overlays_ok_def\<close>)

interpretation bpo: resource_history "overlay_step e0" "overlays_ok e0" blueprintOverlays "(=)" for e0
  by unfold_locales (auto dest: overlay_step_ok)


text \<open>The same submission up to the padding and the order of its changes.\<close>

definition same_submission :: "BlueprintOverlay \<Rightarrow> BlueprintOverlay \<Rightarrow> bool" where
  "same_submission v v' = (mset (map trim_change (bov_Changes v)) = mset (map trim_change (bov_Changes v')) \<and>
     bov_Scope v = bov_Scope v' \<and> TrimSpace (bov_ProjectID v) = TrimSpace (bov_ProjectID v') \<and>
     normalizeName (bov_Name v) = normalizeName (bov_Name v') \<and> TrimSpace (bov_Version v) = TrimSpace (bov_Version v') \<and>
     normalizeName (bov_ScopeKey v) = normalizeName (bov_ScopeKey v'))"

lemma same_submission_sym: "same_submission v v' \<Longrightarrow> same_submission v' v"
  by (simp add: same_submission_def)

lemma canonical_accepts:
  assumes "same_submission v v'" and "NormalizeBlueprintOverlay e v = Inr w"
  shows "\<exists>w'. NormalizeBlueprintOverlay e v' = Inr w' \<and> bov_Digest w' = bov_Digest w \<and> bov_Changes w' = bov_Changes w"
proof -
  let ?cs = "map trim_change (bov_Changes v)" and ?cs' = "map trim_change (bov_Changes v')"
  have m: "mset ?cs = mset ?cs'" using assms(1) by (simp add: same_submission_def)
  have v: "overlay_head_ok (trim_overlay v)" "bov_Changes v \<noteq> []" "length (bov_Changes v) \<le> 128" "list_all change_ok ?cs" "distinct (map ovc_Path ?cs)"
    and w: "bov_Changes w = sort_by (less_on ovc_Path) ?cs"
      "bov_Digest w = overlay_digest e ((trim_overlay v)\<lparr>bov_Changes := sort_by (less_on ovc_Path) ?cs\<rparr>)"
    using assms(2) unfolding NormalizeBlueprintOverlay_iff Let_def by simp_all
  have sorted: "sort_by (less_on ovc_Path) ?cs' = sort_by (less_on ovc_Path) ?cs" using sort_by_canonical [OF v(5) m] by simp
  have "length (bov_Changes v') = length (bov_Changes v)" using mset_eq_length [OF m] by simp
  then have "bov_Changes v' \<noteq> []" "length (bov_Changes v') \<le> 128" using v(2,3) by auto
  moreover have "list_all change_ok ?cs'" using v(4) mset_eq_setD [OF m] unfolding list_all_iff by blast
  moreover have "distinct (map ovc_Path ?cs')" using v(5) m by (metis mset_eq_imp_distinct_iff mset_map)
  moreover have "overlay_head_ok (trim_overlay v')"
    using v(1) assms(1) by (simp add: overlay_head_ok_def trim_overlay_def same_submission_def normalizeName_def)
  moreover have "overlay_digest e ((trim_overlay v')\<lparr>bov_Changes := cs\<rparr>) = overlay_digest e ((trim_overlay v)\<lparr>bov_Changes := cs\<rparr>)" for cs
    using assms(1) by (simp add: overlay_digest_def trim_overlay_def same_submission_def normalizeName_def)
  ultimately show ?thesis unfolding NormalizeBlueprintOverlay_iff Let_def sorted by (simp add: w)
qed

lemma normalizeChanges_error: "normalizeChanges seen cs = Inl x \<Longrightarrow> x = ErrValidation"
  by (induction seen cs rule: normalizeChanges.induct) (auto simp: Let_def split: if_split_asm sum.split_asm)

lemma NormalizeBlueprintOverlay_error: "NormalizeBlueprintOverlay e v = Inl x \<Longrightarrow> x = ErrValidation"
  using normalizeChanges_error by (auto simp: NormalizeBlueprintOverlay_def Let_def split: if_split_asm sum.split_asm)

text \<open>
  The digest of an overlay is canonical. Two submissions with the same identity and the same
  changes up to padding and order are accepted or refused alike and get the same sorted changes and
  the same digest; and normalising a normalised overlay changes nothing.
\<close>
lemma overlay_digest_is_canonical:
  assumes sub: "same_submission v v'"
  shows "(case (NormalizeBlueprintOverlay e v, NormalizeBlueprintOverlay e v') of
      (Inr w, Inr w') \<Rightarrow> bov_Digest w = bov_Digest w' \<and> bov_Changes w = bov_Changes w' \<and> NormalizeBlueprintOverlay e w = Inr w
    | (Inl x, Inl y) \<Rightarrow> x = ErrValidation \<and> y = ErrValidation
    | _ \<Rightarrow> False)"
proof (cases "NormalizeBlueprintOverlay e v")
  case (Inl x)
  have "NormalizeBlueprintOverlay e v' \<noteq> Inr w" for w
  proof
    assume "NormalizeBlueprintOverlay e v' = Inr w"
    then have "\<exists>u. NormalizeBlueprintOverlay e v = Inr u" using canonical_accepts [OF same_submission_sym [OF sub]] by blast
    then show False using Inl by simp
  qed
  then obtain y where "NormalizeBlueprintOverlay e v' = Inl y" by (meson sumE)
  then show ?thesis using Inl NormalizeBlueprintOverlay_error by auto
next
  case (Inr w)
  then obtain w' where "NormalizeBlueprintOverlay e v' = Inr w'" "bov_Digest w' = bov_Digest w" "bov_Changes w' = bov_Changes w"
    using canonical_accepts [OF sub] by blast
  then show ?thesis using Inr normal_is_fixed [OF Inr] by simp
qed

section \<open>A concrete overlay\<close>

definition demo_overlay :: "(string \<times> string) list \<Rightarrow> BlueprintOverlay" where
  "demo_overlay changes = \<lparr>ID = '''', Revision = 0, CreatedAt = 0, UpdatedAt = 0, bov_ProjectID = ''p1'', bov_Name = ''Edge-East'',
     bov_Version = ''1.0.12'', bov_Scope = BlueprintOverlayProvider, bov_ScopeKey = ''aws'', bov_Digest = '''',
     bov_Changes = map (\<lambda>(p, x). \<lparr>ovc_Path = p, ovc_Value = x\<rparr>) changes, bov_CreatedBy = ''''\<rparr>"

definition overlay_project :: "MemoryStore \<Rightarrow> MemoryStore" where
  "overlay_project s = s\<lparr>projects := [(''p1'', \<lparr>ID = ''p1'', Revision = 1, CreatedAt = 0, UpdatedAt = 0, prj_OrganizationID = ''org'',
     prj_Name = ''p1'', prj_DisplayName = ''p1''\<rparr>)]\<rparr>"

definition overlay_demo :: MemoryStore where
  "overlay_demo = snd (CreateBlueprintOverlay (cat_env 0) (demo_overlay [(''/spec/size'', ''3''), ('' /spec/region'', ''{}'')]) ''alice''
     (overlay_project NewMemoryStoreWith))"

lemma overlay_demo_eval:
  "get (blueprintOverlays overlay_demo) ''bpox'' \<noteq> None"
  "isl (NormalizeBlueprintOverlay (cat_env 0) (demo_overlay [(''/spec/db/passWord'', ''1'')]))"
  "\<not> isl (NormalizeBlueprintOverlay (cat_env 0) (demo_overlay [(''/spec/size'', ''3''), ('' /spec/region'', ''{}'')]))"
  by code_simp+


lemma overlay_digest_is_canonical_instance:
  "\<exists>w w'. NormalizeBlueprintOverlay (cat_env 0) (demo_overlay [(''/spec/size'', ''3''), ('' /spec/region'', ''{}'')]) = Inr w \<and>
     NormalizeBlueprintOverlay (cat_env 0) (demo_overlay [(''/spec/region'', ''{}''), (''/spec/size'', ''3'')]) = Inr w' \<and>
     bov_Digest w = bov_Digest w'"
proof -
  let ?v = "demo_overlay [(''/spec/size'', ''3''), ('' /spec/region'', ''{}'')]"
  let ?v' = "demo_overlay [(''/spec/region'', ''{}''), (''/spec/size'', ''3'')]"
  have "map trim_change (bov_Changes ?v) = rev (map trim_change (bov_Changes ?v'))" by code_simp
  then have "same_submission ?v ?v'" by (simp add: same_submission_def demo_overlay_def)
  from overlay_digest_is_canonical [OF this, of "cat_env 0"] overlay_demo_eval(3) show ?thesis
    by (auto split: sum.split_asm)
qed

end
