(* ===== verification/Identity.thy ===== *)
theory Identity
  imports IdentityAuthority CatalogTrust
begin

text \<open>
  What the identity authority keeps: the security audit log is a valid hash chain that cannot be
  rewritten unnoticed, and the roles a caller gets are the highest ones its active group mappings
  grant.
\<close>

section \<open>The hash chain\<close>

lemma validateChain_snoc:
  "validateChain e prev i (xs @ [v]) = Inr () \<longleftrightarrow> validateChain e prev i xs = Inr () \<and> sae_Sequence v = int (i + length xs) + 1 \<and>
     sae_MethodVersion v = SecurityAuditMethod \<and> sae_PreviousDigest v = (if xs = [] then prev else sae_Digest (last xs)) \<and>
     sae_Digest v \<noteq> '''' \<and> SecurityAuditEventDigest e v = sae_Digest v"
  by (induction xs arbitrary: prev i) auto

definition audit_ok :: "env \<Rightarrow> MemoryStore \<Rightarrow> bool" where
  "audit_ok e s = (ValidateSecurityAuditChain e (securityAudit s) = Inr ())"

inductive security_step :: "env \<Rightarrow> MemoryStore \<Rightarrow> MemoryStore \<Rightarrow> bool" for e0 where
  append: "same_crypto e0 e \<Longrightarrow> security_step e0 s (snd (AppendSecurityAudit e input s))"
| other: "securityAudit s' = securityAudit s \<Longrightarrow> security_step e0 s s'"

lemma AppendSecurityAudit_cases:
  obtains (same) "snd (AppendSecurityAudit e input s) = s"
  | (new) v where "securityAudit (snd (AppendSecurityAudit e input s)) = securityAudit s @ [v]"
      and "sae_Sequence v = int (length (securityAudit s)) + 1" and "sae_MethodVersion v = SecurityAuditMethod"
      and "sae_PreviousDigest v = (if securityAudit s = [] then '''' else sae_Digest (last (securityAudit s)))"
      and "sae_Digest v = SecurityAuditEventDigest e v"
proof (cases "ValidateSecurityAuditInput (input\<lparr>sai_OAuthClientID := TrimSpace (sai_OAuthClientID input),
    sai_MCPInteropBindingDigest := TrimSpace (sai_MCPInteropBindingDigest input)\<rparr>)")
  case (Inl x)
  then show thesis using same by (simp add: AppendSecurityAudit_def)
next
  case (Inr u)
  have "sae_Digest (v\<lparr>sae_Digest := SecurityAuditEventDigest e v\<rparr>) = SecurityAuditEventDigest e (v\<lparr>sae_Digest := SecurityAuditEventDigest e v\<rparr>)"
    for v :: SecurityAuditEvent by (simp add: SecurityAuditEventDigest_def)
  then show thesis
    using Inr by (intro new [of "projr (fst (AppendSecurityAudit e input s))"])
      (simp_all add: AppendSecurityAudit_def Let_def SecurityAuditInput.defs)
qed

lemma same_crypto_chain: "same_crypto e0 e \<Longrightarrow> SecurityAuditEventDigest e v = SecurityAuditEventDigest e0 v"
  by (simp add: same_crypto_def SecurityAuditEventDigest_def sha256_digest_def)

lemma security_step_ok:
  assumes "security_step e0 s s'" and "audit_ok e0 s"
  shows "audit_ok e0 s' \<and> (\<exists>new. securityAudit s' = securityAudit s @ new)"
  using assms(1)
proof cases
  case (append e input)
  show ?thesis
  proof (cases rule: AppendSecurityAudit_cases [of e input s])
    case same
    then show ?thesis using append assms(2) by simp
  next
    case (new v)
    moreover have "sae_Digest v \<noteq> ''''" using new(5) by (simp add: SecurityAuditEventDigest_def sha256_digest_def)
    ultimately show ?thesis
      using append assms(2) same_crypto_chain [OF append(2)]
      by (simp add: audit_ok_def ValidateSecurityAuditChain_def validateChain_snoc)
  qed
qed (use assms(2) in \<open>simp add: audit_ok_def\<close>)

lemma security_runs:
  assumes "(security_step e0)\<^sup>*\<^sup>* s s'" and "audit_ok e0 s"
  shows "audit_ok e0 s' \<and> (\<exists>new. securityAudit s' = securityAudit s @ new)"
  using assms(1)
proof (induction rule: rtranclp_induct)
  case (step t t')
  then show ?case using security_step_ok [OF step(2)] by (metis append_assoc)
qed (use assms(2) in simp)

lemma audit_ok_init: "audit_ok e NewMemoryStoreWith"
  by (simp add: audit_ok_def ValidateSecurityAuditChain_def NewMemoryStoreWith_def)

text \<open>
  C33: The security audit log is a valid chain that only grows. In every store the calls can lead to,
  the log passes the chain validation - consecutive sequence numbers, each event naming the digest of
  the one before and carrying its own - and every later log extends it at its end.
\<close>
theorem security_audit_chain_is_valid:
  assumes "(security_step e)\<^sup>*\<^sup>* NewMemoryStoreWith s" and "(security_step e)\<^sup>*\<^sup>* s s'"
  shows "ValidateSecurityAuditChain e (securityAudit s') = Inr () \<and> (\<exists>new. securityAudit s' = securityAudit s @ new)"
  using security_runs [OF assms(2) conjunct1 [OF security_runs [OF assms(1) audit_ok_init]]] by (simp add: audit_ok_def)

text \<open>Two valid chains that end in the same digest are the same, as long as digests do not collide.\<close>

lemma chains_agree:
  assumes "validateChain e '''' 0 xs = Inr ()" and "validateChain e '''' 0 ys = Inr ()"
    and "xs = [] \<longleftrightarrow> ys = []" and "xs \<noteq> [] \<Longrightarrow> sae_Digest (last xs) = sae_Digest (last ys)"
    and "\<And>v w. v \<in> set xs \<Longrightarrow> w \<in> set ys \<Longrightarrow> SecurityAuditEventDigest e v = SecurityAuditEventDigest e w \<Longrightarrow>
      v\<lparr>sae_Digest := ''''\<rparr> = w\<lparr>sae_Digest := ''''\<rparr>"
  shows "xs = ys"
  using assms
proof (induction xs arbitrary: ys rule: rev_induct)
  case (snoc v xs)
  then obtain w zs where ys: "ys = zs @ [w]" by (metis append_is_Nil_conv list.discI rev_exhaust)
  note v = snoc.prems(1) [unfolded validateChain_snoc] and w = snoc.prems(2) [unfolded ys validateChain_snoc]
  have d: "sae_Digest v = sae_Digest w" using snoc.prems(4) ys by simp
  then have "v\<lparr>sae_Digest := ''''\<rparr> = w\<lparr>sae_Digest := ''''\<rparr>" using snoc.prems(5) [of v w] v w ys by simp
  then have "v = w" using d by (cases v; cases w) (simp add: SecurityAuditInput.defs)
  moreover from this have "length xs = length zs" using v w by simp
  then have "xs = [] \<longleftrightarrow> zs = []" by auto
  moreover have "xs = zs"
  proof (rule snoc.IH)
    show "xs = [] \<longleftrightarrow> zs = []" by fact
    show "sae_Digest (last xs) = sae_Digest (last zs)" if "xs \<noteq> []"
      using that v w \<open>v = w\<close> \<open>xs = [] \<longleftrightarrow> zs = []\<close> by simp
  qed (use v w ys snoc.prems(5) in auto)
  ultimately show ?case using ys by simp
qed simp


section \<open>Group mappings\<close>

definition mapping_ok :: "OIDCGroupMapping \<Rightarrow> bool" where
  "mapping_ok m = (ValidateOIDCGroupMapping m = Inr () \<and> TrimSpace (ogm_ProductRole m) = ogm_ProductRole m \<and>
     TrimSpace (ogm_ProjectRole m) = ogm_ProjectRole m)"

definition mappings_ok :: "MemoryStore \<Rightarrow> bool" where
  "mappings_ok s = (well_keyed (oidcGroupMappings s) \<and> (\<forall>i m. get (oidcGroupMappings s) i = Some m \<longrightarrow> ID m = i \<and> mapping_ok m))"

definition mapping_evolves :: "OIDCGroupMapping \<Rightarrow> OIDCGroupMapping \<Rightarrow> bool" where
  "mapping_evolves m m' = (m' = m \<or> (ogm_State m' = OIDCGroupMappingRevoked \<and> ogm_State m \<noteq> OIDCGroupMappingRevoked))"

inductive mapping_step :: "MemoryStore \<Rightarrow> MemoryStore \<Rightarrow> bool" where
  create: "(\<And>k. get (oidcGroupMappings s) (newid e k ''ogm'') = None) \<Longrightarrow> mapping_step s (snd (CreateOIDCGroupMapping e v actor s))"
| revoke: "mapping_step s (snd (RevokeOIDCGroupMapping e i expected actor s))"
| other: "oidcGroupMappings s' = oidcGroupMappings s \<Longrightarrow> mapping_step s s'"

lemma mapping_ok_meta [simp]:
  "mapping_ok (stamp i t m) = mapping_ok m" "mapping_ok (m\<lparr>ogm_State := st\<rparr>) = mapping_ok m"
  "mapping_ok (m\<lparr>ogm_CreatedBy := a\<rparr>) = mapping_ok m" "mapping_ok (m\<lparr>ogm_RevokedBy := a\<rparr>) = mapping_ok m"
  "mapping_ok (m\<lparr>ogm_RevokedAt := o1\<rparr>) = mapping_ok m" "mapping_ok (touch t m) = mapping_ok m"
  by (simp_all add: mapping_ok_def ValidateOIDCGroupMapping_def stamp_def touch_def)

lemma trimmed_mapping_ok:
  "ValidateOIDCGroupMapping (v\<lparr>ogm_Group := g, ogm_ProductRole := TrimSpace p, ogm_OrganizationID := org, ogm_ProjectID := prj,
     ogm_ProjectRole := TrimSpace r\<rparr>) = Inr () \<Longrightarrow>
   mapping_ok (v\<lparr>ogm_Group := g, ogm_ProductRole := TrimSpace p, ogm_OrganizationID := org, ogm_ProjectID := prj, ogm_ProjectRole := TrimSpace r\<rparr>)"
  by (simp add: mapping_ok_def)

lemma create_mapping_ok:
  assumes "mappings_ok s" and "\<And>k. get (oidcGroupMappings s) (newid e k ''ogm'') = None"
  shows "mappings_ok (snd (CreateOIDCGroupMapping e v actor s))"
    and "one_write mapping_evolves (oidcGroupMappings s) (oidcGroupMappings (snd (CreateOIDCGroupMapping e v actor s)))"
  using assms
  by (auto simp: CreateOIDCGroupMapping_def Let_def mappings_ok_def intro!: one_write_new trimmed_mapping_ok split: sum.split)

lemma revoke_mapping_ok:
  assumes "mappings_ok s"
  shows "mappings_ok (snd (RevokeOIDCGroupMapping e i expected actor s))"
    and "one_write mapping_evolves (oidcGroupMappings s) (oidcGroupMappings (snd (RevokeOIDCGroupMapping e i expected actor s)))"
proof -
  show "mappings_ok (snd (RevokeOIDCGroupMapping e i expected actor s))"
    using assms by (auto simp: RevokeOIDCGroupMapping_def Let_def mappings_ok_def split: option.split)
  show "one_write mapping_evolves (oidcGroupMappings s) (oidcGroupMappings (snd (RevokeOIDCGroupMapping e i expected actor s)))"
    using assms
    by (auto simp: RevokeOIDCGroupMapping_def Let_def mappings_ok_def mapping_evolves_def touch_def intro!: one_write_old split: option.split)
qed

lemma mapping_step_ok: "mapping_step s s' \<Longrightarrow> mappings_ok s \<Longrightarrow>
    mappings_ok s' \<and> one_write mapping_evolves (oidcGroupMappings s) (oidcGroupMappings s')"
  by (induction rule: mapping_step.induct) (auto simp: create_mapping_ok revoke_mapping_ok, simp_all add: mappings_ok_def)

interpretation ogm: resource_history mapping_step mappings_ok oidcGroupMappings mapping_evolves
proof unfold_locales
  show "mapping_evolves m m" for m by (simp add: mapping_evolves_def)
  show "\<exists>v'. get (oidcGroupMappings s') i = Some v' \<and> mapping_evolves v v'"
    if "mapping_step s s'" "mappings_ok s" "get (oidcGroupMappings s) i = Some v" for s s' i v
    using one_writeD [OF conjunct2 [OF mapping_step_ok [OF that(1,2)]] that(3)] by (simp add: mapping_evolves_def)
qed (auto dest: mapping_step_ok simp: mapping_evolves_def)

lemma mappings_ok_init: "mappings_ok NewMemoryStoreWith"
  by (simp add: mappings_ok_def NewMemoryStoreWith_def)

section \<open>Resolution\<close>

text \<open>The loop leaves in every scope the first of the highest roles it met.\<close>

lemma fold_raise:
  fixes scope role :: "'m \<Rightarrow> string"
  shows "case get (fold (\<lambda>m. raise_role (scope m) (role m)) ms []) k of
    None \<Rightarrow> k = '''' \<or> (\<forall>m \<in> set ms. scope m = k \<longrightarrow> level (role m) = 0)
  | Some r \<Rightarrow> k \<noteq> '''' \<and> 0 < level r \<and> (\<exists>m \<in> set ms. scope m = k \<and> role m = r) \<and> (\<forall>m \<in> set ms. scope m = k \<longrightarrow> level (role m) \<le> level r)"
proof (induction ms rule: rev_induct)
  case (snoc m ms)
  have [simp]: "level '''' = 0" by (simp add: level_def)
  show ?case using snoc by (auto simp: raise_role_def lookup_str_def split: option.splits if_splits)
qed simp

definition grants :: "string list \<Rightarrow> MemoryStore \<Rightarrow> OIDCGroupMapping \<Rightarrow> bool" where
  "grants groups s m = ((\<exists>i. get (oidcGroupMappings s) i = Some m) \<and> ogm_State m = OIDCGroupMappingActive \<and>
     (\<exists>g \<in> set groups. TrimSpace g = TrimSpace (ogm_Group m) \<and> TrimSpace g \<noteq> ''''))"

lemma matched_grants:
  assumes "mappings_ok s"
  shows "set (matchedMappings (vals (oidcGroupMappings s)) groups) = {m. grants groups s m}"
  using assms vals_iff [of "oidcGroupMappings s"]
  by (auto simp: matchedMappings_def grants_def mappings_ok_def Let_def image_iff) (metis+)

lemma org_role_level: "validMembershipRoleLocal r \<Longrightarrow> 0 < level (OrganizationMembershipRole_str r)"
  by (cases r) (simp_all add: level_def)

lemma org_role_inj:
  "validMembershipRoleLocal r \<Longrightarrow> validMembershipRoleLocal r' \<Longrightarrow>
   level (OrganizationMembershipRole_str r) = level (OrganizationMembershipRole_str r') \<Longrightarrow> r = r'"
  by (cases r; cases r') (simp_all add: level_def)

lemma project_role_level: "r \<in> {''project-admin'', ''project-operator'', ''project-viewer''} \<Longrightarrow> 0 < level r"
  by (auto simp: level_def)

lemma project_role_inj:
  "r \<in> {''project-admin'', ''project-operator'', ''project-viewer''} \<Longrightarrow>
   r' \<in> {''project-admin'', ''project-operator'', ''project-viewer''} \<Longrightarrow> level r = level r' \<Longrightarrow> r = r'"
  by (auto simp: level_def)

lemma mapping_roles:
  assumes "mapping_ok m"
  shows "ogm_OrganizationID m \<noteq> '''' \<Longrightarrow> validMembershipRoleLocal (ogm_OrganizationRole m)"
    and "ogm_ProjectID m \<noteq> '''' \<Longrightarrow> ogm_ProjectRole m \<in> {''project-admin'', ''project-operator'', ''project-viewer''}"
  using assms by (auto simp: mapping_ok_def ValidateOIDCGroupMapping_def validProjectRole_def split: if_split_asm)

text \<open>For tables whose roles are distinguished by their level, the loop computes the maximum.\<close>

lemma fold_raise_max:
  fixes scope role :: "'m \<Rightarrow> string"
  assumes "\<And>m. m \<in> set ms \<Longrightarrow> scope m \<noteq> '''' \<Longrightarrow> 0 < level (role m)"
    and "\<And>m m'. m \<in> set ms \<Longrightarrow> m' \<in> set ms \<Longrightarrow> scope m \<noteq> '''' \<Longrightarrow> scope m' = scope m \<Longrightarrow> level (role m) = level (role m') \<Longrightarrow> role m = role m'"
  shows "get (fold (\<lambda>m. raise_role (scope m) (role m)) ms []) k = Some r \<longleftrightarrow>
    k \<noteq> '''' \<and> (\<exists>m \<in> set ms. scope m = k \<and> role m = r) \<and> (\<forall>m \<in> set ms. scope m = k \<longrightarrow> level (role m) \<le> level r)"
    (is "?g = Some r \<longleftrightarrow> ?max r")
proof
  assume "?g = Some r"
  then show "?max r" using fold_raise [where scope = scope and role = role and ms = ms and k = k] by simp
next
  assume max: "?max r"
  then obtain m where m: "m \<in> set ms" "scope m = k" "role m = r" by blast
  then have "0 < level (role m)" using assms(1) [OF m(1)] max by simp
  then obtain r' where r': "?g = Some r'" using fold_raise [where scope = scope and role = role and ms = ms and k = k] m max by (cases ?g) auto
  then have max': "?max r'" using fold_raise [where scope = scope and role = role and ms = ms and k = k] by simp
  then obtain m' where m': "m' \<in> set ms" "scope m' = k" "role m' = r'" by blast
  have "level r \<le> level r'" using max' m by blast
  moreover have "level r' \<le> level r" using max m' by blast
  ultimately have "r = r'" using assms(2) [OF m(1) m'(1)] m m' max by simp
  then show "?g = Some r" using r' by simp
qed

lemma raise_eta:
  "raise_org = (\<lambda>m. raise_role (ogm_OrganizationID m) (OrganizationMembershipRole_str (ogm_OrganizationRole m)))"
  "raise_project = (\<lambda>m. raise_role (ogm_ProjectID m) (ogm_ProjectRole m))"
  by (simp_all add: fun_eq_iff)

lemma granted_ok: "mappings_ok s \<Longrightarrow> grants groups s m \<Longrightarrow> mapping_ok m"
  by (auto simp: grants_def mappings_ok_def)

lemma resolved_organization_role:
  assumes "mappings_ok s"
  shows "get (ogr_OrganizationRoles (ResolveOIDCGroups e groups s)) org = Some role \<longleftrightarrow>
    org \<noteq> '''' \<and> (\<exists>m. grants groups s m \<and> ogm_OrganizationID m = org \<and> OrganizationMembershipRole_str (ogm_OrganizationRole m) = role) \<and>
    (\<forall>m. grants groups s m \<and> ogm_OrganizationID m = org \<longrightarrow> level (OrganizationMembershipRole_str (ogm_OrganizationRole m)) \<le> level role)"
proof -
  let ?ms = "matchedMappings (vals (oidcGroupMappings s)) groups"
  have m: "m \<in> set ?ms \<longleftrightarrow> grants groups s m" for m using matched_grants [OF assms] by simp
  have roles: "ogr_OrganizationRoles (ResolveOIDCGroups e groups s) =
      fold (\<lambda>m. raise_role (ogm_OrganizationID m) (OrganizationMembershipRole_str (ogm_OrganizationRole m))) ?ms []"
    by (simp add: ResolveOIDCGroups_def ResolveOIDCGroupMappings_def Let_def flip: raise_eta)
  have valid: "validMembershipRoleLocal (ogm_OrganizationRole m)" if "m \<in> set ?ms" "ogm_OrganizationID m \<noteq> ''''" for m
    using that mapping_roles(1) granted_ok [OF assms] m by blast
  have "0 < level (OrganizationMembershipRole_str (ogm_OrganizationRole m))" if "m \<in> set ?ms" "ogm_OrganizationID m \<noteq> ''''" for m
    using org_role_level valid that by blast
  moreover have "OrganizationMembershipRole_str (ogm_OrganizationRole m) = OrganizationMembershipRole_str (ogm_OrganizationRole m')"
    if "m \<in> set ?ms" "m' \<in> set ?ms" "ogm_OrganizationID m \<noteq> ''''" "ogm_OrganizationID m' = ogm_OrganizationID m"
      "level (OrganizationMembershipRole_str (ogm_OrganizationRole m)) = level (OrganizationMembershipRole_str (ogm_OrganizationRole m'))" for m m'
    using org_role_inj [OF valid [OF that(1,3)] valid [OF that(2)] that(5)] that(3,4) by simp
  ultimately show ?thesis
    unfolding roles by (subst fold_raise_max) (blast, blast, simp add: Bex_def Ball_def m imp_conjL)
qed

lemma resolved_project_role:
  assumes "mappings_ok s"
  shows "get (ogr_ProjectRoles (ResolveOIDCGroups e groups s)) prj = Some role \<longleftrightarrow>
    prj \<noteq> '''' \<and> (\<exists>m. grants groups s m \<and> ogm_ProjectID m = prj \<and> ogm_ProjectRole m = role) \<and>
    (\<forall>m. grants groups s m \<and> ogm_ProjectID m = prj \<longrightarrow> level (ogm_ProjectRole m) \<le> level role)"
proof -
  let ?ms = "matchedMappings (vals (oidcGroupMappings s)) groups"
  have m: "m \<in> set ?ms \<longleftrightarrow> grants groups s m" for m using matched_grants [OF assms] by simp
  have roles: "ogr_ProjectRoles (ResolveOIDCGroups e groups s) =
      fold (\<lambda>m. raise_role (ogm_ProjectID m) (ogm_ProjectRole m)) ?ms []"
    by (simp add: ResolveOIDCGroups_def ResolveOIDCGroupMappings_def Let_def flip: raise_eta)
  have valid: "ogm_ProjectRole m \<in> {''project-admin'', ''project-operator'', ''project-viewer''}"
    if "m \<in> set ?ms" "ogm_ProjectID m \<noteq> ''''" for m
    using that mapping_roles(2) granted_ok [OF assms] m by blast
  have "0 < level (ogm_ProjectRole m)" if "m \<in> set ?ms" "ogm_ProjectID m \<noteq> ''''" for m
    using project_role_level [OF valid [OF that]] .
  moreover have "ogm_ProjectRole m = ogm_ProjectRole m'"
    if "m \<in> set ?ms" "m' \<in> set ?ms" "ogm_ProjectID m \<noteq> ''''" "ogm_ProjectID m' = ogm_ProjectID m"
      "level (ogm_ProjectRole m) = level (ogm_ProjectRole m')" for m m'
    using project_role_inj [OF valid [OF that(1,3)] valid [OF that(2)] that(5)] that(3,4) by simp
  ultimately show ?thesis
    unfolding roles by (subst fold_raise_max) (blast, blast, simp add: Bex_def Ball_def m imp_conjL)
qed

lemma mappings_distinct: "mappings_ok s \<Longrightarrow> distinct (map ID (vals (oidcGroupMappings s)))"
proof -
  assume ok: "mappings_ok s"
  then have "map ID (vals (oidcGroupMappings s)) = map fst (oidcGroupMappings s)"
    using well_keyed_get by (fastforce simp: mappings_ok_def vals_def)
  then show ?thesis using ok by (simp add: mappings_ok_def well_keyed_def)
qed

lemma resolution_order:
  assumes "mappings_ok s" and "mset visited = mset (vals (oidcGroupMappings s))"
  shows "ResolveOIDCGroupMappings e visited groups = ResolveOIDCGroups e groups s"
proof -
  have d: "distinct (map ID visited)" using mappings_distinct [OF assms(1)] assms(2) by (metis mset_eq_imp_distinct_iff mset_map)
  have "matchedMappings visited groups = matchedMappings (vals (oidcGroupMappings s)) groups"
    unfolding matchedMappings_def Let_def using d assms(2)
    by (intro sort_by_canonical) (simp_all add: distinct_map_filter)
  then show ?thesis by (simp add: ResolveOIDCGroups_def ResolveOIDCGroupMappings_def)
qed

text \<open>
  C35: A caller gets the highest roles its groups grant. In every store the mapping calls can lead to,
  the organization role a caller with some groups gets in an organization is the highest one among the
  active mappings of these groups that name the organization, and likewise for projects; product roles
  are those of these mappings; and neither the roles nor the digest of the resolution depend on the
  order in which the mappings are visited.
\<close>
theorem oidc_resolution_is_the_maximum:
  assumes "mapping_step\<^sup>*\<^sup>* NewMemoryStoreWith s" and "r = ResolveOIDCGroups e groups s"
  shows "(\<forall>org role. get (ogr_OrganizationRoles r) org = Some role \<longleftrightarrow>
      org \<noteq> '''' \<and> (\<exists>m. grants groups s m \<and> ogm_OrganizationID m = org \<and> OrganizationMembershipRole_str (ogm_OrganizationRole m) = role) \<and>
      (\<forall>m. grants groups s m \<and> ogm_OrganizationID m = org \<longrightarrow> level (OrganizationMembershipRole_str (ogm_OrganizationRole m)) \<le> level role)) \<and>
    (\<forall>prj role. get (ogr_ProjectRoles r) prj = Some role \<longleftrightarrow>
      prj \<noteq> '''' \<and> (\<exists>m. grants groups s m \<and> ogm_ProjectID m = prj \<and> ogm_ProjectRole m = role) \<and>
      (\<forall>m. grants groups s m \<and> ogm_ProjectID m = prj \<longrightarrow> level (ogm_ProjectRole m) \<le> level role)) \<and>
    set (ogr_ProductRoles r) = ogm_ProductRole ` {m. grants groups s m} \<and>
    (\<forall>visited. mset visited = mset (vals (oidcGroupMappings s)) \<longrightarrow> ResolveOIDCGroupMappings e visited groups = r)"
proof -
  have ok: "mappings_ok s" using ogm.inv_runs [OF assms(1) mappings_ok_init] .
  have "set (ogr_ProductRoles r) = ogm_ProductRole ` {m. grants groups s m}"
    using matched_grants [OF ok, of groups] by (simp add: assms(2) ResolveOIDCGroups_def ResolveOIDCGroupMappings_def Let_def)
  then show ?thesis
    by (simp add: assms(2) resolved_organization_role [OF ok] resolved_project_role [OF ok] resolution_order [OF ok])
qed

section \<open>A concrete log and concrete mappings\<close>

definition id_env :: "nat \<Rightarrow> env" where
  "id_env n = \<lparr>clock = (\<lambda>k. int n * Second), newid = (\<lambda>k p. p @ itoa (int n)), sha256hex = (\<lambda>raw. raw),
     marshal = (\<lambda>g. case g of VSecurityAuditEvent v \<Rightarrow> itoa (sae_Sequence v) | _ \<Rightarrow> ''''), ed25519_Verify = (\<lambda>key m sig. False)\<rparr>"

definition audit_input :: "string \<Rightarrow> SecurityAuditInput" where
  "audit_input decision = \<lparr>sai_Category = ''AUTHENTICATION'', sai_Decision = decision, sai_ActorID = '''', sai_Authentication = '''',
     sai_Method = ''GET'', sai_Path = ''/'', sai_StatusCode = 200, sai_ReasonCode = '''', sai_RequestID = ''r'', sai_ScopeType = '''',
     sai_ScopeID = '''', sai_EffectiveRole = '''', sai_MappingDigest = '''', sai_OAuthClientID = '''', sai_MCPInteropBindingDigest = ''''\<rparr>"

definition log2 :: MemoryStore where
  "log2 = snd (AppendSecurityAudit (id_env 2) (audit_input ''DENY'') (snd (AppendSecurityAudit (id_env 1) (audit_input ''ALLOW'') NewMemoryStoreWith)))"

definition log3 :: MemoryStore where
  "log3 = snd (AppendSecurityAudit (id_env 3) (audit_input ''DENY'') log2)"

lemma id_env_same [simp]: "same_crypto (id_env 0) (id_env n)"
  by (simp add: same_crypto_def id_env_def)

lemma log2_run: "(security_step (id_env 0))\<^sup>*\<^sup>* NewMemoryStoreWith log2"
  unfolding log2_def by (meson id_env_same rtranclp.rtrancl_into_rtrancl rtranclp.rtrancl_refl security_step.append)

lemma log3_run: "(security_step (id_env 0))\<^sup>*\<^sup>* log2 log3"
  unfolding log3_def by (meson id_env_same r_into_rtranclp security_step.append)

definition log_check :: bool where
  "log_check = (let prefix = take 2 (securityAudit log3); stored = securityAudit log2 in length stored = 2 \<and> length prefix = 2 \<and>
     ValidateSecurityAuditChain (id_env 0) prefix = Inr () \<and> sae_Digest (last prefix) = sae_Digest (last stored) \<and>
     list_all (\<lambda>v. list_all (\<lambda>w. SecurityAuditEventDigest (id_env 0) v = SecurityAuditEventDigest (id_env 0) w \<longrightarrow>
       v\<lparr>sae_Digest := ''''\<rparr> = w\<lparr>sae_Digest := ''''\<rparr>) stored) prefix)"

lemma log_eval: log_check
  by code_simp

theorem security_audit_chain_is_valid_witness:
  "ValidateSecurityAuditChain (id_env 0) (securityAudit log3) = Inr () \<and> (\<exists>new. securityAudit log3 = securityAudit log2 @ new)"
  using security_audit_chain_is_valid [OF log2_run log3_run] .


definition demo_mapping :: "string \<Rightarrow> OrganizationMembershipRole \<Rightarrow> OIDCGroupMapping" where
  "demo_mapping grp role = \<lparr>ID = '''', Revision = 0, CreatedAt = 0, UpdatedAt = 0, ogm_Group = grp, ogm_ProductRole = ''platform-viewer'',
     ogm_OrganizationID = ''org'', ogm_OrganizationRole = role, ogm_ProjectID = '''', ogm_ProjectRole = '''',
     ogm_State = OIDCGroupMappingActive, ogm_CreatedBy = '''', ogm_RevokedBy = '''', ogm_RevokedAt = None\<rparr>"

definition mapping_demo1 :: MemoryStore where
  "mapping_demo1 = snd (CreateOIDCGroupMapping (id_env 1) (demo_mapping ''ops'' OrganizationOperator) ''alice'' NewMemoryStoreWith)"

definition mapping_demo :: MemoryStore where
  "mapping_demo = snd (CreateOIDCGroupMapping (id_env 2) (demo_mapping '' all '' OrganizationViewer) ''alice'' mapping_demo1)"

lemma mapping_demo_eval:
  "get (oidcGroupMappings mapping_demo1) (''ogm'' @ itoa 2) = None"
  "get (ogr_OrganizationRoles (ResolveOIDCGroups (id_env 0) [''all'', ''ops ''] mapping_demo)) ''org'' = Some ''organization-operator''"
  by code_simp+

theorem oidc_resolution_is_the_maximum_witness:
  "\<exists>m. grants [''all'', ''ops ''] mapping_demo m \<and> ogm_OrganizationID m = ''org'' \<and>
     OrganizationMembershipRole_str (ogm_OrganizationRole m) = ''organization-operator''"
proof -
  have "mapping_step NewMemoryStoreWith mapping_demo1" unfolding mapping_demo1_def
    by (rule mapping_step.create) (simp add: NewMemoryStoreWith_def)
  moreover have "mapping_step mapping_demo1 mapping_demo" unfolding mapping_demo_def
    using mapping_demo_eval(1) by (intro mapping_step.create) (simp add: id_env_def)
  ultimately have run: "mapping_step\<^sup>*\<^sup>* NewMemoryStoreWith mapping_demo" by simp
  show ?thesis
    using conjunct1 [OF oidc_resolution_is_the_maximum [OF run refl, of "id_env 0" "[''all'', ''ops '']"], rule_format, of "''org''" "''organization-operator''"]
      mapping_demo_eval(2) by blast
qed

end
