(* ===== verification/Tokens.thy ===== *)
theory Tokens
  imports ServiceAccounts
begin

text \<open>
  What the service-account calls keep: tokens never exceed the role of their account, live at most 366
  days, have one idempotency key each, and die with their account.
\<close>

section \<open>Permissions\<close>

definition allowed :: "string \<Rightarrow> string \<Rightarrow> bool" where
  "allowed role p = (p \<in> set readPermissions \<or> (role = ''platform-operator'' \<and> p \<in> set operatorPermissions))"

lemma collectPermissions_allowed:
  "collectPermissions role out input = Inr ps \<Longrightarrow> \<forall>p \<in> set out. allowed role p \<Longrightarrow> \<forall>p \<in> set ps. allowed role p"
  by (induction role out input rule: collectPermissions.induct) (auto simp: allowed_def Let_def split: if_split_asm)

lemma normalizeTokenPermissions_ok:
  assumes "normalizeTokenPermissions role input = Inr ps"
  shows "''read'' \<in> set ps" and "p \<in> set ps \<Longrightarrow> allowed role p" and "sorted ps"
proof -
  obtain cs where cs: "collectPermissions role [] input = Inr cs"
    using assms by (auto simp: normalizeTokenPermissions_def split: sum.split_asm)
  have ps: "ps = sort ((if cs = [] then [''read''] else cs) @ (if ''read'' \<notin> set cs then [''read''] else []))"
    using assms cs by (auto simp: normalizeTokenPermissions_def Let_def)
  have "\<forall>p \<in> set cs. allowed role p" using collectPermissions_allowed [OF cs] by simp
  moreover have "allowed role ''read''" by (simp add: allowed_def readPermissions_def)
  ultimately show "p \<in> set ps \<Longrightarrow> allowed role p" unfolding ps by (auto split: if_split_asm)
  show "''read'' \<in> set ps" "sorted ps" unfolding ps by (cases "''read'' \<in> set cs") auto
qed

section \<open>The invariant\<close>

definition account_key :: "ServiceAccount \<Rightarrow> string \<times> string \<times> string" where
  "account_key a = (sa_OrganizationID a, sa_ProjectID a, sa_Name a)"

definition accounts_ok :: "ServiceAccount table \<Rightarrow> bool" where
  "accounts_ok t = (well_keyed t \<and> unique_by account_key t \<and>
     (\<forall>i a. get t i = Some a \<longrightarrow> ID a = i \<and> validServiceAccountRole (sa_ProductRole a)))"

definition token_ok :: "ServiceAccount table \<Rightarrow> APIToken \<Rightarrow> bool" where
  "token_ok accounts t = (\<exists>a. get accounts (tok_ServiceAccountID t) = Some a \<and>
     tok_OrganizationID t = sa_OrganizationID a \<and> tok_ProjectID t = sa_ProjectID a \<and>
     (tok_State t = APITokenActive \<longrightarrow> sa_State a = ServiceAccountActive) \<and>
     ''read'' \<in> set (tok_Permissions t) \<and> (\<forall>p \<in> set (tok_Permissions t). allowed (sa_ProductRole a) p) \<and>
     tok_ExpiresAt t \<le> CreatedAt t + 366 * 24 * Hour)"

definition token_key :: "APIToken \<Rightarrow> string \<times> string" where
  "token_key t = (tok_ServiceAccountID t, tok_IdempotencyKey t)"

definition tokens_ok :: "ServiceAccount table \<Rightarrow> APIToken table \<Rightarrow> bool" where
  "tokens_ok accounts t = (well_keyed t \<and> unique_by token_key t \<and> (\<forall>i v. get t i = Some v \<longrightarrow> ID v = i \<and> token_ok accounts v))"

definition svc_ok :: "MemoryStore \<Rightarrow> bool" where
  "svc_ok s = (accounts_ok (serviceAccounts s) \<and> tokens_ok (serviceAccounts s) (apiTokens s))"

text \<open>An account keeps what tokens copy from it, and revocation is final; likewise for a token.\<close>

definition account_evolves :: "ServiceAccount \<Rightarrow> ServiceAccount \<Rightarrow> bool" where
  "account_evolves a a' = (a' = a \<or> (sa_State a = ServiceAccountActive \<and> sa_State a' = ServiceAccountRevoked \<and> ID a' = ID a \<and>
     account_key a' = account_key a \<and> sa_ProductRole a' = sa_ProductRole a))"

definition token_evolves :: "APIToken \<Rightarrow> APIToken \<Rightarrow> bool" where
  "token_evolves t t' = (t' = t \<or> (tok_State t = APITokenActive \<and> tok_State t' = APITokenRevoked \<and> ID t' = ID t \<and>
     token_key t' = token_key t \<and> tok_TokenDigest t' = tok_TokenDigest t \<and> tok_Permissions t' = tok_Permissions t \<and>
     tok_ExpiresAt t' = tok_ExpiresAt t))"

lemma token_ok_accounts:
  assumes "token_ok accounts t" and "\<And>i a. get accounts i = Some a \<Longrightarrow> i = tok_ServiceAccountID t \<Longrightarrow>
    \<exists>a'. get accounts' i = Some a' \<and> account_key a' = account_key a \<and> sa_ProductRole a' = sa_ProductRole a \<and>
      (tok_State t = APITokenActive \<longrightarrow> sa_State a = ServiceAccountActive \<longrightarrow> sa_State a' = ServiceAccountActive)"
  shows "token_ok accounts' t"
proof -
  obtain a where a: "get accounts (tok_ServiceAccountID t) = Some a" using assms(1) by (auto simp: token_ok_def)
  then obtain a' where "get accounts' (tok_ServiceAccountID t) = Some a'" "account_key a' = account_key a" "sa_ProductRole a' = sa_ProductRole a"
    "tok_State t = APITokenActive \<longrightarrow> sa_State a = ServiceAccountActive \<longrightarrow> sa_State a' = ServiceAccountActive" using assms(2) by blast
  then show ?thesis using assms(1) a by (simp add: token_ok_def account_key_def)
qed

lemma tokens_ok_put:
  assumes "tokens_ok accounts t" and "ID v = i" and "token_ok accounts v"
    and "\<And>k w. get t k = Some w \<Longrightarrow> k \<noteq> i \<Longrightarrow> token_key w \<noteq> token_key v"
  shows "tokens_ok accounts (put i v t)"
  using assms by (auto simp: tokens_ok_def intro!: unique_by_put)

lemma revokedToken_simps [simp]:
  "ID (revokedToken actor now t) = ID t" "tok_State (revokedToken actor now t) = APITokenRevoked"
  "token_key (revokedToken actor now t) = token_key t" "tok_ServiceAccountID (revokedToken actor now t) = tok_ServiceAccountID t"
  by (simp_all add: revokedToken_def token_key_def touch_def)

lemma revokedToken_ok: "token_ok accounts t \<Longrightarrow> token_ok accounts (revokedToken actor now t)"
  by (auto simp: token_ok_def revokedToken_def touch_def)

lemma revokedToken_evolves: "tok_State t = APITokenActive \<Longrightarrow> token_evolves t (revokedToken actor now t)"
  by (simp add: token_evolves_def token_key_def revokedToken_def touch_def)

lemma tokens_ok_revoke:
  assumes "tokens_ok accounts t" and "get t i = Some v"
  shows "tokens_ok accounts (put (ID v) (revokedToken actor now v) t)"
proof (rule tokens_ok_put [OF assms(1)])
  have v: "ID v = i" "token_ok accounts v" "unique_by token_key t" using assms by (simp_all add: tokens_ok_def)
  show "token_ok accounts (revokedToken actor now v)" using revokedToken_ok v(2) .
  fix k w assume "get t k = Some w" "k \<noteq> ID v"
  then show "token_key w \<noteq> token_key (revokedToken actor now v)" using unique_by_D [OF v(3) _ assms(2)] v(1) by auto
qed simp

section \<open>Revoking the tokens of an account\<close>

lemma revokeTokens_frame [simp]:
  "serviceAccounts (snd (revokeTokens e i actor now k ts s)) = serviceAccounts s"
  by (induction e i actor now k ts s rule: revokeTokens.induct) (simp_all add: Let_def)

lemma revokeTokens_get:
  assumes "distinct (map fst ts)"
  shows "get (apiTokens (snd (revokeTokens e i actor now k ts s))) j =
    (case map_of ts j of
       Some t \<Rightarrow> if tok_ServiceAccountID t = i \<and> tok_State t = APITokenActive then Some (revokedToken actor now t) else get (apiTokens s) j
     | None \<Rightarrow> get (apiTokens s) j)"
  using assms
proof (induction ts arbitrary: k s)
  case (Cons x ts)
  obtain i' t where x: "x = (i', t)" by (cases x)
  have "map_of ts i' = None" and d: "distinct (map fst ts)" using Cons.prems by (simp_all add: x map_of_eq_None_iff)
  then show ?case by (cases "i' = j") (simp_all add: x Let_def Cons.IH [OF d] split: option.split)
qed simp

lemma revokeTokens_keyed: "well_keyed (apiTokens s) \<Longrightarrow> well_keyed (apiTokens (snd (revokeTokens e i actor now k ts s)))"
  by (induction e i actor now k ts s rule: revokeTokens.induct) (auto simp: Let_def)

definition revoke_all :: "string \<Rightarrow> string \<Rightarrow> int \<Rightarrow> APIToken \<Rightarrow> APIToken" where
  "revoke_all i actor now t = (if tok_ServiceAccountID t = i \<and> tok_State t = APITokenActive then revokedToken actor now t else t)"

lemma revoke_all_simps [simp]:
  "ID (revoke_all i actor now t) = ID t" "token_key (revoke_all i actor now t) = token_key t"
  "tok_ServiceAccountID (revoke_all i actor now t) = tok_ServiceAccountID t" "token_evolves t (revoke_all i actor now t)"
  by (simp_all add: revoke_all_def revokedToken_evolves) (simp add: token_evolves_def)

lemma revoke_all_inactive: "tok_ServiceAccountID t = i \<Longrightarrow> tok_State (revoke_all i actor now t) = APITokenRevoked"
  by (cases "tok_State t") (simp_all add: revoke_all_def)

lemma revoke_all_ok: "token_ok accounts t \<Longrightarrow> token_ok accounts (revoke_all i actor now t)"
  by (simp add: revoke_all_def revokedToken_ok)

lemma revokeTokens_all:
  assumes "well_keyed (apiTokens s)" and "apiTokens s' = apiTokens s"
  shows "get (apiTokens (snd (revokeTokens e i actor now k (apiTokens s) s'))) j = map_option (revoke_all i actor now) (get (apiTokens s) j)"
  using assms revokeTokens_get [of "apiTokens s" e i actor now k s' j]
  by (auto simp: well_keyed_def get_def revoke_all_def split: option.splits)

section \<open>Every call keeps the invariant\<close>

definition mono_clock :: "env \<Rightarrow> bool" where
  "mono_clock e = (\<forall>j k. j \<le> k \<longrightarrow> nowUTC e j \<le> nowUTC e k)"

inductive svc_step :: "MemoryStore \<Rightarrow> MemoryStore \<Rightarrow> bool" where
  create_account: "(\<And>k. get (serviceAccounts s) (newid e k ''svc'') = None) \<Longrightarrow> svc_step s (snd (CreateServiceAccount e account actor s))"
| revoke_account: "svc_step s (snd (RevokeServiceAccount e i expected actor s))"
| create_token: "mono_clock e \<Longrightarrow> get (apiTokens s) (token_id e 2 token) = None \<Longrightarrow> svc_step s (snd (CreateAPIToken e token actor s))"
| revoke_token: "svc_step s (snd (RevokeAPIToken e i expected actor s))"
| rotate: "get (apiTokens s) (token_id e 1 replacement) = None \<Longrightarrow>
    svc_step s (snd (RotateAPIToken e i expected replacement actor s))"
| other: "serviceAccounts s' = serviceAccounts s \<Longrightarrow> apiTokens s' = apiTokens s \<Longrightarrow> svc_step s s'"

text \<open>What a step does to the two tables.\<close>

definition svc_moves :: "MemoryStore \<Rightarrow> MemoryStore \<Rightarrow> bool" where
  "svc_moves s s' = (svc_ok s' \<and>
     (\<forall>i a. get (serviceAccounts s) i = Some a \<longrightarrow> (\<exists>a'. get (serviceAccounts s') i = Some a' \<and> account_evolves a a')) \<and>
     (\<forall>i t. get (apiTokens s) i = Some t \<longrightarrow> (\<exists>t'. get (apiTokens s') i = Some t' \<and> token_evolves t t')))"

lemma svc_moves_refl [simp]: "svc_ok s \<Longrightarrow> svc_moves s s"
  by (simp add: svc_moves_def account_evolves_def token_evolves_def)

lemma svc_moves_cong:
  "serviceAccounts s'' = serviceAccounts s' \<Longrightarrow> apiTokens s'' = apiTokens s' \<Longrightarrow> svc_moves s s' \<Longrightarrow> svc_moves s s''"
  by (simp add: svc_moves_def svc_ok_def)

lemma CreateServiceAccount_moves:
  assumes "svc_ok s" and "\<And>k. get (serviceAccounts s) (newid e k ''svc'') = None"
  shows "svc_moves s (snd (CreateServiceAccount e account actor s))"
proof (cases "isl (fst (CreateServiceAccount e account actor s))")
  case True
  then have "snd (CreateServiceAccount e account actor s) = s" by (auto simp: CreateServiceAccount_def Let_def)
  then show ?thesis using assms(1) by simp
next
  case False
  define a where "a = projr (fst (CreateServiceAccount e account actor s))"
  have a: "ID a = newid e 0 ''svc''" "validServiceAccountRole (sa_ProductRole a)"
    "\<And>w. w \<in> set (vals (serviceAccounts s)) \<Longrightarrow> account_key w \<noteq> account_key a"
    and s': "serviceAccounts (snd (CreateServiceAccount e account actor s)) = put (ID a) a (serviceAccounts s)"
      "apiTokens (snd (CreateServiceAccount e account actor s)) = apiTokens s"
    using False unfolding a_def by (auto simp: CreateServiceAccount_def Let_def list_ex_iff account_key_def stamp_def split: if_split_asm)
  have new: "get (serviceAccounts s) (ID a) = None" using assms(2) a(1) by simp
  have "accounts_ok (put (ID a) a (serviceAccounts s))"
    using assms(1) a get_vals [of "serviceAccounts s"] by (auto simp: svc_ok_def accounts_ok_def intro!: unique_by_put)
  moreover have "token_ok (put (ID a) a (serviceAccounts s)) t" if "token_ok (serviceAccounts s) t" for t
    using that new by (auto elim!: token_ok_accounts)
  ultimately show ?thesis
    using assms(1) new by (auto simp: svc_moves_def svc_ok_def s' tokens_ok_def account_evolves_def token_evolves_def)
qed

lemma RevokeServiceAccount_moves:
  assumes "svc_ok s"
  shows "svc_moves s (snd (RevokeServiceAccount e i expected actor s))"
proof (cases "isl (fst (RevokeServiceAccount e i expected actor s)) \<or> snd (RevokeServiceAccount e i expected actor s) = s")
  case True
  then have "snd (RevokeServiceAccount e i expected actor s) = s"
    by (auto simp: RevokeServiceAccount_def Let_def split: option.split_asm prod.split_asm)
  then show ?thesis using assms by simp
next
  case False
  let ?i = "TrimSpace i"
  define now where "now = nowUTC e 0"
  obtain a where a: "get (serviceAccounts s) ?i = Some a" "sa_State a = ServiceAccountActive"
    using False by (cases "get (serviceAccounts s) ?i") (auto simp: RevokeServiceAccount_def Let_def intro: ServiceAccountState.exhaust split: if_split_asm)
  define a' where "a' = touch now (a\<lparr>sa_State := ServiceAccountRevoked, sa_RevokedBy := TrimSpace actor, sa_RevokedAt := Some now\<rparr>)"
  have acc: "serviceAccounts (snd (RevokeServiceAccount e i expected actor s)) = put ?i a' (serviceAccounts s)"
    using False a by (auto simp: RevokeServiceAccount_def Let_def a'_def now_def case_prod_beta split: if_split_asm)
  have tab: "apiTokens (snd (RevokeServiceAccount e i expected actor s)) =
      apiTokens (snd (revokeTokens e ?i actor now 1 (apiTokens s) (s\<lparr>serviceAccounts := put ?i a' (serviceAccounts s)\<rparr>)))"
    using False a by (auto simp: RevokeServiceAccount_def Let_def a'_def now_def case_prod_beta split: if_split_asm)
  have ok: "accounts_ok (serviceAccounts s)" "tokens_ok (serviceAccounts s) (apiTokens s)" using assms by (simp_all add: svc_ok_def)
  then have wk: "well_keyed (apiTokens s)" and uk: "unique_by token_key (apiTokens s)" by (simp_all add: tokens_ok_def)
  have tok: "get (apiTokens (snd (RevokeServiceAccount e i expected actor s))) j = map_option (revoke_all ?i actor now) (get (apiTokens s) j)" for j
    unfolding tab using wk by (intro revokeTokens_all) simp_all
  have "accounts_ok (put ?i a' (serviceAccounts s))"
    using ok(1) a by (auto simp: accounts_ok_def a'_def touch_def account_key_def intro!: unique_by_same [OF _ a(1)])
  moreover have "token_ok (put ?i a' (serviceAccounts s)) (revoke_all ?i actor now t)" if "token_ok (serviceAccounts s) t" for t
    using revoke_all_inactive [of t ?i actor now] a
    by (intro token_ok_accounts [OF revoke_all_ok [OF that]]) (auto simp: a'_def touch_def account_key_def)
  moreover have "unique_by token_key (apiTokens (snd (RevokeServiceAccount e i expected actor s)))"
    using uk unfolding unique_by_def tok by (auto simp: map_option_eq_Some)
  moreover have "account_evolves a a'" using a(2) by (simp add: account_evolves_def a'_def account_key_def touch_def)
  moreover have "well_keyed (apiTokens (snd (RevokeServiceAccount e i expected actor s)))"
    unfolding tab using wk by (intro revokeTokens_keyed) simp
  ultimately show ?thesis
    using ok a by (auto simp: svc_moves_def svc_ok_def acc tokens_ok_def tok map_option_eq_Some account_evolves_def)
qed

lemma issuedToken_simps [simp]:
  "ID (issuedToken e k a ps actor now t) = token_id e k t" "tok_ServiceAccountID (issuedToken e k a ps actor now t) = ID a"
  "tok_State (issuedToken e k a ps actor now t) = APITokenActive"
  "token_key (issuedToken e k a ps actor now t) = (ID a, tok_IdempotencyKey t)"
  by (simp_all add: issuedToken_def stamp_def token_key_def)

lemma issuedToken_ok:
  assumes "get accounts (ID a) = Some a" and "sa_State a = ServiceAccountActive"
    and "normalizeTokenPermissions (sa_ProductRole a) input = Inr ps" and "tok_ExpiresAt t \<le> now + 366 * 24 * Hour"
  shows "token_ok accounts (issuedToken e k a ps actor now t)"
  using assms normalizeTokenPermissions_ok [OF assms(3)] by (simp add: token_ok_def issuedToken_def stamp_def)

text \<open>Adding a token that is fresh in its identifier and its key.\<close>

lemma new_token_moves:
  assumes "svc_ok s" and "get (apiTokens s) (ID v) = None" and "token_ok (serviceAccounts s) v"
    and "\<And>w. w \<in> set (vals (apiTokens s)) \<Longrightarrow> token_key w \<noteq> token_key v"
    and "serviceAccounts s' = serviceAccounts s" and "apiTokens s' = put (ID v) v (apiTokens s)"
  shows "svc_moves s s'"
proof -
  have "tokens_ok (serviceAccounts s) (put (ID v) v (apiTokens s))"
    using assms(1-4) get_vals [of "apiTokens s"] by (intro tokens_ok_put) (auto simp: svc_ok_def)
  then show ?thesis using assms(1,2,5,6) by (auto simp: svc_moves_def svc_ok_def account_evolves_def token_evolves_def)
qed

lemma CreateAPIToken_moves:
  assumes "svc_ok s" and "mono_clock e" and "get (apiTokens s) (token_id e 2 token) = None"
  shows "svc_moves s (snd (CreateAPIToken e token actor s))"
proof (cases "isl (fst (CreateAPIToken e token actor s))")
  case True
  moreover have "error_keeps s (CreateAPIToken e token actor s)"
    unfolding CreateAPIToken_def Let_def by (simp add: guard_keeps)
  ultimately show ?thesis using assms(1) by (simp add: error_keeps_def)
next
  case False
  let ?t = "token\<lparr>tok_IdempotencyKey := TrimSpace (tok_IdempotencyKey token)\<rparr>"
  obtain a ps where a: "get (serviceAccounts s) (TrimSpace (tok_ServiceAccountID token)) = Some a" "sa_State a = ServiceAccountActive"
      "normalizeTokenPermissions (sa_ProductRole a) (tok_Permissions token) = Inr ps" "tok_ExpiresAt token \<le> nowUTC e 1 + 366 * 24 * Hour"
      "\<not> list_ex (\<lambda>w. tok_ServiceAccountID w = ID a \<and> tok_IdempotencyKey w = TrimSpace (tok_IdempotencyKey token)) (vals (apiTokens s))"
    and s': "serviceAccounts (snd (CreateAPIToken e token actor s)) = serviceAccounts s"
      "apiTokens (snd (CreateAPIToken e token actor s)) =
        put (token_id e 2 token) (issuedToken e 2 a ps actor (nowUTC e 2) ?t) (apiTokens s)"
    using False by (auto simp: CreateAPIToken_def Let_def token_id_def split: option.split_asm sum.split_asm if_split_asm)
  have id: "token_id e 2 ?t = token_id e 2 token" by (simp add: token_id_def)
  have "get (serviceAccounts s) (ID a) = Some a" using assms(1) a(1) by (simp add: svc_ok_def accounts_ok_def)
  moreover have "tok_ExpiresAt ?t \<le> nowUTC e 2 + 366 * 24 * Hour"
    using a(4) assms(2) [unfolded mono_clock_def, rule_format, of 1 2] by simp
  ultimately have "token_ok (serviceAccounts s) (issuedToken e 2 a ps actor (nowUTC e 2) ?t)"
    using a(2,3) by (intro issuedToken_ok)
  moreover have "token_key w \<noteq> (ID a, TrimSpace (tok_IdempotencyKey token))" if "w \<in> set (vals (apiTokens s))" for w
    using a(5) that by (auto simp: list_ex_iff token_key_def)
  ultimately show ?thesis
    using assms(3) s' by (intro new_token_moves [OF assms(1), of "issuedToken e 2 a ps actor (nowUTC e 2) ?t"]) (simp_all add: id)
qed

lemma RevokeAPIToken_moves:
  assumes "svc_ok s"
  shows "svc_moves s (snd (RevokeAPIToken e i expected actor s))"
proof (cases "get (apiTokens s) (TrimSpace i)")
  case (Some t)
  have "tokens_ok (serviceAccounts s) (put (ID t) (revokedToken actor now t) (apiTokens s))" for now
    using assms Some by (intro tokens_ok_revoke) (simp_all add: svc_ok_def)
  moreover have "ID t = TrimSpace i" using assms Some by (simp add: svc_ok_def tokens_ok_def)
  ultimately show ?thesis
    using assms Some revokedToken_evolves
    by (cases "tok_State t") (auto simp: RevokeAPIToken_def Let_def svc_moves_def svc_ok_def account_evolves_def token_evolves_def)
qed (use assms in \<open>simp add: RevokeAPIToken_def\<close>)

lemma account_evolves_trans: "account_evolves a b \<Longrightarrow> account_evolves b c \<Longrightarrow> account_evolves a c"
  by (auto simp: account_evolves_def)

lemma token_evolves_trans: "token_evolves a b \<Longrightarrow> token_evolves b c \<Longrightarrow> token_evolves a c"
  by (auto simp: token_evolves_def)

lemma svc_moves_trans: "svc_moves s s' \<Longrightarrow> svc_moves s' s'' \<Longrightarrow> svc_moves s s''"
  unfolding svc_moves_def by (meson account_evolves_trans token_evolves_trans)

text \<open>A rotation revokes the old token and then adds the new one.\<close>

lemma rotate_parts:
  assumes "\<not> isl (fst (RotateAPIToken e i expected replacement actor s))"
  shows "\<exists>old a ps r. get (apiTokens s) (TrimSpace i) = Some old \<and> tok_State old = APITokenActive \<and>
    get (serviceAccounts s) (tok_ServiceAccountID old) = Some a \<and> sa_State a = ServiceAccountActive \<and>
    normalizeTokenPermissions (sa_ProductRole a) (if tok_Permissions replacement = [] then tok_Permissions old else tok_Permissions replacement) = Inr ps \<and>
    tok_ExpiresAt r \<le> nowUTC e 0 + 366 * 24 * Hour \<and> tok_IdempotencyKey r = TrimSpace (tok_IdempotencyKey replacement) \<and>
    token_id e 1 r = token_id e 1 replacement \<and>
    \<not> list_ex (\<lambda>w. tok_ServiceAccountID w = ID a \<and> tok_IdempotencyKey w = TrimSpace (tok_IdempotencyKey replacement)) (vals (apiTokens s)) \<and>
    serviceAccounts (snd (RotateAPIToken e i expected replacement actor s)) = serviceAccounts s \<and>
    apiTokens (snd (RotateAPIToken e i expected replacement actor s)) =
      put (token_id e 1 r) ((issuedToken e 1 a ps actor (nowUTC e 0) r)\<lparr>tok_RotatedFromID := ID old\<rparr>)
        (put (ID old) (revokedToken actor (nowUTC e 0) old) (apiTokens s)) \<and>
    fst (RotateAPIToken e i expected replacement actor s) =
      Inr (revokedToken actor (nowUTC e 0) old, (issuedToken e 1 a ps actor (nowUTC e 0) r)\<lparr>tok_RotatedFromID := ID old\<rparr>)"
proof -
  obtain old where old: "get (apiTokens s) (TrimSpace i) = Some old"
    using assms by (cases "get (apiTokens s) (TrimSpace i)") (auto simp: RotateAPIToken_def)
  obtain a where a: "get (serviceAccounts s) (tok_ServiceAccountID old) = Some a"
    using assms old by (cases "get (serviceAccounts s) (tok_ServiceAccountID old)") (auto simp: RotateAPIToken_def split: if_split_asm)
  define rep where "rep = (if tok_ExpiresAt replacement = 0 then replacement\<lparr>tok_ExpiresAt := tok_ExpiresAt old\<rparr> else replacement)"
  have rep: "tok_Permissions rep = tok_Permissions replacement" "tok_IdempotencyKey rep = tok_IdempotencyKey replacement" "ID rep = ID replacement"
    by (simp_all add: rep_def)
  note R = RotateAPIToken_def [of e i expected replacement actor s, unfolded Let_def old a option.case, folded rep_def]
  obtain ps where ps: "normalizeTokenPermissions (sa_ProductRole a)
      (if tok_Permissions rep = [] then tok_Permissions old else tok_Permissions rep) = Inr ps"
    using assms unfolding R guard_isl by blast
  note g = assms [unfolded R ps sum.case guard_isl, simplified]
  let ?r = "rep\<lparr>tok_IdempotencyKey := TrimSpace (tok_IdempotencyKey rep)\<rparr>"
  show ?thesis
    unfolding R by (rule exI [of _ old], rule exI [of _ a], rule exI [of _ ps], rule exI [of _ ?r])
      (use g old a ps rep in \<open>simp add: token_id_def split: if_split_asm\<close>)
qed

lemma RotateAPIToken_moves:
  assumes "svc_ok s" and "get (apiTokens s) (token_id e 1 replacement) = None"
  shows "svc_moves s (snd (RotateAPIToken e i expected replacement actor s))"
proof (cases "isl (fst (RotateAPIToken e i expected replacement actor s))")
  case True
  moreover have "error_keeps s (RotateAPIToken e i expected replacement actor s)"
    unfolding RotateAPIToken_def Let_def by (simp add: guard_keeps)
  ultimately show ?thesis using assms(1) by (simp add: error_keeps_def)
next
  case False
  let ?s' = "snd (RotateAPIToken e i expected replacement actor s)" and ?now = "nowUTC e 0"
  define key where "key = TrimSpace (tok_IdempotencyKey replacement)"
  obtain old a ps r where r: "get (apiTokens s) (TrimSpace i) = Some old" "tok_State old = APITokenActive"
      "get (serviceAccounts s) (tok_ServiceAccountID old) = Some a" "sa_State a = ServiceAccountActive"
      "normalizeTokenPermissions (sa_ProductRole a) (if tok_Permissions replacement = [] then tok_Permissions old else tok_Permissions replacement) = Inr ps"
      "tok_ExpiresAt r \<le> ?now + 366 * 24 * Hour" "tok_IdempotencyKey r = key" "token_id e 1 r = token_id e 1 replacement"
      "\<not> list_ex (\<lambda>w. tok_ServiceAccountID w = ID a \<and> tok_IdempotencyKey w = key) (vals (apiTokens s))"
    and s': "serviceAccounts ?s' = serviceAccounts s"
      "apiTokens ?s' = put (token_id e 1 r) ((issuedToken e 1 a ps actor ?now r)\<lparr>tok_RotatedFromID := ID old\<rparr>)
        (put (ID old) (revokedToken actor ?now old) (apiTokens s))"
    using False rotate_parts [of e i expected replacement actor s] unfolding key_def by blast
  define s1 where "s1 = s\<lparr>apiTokens := put (ID old) (revokedToken actor ?now old) (apiTokens s)\<rparr>"
  define v where "v = (issuedToken e 1 a ps actor ?now r)\<lparr>tok_RotatedFromID := ID old\<rparr>"
  have old: "ID old = TrimSpace i" "get (serviceAccounts s) (ID a) = Some a"
    using assms(1) r(1,3) by (simp_all add: svc_ok_def tokens_ok_def accounts_ok_def)
  have m1: "svc_moves s s1"
    using assms(1) r(1,2) old(1) tokens_ok_revoke [OF _ r(1), of "serviceAccounts s" actor "?now"] revokedToken_evolves
    by (auto simp: svc_moves_def svc_ok_def s1_def account_evolves_def token_evolves_def)
  then have ok1: "svc_ok s1" by (simp add: svc_moves_def)
  have "token_ok (serviceAccounts s) v"
    using issuedToken_ok [OF old(2) r(4,5,6), of e 1 actor] by (simp add: v_def token_ok_def)
  moreover have "token_key w \<noteq> token_key v" if w: "w \<in> set (vals (apiTokens s1))" for w
  proof -
    obtain k where "get (apiTokens s1) k = Some w" using w ok1 vals_get [of "apiTokens s1" w] by (auto simp: svc_ok_def tokens_ok_def)
    then obtain w0 where "get (apiTokens s) k = Some w0" "token_key w = token_key w0"
      using r(1) old(1) by (auto simp: s1_def split: if_split_asm)
    then have "token_key w \<noteq> (ID a, key)"
      using r(9) get_vals [of "apiTokens s" k w0] by (auto simp: list_ex_iff token_key_def)
    moreover have "token_key v = (ID a, key)" using r(7) by (simp add: v_def token_key_def issuedToken_def stamp_def)
    ultimately show ?thesis by simp
  qed
  moreover have "ID v = token_id e 1 r" "ID v \<noteq> ID old" using r(1,8) old(1) assms(2) by (auto simp: v_def)
  ultimately have "svc_moves s1 ?s'"
    using assms(2) r(8) s' by (intro new_token_moves [OF ok1, of v]) (simp_all add: s1_def v_def)
  then show ?thesis using m1 svc_moves_trans by blast
qed

lemma svc_step_moves: "svc_step s s' \<Longrightarrow> svc_ok s \<Longrightarrow> svc_moves s s'"
proof (induction rule: svc_step.induct)
  case (other s' s)
  then show ?case by (blast intro: svc_moves_cong svc_moves_refl)
qed (simp_all add: CreateServiceAccount_moves RevokeServiceAccount_moves CreateAPIToken_moves RevokeAPIToken_moves RotateAPIToken_moves)

interpretation svc: resource_history svc_step svc_ok serviceAccounts account_evolves
  by unfold_locales (auto simp: svc_moves_def account_evolves_def dest: svc_step_moves)

interpretation tok: resource_history svc_step svc_ok apiTokens token_evolves
  by unfold_locales (auto simp: svc_moves_def token_evolves_def dest: svc_step_moves)

lemma svc_ok_init: "svc_ok NewMemoryStoreWith"
  by (simp add: svc_ok_def accounts_ok_def tokens_ok_def NewMemoryStoreWith_def)

section \<open>Theorems\<close>

text \<open>
  C36: What a token can do is bounded by its account. In every store the calls can lead to, a token
  belongs to a stored account and has its organization and project; it always may read, beyond that
  only what the role of the account allows - operating needs an operator account -, it expires at most
  366 days after it was made, no other token of the account has its idempotency key, and while it is
  active so is the account.
\<close>
theorem tokens_respect_their_account:
  assumes "svc_step\<^sup>*\<^sup>* NewMemoryStoreWith s" and "get (apiTokens s) i = Some t"
  shows "ID t = i \<and> (\<exists>a. get (serviceAccounts s) (tok_ServiceAccountID t) = Some a \<and>
      tok_OrganizationID t = sa_OrganizationID a \<and> tok_ProjectID t = sa_ProjectID a \<and>
      (tok_State t = APITokenActive \<longrightarrow> sa_State a = ServiceAccountActive) \<and> ''read'' \<in> set (tok_Permissions t) \<and>
      (sa_ProductRole a = ''platform-viewer'' \<and> set (tok_Permissions t) \<subseteq> set readPermissions \<or>
       sa_ProductRole a = ''platform-operator'' \<and> set (tok_Permissions t) \<subseteq> set readPermissions \<union> set operatorPermissions)) \<and>
    tok_ExpiresAt t \<le> CreatedAt t + 366 * 24 * Hour \<and>
    (\<forall>j u. get (apiTokens s) j = Some u \<and> token_key u = token_key t \<longrightarrow> j = i)"
proof -
  have ok: "svc_ok s" using svc.inv_runs [OF assms(1) svc_ok_init] .
  then have t: "ID t = i" "token_ok (serviceAccounts s) t" "unique_by token_key (apiTokens s)"
    using assms(2) by (simp_all add: svc_ok_def tokens_ok_def)
  then obtain a where a: "get (serviceAccounts s) (tok_ServiceAccountID t) = Some a" "tok_OrganizationID t = sa_OrganizationID a"
    "tok_ProjectID t = sa_ProjectID a" "tok_State t = APITokenActive \<longrightarrow> sa_State a = ServiceAccountActive"
    "''read'' \<in> set (tok_Permissions t)" "\<forall>p \<in> set (tok_Permissions t). allowed (sa_ProductRole a) p"
    "tok_ExpiresAt t \<le> CreatedAt t + 366 * 24 * Hour" unfolding token_ok_def by blast
  have "validServiceAccountRole (sa_ProductRole a)" using ok a(1) by (simp add: svc_ok_def accounts_ok_def)
  then have "sa_ProductRole a = ''platform-viewer'' \<and> set (tok_Permissions t) \<subseteq> set readPermissions \<or>
      sa_ProductRole a = ''platform-operator'' \<and> set (tok_Permissions t) \<subseteq> set readPermissions \<union> set operatorPermissions"
    using a(6) by (auto simp: validServiceAccountRole_def allowed_def)
  moreover have "\<forall>j u. get (apiTokens s) j = Some u \<and> token_key u = token_key t \<longrightarrow> j = i"
    using unique_by_D [OF t(3) _ assms(2)] by blast
  ultimately show ?thesis using t(1) a by blast
qed

text \<open>
  C37: Revocation is final and reaches the tokens. Once a service account is revoked, no sequence of
  calls makes it active again, and no token of it is ever active; a revoked token keeps its record for
  ever.
\<close>
theorem revocation_is_final:
  assumes "svc_step\<^sup>*\<^sup>* NewMemoryStoreWith s" and "svc_step\<^sup>*\<^sup>* s s'"
    and "get (serviceAccounts s) i = Some a" and "sa_State a = ServiceAccountRevoked"
  shows "get (serviceAccounts s') i = Some a \<and>
    (\<forall>j t. get (apiTokens s') j = Some t \<and> tok_ServiceAccountID t = i \<longrightarrow> tok_State t = APITokenRevoked) \<and>
    (\<forall>j t. get (apiTokens s) j = Some t \<and> tok_State t = APITokenRevoked \<longrightarrow> get (apiTokens s') j = Some t)"
proof -
  have ok: "svc_ok s" using svc.inv_runs [OF assms(1) svc_ok_init] .
  have ok': "svc_ok s'" using svc.inv_runs [OF assms(2) ok] .
  have a: "get (serviceAccounts s') i = Some a" using svc.history [OF assms(2) ok assms(3)] assms(4) by (auto simp: account_evolves_def)
  have "tok_State t = APITokenRevoked" if "get (apiTokens s') j = Some t" "tok_ServiceAccountID t = i" for j t
  proof -
    have "token_ok (serviceAccounts s') t" using ok' that(1) by (simp add: svc_ok_def tokens_ok_def)
    then have "tok_State t \<noteq> APITokenActive" using a that(2) assms(4) by (auto simp: token_ok_def)
    then show ?thesis by (cases "tok_State t") simp_all
  qed
  moreover have "get (apiTokens s') j = Some t" if "get (apiTokens s) j = Some t" "tok_State t = APITokenRevoked" for j t
    using tok.history [OF assms(2) ok that(1)] that(2) by (auto simp: token_evolves_def)
  ultimately show ?thesis using a by blast
qed

lemma collectPermissions_shape:
  assumes "collectPermissions role out input = Inr ps"
  shows "(distinct out \<longrightarrow> distinct ps) \<and> (ps = [] \<longleftrightarrow> out = [] \<and> list_all (\<lambda>p. TrimSpace p = '''') input)"
  using assms
proof (induction role out input rule: collectPermissions.induct)
  case (2 role out raw rest)
  have blank: "ToLower (TrimSpace raw) = '''' \<longleftrightarrow> TrimSpace raw = ''''" by (simp add: ToLower_def)
  show ?case
  proof (cases "ToLower (TrimSpace raw) = '''' \<or> ToLower (TrimSpace raw) \<in> set out")
    case True
    then show ?thesis using 2(1) [OF refl True] 2(4) blank by (auto simp: Let_def)
  next
    case False
    then have "collectPermissions role (out @ [ToLower (TrimSpace raw)]) rest = Inr ps"
      using 2(4) by (auto simp: Let_def split: if_split_asm)
    then show ?thesis using 2(2,3) [OF refl False] 2(4) False blank by (auto simp: Let_def split: if_split_asm)
  qed
qed simp

text \<open>
  An API token without permissions gets the read permission twice. Whatever the role, normalising
  an empty request gives \<open>read, read\<close>, and so does a request of blank entries; any other accepted
  request gives each permission once.
\<close>
lemma empty_permissions_are_doubled:
  assumes "normalizeTokenPermissions role input = Inr ps"
  shows "if list_all (\<lambda>p. TrimSpace p = '''') input then ps = [''read'', ''read''] else distinct ps"
proof -
  obtain cs where cs: "collectPermissions role [] input = Inr cs"
    using assms by (auto simp: normalizeTokenPermissions_def split: sum.split_asm)
  have ps: "ps = sort ((if cs = [] then [''read''] else cs) @ (if ''read'' \<notin> set cs then [''read''] else []))"
    using assms cs by (auto simp: normalizeTokenPermissions_def Let_def)
  show ?thesis using collectPermissions_shape [OF cs] by (auto simp: ps)
qed

text \<open>
  A rotation swaps one token for another. When it succeeds, the old token, which was active, is
  stored as revoked, the replacement is stored as active for the same account and names the old one,
  and every other token is untouched; when it fails, nothing changes.
\<close>
lemma rotation_swaps_tokens:
  assumes "svc_step\<^sup>*\<^sup>* NewMemoryStoreWith s" and "get (apiTokens s) (token_id e 1 replacement) = None"
  shows "case RotateAPIToken e i expected replacement actor s of
      (Inl x, s') \<Rightarrow> s' = s
    | (Inr (old', new), s') \<Rightarrow> (\<exists>old. get (apiTokens s) (TrimSpace i) = Some old \<and> tok_State old = APITokenActive \<and>
         old' = revokedToken actor (nowUTC e 0) old \<and> get (apiTokens s') (TrimSpace i) = Some old' \<and>
         ID new \<noteq> ID old \<and> get (apiTokens s') (ID new) = Some new \<and> tok_State new = APITokenActive \<and>
         tok_RotatedFromID new = ID old \<and> tok_ServiceAccountID new = tok_ServiceAccountID old \<and>
         (\<forall>j. j \<noteq> TrimSpace i \<and> j \<noteq> ID new \<longrightarrow> get (apiTokens s') j = get (apiTokens s) j))"
proof (cases "RotateAPIToken e i expected replacement actor s")
  case (Pair res s')
  have ok: "svc_ok s" using svc.inv_runs [OF assms(1) svc_ok_init] .
  show ?thesis
  proof (cases res)
    case (Inl x)
    have "error_keeps s (RotateAPIToken e i expected replacement actor s)"
      unfolding RotateAPIToken_def Let_def by (simp add: guard_keeps)
    then show ?thesis using Pair Inl by (simp add: error_keeps_def)
  next
    case (Inr p)
    have "\<not> isl (fst (RotateAPIToken e i expected replacement actor s))" using Pair Inr by simp
    from rotate_parts [OF this] obtain old a ps r where r: "get (apiTokens s) (TrimSpace i) = Some old" "tok_State old = APITokenActive"
        "get (serviceAccounts s) (tok_ServiceAccountID old) = Some a" "token_id e 1 r = token_id e 1 replacement"
        "apiTokens s' = put (token_id e 1 r) ((issuedToken e 1 a ps actor (nowUTC e 0) r)\<lparr>tok_RotatedFromID := ID old\<rparr>)
          (put (ID old) (revokedToken actor (nowUTC e 0) old) (apiTokens s))"
        "p = (revokedToken actor (nowUTC e 0) old, (issuedToken e 1 a ps actor (nowUTC e 0) r)\<lparr>tok_RotatedFromID := ID old\<rparr>)"
      using Pair Inr by auto
    have "ID old = TrimSpace i" "ID a = tok_ServiceAccountID old"
      using ok r(1,3) by (simp_all add: svc_ok_def tokens_ok_def accounts_ok_def)
    then show ?thesis using Pair Inr r assms(2) by auto
  qed
qed

section \<open>A concrete account\<close>

definition svc_env :: "nat \<Rightarrow> env" where
  "svc_env n = \<lparr>clock = (\<lambda>k. int n * Hour), newid = (\<lambda>k p. p @ replicate (Suc n) (CHR ''x'')), sha256hex = (\<lambda>raw. raw),
     marshal = (\<lambda>v. ''{}''), ed25519_Verify = (\<lambda>key m sig. False)\<rparr>"

definition svc_account :: ServiceAccount where
  "svc_account = \<lparr>ID = '''', Revision = 0, CreatedAt = 0, UpdatedAt = 0, sa_OrganizationID = ''org'', sa_ProjectID = '''',
     sa_Name = ''Deployer'', sa_DisplayName = ''Deployer'', sa_ProductRole = ''platform-operator'', sa_State = ServiceAccountActive,
     sa_CreatedBy = '''', sa_RevokedBy = '''', sa_RevokedAt = None\<rparr>"

definition svc_token :: "string \<Rightarrow> APIToken" where
  "svc_token key = \<lparr>ID = '''', Revision = 0, CreatedAt = 0, UpdatedAt = 0, tok_ServiceAccountID = ''svcx'', tok_OrganizationID = '''',
     tok_ProjectID = '''', tok_TokenPrefix = ''4so'', tok_TokenDigest = ''d'', tok_IdempotencyKey = key,
     tok_Permissions = [''operate''], tok_State = APITokenRevoked, tok_ExpiresAt = 100 * Hour, tok_CreatedBy = '''',
     tok_RotatedFromID = '''', tok_RevokedBy = '''', tok_RevokedAt = None\<rparr>"

definition svc_org :: MemoryStore where
  "svc_org = NewMemoryStoreWith\<lparr>organizations := [(''org'', \<lparr>ID = ''org'', Revision = 1, CreatedAt = 0, UpdatedAt = 0,
     org_Name = ''org'', org_DisplayName = ''org''\<rparr>)]\<rparr>"

definition svc_s1 :: MemoryStore where
  "svc_s1 = snd (CreateServiceAccount (svc_env 0) svc_account ''alice'' svc_org)"

definition svc_s2 :: MemoryStore where
  "svc_s2 = snd (CreateAPIToken (svc_env 1) (svc_token ''k1'') ''alice'' svc_s1)"

definition svc_s3 :: "(APIToken \<times> APIToken) call" where
  "svc_s3 = RotateAPIToken (svc_env 2) ''tokxx'' 1 (svc_token ''k2'') ''alice'' svc_s2"

definition svc_s4 :: MemoryStore where
  "svc_s4 = snd (RevokeServiceAccount (svc_env 3) ''svcx'' 1 ''alice'' (snd svc_s3))"

definition svc_check :: bool where
  "svc_check = (get (apiTokens svc_s1) ''tokxx'' = None \<and> get (apiTokens svc_s2) ''tokxxx'' = None \<and>
     \<not> isl (fst svc_s3) \<and>
     (case (get (apiTokens svc_s2) ''tokxx'', get (serviceAccounts svc_s4) ''svcx'', get (apiTokens svc_s4) ''tokxxx'') of
        (Some t, Some a, Some t') \<Rightarrow> tok_State t = APITokenActive \<and> sa_State a = ServiceAccountRevoked \<and> tok_ServiceAccountID t' = ''svcx''
      | _ \<Rightarrow> False))"

lemma svc_eval: svc_check
  by code_simp

lemma svc_facts:
  "get (apiTokens svc_s1) ''tokxx'' = None" "get (apiTokens svc_s2) ''tokxxx'' = None"
  "\<exists>t. get (apiTokens svc_s2) ''tokxx'' = Some t \<and> tok_State t = APITokenActive" "\<not> isl (fst svc_s3)"
  "\<exists>a. get (serviceAccounts svc_s4) ''svcx'' = Some a \<and> sa_State a = ServiceAccountRevoked"
  "\<exists>t. get (apiTokens svc_s4) ''tokxxx'' = Some t \<and> tok_ServiceAccountID t = ''svcx''"
  using svc_eval unfolding svc_check_def by (auto split: option.split_asm)

lemma svc_env_mono: "mono_clock (svc_env n)"
  by (simp add: mono_clock_def nowUTC_def svc_env_def)

lemma svc_token_id: "token_id (svc_env n) k (svc_token key) = ''tok'' @ CHR ''x'' # replicate n (CHR ''x'')"
  by (simp add: token_id_def svc_token_def svc_env_def)

lemma svc_run2: "svc_step\<^sup>*\<^sup>* NewMemoryStoreWith svc_s2"
proof -
  have "svc_step NewMemoryStoreWith svc_org" by (rule svc_step.other) (simp_all add: svc_org_def)
  moreover have "svc_step svc_org svc_s1" unfolding svc_s1_def
    by (rule svc_step.create_account) (simp add: svc_org_def NewMemoryStoreWith_def)
  moreover have "svc_step svc_s1 svc_s2" unfolding svc_s2_def
    using svc_facts(1) by (intro svc_step.create_token svc_env_mono) (simp add: svc_token_id)
  ultimately show ?thesis by (meson rtranclp.rtrancl_into_rtrancl rtranclp.rtrancl_refl)
qed

lemma svc_run4: "svc_step\<^sup>*\<^sup>* NewMemoryStoreWith svc_s4"
proof -
  have "svc_step svc_s2 (snd svc_s3)" unfolding svc_s3_def
    using svc_facts(2) by (intro svc_step.rotate) (simp add: svc_token_id numeral_2_eq_2 del: One_nat_def)
  moreover have "svc_step (snd svc_s3) svc_s4" unfolding svc_s4_def by (rule svc_step.revoke_account)
  ultimately show ?thesis using svc_run2 by (meson rtranclp.rtrancl_into_rtrancl)
qed

theorem tokens_respect_their_account_witness:
  "\<exists>t a. get (apiTokens svc_s2) ''tokxx'' = Some t \<and> tok_State t = APITokenActive \<and>
     get (serviceAccounts svc_s2) (tok_ServiceAccountID t) = Some a \<and> sa_State a = ServiceAccountActive"
proof -
  obtain t where t: "get (apiTokens svc_s2) ''tokxx'' = Some t" "tok_State t = APITokenActive" using svc_facts(3) by blast
  then show ?thesis using tokens_respect_their_account [OF svc_run2 t(1)] by blast
qed

theorem revocation_is_final_witness:
  "\<exists>t. get (apiTokens svc_s4) ''tokxxx'' = Some t \<and> tok_State t = APITokenRevoked"
proof -
  obtain a where a: "get (serviceAccounts svc_s4) ''svcx'' = Some a" "sa_State a = ServiceAccountRevoked" using svc_facts(5) by blast
  obtain t where t: "get (apiTokens svc_s4) ''tokxxx'' = Some t" "tok_ServiceAccountID t = ''svcx''" using svc_facts(6) by blast
  then show ?thesis using revocation_is_final [OF svc_run4 rtranclp.rtrancl_refl a] by blast
qed

lemma rotation_swaps_tokens_instance:
  "\<exists>old new. fst svc_s3 = Inr (old, new) \<and> tok_State old = APITokenRevoked \<and> tok_State new = APITokenActive \<and>
     get (apiTokens (snd svc_s3)) (ID new) = Some new"
proof -
  obtain old new s' where p: "svc_s3 = (Inr (old, new), s')" using call_eq [OF svc_facts(4)] by (metis prod.collapse)
  have "get (apiTokens svc_s2) (token_id (svc_env 2) 1 (svc_token ''k2'')) = None"
    using svc_facts(2) by (simp add: svc_token_id numeral_2_eq_2)
  from rotation_swaps_tokens [OF svc_run2 this, where i = "''tokxx''" and expected = 1 and actor = "''alice''", folded svc_s3_def] show ?thesis
    unfolding p by auto
qed

lemma empty_permissions_are_doubled_instance:
  "normalizeTokenPermissions ''platform-viewer'' [] = Inr [''read'', ''read'']"
proof -
  obtain ps where ps: "normalizeTokenPermissions ''platform-viewer'' [] = Inr ps"
    by (simp add: normalizeTokenPermissions_def)
  then show ?thesis using empty_permissions_are_doubled [OF ps] by simp
qed

end
