(* ===== verification/Delegation.thy ===== *)
theory Delegation
  imports MCPDelegation
begin

text \<open>
  What the delegation calls keep: an active grant always has a trusted client behind it, lives at most
  30 days, and never overlaps another one of the same scope; revoking a client cuts its grants off.
\<close>

section \<open>The invariant\<close>

definition clients_ok :: "MCPTrustedClient table \<Rightarrow> bool" where
  "clients_ok t = (well_keyed t \<and> (\<forall>i c. get t i = Some c \<longrightarrow> ID c = i) \<and>
     (\<forall>i j c d. get t i = Some c \<and> get t j = Some d \<and> mtc_State c = MCPTrustedClientActive \<and> mtc_State d = MCPTrustedClientActive \<and>
        mtc_ClientID c = mtc_ClientID d \<longrightarrow> i = j))"

definition trusted :: "MCPTrustedClient table \<Rightarrow> string \<Rightarrow> bool" where
  "trusted t clientID = (\<exists>i c. get t i = Some c \<and> mtc_ClientID c = clientID \<and> mtc_State c = MCPTrustedClientActive)"

definition grant_scope :: "MCPDelegationGrant \<Rightarrow> string \<times> string \<times> string \<times> string" where
  "grant_scope g = (mdg_Subject g, mdg_ClientID g, mdg_OrganizationID g, mdg_ProjectID g)"

definition grant_ok :: "MCPTrustedClient table \<Rightarrow> MCPDelegationGrant \<Rightarrow> bool" where
  "grant_ok clients g = (CreatedAt g < mdg_ExpiresAt g \<and> mdg_ExpiresAt g \<le> CreatedAt g + 30 * 24 * Hour \<and>
     (mdg_State g = MCPDelegationGrantActive \<longrightarrow> trusted clients (mdg_ClientID g)))"

definition apart :: "MCPDelegationGrant \<Rightarrow> MCPDelegationGrant \<Rightarrow> bool" where
  "apart g h = (mdg_State g = MCPDelegationGrantActive \<and> mdg_State h = MCPDelegationGrantActive \<and> grant_scope g = grant_scope h \<longrightarrow>
     mdg_ExpiresAt g \<le> CreatedAt h \<or> mdg_ExpiresAt h \<le> CreatedAt g)"

definition grants_ok :: "MCPTrustedClient table \<Rightarrow> MCPDelegationGrant table \<Rightarrow> bool" where
  "grants_ok clients t = (well_keyed t \<and> (\<forall>i g. get t i = Some g \<longrightarrow> ID g = i \<and> grant_ok clients g) \<and>
     (\<forall>i j g h. get t i = Some g \<and> get t j = Some h \<and> i \<noteq> j \<longrightarrow> apart g h))"

definition delegation_ok :: "MemoryStore \<Rightarrow> bool" where
  "delegation_ok s = (clients_ok (mcpTrustedClients s) \<and> grants_ok (mcpTrustedClients s) (mcpDelegationGrants s))"

definition grant_evolves :: "MCPDelegationGrant \<Rightarrow> MCPDelegationGrant \<Rightarrow> bool" where
  "grant_evolves g g' = (g' = g \<or> (mdg_State g = MCPDelegationGrantActive \<and> mdg_State g' = MCPDelegationGrantRevoked \<and> ID g' = ID g \<and>
     CreatedAt g' = CreatedAt g \<and> grant_scope g' = grant_scope g \<and> mdg_Issuer g' = mdg_Issuer g \<and>
     mdg_AccessProfile g' = mdg_AccessProfile g \<and> mdg_ConsentDigest g' = mdg_ConsentDigest g \<and> mdg_ExpiresAt g' = mdg_ExpiresAt g))"

lemma grant_evolves_refl [simp]: "grant_evolves g g"
  by (simp add: grant_evolves_def)

lemma grant_evolves_trans: "grant_evolves g h \<Longrightarrow> grant_evolves h k \<Longrightarrow> grant_evolves g k"
  by (auto simp: grant_evolves_def)

lemma apart_sym: "apart g h \<Longrightarrow> apart h g"
  by (auto simp: apart_def)

lemma evolved_state: "grant_evolves g g' \<Longrightarrow> mdg_State g' = MCPDelegationGrantActive \<Longrightarrow> g' = g"
  by (auto simp: grant_evolves_def)

lemma evolved_apart: "grant_evolves g g' \<Longrightarrow> grant_evolves h h' \<Longrightarrow> apart g h \<Longrightarrow> apart g' h'"
  by (auto simp: grant_evolves_def apart_def)

lemma evolved_ok: "grant_evolves g g' \<Longrightarrow> grant_ok clients g \<Longrightarrow> grant_ok clients g'"
  by (auto simp: grant_evolves_def grant_ok_def)

lemma revokedGrant_evolves: "mdg_State g = MCPDelegationGrantActive \<Longrightarrow> grant_evolves g (revokedGrant actor now g)"
  by (simp add: grant_evolves_def revokedGrant_def touch_def grant_scope_def)

text \<open>Every call but the creation of a grant maps the grants along their evolution.\<close>

lemma grants_ok_evolve:
  assumes "grants_ok clients t" and "well_keyed t'"
    and "\<And>i. get t' i = map_option (f i) (get t i)" and "\<And>i g. get t i = Some g \<Longrightarrow> grant_evolves g (f i g)"
    and "\<And>i g. get t i = Some g \<Longrightarrow> mdg_State (f i g) = MCPDelegationGrantActive \<Longrightarrow> trusted clients' (mdg_ClientID g)"
  shows "grants_ok clients' t'"
proof -
  have "ID (f i g) = i \<and> grant_ok clients' (f i g)" if "get t i = Some g" for i g
  proof -
    have g: "ID g = i" "grant_ok clients g" "grant_evolves g (f i g)" using assms(1,4) that by (simp_all add: grants_ok_def)
    then have "ID (f i g) = i" "grant_ok clients (f i g)" using evolved_ok by (auto simp: grant_evolves_def)
    moreover have "trusted clients' (mdg_ClientID (f i g))" if "mdg_State (f i g) = MCPDelegationGrantActive"
      using assms(5) [OF \<open>get t i = Some g\<close> that] evolved_state [OF g(3) that] by simp
    ultimately show ?thesis by (simp add: grant_ok_def)
  qed
  moreover have "apart (f i g) (f j h)" if "get t i = Some g" "get t j = Some h" "i \<noteq> j" for i j g h
    using evolved_apart [OF assms(4) [OF that(1)] assms(4) [OF that(2)]] assms(1) that by (auto simp: grants_ok_def)
  ultimately show ?thesis using assms(2) by (auto simp: grants_ok_def assms(3) map_option_eq_Some)
qed

lemma grants_ok_clients:
  assumes "grants_ok clients t" and "\<And>c. trusted clients c \<Longrightarrow> trusted clients' c"
  shows "grants_ok clients' t"
  using assms by (auto simp: grants_ok_def grant_ok_def)

section \<open>Every call keeps it\<close>

lemma trusted_put:
  assumes "trusted t k" and "\<And>old. get t i = Some old \<Longrightarrow> mtc_ClientID old \<noteq> k"
  shows "trusted (put i v t) k"
proof -
  obtain j c where c: "get t j = Some c" "mtc_ClientID c = k" "mtc_State c = MCPTrustedClientActive" using assms(1) by (auto simp: trusted_def)
  then have "j \<noteq> i" using assms(2) by blast
  then have "get (put i v t) j = Some c" using c(1) by simp
  then show ?thesis using c(2,3) unfolding trusted_def by blast
qed

lemma trusted_new:
  assumes "clients_ok t" and "get t (ID v) = None" and "mtc_State v = MCPTrustedClientActive" and "\<not> trusted t (mtc_ClientID v)"
  shows "clients_ok (put (ID v) v t)" and "trusted t c \<Longrightarrow> trusted (put (ID v) v t) c"
proof -
  have "get t i = Some c \<Longrightarrow> mtc_State c = MCPTrustedClientActive \<Longrightarrow> mtc_ClientID c \<noteq> mtc_ClientID v" for i c
    using assms(4) by (auto simp: trusted_def)
  then show "clients_ok (put (ID v) v t)"
    using assms(1,3) unfolding clients_ok_def by (auto split: if_split_asm) metis+
  show "trusted t c \<Longrightarrow> trusted (put (ID v) v t) c" using assms(2) by (auto intro: trusted_put)
qed

lemma trusted_vals:
  "well_keyed t \<Longrightarrow> list_ex (\<lambda>c. mtc_ClientID c = k \<and> mtc_State c = MCPTrustedClientActive) (vals t) = trusted t k"
  unfolding trusted_def list_ex_iff Bex_def by (metis vals_iff)

lemma CreateMCPTrustedClient_ok:
  assumes "delegation_ok s" and "\<And>k. get (mcpTrustedClients s) (newid e k ''mcpcli'') = None"
  shows "delegation_ok (snd (CreateMCPTrustedClient e v actor s))"
    and "mcpDelegationGrants (snd (CreateMCPTrustedClient e v actor s)) = mcpDelegationGrants s"
proof -
  have ok: "clients_ok (mcpTrustedClients s)" "grants_ok (mcpTrustedClients s) (mcpDelegationGrants s)" "well_keyed (mcpTrustedClients s)"
    using assms(1) by (simp_all add: delegation_ok_def clients_ok_def)
  have "delegation_ok (snd (CreateMCPTrustedClient e v actor s)) \<and>
    mcpDelegationGrants (snd (CreateMCPTrustedClient e v actor s)) = mcpDelegationGrants s"
  proof (cases "normalizeMCPClient v")
    case (Inr w)
    define c where "c = (stamp (newid e 0 ''mcpcli'') (nowUTC e 0) w)\<lparr>mtc_State := MCPTrustedClientActive, mtc_CreatedBy := TrimSpace actor\<rparr>"
    have c: "ID c = newid e 0 ''mcpcli''" "mtc_State c = MCPTrustedClientActive" "mtc_ClientID c = mtc_ClientID w"
      by (simp_all add: c_def stamp_def)
    show ?thesis
    proof (cases "trusted (mcpTrustedClients s) (mtc_ClientID w)")
      case False
      have "clients_ok (put (ID c) c (mcpTrustedClients s))" "grants_ok (put (ID c) c (mcpTrustedClients s)) (mcpDelegationGrants s)"
        using trusted_new [OF ok(1), of c] grants_ok_clients [OF ok(2)] False assms(2) c by simp_all
      then show ?thesis
        using Inr False by (simp add: CreateMCPTrustedClient_def Let_def trusted_vals [OF ok(3)] delegation_ok_def c_def)
    qed (use Inr assms(1) in \<open>simp add: CreateMCPTrustedClient_def trusted_vals [OF ok(3)]\<close>)
  qed (use assms(1) in \<open>simp add: CreateMCPTrustedClient_def\<close>)
  then show "delegation_ok (snd (CreateMCPTrustedClient e v actor s))"
    "mcpDelegationGrants (snd (CreateMCPTrustedClient e v actor s)) = mcpDelegationGrants s" by simp_all
qed

definition cut_off :: "string \<Rightarrow> string \<Rightarrow> int \<Rightarrow> MCPDelegationGrant \<Rightarrow> MCPDelegationGrant" where
  "cut_off clientID actor now g =
     (if mdg_ClientID g = clientID \<and> mdg_State g = MCPDelegationGrantActive then revokedGrant actor now g else g)"

lemma get_revokeGrants: "get (revokeGrants c actor now t) i = map_option (cut_off c actor now) (get t i)"
proof -
  have "revokeGrants c actor now t = map (\<lambda>(k, g). (k, cut_off c actor now g)) t" by (simp add: revokeGrants_def cut_off_def)
  then show ?thesis by (simp add: get_def map_of_map)
qed

lemma well_keyed_revokeGrants: "well_keyed t \<Longrightarrow> well_keyed (revokeGrants c actor now t)"
proof -
  have "map fst (revokeGrants c actor now t) = map fst t" by (induction t) (auto simp: revokeGrants_def)
  then show "well_keyed t \<Longrightarrow> well_keyed (revokeGrants c actor now t)" by (simp add: well_keyed_def)
qed

lemma cut_off_evolves: "grant_evolves g (cut_off c actor now g)"
  using revokedGrant_evolves by (cases "mdg_ClientID g = c \<and> mdg_State g = MCPDelegationGrantActive") (auto simp: cut_off_def grant_evolves_def)

lemma RevokeMCPTrustedClient_ok:
  assumes "delegation_ok s"
  shows "delegation_ok (snd (RevokeMCPTrustedClient e i expected actor s))"
    and "\<exists>c now. mcpDelegationGrants (snd (RevokeMCPTrustedClient e i expected actor s)) = mcpDelegationGrants s \<or>
      mcpDelegationGrants (snd (RevokeMCPTrustedClient e i expected actor s)) = revokeGrants c actor now (mcpDelegationGrants s)"
proof -
  have ok: "clients_ok (mcpTrustedClients s)" "grants_ok (mcpTrustedClients s) (mcpDelegationGrants s)"
    using assms by (simp_all add: delegation_ok_def)
  show "\<exists>c now. mcpDelegationGrants (snd (RevokeMCPTrustedClient e i expected actor s)) = mcpDelegationGrants s \<or>
      mcpDelegationGrants (snd (RevokeMCPTrustedClient e i expected actor s)) = revokeGrants c actor now (mcpDelegationGrants s)"
    by (auto simp: RevokeMCPTrustedClient_def Let_def split: option.split)
  show "delegation_ok (snd (RevokeMCPTrustedClient e i expected actor s))"
  proof (cases "get (mcpTrustedClients s) (TrimSpace i)")
    case (Some v)
    define now where "now = nowUTC e 0"
    define w where "w = touch now (v\<lparr>mtc_State := MCPTrustedClientRevoked, mtc_RevokedBy := TrimSpace actor, mtc_RevokedAt := Some now\<rparr>)"
    let ?cs = "put (ID v) w (mcpTrustedClients s)"
    have v: "ID v = TrimSpace i" "ID w = ID v" "mtc_State w = MCPTrustedClientRevoked" "mtc_ClientID w = mtc_ClientID v"
      using ok(1) Some by (simp_all add: clients_ok_def w_def touch_def)
    have cs: "clients_ok ?cs" using ok(1) v(3) unfolding clients_ok_def by (auto simp: v(2) split: if_split_asm)
    have "trusted ?cs c" if "trusted (mcpTrustedClients s) c" "c \<noteq> mtc_ClientID v" for c
      using that Some v(1) by (intro trusted_put) auto
    moreover have "mdg_State (cut_off c a n g) = MCPDelegationGrantActive \<Longrightarrow> mdg_ClientID g \<noteq> c \<and> mdg_State g = MCPDelegationGrantActive" for c a n g
      by (auto simp: cut_off_def revokedGrant_def touch_def split: if_split_asm)
    ultimately have "grants_ok ?cs (revokeGrants (mtc_ClientID v) actor now (mcpDelegationGrants s))"
      using ok(2) cut_off_evolves
      by (intro grants_ok_evolve [OF ok(2) _ get_revokeGrants])
        (auto simp: grants_ok_def grant_ok_def well_keyed_revokeGrants)
    then show ?thesis
      using Some assms cs v by (simp add: RevokeMCPTrustedClient_def Let_def delegation_ok_def w_def [symmetric] now_def [symmetric])
  qed (use assms in \<open>simp add: RevokeMCPTrustedClient_def\<close>)
qed

lemma RevokeMCPDelegationGrant_cases:
  assumes "delegation_ok s"
  obtains (same) "snd (RevokeMCPDelegationGrant e i expected actor s) = s"
  | (revoked) v where "get (mcpDelegationGrants s) (TrimSpace i) = Some v" and "mdg_State v = MCPDelegationGrantActive"
      and "mcpDelegationGrants (snd (RevokeMCPDelegationGrant e i expected actor s)) =
        put (TrimSpace i) (revokedGrant actor (nowUTC e 0) v) (mcpDelegationGrants s)"
      and "mcpTrustedClients (snd (RevokeMCPDelegationGrant e i expected actor s)) = mcpTrustedClients s"
proof (cases "get (mcpDelegationGrants s) (TrimSpace i)")
  case (Some v)
  have id: "ID (revokedGrant actor (nowUTC e 0) v) = TrimSpace i"
    using assms Some by (simp add: delegation_ok_def grants_ok_def revokedGrant_def)
  show thesis
  proof (cases "mdg_State v = MCPDelegationGrantActive \<and> Revision v = expected")
    case True
    then show thesis by (intro revoked [OF Some]) (simp_all add: RevokeMCPDelegationGrant_def Let_def Some id)
  next
    case False
    then show thesis by (cases "mdg_State v") (simp_all add: same RevokeMCPDelegationGrant_def Some)
  qed
qed (use same in \<open>simp add: RevokeMCPDelegationGrant_def\<close>)

lemma RevokeMCPDelegationGrant_ok:
  assumes "delegation_ok s"
  shows "delegation_ok (snd (RevokeMCPDelegationGrant e i expected actor s))"
    and "get (mcpDelegationGrants s) j = Some g \<Longrightarrow>
      \<exists>g'. get (mcpDelegationGrants (snd (RevokeMCPDelegationGrant e i expected actor s))) j = Some g' \<and> grant_evolves g g'"
proof -
  have ok: "grants_ok (mcpTrustedClients s) (mcpDelegationGrants s)" using assms by (simp add: delegation_ok_def)
  show "delegation_ok (snd (RevokeMCPDelegationGrant e i expected actor s))"
    using assms
  proof (cases rule: RevokeMCPDelegationGrant_cases [where e = e and i = i and expected = expected and actor = actor])
    case (revoked v)
    define f where "f k h = (if k = TrimSpace i \<and> mdg_State h = MCPDelegationGrantActive then revokedGrant actor (nowUTC e 0) h else h)" for k h
    have f: "grant_evolves h (f k h)" for k h using revokedGrant_evolves by (auto simp: f_def grant_evolves_def)
    have "mdg_State (f k h) = MCPDelegationGrantActive \<Longrightarrow> mdg_State h = MCPDelegationGrantActive" for k h
      by (auto simp: f_def revokedGrant_def touch_def split: if_split_asm)
    moreover have "trusted (mcpTrustedClients s) (mdg_ClientID h)"
      if "get (mcpDelegationGrants s) k = Some h" "mdg_State h = MCPDelegationGrantActive" for k h
      using ok that by (simp add: grants_ok_def grant_ok_def)
    moreover have "well_keyed (mcpDelegationGrants s)" using ok by (simp add: grants_ok_def)
    ultimately have "grants_ok (mcpTrustedClients s) (put (TrimSpace i) (revokedGrant actor (nowUTC e 0) v) (mcpDelegationGrants s))"
    proof (intro grants_ok_evolve [OF ok, of _ f])
      show "get (put (TrimSpace i) (revokedGrant actor (nowUTC e 0) v) (mcpDelegationGrants s)) k = map_option (f k) (get (mcpDelegationGrants s) k)" for k
        using revoked(1,2) by (cases "get (mcpDelegationGrants s) k") (auto simp: f_def)
    qed (auto simp: f)
    then show ?thesis using assms revoked by (simp add: delegation_ok_def)
  qed (use assms in simp)
  show "\<exists>g'. get (mcpDelegationGrants (snd (RevokeMCPDelegationGrant e i expected actor s))) j = Some g' \<and> grant_evolves g g'"
    if "get (mcpDelegationGrants s) j = Some g"
  proof -
    have "one_write grant_evolves (mcpDelegationGrants s) (mcpDelegationGrants (snd (RevokeMCPDelegationGrant e i expected actor s)))"
      using assms
    proof (cases rule: RevokeMCPDelegationGrant_cases [where e = e and i = i and expected = expected and actor = actor])
      case (revoked v)
      then show ?thesis using one_write_old [of "mcpDelegationGrants s" "TrimSpace i" v grant_evolves] revokedGrant_evolves by simp
    qed simp
    then show ?thesis using one_writeD [of grant_evolves, OF _ that grant_evolves_refl] by blast
  qed
qed

lemma CreateMCPDelegationGrant_ok:
  assumes "delegation_ok s" and "\<And>k. get (mcpDelegationGrants s) (newid e k ''mcpgr'') = None"
  shows "delegation_ok (snd (CreateMCPDelegationGrant e v actor s))"
    and "get (mcpDelegationGrants s) j = Some g \<Longrightarrow> get (mcpDelegationGrants (snd (CreateMCPDelegationGrant e v actor s))) j = Some g"
proof -
  let ?s' = "snd (CreateMCPDelegationGrant e v actor s)" and ?now = "nowUTC e 0"
  have wk: "well_keyed (mcpTrustedClients s)" and ok: "grants_ok (mcpTrustedClients s) (mcpDelegationGrants s)"
    using assms(1) by (simp_all add: delegation_ok_def clients_ok_def)
  have "delegation_ok ?s' \<and> (get (mcpDelegationGrants s) j = Some g \<longrightarrow> get (mcpDelegationGrants ?s') j = Some g)"
  proof (cases "isl (fst (CreateMCPDelegationGrant e v actor s))")
    case True
    moreover have "error_keeps s (CreateMCPDelegationGrant e v actor s)"
      unfolding CreateMCPDelegationGrant_def Let_def by (simp add: guard_keeps)
    ultimately show ?thesis using assms(1) by (simp add: error_keeps_def)
  next
    case False
    note C = CreateMCPDelegationGrant_def [of e v actor s, unfolded Let_def]
    obtain w where w: "normalizeMCPGrant v ?now = Inr w" using False unfolding C guard_isl by blast
    obtain u where u: "checkGrantScope s w = Inr u" using False unfolding C guard_isl w sum.case by blast
    note free = False [unfolded C w u sum.case guard_isl, simplified]
    define h where "h = (stamp (newid e 0 ''mcpgr'') ?now w)\<lparr>mdg_State := MCPDelegationGrantActive, mdg_CreatedBy := TrimSpace actor\<rparr>"
    have s': "mcpTrustedClients ?s' = mcpTrustedClients s" "mcpDelegationGrants ?s' = put (ID h) h (mcpDelegationGrants s)"
      using free by (simp_all add: C w u h_def)
    have h: "ID h = newid e 0 ''mcpgr''" "CreatedAt h = ?now" "mdg_ExpiresAt h = mdg_ExpiresAt w" "grant_scope h = grant_scope w"
      "mdg_ClientID h = mdg_ClientID w" by (simp_all add: h_def stamp_def grant_scope_def)
    have new: "get (mcpDelegationGrants s) (ID h) = None" using assms(2) h(1) by simp
    have "?now < mdg_ExpiresAt w \<and> mdg_ExpiresAt w \<le> ?now + 30 * 24 * Hour"
      using w by (auto simp: normalizeMCPGrant_def Let_def split: if_split_asm)
    moreover have "trusted (mcpTrustedClients s) (mdg_ClientID w)" using free trusted_vals [OF wk] by blast
    ultimately have "grant_ok (mcpTrustedClients s) h" using h by (simp add: grant_ok_def)
    moreover have "apart k h" if "get (mcpDelegationGrants s) i = Some k" for i k
      using free get_vals [OF that] h by (auto simp: list_ex_iff apart_def grant_scope_def)
    ultimately have "grants_ok (mcpTrustedClients s) (put (ID h) h (mcpDelegationGrants s))"
      using ok apart_sym unfolding grants_ok_def by (auto split: if_split_asm)
    then show ?thesis using assms(1) new s' by (auto simp: delegation_ok_def)
  qed
  then show "delegation_ok ?s'"
    "get (mcpDelegationGrants s) j = Some g \<Longrightarrow> get (mcpDelegationGrants ?s') j = Some g" by simp_all
qed

section \<open>Runs\<close>

inductive delegation_step :: "MemoryStore \<Rightarrow> MemoryStore \<Rightarrow> bool" where
  trust: "(\<And>k. get (mcpTrustedClients s) (newid e k ''mcpcli'') = None) \<Longrightarrow> delegation_step s (snd (CreateMCPTrustedClient e v actor s))"
| distrust: "delegation_step s (snd (RevokeMCPTrustedClient e i expected actor s))"
| grant: "(\<And>k. get (mcpDelegationGrants s) (newid e k ''mcpgr'') = None) \<Longrightarrow> delegation_step s (snd (CreateMCPDelegationGrant e g actor s))"
| revoke: "delegation_step s (snd (RevokeMCPDelegationGrant e i expected actor s))"
| other: "mcpTrustedClients s' = mcpTrustedClients s \<Longrightarrow> mcpDelegationGrants s' = mcpDelegationGrants s \<Longrightarrow> delegation_step s s'"

lemma delegation_step_ok: "delegation_step s s' \<Longrightarrow> delegation_ok s \<Longrightarrow> delegation_ok s'"
  by (induction rule: delegation_step.induct)
    (simp_all add: CreateMCPTrustedClient_ok RevokeMCPTrustedClient_ok CreateMCPDelegationGrant_ok RevokeMCPDelegationGrant_ok,
     simp add: delegation_ok_def)

lemma delegation_step_evolves:
  "delegation_step s s' \<Longrightarrow> delegation_ok s \<Longrightarrow> get (mcpDelegationGrants s) j = Some g \<Longrightarrow>
   \<exists>g'. get (mcpDelegationGrants s') j = Some g' \<and> grant_evolves g g'"
proof (induction rule: delegation_step.induct)
  case (distrust s e i expected actor)
  then show ?case using RevokeMCPTrustedClient_ok(2) [OF distrust(1), of e i expected actor] cut_off_evolves
    by (auto simp: get_revokeGrants intro: grant_evolves_refl)
next
  case (grant s e v actor)
  then show ?case using CreateMCPDelegationGrant_ok(2) by (metis grant_evolves_refl)
qed (simp_all add: CreateMCPTrustedClient_ok(2) RevokeMCPDelegationGrant_ok(2))

interpretation mdg: resource_history delegation_step delegation_ok mcpDelegationGrants grant_evolves
  by unfold_locales (blast intro: delegation_step_ok delegation_step_evolves grant_evolves_refl grant_evolves_trans)+

lemma delegation_ok_init: "delegation_ok NewMemoryStoreWith"
  by (simp add: delegation_ok_def clients_ok_def grants_ok_def NewMemoryStoreWith_def)

section \<open>Theorems\<close>

text \<open>
  C38: Delegated authority is bounded. In every store the calls can lead to, a grant the authority
  answers with for an issuer, subject and client at some instant is stored for exactly these, active,
  not expired at that instant, made for at most 30 days, and its client is currently trusted; and two
  active grants of the same subject, client, organization and project never overlap in time.
\<close>
theorem delegated_authority_is_bounded:
  assumes "delegation_step\<^sup>*\<^sup>* NewMemoryStoreWith s" and "GetActiveMCPDelegationGrant issuer subject clientID now s = Inr g"
  shows "get (mcpDelegationGrants s) (ID g) = Some g \<and> mdg_Issuer g = TrimRightSlash (TrimSpace issuer) \<and>
    mdg_Subject g = TrimSpace subject \<and> mdg_ClientID g = TrimSpace clientID \<and> mdg_State g = MCPDelegationGrantActive \<and>
    now < mdg_ExpiresAt g \<and> mdg_ExpiresAt g \<le> CreatedAt g + 30 * 24 * Hour \<and>
    (\<exists>i c. get (mcpTrustedClients s) i = Some c \<and> mtc_ClientID c = mdg_ClientID g \<and> mtc_State c = MCPTrustedClientActive) \<and>
    (\<forall>j h. get (mcpDelegationGrants s) j = Some h \<and> j \<noteq> ID g \<and> mdg_State h = MCPDelegationGrantActive \<and>
       grant_scope h = grant_scope g \<longrightarrow> mdg_ExpiresAt g \<le> CreatedAt h \<or> mdg_ExpiresAt h \<le> CreatedAt g)"
proof -
  have ok: "delegation_ok s" using mdg.inv_runs [OF assms(1) delegation_ok_init] .
  have found: "mdg_Issuer g = TrimRightSlash (TrimSpace issuer)" "mdg_Subject g = TrimSpace subject" "mdg_ClientID g = TrimSpace clientID"
    "mdg_State g = MCPDelegationGrantActive" "now < mdg_ExpiresAt g" "g \<in> set (vals (mcpDelegationGrants s))"
    using assms(2) by (auto simp: GetActiveMCPDelegationGrant_def Let_def find_Some_iff split: option.split_asm)
  have wk: "well_keyed (mcpDelegationGrants s)" using ok by (simp add: delegation_ok_def grants_ok_def)
  then have g: "get (mcpDelegationGrants s) (ID g) = Some g" using vals_get [OF wk found(6)] ok by (auto simp: delegation_ok_def grants_ok_def)
  then have "grant_ok (mcpTrustedClients s) g" using ok by (simp add: delegation_ok_def grants_ok_def)
  moreover have "apart g h" if "get (mcpDelegationGrants s) j = Some h" "j \<noteq> ID g" for j h
    using ok g that unfolding delegation_ok_def grants_ok_def by blast
  then have "\<forall>j h. get (mcpDelegationGrants s) j = Some h \<and> j \<noteq> ID g \<and> mdg_State h = MCPDelegationGrantActive \<and>
      grant_scope h = grant_scope g \<longrightarrow> mdg_ExpiresAt g \<le> CreatedAt h \<or> mdg_ExpiresAt h \<le> CreatedAt g"
    using found(4) unfolding apart_def by metis
  ultimately show ?thesis using g found by (simp add: grant_ok_def trusted_def)
qed

text \<open>
  C39: Distrusting a client cuts its grants off for good. When an active trusted client is revoked, the
  authority has no active grant for that client any more, whoever asks, and the grants it had stay
  revoked along every later sequence of calls, even when the client is registered again.
\<close>
theorem distrust_cuts_grants_off:
  assumes "delegation_step\<^sup>*\<^sup>* NewMemoryStoreWith s" and "get (mcpTrustedClients s) (TrimSpace i) = Some c"
    and "mtc_State c = MCPTrustedClientActive" and "TrimSpace clientID = mtc_ClientID c"
    and "s1 = snd (RevokeMCPTrustedClient e i (Revision c) actor s)" and "delegation_step\<^sup>*\<^sup>* s1 s2"
  shows "GetActiveMCPDelegationGrant issuer subject clientID now s1 = Inl ErrNotFound \<and>
    (\<forall>j g. get (mcpDelegationGrants s) j = Some g \<and> mdg_ClientID g = mtc_ClientID c \<longrightarrow>
       (\<exists>g'. get (mcpDelegationGrants s2) j = Some g' \<and> mdg_State g' = MCPDelegationGrantRevoked))"
proof -
  have ok: "delegation_ok s" using mdg.inv_runs [OF assms(1) delegation_ok_init] .
  then have ok1: "delegation_ok s1" unfolding assms(5) by (rule RevokeMCPTrustedClient_ok(1))
  have s1: "mcpDelegationGrants s1 = revokeGrants (mtc_ClientID c) actor (nowUTC e 0) (mcpDelegationGrants s)"
    using assms(2,3,5) by (simp add: RevokeMCPTrustedClient_def Let_def touch_def)
  have dead: "mdg_State (cut_off (mtc_ClientID c) a n g) = MCPDelegationGrantRevoked" if "mdg_ClientID g = mtc_ClientID c" for a n g
    using that by (cases "mdg_State g") (simp_all add: cut_off_def revokedGrant_def touch_def)
  have "mdg_ClientID g \<noteq> mtc_ClientID c \<or> mdg_State g \<noteq> MCPDelegationGrantActive" if "g \<in> set (vals (mcpDelegationGrants s1))" for g
    using that by (auto simp: s1 vals_def revokeGrants_def revokedGrant_def touch_def split: if_splits)
  then have "find (\<lambda>v. mdg_Issuer v = k \<and> mdg_Subject v = l \<and> mdg_ClientID v = mtc_ClientID c \<and> mdg_State v = MCPDelegationGrantActive \<and>
      now < mdg_ExpiresAt v) (vals (mcpDelegationGrants s1)) = None" for k l by (auto simp: find_None_iff)
  then have "GetActiveMCPDelegationGrant issuer subject clientID now s1 = Inl ErrNotFound"
    by (simp add: GetActiveMCPDelegationGrant_def Let_def assms(4))
  moreover have "\<exists>g'. get (mcpDelegationGrants s2) j = Some g' \<and> mdg_State g' = MCPDelegationGrantRevoked"
    if "get (mcpDelegationGrants s) j = Some g" "mdg_ClientID g = mtc_ClientID c" for j g
  proof -
    have "get (mcpDelegationGrants s1) j = Some (cut_off (mtc_ClientID c) actor (nowUTC e 0) g)" using that(1) by (simp add: s1 get_revokeGrants)
    from mdg.history [OF assms(6) ok1 this] show ?thesis using dead [OF that(2)] by (auto simp: grant_evolves_def)
  qed
  ultimately show ?thesis by blast
qed

text \<open>
  The lookup of a client by its identifier depends on the order in which a Go map happens to be
  visited. With two clients stored under one identifier, one revoked and one active - registering a
  client again after a revocation leads there - the same map has an order in which the lookup answers
  with the active client and one in which it answers with the revoked one.
\<close>
lemma client_lookup_depends_on_order:
  assumes "delegation_step\<^sup>*\<^sup>* NewMemoryStoreWith s"
    and "get (mcpTrustedClients s) i = Some c" and "mtc_ClientID c = TrimSpace clientID" and "mtc_State c = MCPTrustedClientRevoked"
    and "get (mcpTrustedClients s) j = Some d" and "mtc_ClientID d = TrimSpace clientID" and "mtc_State d = MCPTrustedClientActive"
  shows "(\<exists>t. mset t = mset (mcpTrustedClients s) \<and> GetMCPTrustedClientByClientID clientID (s\<lparr>mcpTrustedClients := t\<rparr>) = Inr d) \<and>
    (\<exists>t. mset t = mset (mcpTrustedClients s) \<and> GetMCPTrustedClientByClientID clientID (s\<lparr>mcpTrustedClients := t\<rparr>) = Inr c)"
proof -
  have first: "\<exists>rest. mset ((x, v) # rest) = mset t" if "get t x = Some v" for t :: "MCPTrustedClient table" and x v
    using split_list [OF get_mem [OF that]] by (metis mset_append mset.simps(2) union_mset_add_mset_right append_Cons)
  have "GetMCPTrustedClientByClientID clientID (s\<lparr>mcpTrustedClients := (x, v) # rest\<rparr>) = Inr v" if "mtc_ClientID v = TrimSpace clientID" for x v rest
    using that by (simp add: GetMCPTrustedClientByClientID_def vals_def)
  then show ?thesis using first [OF assms(2)] first [OF assms(5)] assms(3,6) by blast
qed

section \<open>A concrete delegation\<close>

definition mcp_env :: "nat \<Rightarrow> env" where
  "mcp_env n = \<lparr>clock = (\<lambda>k. int n * Hour), newid = (\<lambda>k p. p @ replicate (Suc n) (CHR ''x'')), sha256hex = (\<lambda>raw. raw),
     marshal = (\<lambda>v. ''{}''), ed25519_Verify = (\<lambda>key m sig. False)\<rparr>"

definition mcp_client :: MCPTrustedClient where
  "mcp_client = \<lparr>ID = '''', Revision = 0, CreatedAt = 0, UpdatedAt = 0, mtc_ClientID = ''app'', mtc_DisplayName = ''App'',
     mtc_Provider = ''Other'', mtc_RedirectURIs = [], mtc_State = MCPTrustedClientRevoked, mtc_CreatedBy = '''', mtc_RevokedBy = '''',
     mtc_RevokedAt = None\<rparr>"

definition mcp_grant :: MCPDelegationGrant where
  "mcp_grant = \<lparr>ID = '''', Revision = 0, CreatedAt = 0, UpdatedAt = 0, mdg_Issuer = ''https://id/'', mdg_Subject = ''alice'',
     mdg_ClientID = ''app'', mdg_OrganizationID = '''', mdg_ProjectID = '''', mdg_AccessProfile = MCPDelegationView,
     mdg_ConsentDigest = ''digest'', mdg_ExpiresAt = 48 * Hour, mdg_State = MCPDelegationGrantRevoked, mdg_CreatedBy = '''',
     mdg_RevokedBy = '''', mdg_RevokedAt = None\<rparr>"

definition mcp_s1 :: MemoryStore where
  "mcp_s1 = snd (CreateMCPTrustedClient (mcp_env 0) mcp_client ''alice'' NewMemoryStoreWith)"

definition mcp_s2 :: MemoryStore where
  "mcp_s2 = snd (CreateMCPDelegationGrant (mcp_env 1) mcp_grant ''alice'' mcp_s1)"

definition mcp_s3 :: MemoryStore where
  "mcp_s3 = snd (RevokeMCPTrustedClient (mcp_env 2) ''mcpclix'' 1 ''alice'' mcp_s2)"

definition mcp_s4 :: MemoryStore where
  "mcp_s4 = snd (CreateMCPTrustedClient (mcp_env 3) mcp_client ''alice'' mcp_s3)"

definition mcp_check :: bool where
  "mcp_check = (get (mcpDelegationGrants mcp_s1) ''mcpgrxx'' = None \<and> get (mcpTrustedClients mcp_s3) ''mcpclixxxx'' = None \<and>
     (case (get (mcpTrustedClients mcp_s2) ''mcpclix'', GetActiveMCPDelegationGrant ''https://id'' ''alice'' ''app'' (2 * Hour) mcp_s2) of
        (Some c, Inr g) \<Rightarrow> mtc_State c = MCPTrustedClientActive \<and> mtc_ClientID c = ''app'' \<and> Revision c = 1 \<and> ID g = ''mcpgrxx''
      | _ \<Rightarrow> False) \<and>
     (case get (mcpDelegationGrants mcp_s2) ''mcpgrxx'' of Some g \<Rightarrow> mdg_ClientID g = ''app'' | None \<Rightarrow> False) \<and>
     (case (get (mcpTrustedClients mcp_s4) ''mcpclix'', get (mcpTrustedClients mcp_s4) ''mcpclixxxx'') of
        (Some c, Some d) \<Rightarrow> mtc_State c = MCPTrustedClientRevoked \<and> mtc_ClientID c = ''app'' \<and>
                            mtc_State d = MCPTrustedClientActive \<and> mtc_ClientID d = ''app''
      | _ \<Rightarrow> False))"

lemma mcp_eval: mcp_check
  by code_simp

lemma mcp_facts:
  "get (mcpDelegationGrants mcp_s1) ''mcpgrxx'' = None" "get (mcpTrustedClients mcp_s3) ''mcpclixxxx'' = None"
  "\<exists>c. get (mcpTrustedClients mcp_s2) ''mcpclix'' = Some c \<and> mtc_State c = MCPTrustedClientActive \<and> mtc_ClientID c = ''app'' \<and> Revision c = 1"
  "\<exists>g. GetActiveMCPDelegationGrant ''https://id'' ''alice'' ''app'' (2 * Hour) mcp_s2 = Inr g \<and> ID g = ''mcpgrxx''"
  "\<exists>g. get (mcpDelegationGrants mcp_s2) ''mcpgrxx'' = Some g \<and> mdg_ClientID g = ''app''"
  "\<exists>c. get (mcpTrustedClients mcp_s4) ''mcpclix'' = Some c \<and> mtc_State c = MCPTrustedClientRevoked \<and> mtc_ClientID c = ''app''"
  "\<exists>c. get (mcpTrustedClients mcp_s4) ''mcpclixxxx'' = Some c \<and> mtc_State c = MCPTrustedClientActive \<and> mtc_ClientID c = ''app''"
  using mcp_eval unfolding mcp_check_def by (auto split: option.split_asm sum.split_asm)

lemma mcp_env_id: "newid (mcp_env n) k p = p @ CHR ''x'' # replicate n (CHR ''x'')"
  by (simp add: mcp_env_def)

lemma mcp_run2: "delegation_step\<^sup>*\<^sup>* NewMemoryStoreWith mcp_s2"
proof -
  have "delegation_step NewMemoryStoreWith mcp_s1" unfolding mcp_s1_def
    by (rule delegation_step.trust) (simp add: NewMemoryStoreWith_def)
  moreover have "delegation_step mcp_s1 mcp_s2" unfolding mcp_s2_def
    using mcp_facts(1) by (intro delegation_step.grant) (simp add: mcp_env_id)
  ultimately show ?thesis by (meson rtranclp.rtrancl_into_rtrancl rtranclp.rtrancl_refl)
qed

lemma mcp_step4: "delegation_step mcp_s3 mcp_s4"
  unfolding mcp_s4_def using mcp_facts(2) by (intro delegation_step.trust) (simp add: mcp_env_id numeral_3_eq_3)

lemma mcp_run4: "delegation_step\<^sup>*\<^sup>* NewMemoryStoreWith mcp_s4"
proof -
  have "delegation_step mcp_s2 mcp_s3" unfolding mcp_s3_def by (rule delegation_step.distrust)
  then show ?thesis using mcp_run2 mcp_step4 by (meson rtranclp.rtrancl_into_rtrancl)
qed

theorem delegated_authority_is_bounded_witness:
  "\<exists>g. get (mcpDelegationGrants mcp_s2) ''mcpgrxx'' = Some g \<and> mdg_State g = MCPDelegationGrantActive \<and>
     mdg_ExpiresAt g \<le> CreatedAt g + 30 * 24 * Hour"
proof -
  obtain g where g: "GetActiveMCPDelegationGrant ''https://id'' ''alice'' ''app'' (2 * Hour) mcp_s2 = Inr g" "ID g = ''mcpgrxx''"
    using mcp_facts(4) by blast
  from delegated_authority_is_bounded [OF mcp_run2 g(1)] g(2) show ?thesis by auto
qed

theorem distrust_cuts_grants_off_witness:
  "GetActiveMCPDelegationGrant ''https://id'' ''alice'' ''app'' (3 * Hour) mcp_s3 = Inl ErrNotFound \<and>
   (\<exists>g. get (mcpDelegationGrants mcp_s4) ''mcpgrxx'' = Some g \<and> mdg_State g = MCPDelegationGrantRevoked)"
proof -
  have trim: "TrimSpace ''mcpclix'' = ''mcpclix''" "TrimSpace ''app'' = ''app''" by code_simp+
  obtain c where c: "get (mcpTrustedClients mcp_s2) (TrimSpace ''mcpclix'') = Some c" "mtc_State c = MCPTrustedClientActive"
    "TrimSpace ''app'' = mtc_ClientID c" "Revision c = 1" using mcp_facts(3) unfolding trim by metis
  have s3: "mcp_s3 = snd (RevokeMCPTrustedClient (mcp_env 2) ''mcpclix'' (Revision c) ''alice'' mcp_s2)" by (simp add: mcp_s3_def c(4))
  have "delegation_step\<^sup>*\<^sup>* mcp_s3 mcp_s4" using mcp_step4 by blast
  then show ?thesis
    using distrust_cuts_grants_off [OF mcp_run2 c(1-3) s3, of mcp_s4 "''https://id''" "''alice''" "3 * Hour"]
      mcp_facts(5) c(3) unfolding trim by auto
qed

lemma client_lookup_depends_on_order_instance:
  "\<exists>t d. mset t = mset (mcpTrustedClients mcp_s4) \<and> mtc_State d = MCPTrustedClientRevoked \<and>
     GetMCPTrustedClientByClientID ''app'' (mcp_s4\<lparr>mcpTrustedClients := t\<rparr>) = Inr d"
proof -
  have trim: "TrimSpace ''app'' = ''app''" by code_simp
  obtain c where c: "get (mcpTrustedClients mcp_s4) ''mcpclix'' = Some c" "mtc_ClientID c = TrimSpace ''app''"
    "mtc_State c = MCPTrustedClientRevoked" using mcp_facts(6) unfolding trim by blast
  obtain d where d: "get (mcpTrustedClients mcp_s4) ''mcpclixxxx'' = Some d" "mtc_ClientID d = TrimSpace ''app''"
    "mtc_State d = MCPTrustedClientActive" using mcp_facts(7) unfolding trim by blast
  from client_lookup_depends_on_order [OF mcp_run4 c d] c(3) show ?thesis by blast
qed


end
