(* ===== verification/Platform.thy ===== *)
theory Platform
  imports Footprint BlueprintLifecycle Overlays Identity Tokens Delegation
begin

text \<open>
  The control plane as a whole: the calls of all components on one store, in any order. Each call is a
  step of every component - of its own by being one of its calls, of the others by leaving their part of
  the store alone - so what is shown of the components holds of their composition.
\<close>

section \<open>Steps of the control plane\<close>

text \<open>
  The environment of a call: the cryptographic functions do not change, the clock does not go back
  within a call, and the identifiers a call can draw are not in use.
\<close>

definition ready :: "env \<Rightarrow> env \<Rightarrow> MemoryStore \<Rightarrow> bool" where
  "ready e0 e s =
     (same_crypto e0 e \<and> mono_clock e \<and> fresh_ids e s \<and> fresh_tenancy_ids e s \<and> fresh_catalog_ids e s \<and> fresh_blueprint_ids e s \<and>
      (\<forall>k. get (outbox s) (newid e k ''evt'') = None \<and> get (blueprintOverlays s) (newid e k ''bpo'') = None \<and>
         get (oidcGroupMappings s) (newid e k ''ogm'') = None \<and> get (serviceAccounts s) (newid e k ''svc'') = None \<and>
         get (mcpTrustedClients s) (newid e k ''mcpcli'') = None \<and> get (mcpDelegationGrants s) (newid e k ''mcpgr'') = None))"

inductive platform_call :: "env \<Rightarrow> env \<Rightarrow> MemoryStore \<Rightarrow> MemoryStore \<Rightarrow> bool" for e0 e s where
  operation: "platform_call e0 e s (snd (exec e c s))"
| create_organization: "platform_call e0 e s (snd (CreateOrganization e org actor s))"
| update_organization: "platform_call e0 e s (snd (UpdateOrganization e i expected displayName name actor s))"
| create_project: "platform_call e0 e s (snd (CreateProject e p actor s))"
| upsert_membership: "platform_call e0 e s (snd (UpsertOrganizationMembership e m expected actor s))"
| revoke_membership: "platform_call e0 e s (snd (RevokeOrganizationMembership e o1 sub expected actor s))"
| claim_outbox: "platform_call e0 e s (snd (ClaimOutbox e worker limit ttl at s))"
| publish_outbox: "platform_call e0 e s (snd (MarkOutboxPublished e i worker at s))"
| create_key: "platform_call e0 e s (snd (CreateCatalogTrustKey e key actor s))"
| revoke_key: "platform_call e0 e s (snd (RevokeCatalogTrustKey e i expected actor s))"
| catalog_revision: "platform_call e0 e s (snd (CreateCatalogRevision e crev actor s))"
| catalog_release: "platform_call e0 e s (snd (CreateCatalogRelease e crel actor s))"
| catalog_both: "platform_call e0 e s (snd (CreateCatalogReleaseWithRevision e crev crel actor s))"
| catalog_update: "platform_call e0 e s (snd (UpdateCatalogReleaseDraft e i expected revisionID manifestDigest actor s))"
| catalog_update_both: "platform_call e0 e s (snd (UpdateCatalogReleaseDraftWithRevision e i expected crev actor s))"
| catalog_submit: "platform_call e0 e s (snd (SubmitCatalogReleaseReview e i expected keyID fingerprint signature actor s))"
| catalog_transition: "platform_call e0 e s (snd (TransitionCatalogRelease e i expected cto actor s))"
| overlay: "platform_call e0 e s (snd (CreateBlueprintOverlay e v actor s))"
| revision: "platform_call e0 e s (snd (CreateBlueprintRevision e brev actor s))"
| release: "platform_call e0 e s (snd (CreateBlueprintRelease e brel actor s))"
| both: "platform_call e0 e s (snd (CreateBlueprintReleaseWithRevision e brev brel actor s))"
| update: "platform_call e0 e s (snd (UpdateBlueprintReleaseDraft e i expected revisionID bd cd executionReady plan ids actor s))"
| update_both: "platform_call e0 e s (snd (UpdateBlueprintReleaseDraftWithRevision e i expected brev executionReady plan ids actor s))"
| transition: "platform_call e0 e s (snd (TransitionBlueprintRelease e i expected bto actor s))"
| assign: "platform_call e0 e s (snd (CreateAssignment e a actor s))"
| reassign: "platform_call e0 e s (snd (UpdateAssignment e i expected revisionID generation actor s))"
| create_mapping: "platform_call e0 e s (snd (CreateOIDCGroupMapping e gm actor s))"
| revoke_mapping: "platform_call e0 e s (snd (RevokeOIDCGroupMapping e i expected actor s))"
| security_audit: "platform_call e0 e s (snd (AppendSecurityAudit e input s))"
| create_account: "platform_call e0 e s (snd (CreateServiceAccount e account actor s))"
| revoke_account: "platform_call e0 e s (snd (RevokeServiceAccount e i expected actor s))"
| create_token: "get (apiTokens s) (token_id e 2 token) = None \<Longrightarrow> platform_call e0 e s (snd (CreateAPIToken e token actor s))"
| revoke_token: "platform_call e0 e s (snd (RevokeAPIToken e i expected actor s))"
| rotate_token: "get (apiTokens s) (token_id e 1 token) = None \<Longrightarrow>
    platform_call e0 e s (snd (RotateAPIToken e i expected token actor s))"
| trust: "platform_call e0 e s (snd (CreateMCPTrustedClient e client actor s))"
| distrust: "platform_call e0 e s (snd (RevokeMCPTrustedClient e i expected actor s))"
| grant: "platform_call e0 e s (snd (CreateMCPDelegationGrant e g actor s))"
| revoke_grant: "platform_call e0 e s (snd (RevokeMCPDelegationGrant e i expected actor s))"

definition platform_step :: "env \<Rightarrow> MemoryStore \<Rightarrow> MemoryStore \<Rightarrow> bool" where
  "platform_step e0 s s' = (\<exists>e. ready e0 e s \<and> platform_call e0 e s s')"

section \<open>Every step is a step of every component\<close>

definition component_steps :: "env \<Rightarrow> MemoryStore \<Rightarrow> MemoryStore \<Rightarrow> bool" where
  "component_steps e0 s s' =
     (authority_step (sha256hex e0) s s' \<and> tenancy_step s s' \<and> outbox_step s s' \<and> catalog_step e0 s s' \<and> blueprint_step e0 s s' \<and>
      overlay_step e0 s s' \<and> security_step e0 s s' \<and> mapping_step s s' \<and> svc_step s s' \<and> delegation_step s s')"

text \<open>The components whose part is left alone.\<close>

lemma other_steps:
  assumes "\<forall>p. p \<notin> ps \<longrightarrow> same_part p s s'" and "audit_extends s s'"
  shows "POperations \<notin> ps \<Longrightarrow> authority_step h s s'" and "PTenancy \<notin> ps \<Longrightarrow> tenancy_step s s'"
    and "PCatalog \<notin> ps \<Longrightarrow> catalog_step e0 s s'" and "PBlueprints \<notin> ps \<Longrightarrow> catalog_step e0 s s' \<Longrightarrow> blueprint_step e0 s s'"
    and "POverlays \<notin> ps \<Longrightarrow> overlay_step e0 s s'" and "PSecurity \<notin> ps \<Longrightarrow> security_step e0 s s'"
    and "PMappings \<notin> ps \<Longrightarrow> mapping_step s s'" and "PAccounts \<notin> ps \<Longrightarrow> svc_step s s'" and "PDelegation \<notin> ps \<Longrightarrow> delegation_step s s'"
proof -
  show "authority_step h s s'" if "POperations \<notin> ps"
    using assms that by (intro authority_step.other) (force simp: same_authority_def)
  show "blueprint_step e0 s s'" if "PBlueprints \<notin> ps" "catalog_step e0 s s'"
    using assms(1) that by (intro blueprint_step.catalog) (force simp: same_blueprints_def)+
  show "tenancy_step s s'" if "PTenancy \<notin> ps" using spec [OF assms(1), of PTenancy] that by (intro tenancy_step.other) simp_all
  show "catalog_step e0 s s'" if "PCatalog \<notin> ps" using spec [OF assms(1), of PCatalog] that by (intro catalog_step.other) simp_all
  show "overlay_step e0 s s'" if "POverlays \<notin> ps" using spec [OF assms(1), of POverlays] that by (intro overlay_step.other) simp_all
  show "security_step e0 s s'" if "PSecurity \<notin> ps" using spec [OF assms(1), of PSecurity] that by (intro security_step.other) simp_all
  show "mapping_step s s'" if "PMappings \<notin> ps" using spec [OF assms(1), of PMappings] that by (intro mapping_step.other) simp_all
  show "svc_step s s'" if "PAccounts \<notin> ps" using spec [OF assms(1), of PAccounts] that by (intro svc_step.other) simp_all
  show "delegation_step s s'" if "PDelegation \<notin> ps"
    using spec [OF assms(1), of PDelegation] that by (intro delegation_step.other) simp_all
qed

lemma outbox_other:
  assumes "footprint e ps s s'" and "ready e0 e s" and "outbox_ok (outbox s)"
  shows "outbox_step s s'"
  using assms emits_ok emits_keeps unfolding footprint_def ready_def by (intro outbox_step.other) blast+

text \<open>A call of one component: its own step is enough.\<close>

lemma one_component:
  assumes "footprint e {p} s s'" and "ready e0 e s" and "outbox_ok (outbox s)"
    and "p = POperations \<Longrightarrow> authority_step (sha256hex e0) s s'" and "p = PTenancy \<Longrightarrow> tenancy_step s s'"
    and "p = PCatalog \<Longrightarrow> catalog_step e0 s s'" and "p = PBlueprints \<Longrightarrow> blueprint_step e0 s s'"
    and "p = POverlays \<Longrightarrow> overlay_step e0 s s'" and "p = PSecurity \<Longrightarrow> security_step e0 s s'"
    and "p = PMappings \<Longrightarrow> mapping_step s s'" and "p = PAccounts \<Longrightarrow> svc_step s s'" and "p = PDelegation \<Longrightarrow> delegation_step s s'"
  shows "component_steps e0 s s'"
proof -
  note other = other_steps [of "{p}" s s'] assms(1) [unfolded footprint_def]
  have "outbox_step s s'" by (rule outbox_other [OF assms(1-3)])
  then show ?thesis unfolding component_steps_def using other assms(4-12) by (cases p) auto
qed

lemma same_outside_outbox: "s' = s\<lparr>outbox := t\<rparr> \<Longrightarrow> same_part p s s'"
  by (cases p) simp_all

lemma outbox_call:
  assumes "outbox_step s s'" and "s' = s\<lparr>outbox := t\<rparr>"
  shows "component_steps e0 s s'"
proof -
  have same: "\<forall>p. p \<notin> {} \<longrightarrow> same_part p s s'" using same_outside_outbox [OF assms(2)] by blast
  have "audit_extends s s'" by (simp add: assms(2) audit_extends_def)
  from other_steps [OF same this] show ?thesis unfolding component_steps_def using assms(1) by blast
qed

lemma ClaimOutbox_writes:
  "snd (ClaimOutbox e worker limit ttl at s) = s\<lparr>outbox := outbox (snd (ClaimOutbox e worker limit ttl at s))\<rparr>"
  by (simp add: ClaimOutbox_def Let_def)

lemma MarkOutboxPublished_writes:
  "snd (MarkOutboxPublished e i worker at s) = s\<lparr>outbox := outbox (snd (MarkOutboxPublished e i worker at s))\<rparr>"
  by (simp add: MarkOutboxPublished_def Let_def split: option.split)

lemma platform_call_steps:
  assumes "platform_call e0 e s s'" and "ready e0 e s" and "outbox_ok (outbox s)"
  shows "component_steps e0 s s'"
proof -
  have r: "same_crypto e0 e" "mono_clock e" "fresh_ids e s" "fresh_tenancy_ids e s" "fresh_catalog_ids e s" "fresh_blueprint_ids e s"
    "sha256hex e = sha256hex e0" "\<And>k. get (blueprintOverlays s) (newid e k ''bpo'') = None"
    "\<And>k. get (oidcGroupMappings s) (newid e k ''ogm'') = None" "\<And>k. get (serviceAccounts s) (newid e k ''svc'') = None"
    "\<And>k. get (mcpTrustedClients s) (newid e k ''mcpcli'') = None" "\<And>k. get (mcpDelegationGrants s) (newid e k ''mcpgr'') = None"
    using assms(2) unfolding ready_def same_crypto_def by blast+
  note one = one_component [OF _ assms(2,3)]
  note own = authority_step.call [OF r(7,3)] tenancy_step.intros(1-5) catalog_step.intros(1-9) blueprint_step.intros(2-9)
    overlay_step.create [OF r(1,8)] security_step.append [OF r(1)] mapping_step.create [OF r(9)] mapping_step.revoke
    svc_step.create_account [OF r(10)] svc_step.intros(2-5) delegation_step.trust [OF r(11)] delegation_step.distrust
    delegation_step.grant [OF r(12)] delegation_step.revoke
  from assms(1) show ?thesis
  proof (cases rule: platform_call.cases)
    case claim_outbox
    then show ?thesis using outbox_call [OF outbox_step.claim ClaimOutbox_writes] by simp
  next
    case publish_outbox
    then show ?thesis using outbox_call [OF outbox_step.publish MarkOutboxPublished_writes] by simp
  qed (use r in \<open>auto intro!: own intro: one exec_footprint tenancy_writes catalog_writes blueprint_writes CreateBlueprintOverlay_writes
      CreateOIDCGroupMapping_writes RevokeOIDCGroupMapping_writes AppendSecurityAudit_writes account_writes delegation_writes\<close>)
qed

lemma platform_runs:
  assumes "(platform_step e0)\<^sup>*\<^sup>* s s'" and "outbox_ok (outbox s)"
  shows "runs (sha256hex e0) s s' \<and> tenancy_step\<^sup>*\<^sup>* s s' \<and> outbox_step\<^sup>*\<^sup>* s s' \<and> (catalog_step e0)\<^sup>*\<^sup>* s s' \<and>
    (blueprint_step e0)\<^sup>*\<^sup>* s s' \<and> (overlay_step e0)\<^sup>*\<^sup>* s s' \<and> (security_step e0)\<^sup>*\<^sup>* s s' \<and> mapping_step\<^sup>*\<^sup>* s s' \<and>
    svc_step\<^sup>*\<^sup>* s s' \<and> delegation_step\<^sup>*\<^sup>* s s' \<and> outbox_ok (outbox s')"
  using assms
proof (induction rule: rtranclp_induct)
  case (step t t')
  then have "component_steps e0 t t'" using platform_call_steps unfolding platform_step_def by blast
  then show ?case using step outbox_step_ok unfolding component_steps_def by (meson rtranclp.rtrancl_into_rtrancl)
qed simp

lemma outbox_ok_init: "outbox_ok (outbox NewMemoryStoreWith)"
  by (simp add: outbox_ok_def NewMemoryStoreWith_def)

section \<open>Tenants\<close>

text \<open>An organization, and a project in it when one is named.\<close>

definition tenant_of :: "MemoryStore \<Rightarrow> string \<Rightarrow> string \<Rightarrow> bool" where
  "tenant_of s org prj = (get (organizations s) org \<noteq> None \<and>
     (prj = '''' \<or> (\<exists>p. get (projects s) prj = Some p \<and> prj_OrganizationID p = org)))"

definition stored_project :: "MemoryStore \<Rightarrow> string \<Rightarrow> bool" where
  "stored_project s i = (get (projects s) i \<noteq> None)"

definition keeps_tenants :: "MemoryStore \<Rightarrow> MemoryStore \<Rightarrow> bool" where
  "keeps_tenants s s' =
     ((\<forall>i. get (organizations s) i \<noteq> None \<longrightarrow> get (organizations s') i \<noteq> None) \<and>
      (\<forall>i p. get (projects s) i = Some p \<longrightarrow> (\<exists>p'. get (projects s') i = Some p' \<and> prj_OrganizationID p' = prj_OrganizationID p)))"

lemma keeps_tenants_same: "same_part PTenancy s s' \<Longrightarrow> keeps_tenants s s'"
  by (simp add: keeps_tenants_def)

lemma tenant_of_mono: "keeps_tenants s s' \<Longrightarrow> tenant_of s org prj \<Longrightarrow> tenant_of s' org prj"
  unfolding keeps_tenants_def tenant_of_def by metis

lemma footprint_other: "footprint e {p} s s' \<Longrightarrow> q \<noteq> p \<Longrightarrow> same_part q s s'"
  by (simp add: footprint_def)

lemma keeps_tenants_foreign: "footprint e {p} s s' \<Longrightarrow> p \<noteq> PTenancy \<Longrightarrow> keeps_tenants s s'"
  using footprint_other keeps_tenants_same by metis

lemmas foreign_writes =
  exec_footprint catalog_writes blueprint_writes CreateBlueprintOverlay_writes CreateOIDCGroupMapping_writes
  RevokeOIDCGroupMapping_writes AppendSecurityAudit_writes account_writes delegation_writes

lemma platform_call_tenants:
  assumes "platform_call e0 e s s'" and "ready e0 e s"
  shows "keeps_tenants s s'"
proof -
  have fresh: "get (projects s) (newid e k ''prj'') = None" for k using assms(2) by (simp add: ready_def fresh_tenancy_ids_def)
  from assms(1) show ?thesis
  proof (cases rule: platform_call.cases)
    case (create_project p actor)
    then show ?thesis using fresh by (auto simp: keeps_tenants_def CreateProject_def Let_def split: option.split)
  next
    case create_organization
    then show ?thesis by (auto simp: keeps_tenants_def CreateOrganization_def Let_def split: option.split)
  next
    case update_organization
    then show ?thesis by (auto simp: keeps_tenants_def UpdateOrganization_def Let_def split: option.split)
  next
    case upsert_membership
    then show ?thesis by (auto simp: keeps_tenants_def UpsertOrganizationMembership_def Let_def split: option.split)
  next
    case revoke_membership
    then show ?thesis by (auto simp: keeps_tenants_def RevokeOrganizationMembership_def Let_def split: option.split)
  next
    case claim_outbox
    then show ?thesis using same_outside_outbox [OF ClaimOutbox_writes] keeps_tenants_same by blast
  next
    case publish_outbox
    then show ?thesis using same_outside_outbox [OF MarkOutboxPublished_writes] keeps_tenants_same by blast
  qed (simp_all add: foreign_writes [THEN keeps_tenants_foreign])
qed

text \<open>What a table gains: entries that satisfy P, or changed entries that refer to the same as before.\<close>

definition grows_by :: "('v \<Rightarrow> 'r) \<Rightarrow> ('v \<Rightarrow> bool) \<Rightarrow> 'v table \<Rightarrow> 'v table \<Rightarrow> bool" where
  "grows_by ref P t t' = (\<forall>i v. get t' i = Some v \<longrightarrow> P v \<or> (\<exists>j u. get t j = Some u \<and> ref u = ref v))"

lemma grows_by_same [simp]: "grows_by ref P t t"
  by (auto simp: grows_by_def)

lemma grows_by_put:
  "P v \<or> (\<exists>j u. get t j = Some u \<and> ref u = ref v) \<Longrightarrow> grows_by ref P t (put i v t)"
  by (auto simp: grows_by_def split: if_split_asm)

lemma grows_by_change: "get t j = Some u \<Longrightarrow> ref v = ref u \<Longrightarrow> grows_by ref P t (put i v t)"
  by (rule grows_by_put) metis

lemma grows_by_new: "P v \<Longrightarrow> grows_by ref P t (put i v t)"
  by (rule grows_by_put) blast

lemma grows_by_inv:
  assumes "grows_by ref P t t'" and "\<And>i v. get t i = Some v \<Longrightarrow> Q (ref v)" and "\<And>v. P v \<Longrightarrow> Q (ref v)" and "get t' i = Some v"
  shows "Q (ref v)"
  using assms unfolding grows_by_def by metis

definition account_scope :: "ServiceAccount \<Rightarrow> string \<times> string" where
  "account_scope a = (sa_OrganizationID a, sa_ProjectID a)"

definition grant_tenant :: "MCPDelegationGrant \<Rightarrow> string \<times> string" where
  "grant_tenant g = (mdg_OrganizationID g, mdg_ProjectID g)"

lemma CreateServiceAccount_scope:
  "grows_by account_scope (\<lambda>a. tenant_of s (sa_OrganizationID a) (sa_ProjectID a)) (serviceAccounts s)
     (serviceAccounts (snd (CreateServiceAccount e account actor s)))"
  unfolding CreateServiceAccount_def Let_def
  by (auto intro!: grows_by_put simp: tenant_of_def stamp_def split: option.split)

lemma token_calls_accounts:
  "serviceAccounts (snd (CreateAPIToken e token actor s)) = serviceAccounts s"
  "serviceAccounts (snd (RevokeAPIToken e i expected actor s)) = serviceAccounts s"
  "serviceAccounts (snd (RotateAPIToken e i expected token actor s)) = serviceAccounts s"
  unfolding CreateAPIToken_def RevokeAPIToken_def RotateAPIToken_def Let_def by (simp_all split: option.split sum.split)

lemma svc_step_scope:
  assumes "svc_step s s'"
  shows "grows_by account_scope (\<lambda>a. tenant_of s (sa_OrganizationID a) (sa_ProjectID a)) (serviceAccounts s) (serviceAccounts s')"
  using assms
proof (cases rule: svc_step.cases)
  case (revoke_account e i expected actor)
  then show ?thesis
    by (auto simp: RevokeServiceAccount_def Let_def case_prod_beta account_scope_def touch_def split: option.split intro: grows_by_change)
qed (simp_all add: CreateServiceAccount_scope token_calls_accounts)

lemma CreateMCPDelegationGrant_scope:
  "grows_by grant_tenant (\<lambda>g. grant_tenant g = ('''', '''') \<or> tenant_of s (mdg_OrganizationID g) (mdg_ProjectID g)) (mcpDelegationGrants s)
     (mcpDelegationGrants (snd (CreateMCPDelegationGrant e v actor s)))"
proof -
  have new: "mdg_OrganizationID w = '''' \<and> mdg_ProjectID w = '''' \<or> tenant_of s (mdg_OrganizationID w) (mdg_ProjectID w)"
    if "normalizeMCPGrant v now = Inr w" "checkGrantScope s w = Inr u" for w now u
    using that by (auto simp: normalizeMCPGrant_def checkGrantScope_def Let_def tenant_of_def grant_tenant_def
        split: if_split_asm option.split_asm)
  show ?thesis
  proof (cases "normalizeMCPGrant v (nowUTC e 0)")
    case (Inr w)
    show ?thesis
    proof (cases "checkGrantScope s w")
      case (Inr u)
      then show ?thesis using \<open>normalizeMCPGrant v (nowUTC e 0) = Inr w\<close> new [OF \<open>normalizeMCPGrant v (nowUTC e 0) = Inr w\<close> Inr]
        by (simp add: CreateMCPDelegationGrant_def Let_def) (simp add: grows_by_put stamp_def grant_tenant_def)
    qed (use Inr in \<open>simp add: CreateMCPDelegationGrant_def Let_def\<close>)
  qed (simp add: CreateMCPDelegationGrant_def Let_def)
qed

lemma delegation_step_scope:
  assumes "delegation_step s s'"
  shows "grows_by grant_tenant (\<lambda>g. grant_tenant g = ('''', '''') \<or> tenant_of s (mdg_OrganizationID g) (mdg_ProjectID g))
    (mcpDelegationGrants s) (mcpDelegationGrants s')"
  using assms
proof (cases rule: delegation_step.cases)
  case (trust e v actor)
  then show ?thesis by (simp add: CreateMCPTrustedClient_def Let_def split: sum.split)
next
  case (distrust e i expected actor)
  have "grant_tenant (cut_off clientID actor now g) = grant_tenant g" for clientID actor now g
    by (simp add: cut_off_def revokedGrant_def touch_def grant_tenant_def)
  then have "grows_by grant_tenant P t (revokeGrants clientID actor now t)" for P t clientID actor now
    unfolding grows_by_def get_revokeGrants by fastforce
  then show ?thesis using distrust by (simp add: RevokeMCPTrustedClient_def Let_def split: option.split)
next
  case (revoke e i expected actor)
  then show ?thesis
    by (auto simp: RevokeMCPDelegationGrant_def Let_def revokedGrant_def touch_def grant_tenant_def split: option.split intro: grows_by_change)
qed (simp_all add: CreateMCPDelegationGrant_scope)

lemma prepareBlueprintRevision_project:
  "prepareBlueprintRevisionLocked e r s = Inr (v, existing) \<Longrightarrow> stored_project s (bpr_ProjectID v)"
  unfolding prepareBlueprintRevisionLocked_def Let_def
  by (auto simp: guard_Inr find_Some_iff same_revision_def stamp_def stored_project_def split: option.split_asm)

lemma grows_by_revision:
  "prepareBlueprintRevisionLocked e r s = Inr (v, existing) \<Longrightarrow>
   grows_by bpr_ProjectID (\<lambda>v. stored_project s (bpr_ProjectID v)) (revisions s) (put i v (revisions s))"
  using prepareBlueprintRevision_project by (intro grows_by_put) blast

lemma revision_calls_scope:
  "grows_by bpr_ProjectID (\<lambda>v. stored_project s (bpr_ProjectID v)) (revisions s) (revisions (snd (CreateBlueprintRevision e r actor s)))"
  "grows_by bpr_ProjectID (\<lambda>v. stored_project s (bpr_ProjectID v)) (revisions s)
     (revisions (snd (CreateBlueprintReleaseWithRevision e r release actor s)))"
  "grows_by bpr_ProjectID (\<lambda>v. stored_project s (bpr_ProjectID v)) (revisions s)
     (revisions (snd (UpdateBlueprintReleaseDraftWithRevision e i expected r executionReady plan ids actor s)))"
  unfolding CreateBlueprintRevision_def CreateBlueprintReleaseWithRevision_def UpdateBlueprintReleaseDraftWithRevision_def Let_def
  by (auto simp: grows_by_revision split: sum.split prod.split option.split)

lemma other_calls_revisions:
  "revisions (snd (CreateBlueprintOverlay e overlay actor s)) = revisions s"
  "revisions (snd (CreateBlueprintRelease e release actor s)) = revisions s"
  "revisions (snd (UpdateBlueprintReleaseDraft e i expected revisionID bd cd executionReady plan ids actor s)) = revisions s"
  "revisions (snd (TransitionBlueprintRelease e i expected to actor s)) = revisions s"
  "revisions (snd (CreateAssignment e a actor s)) = revisions s"
  "revisions (snd (UpdateAssignment e i expected revisionID generation actor s)) = revisions s"
  unfolding CreateBlueprintOverlay_def CreateBlueprintRelease_def UpdateBlueprintReleaseDraft_def TransitionBlueprintRelease_def
    CreateAssignment_def UpdateAssignment_def Let_def
  by (simp_all split: option.split sum.split)

lemma blueprint_step_revision_scope:
  "blueprint_step e0 s s' \<Longrightarrow> grows_by bpr_ProjectID (\<lambda>v. stored_project s (bpr_ProjectID v)) (revisions s) (revisions s')"
  by (induction rule: blueprint_step.induct) (simp_all add: revision_calls_scope other_calls_revisions same_blueprints_def)

lemma assignment_calls_scope:
  "grows_by asg_ProjectID (\<lambda>a. stored_project s (asg_ProjectID a)) (assignments s) (assignments (snd (CreateAssignment e a actor s)))"
  "grows_by asg_ProjectID P (assignments s) (assignments (snd (UpdateAssignment e i expected revisionID generation actor s)))"
  unfolding CreateAssignment_def UpdateAssignment_def Let_def
  by (auto simp: stamp_def touch_def stored_project_def split: option.split intro: grows_by_new grows_by_change)

lemma other_calls_assignments:
  "assignments (snd (CreateBlueprintOverlay e overlay actor s)) = assignments s"
  "assignments (snd (CreateBlueprintRevision e r actor s)) = assignments s"
  "assignments (snd (CreateBlueprintRelease e release actor s)) = assignments s"
  "assignments (snd (CreateBlueprintReleaseWithRevision e r release actor s)) = assignments s"
  "assignments (snd (UpdateBlueprintReleaseDraft e i expected revisionID bd cd executionReady plan ids actor s)) = assignments s"
  "assignments (snd (UpdateBlueprintReleaseDraftWithRevision e i expected r executionReady plan ids actor s)) = assignments s"
  "assignments (snd (TransitionBlueprintRelease e i expected to actor s)) = assignments s"
  unfolding CreateBlueprintOverlay_def CreateBlueprintRevision_def CreateBlueprintRelease_def CreateBlueprintReleaseWithRevision_def
    UpdateBlueprintReleaseDraft_def UpdateBlueprintReleaseDraftWithRevision_def TransitionBlueprintRelease_def Let_def
  by (simp_all split: option.split sum.split prod.split)

lemma blueprint_step_assignment_scope:
  "blueprint_step e0 s s' \<Longrightarrow> grows_by asg_ProjectID (\<lambda>a. stored_project s (asg_ProjectID a)) (assignments s) (assignments s')"
  by (induction rule: blueprint_step.induct) (simp_all add: assignment_calls_scope other_calls_assignments same_blueprints_def)

text \<open>What the tables say of tenants.\<close>

definition references_ok :: "MemoryStore \<Rightarrow> bool" where
  "references_ok s =
     ((\<forall>i a. get (serviceAccounts s) i = Some a \<longrightarrow> tenant_of s (sa_OrganizationID a) (sa_ProjectID a)) \<and>
      (\<forall>i g. get (mcpDelegationGrants s) i = Some g \<longrightarrow>
         grant_tenant g = ('''', '''') \<or> tenant_of s (mdg_OrganizationID g) (mdg_ProjectID g)) \<and>
      (\<forall>i v. get (revisions s) i = Some v \<longrightarrow> stored_project s (bpr_ProjectID v)) \<and>
      (\<forall>i a. get (assignments s) i = Some a \<longrightarrow> stored_project s (asg_ProjectID a)))"

lemma stored_project_mono: "keeps_tenants s s' \<Longrightarrow> stored_project s i \<Longrightarrow> stored_project s' i"
  unfolding keeps_tenants_def stored_project_def by fastforce

lemma platform_call_references:
  assumes "platform_call e0 e s s'" and "ready e0 e s" and "outbox_ok (outbox s)" and "references_ok s"
  shows "references_ok s'"
proof -
  have k: "keeps_tenants s s'" using platform_call_tenants [OF assms(1,2)] .
  have c: "svc_step s s'" "delegation_step s s'" "blueprint_step e0 s s'"
    using platform_call_steps [OF assms(1-3)] by (simp_all add: component_steps_def)
  have "tenant_of s' (sa_OrganizationID a) (sa_ProjectID a)" if "get (serviceAccounts s') i = Some a" for i a
    using grows_by_inv [OF svc_step_scope [OF c(1)], where Q = "\<lambda>(x, y). tenant_of s' x y"] that assms(4) tenant_of_mono [OF k]
    by (simp add: references_ok_def account_scope_def)
  moreover have "grant_tenant g = ('''', '''') \<or> tenant_of s' (mdg_OrganizationID g) (mdg_ProjectID g)"
    if "get (mcpDelegationGrants s') i = Some g" for i g
    using grows_by_inv [OF delegation_step_scope [OF c(2)], where Q = "\<lambda>(x, y). (x, y) = ('''', '''') \<or> tenant_of s' x y"]
      that assms(4) tenant_of_mono [OF k] by (simp add: references_ok_def grant_tenant_def) blast
  moreover have "stored_project s' (bpr_ProjectID v)" if "get (revisions s') i = Some v" for i v
    using grows_by_inv [OF blueprint_step_revision_scope [OF c(3)], where Q = "stored_project s'"] that assms(4) stored_project_mono [OF k]
    by (simp add: references_ok_def)
  moreover have "stored_project s' (asg_ProjectID a)" if "get (assignments s') i = Some a" for i a
    using grows_by_inv [OF blueprint_step_assignment_scope [OF c(3)], where Q = "stored_project s'"] that assms(4) stored_project_mono [OF k]
    by (simp add: references_ok_def)
  ultimately show ?thesis by (simp add: references_ok_def)
qed

lemma platform_references:
  assumes "(platform_step e0)\<^sup>*\<^sup>* NewMemoryStoreWith s"
  shows "references_ok s"
  using assms
proof (induction rule: rtranclp_induct)
  case base
  then show ?case by (simp add: references_ok_def NewMemoryStoreWith_def)
next
  case (step t t')
  then show ?case using platform_call_references platform_runs [OF step(1) outbox_ok_init] unfolding platform_step_def by blast
qed

section \<open>A concrete run\<close>

text \<open>An organization, a project in it, a service account of the project, a token of it and a trusted client.\<close>

definition plat_env :: "nat \<Rightarrow> env" where
  "plat_env n = \<lparr>clock = (\<lambda>k. int n * Hour), newid = (\<lambda>k p. p @ replicate (Suc (10 * n + k)) (CHR ''x'')), sha256hex = (\<lambda>raw. raw),
     marshal = (\<lambda>v. ''{}''), ed25519_Verify = (\<lambda>key m sig. False)\<rparr>"

definition plat_org :: Organization where
  "plat_org = \<lparr>ID = '''', Revision = 0, CreatedAt = 0, UpdatedAt = 0, org_Name = ''Acme'', org_DisplayName = ''Acme''\<rparr>"

definition plat_project :: Project where
  "plat_project = \<lparr>ID = '''', Revision = 0, CreatedAt = 0, UpdatedAt = 0, prj_OrganizationID = ''orgx'', prj_Name = ''Web'',
     prj_DisplayName = ''Web''\<rparr>"

definition plat_account :: ServiceAccount where
  "plat_account = \<lparr>ID = '''', Revision = 0, CreatedAt = 0, UpdatedAt = 0, sa_OrganizationID = ''orgx'', sa_ProjectID = ''prj'' @ replicate 11 (CHR ''x''),
     sa_Name = ''Deployer'', sa_DisplayName = ''Deployer'', sa_ProductRole = ''platform-operator'', sa_State = ServiceAccountRevoked,
     sa_CreatedBy = '''', sa_RevokedBy = '''', sa_RevokedAt = None\<rparr>"

definition plat_s1 :: MemoryStore where
  "plat_s1 = snd (CreateOrganization (plat_env 0) plat_org ''alice'' NewMemoryStoreWith)"

definition plat_s2 :: MemoryStore where
  "plat_s2 = snd (CreateProject (plat_env 1) plat_project ''alice'' plat_s1)"

definition plat_s3 :: MemoryStore where
  "plat_s3 = snd (CreateServiceAccount (plat_env 2) plat_account ''alice'' plat_s2)"

text \<open>Every key in use is shorter than the identifiers call n can draw.\<close>

definition short :: "nat \<Rightarrow> string \<Rightarrow> 'v table \<Rightarrow> bool" where
  "short n p t = list_all (\<lambda>(k, v). length k < length p + Suc (10 * n)) t"

definition plat_fresh :: "nat \<Rightarrow> MemoryStore \<Rightarrow> bool" where
  "plat_fresh n s =
     (short n ''op'' (operations s) \<and> short n ''evd'' (evidence s) \<and> short n ''org'' (organizations s) \<and> short n ''prj'' (projects s) \<and>
      short n ''mem'' (organizationMemberships s) \<and> short n ''ctk'' (catalogTrustKeys s) \<and> short n ''ctr'' (catalogRevisions s) \<and>
      short n ''ctl'' (catalogReleases s) \<and> short n ''bpr'' (revisions s) \<and> short n ''bpl'' (blueprintReleases s) \<and>
      short n ''asn'' (assignments s) \<and> short n ''evt'' (outbox s) \<and> short n ''bpo'' (blueprintOverlays s) \<and>
      short n ''ogm'' (oidcGroupMappings s) \<and> short n ''svc'' (serviceAccounts s) \<and> short n ''mcpcli'' (mcpTrustedClients s) \<and>
      short n ''mcpgr'' (mcpDelegationGrants s))"

lemma short_fresh: "short n p t \<Longrightarrow> get t (newid (plat_env n) k p) = None"
  by (induction t) (auto simp: short_def plat_env_def get_def)

lemma plat_ready: "plat_fresh n s \<Longrightarrow> ready (plat_env 0) (plat_env n) s"
  by (simp add: ready_def plat_fresh_def fresh_ids_def fresh_op_ids_def fresh_tenancy_ids_def fresh_catalog_ids_def
      fresh_blueprint_ids_def short_fresh) (simp add: plat_env_def same_crypto_def mono_clock_def nowUTC_def)

definition plat_check :: bool where
  "plat_check = (plat_fresh 0 NewMemoryStoreWith \<and> plat_fresh 1 plat_s1 \<and> plat_fresh 2 plat_s2 \<and>
     (case get (serviceAccounts plat_s3) (''svc'' @ replicate 21 (CHR ''x'')) of
        None \<Rightarrow> False | Some a \<Rightarrow> sa_OrganizationID a = ''orgx'' \<and> sa_ProjectID a = ''prj'' @ replicate 11 (CHR ''x'')))"

lemma plat_eval: plat_check
  by code_simp

lemma plat_steps:
  "platform_step (plat_env 0) NewMemoryStoreWith plat_s1" "platform_step (plat_env 0) plat_s1 plat_s2"
  "platform_step (plat_env 0) plat_s2 plat_s3"
  using plat_eval plat_ready unfolding plat_check_def platform_step_def plat_s1_def plat_s2_def plat_s3_def
  by (blast intro: platform_call.create_organization platform_call.create_project platform_call.create_account)+

lemma plat_runs:
  "(platform_step (plat_env 0))\<^sup>*\<^sup>* NewMemoryStoreWith plat_s1" "(platform_step (plat_env 0))\<^sup>*\<^sup>* plat_s1 plat_s3"
  "(platform_step (plat_env 0))\<^sup>*\<^sup>* NewMemoryStoreWith plat_s3"
  using plat_steps by (meson rtranclp.rtrancl_into_rtrancl rtranclp.rtrancl_refl)+

end
