(* ===== verification/Spec2Isabelle.thy ===== *)
theory Spec2Isabelle
  imports Authority Workflow Termination Queues Platform
begin

text \<open>
  \<^bold>\<open>Verification of the control-plane store of the 4SO platform factory.\<close>

  \<^bold>\<open>The program.\<close> The control plane keeps organizations, blueprints, catalogs, identities and long-running
  operations behind one interface, \<open>Store\<close>. Its reference implementation is \<open>MemoryStore\<close> in
  \<open>src/internal/controlplane\<close>: a record of Go maps under one lock, changed only by its methods. Every
  method takes the lock, checks its arguments against the maps, writes the maps, appends to the audit log and
  puts an event into the outbox. Workers claim operations under leases with fence tokens, report attempts, seal
  evidence, and roll back what they did; a relay claims and publishes the events of the outbox; the API reads
  and writes everything else.

  \<^bold>\<open>How it is modelled.\<close> A method is a function from the store to its result and the new store
  (\<open>'a call\<close>, in \<open>Store\<close>), errors are the values of \<open>errors.go\<close> (\<open>err\<close>, in \<open>Prelude\<close>) and are
  returned as \<open>Inl\<close>. Structs are records with the fields of the source (prefixed per struct), embedded structs
  are record extensions, enumerations are datatypes with one more constructor for other strings, strings are
  byte strings, maps are association lists (\<open>'v table\<close>), times are nanoseconds. A loop over a map visits the
  list in its order; where the order matters the theorems quantify over it. What the code takes from outside is
  the record \<open>env\<close>: the readings of the clock and of the identifier generator, numbered within a call, SHA-256,
  JSON encoding and Ed25519 verification. Base64 decoding, JSON validity, trimming, lower-casing, sorting and
  the regular expressions are computed. All loops are structural recursions over lists or numbers, so nothing
  needs fuel; the one arithmetic loop of the code, the doubling of the back-off, is modelled on 64-bit words and
  shown not to wrap.

  \<^bold>\<open>Theories and sources.\<close>
    \<^item> \<open>Prelude\<close>: byte strings, tables, Go's sort, errors (\<open>errors.go\<close>); \<open>Encoding\<close>: base64 and JSON
      validity; \<open>Lookup\<close>: keyed tables, uniqueness, and the locale \<open>resource_history\<close> that lifts what one step
      does to a table to whole runs.
    \<^item> \<open>Model\<close> (\<open>model.go\<close> and the structs of the other files) and \<open>Store\<close> (\<open>memory_store.go\<close>: the store
      itself, \<open>appendAuditLocked\<close>, \<open>appendOutboxLocked\<close>).
    \<^item> \<open>StateMachine\<close> (\<open>state_machine.go\<close>), \<open>RetryPolicy\<close> (\<open>operation_retry.go\<close>), \<open>Operations\<close>
      (\<open>memory_store.go\<close>: creation, transitions, leases), \<open>Attempts\<close> (\<open>operation_retry.go\<close>), \<open>Trace\<close>
      (\<open>operation_trace.go\<close>), \<open>Compensation\<close> (\<open>compensation.go\<close>), \<open>Recovery\<close>
      (\<open>recovery_checkpoint_store.go\<close>, \<open>operation_unknown_recovery.go\<close>), \<open>OwnerDestructive\<close>
      (\<open>owner_destructive_operation.go\<close>), \<open>RequestPayload\<close> (\<open>operation_request_payload.go\<close>): the operation
      authority.
    \<^item> \<open>Tenancy\<close> and \<open>Outbox\<close> (\<open>memory_store.go\<close>), \<open>Catalog\<close> (\<open>catalog_governance_store.go\<close>),
      \<open>Blueprints\<close> (\<open>blueprint_overlay.go\<close>, \<open>memory_store.go\<close>), \<open>IdentityAuthority\<close>
      (\<open>identity_authority.go\<close>, \<open>identity_authority_store.go\<close>), \<open>ServiceAccounts\<close>
      (\<open>service_account_store.go\<close>), \<open>MCPDelegation\<close> (\<open>mcp_delegation.go\<close>), \<open>Paging\<close> (\<open>operation_page.go\<close>,
      \<open>evidence_page.go\<close>, and the audit pages): the other components, each with all its calls.

  \<^bold>\<open>What is shown.\<close>
    \<^item> \<open>History\<close> and \<open>OperationCalls\<close> give the invariant of an operation record and the interface
      \<open>operation_call\<close>, which each of the 35 calls of the authority implements; \<open>System\<close> collects the calls as
      requests and defines runs, in which the rest of the control plane may do anything between two calls
      that leaves the tables of the authority alone. \<open>Authority\<close>: the invariant in every reachable store, fencing
      of stale workers, optimistic concurrency, idempotent creation, the history of an operation, the
      append-only audit log. \<open>Frames\<close> and \<open>Evidence\<close>: sealed evidence never changes and is read back.
      \<open>Moves\<close>, \<open>Rollback\<close> and \<open>Workflow\<close>: the store follows the transition table, the approval gate, and
      rolled-back operations are compensated. \<open>Termination\<close>: retrying ends.
    \<^item> \<open>Tenancy\<close>, \<open>Outbox\<close>, \<open>CatalogTrust\<close>, \<open>BlueprintLifecycle\<close>, \<open>Overlays\<close>, \<open>Identity\<close>,
      \<open>Tokens\<close>, \<open>Delegation\<close>: for each component the invariant of its tables, kept by each of its calls; what no
      sequence of calls can change (published catalogs and blueprints, revoked tokens and grants, the audit
      chain); and exact results where the code computes one (the events a claim takes, the roles of a caller).
    \<^item> \<open>Queues\<close>: pages are isolated between tenants, and the worker queues offer what can be claimed.
    \<^item> \<open>Footprint\<close> and \<open>Platform\<close>: each call writes only the part of the store that belongs to its component,
      so a run of all calls in any order is a run of every component; below, this composition and the
      references between the components.
    \<^item> \<open>Demo\<close> and the last section of the other theories hold concrete stores, on which every theorem with
      hypotheses is instantiated.
  Some theorems show where the code does not do what it is meant to; they are lemmas or theorems of the theory
  concerned (lost compensation workers, failure reports during roll-back, abandoned verification, the demotion of
  the last administrator, edited promotions, padded catalog links, assignments across projects, doubled
  permissions, client lookups that depend on the order of a map).

  \<^bold>\<open>Assumptions.\<close> Identifiers a call draws are not in use (the code draws 96 random bits), named in each step
  relation; the cryptographic functions stay the same during a run; the tamper evidence of the audit chain assumes
  that the digests of the events involved do not collide.

  \<^bold>\<open>Not modelled.\<close> Locking: every method holds the lock throughout, so calls are atomic. Cloning of slices
  before they are stored or returned: values are immutable here. Snapshot, restore and the file store (I/O over all
  tables); the PostgreSQL implementation of the same interface (SQL); the HTTP layer, authentication and the
  commands; variable schemas, templates and workspaces, which work on decoded JSON; the stores of clusters, fleets,
  applications, tenants, providers and reports, of which the modelled parts only read the managed clusters; and the
  packages that install hosts, build artifacts and talk to external systems.
\<close>

section \<open>The control plane as a whole\<close>


text \<open>
  C8: Nothing refers to a tenant that is not there. In every store the calls of the control plane can
  lead to, every service account and every token of it names a stored organization and, when it names
  a project, one of that organization; so does every delegation grant that names a tenant; projects
  and memberships name stored organizations; and blueprint revisions, releases and assignments name
  stored projects.
\<close>
theorem tenant_references_hold:
  assumes "(platform_step e0)\<^sup>*\<^sup>* NewMemoryStoreWith s"
  shows "(\<forall>i a. get (serviceAccounts s) i = Some a \<longrightarrow> tenant_of s (sa_OrganizationID a) (sa_ProjectID a)) \<and>
    (\<forall>i t. get (apiTokens s) i = Some t \<longrightarrow> tenant_of s (tok_OrganizationID t) (tok_ProjectID t)) \<and>
    (\<forall>i g. get (mcpDelegationGrants s) i = Some g \<and> mdg_OrganizationID g \<noteq> '''' \<longrightarrow> tenant_of s (mdg_OrganizationID g) (mdg_ProjectID g)) \<and>
    (\<forall>i p. get (projects s) i = Some p \<longrightarrow> tenant_of s (prj_OrganizationID p) i) \<and>
    (\<forall>i m. get (organizationMemberships s) i = Some m \<longrightarrow> tenant_of s (mem_OrganizationID m) '''') \<and>
    (\<forall>i v. get (revisions s) i = Some v \<longrightarrow> get (projects s) (bpr_ProjectID v) \<noteq> None) \<and>
    (\<forall>i r. get (blueprintReleases s) i = Some r \<longrightarrow> get (projects s) (rel_ProjectID r) \<noteq> None) \<and>
    (\<forall>i a. get (assignments s) i = Some a \<longrightarrow> get (projects s) (asg_ProjectID a) \<noteq> None)"
proof -
  have refs: "references_ok s" using platform_references [OF assms] .
  note runs = platform_runs [OF assms outbox_ok_init]
  have svc: "svc_ok s" using svc.inv_runs [OF _ svc_ok_init] runs by blast
  have ten: "tenancy_ok s" using tenancy_steps_ok [OF _ tenancy_ok_init] runs by blast
  have bp: "blueprint_ok e0 s" using bpl.inv_runs [OF _ blueprint_ok_init] runs by blast
  have "tenant_of s (tok_OrganizationID t) (tok_ProjectID t)" if "get (apiTokens s) i = Some t" for i t
    using svc refs that by (fastforce simp: svc_ok_def tokens_ok_def token_ok_def references_ok_def)
  moreover have "tenant_of s (prj_OrganizationID p) i" if "get (projects s) i = Some p" for i p
    using ten that by (simp add: tenancy_defs tenant_of_def)
  moreover have "tenant_of s (mem_OrganizationID m) ''''" if "get (organizationMemberships s) i = Some m" for i m
    using ten that by (simp add: tenancy_defs tenant_of_def)
  moreover have "get (projects s) (rel_ProjectID r) \<noteq> None" if "get (blueprintReleases s) i = Some r" for i r
  proof -
    have "bp_points (revisions s) r" using bp that by (auto simp: blueprint_ok_def bp_releases_ok_def bp_release_ok_def)
    then show ?thesis using refs unfolding bp_points_def references_ok_def stored_project_def by metis
  qed
  ultimately show ?thesis using refs unfolding references_ok_def stored_project_def grant_tenant_def by blast
qed


theorem tenant_references_hold_witness: "tenant_of plat_s3 ''orgx'' (''prj'' @ replicate 11 (CHR ''x''))"
proof -
  obtain a where "get (serviceAccounts plat_s3) (''svc'' @ replicate 21 (CHR ''x'')) = Some a" "sa_OrganizationID a = ''orgx''"
    "sa_ProjectID a = ''prj'' @ replicate 11 (CHR ''x'')"
    using plat_eval unfolding plat_check_def by (auto split: option.split_asm)
  with tenant_references_hold [OF plat_runs(3)] show ?thesis by metis
qed

end
